(* ===== verification/Prelude.thy ===== *)
theory Prelude
  imports Main "HOL-Library.List_Lexorder" "HOL-Library.Char_ord"
begin

text \<open>
  Shared vocabulary of the development: JavaScript text, the insertion-ordered
  \<^verbatim>\<open>Set\<close> and \<^verbatim>\<open>Map\<close> of the language as lists, stable sorting by a comparator, and
  decimal rendering of integers.  The collection \<open>oni_simps\<close> gathers the
  rewrite rules the component proofs share; \<open>oni_defs\<close> gathers the small
  one-line guards of the source that those proofs unfold.
\<close>

named_theorems oni_simps
named_theorems oni_defs

text \<open>
  JavaScript strings are lists of code units; the model ranges over the code
  units below 256.  Instants and counters are whole numbers.
\<close>

type_synonym str = string
type_synonym epoch_ms = int

subsection \<open>Errors as values\<close>

abbreviation ok :: "'a \<Rightarrow> 'e + 'a" where
  "ok x \<equiv> Inr x"

abbreviation fail :: "'e \<Rightarrow> 'e + 'a" where
  "fail e \<equiv> Inl e"

fun and_then :: "'e + 'a \<Rightarrow> ('a \<Rightarrow> 'e + 'b) \<Rightarrow> 'e + 'b" where
  "and_then (Inl e) f = Inl e"
| "and_then (Inr x) f = f x"

fun is_ok :: "'e + 'a \<Rightarrow> bool" where
  "is_ok (Inl e) = False"
| "is_ok (Inr x) = True"

lemma and_then_eq_Inr [oni_simps]:
  "and_then r f = Inr y \<longleftrightarrow> (\<exists>x. r = Inr x \<and> f x = Inr y)"
  by (cases r) auto

lemma and_then_eq_Inl [oni_simps]:
  "and_then r f = Inl e \<longleftrightarrow> r = Inl e \<or> (\<exists>x. r = Inr x \<and> f x = Inl e)"
  by (cases r) auto

lemma is_ok_iff [oni_simps]: "is_ok r \<longleftrightarrow> (\<exists>x. r = Inr x)"
  by (cases r) auto

text \<open>\<^verbatim>\<open>v ?? d\<close>.\<close>

definition or_else :: "'a option \<Rightarrow> 'a \<Rightarrow> 'a" where
  "or_else v d = (case v of None \<Rightarrow> d | Some x \<Rightarrow> x)"

lemma or_else_simps [simp]: "or_else None d = d" "or_else (Some x) d = x"
  by (simp_all add: or_else_def)

text \<open>A \<^verbatim>\<open>for\<close> loop whose body may throw, threading its state.\<close>

fun fold_fail :: "('a \<Rightarrow> 's \<Rightarrow> 'e + 's) \<Rightarrow> 'a list \<Rightarrow> 's \<Rightarrow> 'e + 's" where
  "fold_fail f [] s = Inr s"
| "fold_fail f (x # xs) s = and_then (f x s) (fold_fail f xs)"

lemma fold_fail_invariant:
  assumes "fold_fail f xs s = Inr t" and "P s"
    and "\<And>x s s'. x \<in> set xs \<Longrightarrow> P s \<Longrightarrow> f x s = Inr s' \<Longrightarrow> P s'"
  shows "P t"
  using assms
proof (induction xs arbitrary: s)
  case Nil
  then show ?case by simp
next
  case (Cons x xs)
  from Cons.prems(1) obtain u where u: "f x s = Inr u" and t: "fold_fail f xs u = Inr t"
    by (auto simp: and_then_eq_Inr)
  have "P u" by (rule Cons.prems(3) [OF _ Cons.prems(2) u]) simp
  with t show ?case
  proof (rule Cons.IH)
    fix y s s' assume "y \<in> set xs" and "P s" and "f y s = Inr s'"
    then show "P s'" by (intro Cons.prems(3) [of y s s']) simp_all
  qed
qed

lemma fold_fail_append [oni_simps]:
  "fold_fail f (xs @ ys) s = and_then (fold_fail f xs s) (fold_fail f ys)"
proof (induction xs arbitrary: s)
  case (Cons x xs)
  then show ?case by (cases "f x s") auto
qed simp

subsection \<open>Insertion-ordered sets\<close>

text \<open>
  \<^verbatim>\<open>[...new Set(xs)]\<close>: the distinct elements, each at its first occurrence.
\<close>

definition set_add :: "'a \<Rightarrow> 'a list \<Rightarrow> 'a list" where
  "set_add x s = (if x \<in> set s then s else s @ [x])"

definition new_set :: "'a list \<Rightarrow> 'a list" where
  "new_set xs = fold set_add xs []"

lemma set_set_add [simp]: "set (set_add x s) = insert x (set s)"
  by (auto simp: set_add_def)

lemma distinct_set_add [simp]: "distinct (set_add x s) = distinct s"
  by (auto simp: set_add_def)

lemma set_fold_set_add: "set (fold set_add xs s) = set s \<union> set xs"
  by (induction xs arbitrary: s) auto

lemma distinct_fold_set_add: "distinct (fold set_add xs s) = distinct s"
  by (induction xs arbitrary: s) auto

lemma set_new_set [simp]: "set (new_set xs) = set xs"
  by (simp add: new_set_def set_fold_set_add)

lemma distinct_new_set [simp]: "distinct (new_set xs)"
  by (simp add: new_set_def distinct_fold_set_add)

lemma fold_set_add_fresh: "distinct (s @ xs) \<Longrightarrow> fold set_add xs s = s @ xs"
  by (induction xs arbitrary: s) (auto simp: set_add_def)

lemma new_set_distinct [simp]: "distinct xs \<Longrightarrow> new_set xs = xs"
  by (simp add: new_set_def fold_set_add_fresh)

lemma new_set_snoc: "distinct xs \<Longrightarrow> new_set (xs @ [x]) = set_add x xs"
  by (simp add: new_set_def fold_set_add_fresh)

lemma length_new_set_iff: "length (new_set xs) = length xs \<longleftrightarrow> distinct xs"
  by (metis distinct_card distinct_new_set new_set_distinct set_new_set card_distinct)

subsection \<open>Insertion-ordered maps\<close>

text \<open>
  \<^verbatim>\<open>map.set(k, v)\<close> and \<^verbatim>\<open>object[k] = v\<close>: a present key keeps its position, a new
  key goes to the end.  \<^verbatim>\<open>delete\<close> drops the key.  Lookup is \<^const>\<open>map_of\<close>.
\<close>

fun put :: "'k \<Rightarrow> 'v \<Rightarrow> ('k \<times> 'v) list \<Rightarrow> ('k \<times> 'v) list" where
  "put k v [] = [(k, v)]"
| "put k v ((k', v') # m) = (if k = k' then (k, v) # m else (k', v') # put k v m)"

definition del :: "'k \<Rightarrow> ('k \<times> 'v) list \<Rightarrow> ('k \<times> 'v) list" where
  "del k m = filter (\<lambda>p. fst p \<noteq> k) m"

definition has_key :: "'k \<Rightarrow> ('k \<times> 'v) list \<Rightarrow> bool" where
  "has_key k m \<longleftrightarrow> k \<in> set (map fst m)"

lemma map_of_put [simp]: "map_of (put k v m) = (map_of m)(k \<mapsto> v)"
  by (induction m) (auto simp: fun_eq_iff)

lemma fst_set_put [simp]: "fst ` set (put k v m) = insert k (fst ` set m)"
  by (induction k v m rule: put.induct) auto

lemma distinct_put [simp]: "distinct (map fst (put k v m)) = distinct (map fst m)"
  by (induction k v m rule: put.induct) auto

lemma map_of_del [simp]: "map_of (del k m) = (map_of m)(k := None)"
  by (induction m) (auto simp: del_def fun_eq_iff)

lemma keys_del [simp]: "set (map fst (del k m)) = set (map fst m) - {k}"
  by (induction m) (auto simp: del_def)

lemma distinct_del [simp]: "distinct (map fst m) \<Longrightarrow> distinct (map fst (del k m))"
  by (induction m) (auto simp: del_def)

lemma has_key_iff: "has_key k m \<longleftrightarrow> map_of m k \<noteq> None"
  by (simp add: has_key_def map_of_eq_None_iff)

subsection \<open>Stable sorting by a comparator\<close>

text \<open>
  \<^verbatim>\<open>Array.prototype.sort\<close> is stable, and for a consistent comparator its result is the
  one stable ordered permutation, which insertion from the right computes.
\<close>

fun insert_by :: "('a \<Rightarrow> 'a \<Rightarrow> int) \<Rightarrow> 'a \<Rightarrow> 'a list \<Rightarrow> 'a list" where
  "insert_by c x [] = [x]"
| "insert_by c x (y # ys) = (if c x y \<le> 0 then x # y # ys else y # insert_by c x ys)"

definition sort_by :: "('a \<Rightarrow> 'a \<Rightarrow> int) \<Rightarrow> 'a list \<Rightarrow> 'a list" where
  "sort_by c xs = foldr (insert_by c) xs []"

lemma set_insert_by [simp]: "set (insert_by c x xs) = insert x (set xs)"
  by (induction xs) auto

lemma set_sort_by [simp]: "set (sort_by c xs) = set xs"
  unfolding sort_by_def by (induction xs) auto

lemma length_insert_by [simp]: "length (insert_by c x xs) = Suc (length xs)"
  by (induction xs) auto

lemma length_sort_by [simp]: "length (sort_by c xs) = length xs"
  unfolding sort_by_def by (induction xs) auto

lemma sorted_insert_by:
  assumes total: "\<And>a b. 0 < c a b \<Longrightarrow> c b a \<le> 0"
    and trans: "\<And>a b d. c a b \<le> 0 \<Longrightarrow> c b d \<le> 0 \<Longrightarrow> c a d \<le> 0"
  shows "sorted_wrt (\<lambda>a b. c a b \<le> 0) xs \<Longrightarrow>
    sorted_wrt (\<lambda>a b. c a b \<le> 0) (insert_by c x xs)"
proof (induction xs)
  case (Cons y ys)
  show ?case
  proof (cases "c x y \<le> 0")
    case True
    with Cons.prems show ?thesis by (auto intro: trans)
  next
    case False
    then have "c y x \<le> 0" by (intro total) simp
    with False Cons show ?thesis by auto
  qed
qed simp

lemma sorted_sort_by:
  assumes "\<And>a b. 0 < c a b \<Longrightarrow> c b a \<le> 0"
    and "\<And>a b d. c a b \<le> 0 \<Longrightarrow> c b d \<le> 0 \<Longrightarrow> c a d \<le> 0"
  shows "sorted_wrt (\<lambda>a b. c a b \<le> 0) (sort_by c xs)"
  unfolding sort_by_def
  by (induction xs) (simp_all add: sorted_insert_by [OF assms])

text \<open>A relation the comparator respects is sorted even if the comparator breaks ties oddly.\<close>

lemma sorted_insert_by_rel:
  assumes "\<And>a b. c a b \<le> 0 \<Longrightarrow> R a b" "\<And>a b. 0 < c a b \<Longrightarrow> R b a" "\<And>a b d. R a b \<Longrightarrow> R b d \<Longrightarrow> R a d"
  shows "sorted_wrt R xs \<Longrightarrow> sorted_wrt R (insert_by c x xs)"
proof (induction xs)
  case (Cons y ys)
  show ?case
  proof (cases "c x y \<le> 0")
    case True
    with Cons.prems assms(1) [OF True] show ?thesis by (auto intro: assms(3))
  next
    case False
    then have "R y x" by (intro assms(2)) simp
    with False Cons show ?thesis by auto
  qed
qed simp

lemma sorted_sort_by_rel:
  assumes "\<And>a b. c a b \<le> 0 \<Longrightarrow> R a b" "\<And>a b. 0 < c a b \<Longrightarrow> R b a" "\<And>a b d. R a b \<Longrightarrow> R b d \<Longrightarrow> R a d"
  shows "sorted_wrt R (sort_by c xs)"
  unfolding sort_by_def
  by (induction xs) (simp_all add: sorted_insert_by_rel [where R = R, OF assms])

subsection \<open>White space\<close>

text \<open>The white space of the language below code unit 256.\<close>

definition is_space :: "char \<Rightarrow> bool" where
  "is_space c \<longleftrightarrow> (of_char c :: nat) \<in> {9, 10, 11, 12, 13, 32, 160}"

definition trim :: "str \<Rightarrow> str" where
  "trim s = rev (dropWhile is_space (rev (dropWhile is_space s)))"

subsection \<open>Decimal text of integers\<close>

definition digit_char :: "nat \<Rightarrow> char" where
  "digit_char n = char_of (48 + n)"

fun nat_text :: "nat \<Rightarrow> str" where
  "nat_text n = (if n < 10 then [digit_char n] else nat_text (n div 10) @ [digit_char (n mod 10)])"

declare nat_text.simps [simp del]

definition int_text :: "int \<Rightarrow> str" where
  "int_text i = (if i < 0 then CHR ''-'' # nat_text (nat (- i)) else nat_text (nat i))"

definition is_digit :: "char \<Rightarrow> bool" where
  "is_digit c \<longleftrightarrow> 48 \<le> (of_char c :: nat) \<and> (of_char c :: nat) \<le> 57"

fun text_nat :: "str \<Rightarrow> nat" where
  "text_nat [] = 0"
| "text_nat (c # cs) = (of_char c - 48) * 10 ^ length cs + text_nat cs"

lemma of_digit_char: "n < 10 \<Longrightarrow> (of_char (digit_char n) :: nat) = 48 + n"
  by (simp add: digit_char_def)

lemma digit_char_is_digit: "n < 10 \<Longrightarrow> is_digit (digit_char n)"
  by (simp add: is_digit_def of_digit_char)

lemma nat_text_digits: "c \<in> set (nat_text n) \<Longrightarrow> is_digit c"
proof (induction n rule: nat_text.induct)
  case (1 n)
  then show ?case
    by (cases "n < 10") (auto simp: nat_text.simps [of n] digit_char_is_digit)
qed

lemma nat_text_nonempty [simp]: "nat_text n \<noteq> []"
  by (subst nat_text.simps) simp

lemma text_nat_snoc: "text_nat (cs @ [c]) = text_nat cs * 10 + (of_char c - 48)"
  by (induction cs) (auto simp: algebra_simps)

lemma text_nat_text [simp]: "text_nat (nat_text n) = n"
proof (induction n rule: nat_text.induct)
  case (1 n)
  show ?case
  proof (cases "n < 10")
    case True
    then show ?thesis by (simp add: nat_text.simps [of n] of_digit_char)
  next
    case False
    with 1 show ?thesis
      by (simp add: nat_text.simps [of n] text_nat_snoc of_digit_char)
  qed
qed

lemma nat_text_inj: "nat_text m = nat_text n \<longleftrightarrow> m = n"
  by (metis text_nat_text)

lemma nat_text_no_minus: "nat_text n \<noteq> CHR ''-'' # cs"
  using nat_text_digits [of "CHR ''-''" n] by (auto simp: is_digit_def)

lemma int_text_inj: "int_text i = int_text j \<longleftrightarrow> i = j"
  by (auto simp: int_text_def nat_text_inj nat_text_no_minus nat_text_no_minus [symmetric])

end
