(* ===== verification/Json.thy ===== *)
theory Json
  imports Prelude
begin

text \<open>
  Plain JSON values and their canonical text: \<^verbatim>\<open>packages/protocol/src/json.ts\<close>.
  A runtime value is a \<open>jsval\<close>; the values the boundary guards accept are exactly
  the trees \<open>plain\<close>.  Canonical text has sorted keys and no whitespace, and
  two plain values have the same canonical text exactly when they differ in key order
  only.  The hash function of \<^verbatim>\<open>sha256.ts\<close> is the runtime's builtin, so it is an
  argument \<open>sha\<close> of the digest.
\<close>

section \<open>Values\<close>

text \<open>
  A finite number is an integer or any other double, named by the text
  \<^verbatim>\<open>String(value)\<close> gives it (which determines the double); the other doubles are
  negative zero and the three that are not finite.
\<close>

datatype fnum = NInt int | NText str

datatype jsnum = Fin fnum | NegZero | NaN | PosInf | NegInf

datatype plain =
    PNull
  | PBool bool
  | PNum fnum
  | PStr str
  | PArr "plain list"
  | PObj "(str \<times> plain) list"

text \<open>
  A runtime value: an array carries whether it has symbol keys, its number of
  enumerable named properties and its index slots; an object its prototype, whether it
  has symbol keys and its enumerable own properties.  A slot is a hole, a getter (with
  what it returns) or a data property.  \<open>JHostile\<close> is a proxy whose traps throw.
\<close>

datatype slot_kind = Hole | Getter | Data

datatype prototype = ObjectProto | NullProto | OtherProto

datatype jsval =
    JUndefined
  | JNull
  | JBool bool
  | JNum jsnum
  | JStr str
  | JOther str
  | JHostile
  | JArr bool nat "(slot_kind \<times> jsval) list"
  | JObj prototype bool "(str \<times> slot_kind \<times> jsval) list"

section \<open>The plain-value guard\<close>

record plain_policy =
  key_ok :: "str \<Rightarrow> bool"
  record_undefined :: bool

definition strict_plain_key :: "str \<Rightarrow> bool" where
  "strict_plain_key k \<longleftrightarrow> k \<noteq> ''__proto__'' \<and> k \<noteq> ''constructor'' \<and> k \<noteq> ''prototype''"

definition strict_plain :: plain_policy where
  "strict_plain = \<lparr>key_ok = strict_plain_key, record_undefined = False\<rparr>"

definition persisted_plain :: plain_policy where
  "persisted_plain = \<lparr>key_ok = (\<lambda>_. True), record_undefined = False\<rparr>"

definition json_shaped :: plain_policy where
  "json_shaped = \<lparr>key_ok = strict_plain_key, record_undefined = True\<rparr>"

text \<open>A validation loop: it stops at the first entry that fails or throws.\<close>

fun every_slot :: "('a \<Rightarrow> bool option) \<Rightarrow> 'a list \<Rightarrow> bool option" where
  "every_slot f [] = Some True"
| "every_slot f (x # xs) = (case f x of Some True \<Rightarrow> every_slot f xs | r \<Rightarrow> r)"

lemma every_slot_cong [fundef_cong]:
  "xs = ys \<Longrightarrow> (\<And>x. x \<in> set ys \<Longrightarrow> f x = g x) \<Longrightarrow> every_slot f xs = every_slot g ys"
  by (induction xs arbitrary: ys) (auto split: option.splits bool.splits)

lemma every_slot_True: "every_slot f xs = Some True \<longleftrightarrow> (\<forall>x\<in>set xs. f x = Some True)"
  by (induction xs) (auto split: option.splits bool.splits)

fun number_ok :: "jsnum \<Rightarrow> bool" where
  "number_ok (Fin _) = True"
| "number_ok _ = False"

text \<open>The guard; \<^const>\<open>None\<close> is a throw out of the value's own code.\<close>

fun isPlainValueUnsafe :: "plain_policy \<Rightarrow> jsval \<Rightarrow> bool option" where
  "isPlainValueUnsafe p JNull = Some True"
| "isPlainValueUnsafe p (JBool b) = Some True"
| "isPlainValueUnsafe p (JStr s) = Some True"
| "isPlainValueUnsafe p (JNum n) = Some (number_ok n)"
| "isPlainValueUnsafe p (JArr syms named slots) =
     (if syms then Some False
      else if length (filter (\<lambda>s. fst s \<noteq> Hole) slots) + named \<noteq> length slots then Some False
      else every_slot (\<lambda>(k, v). if k \<noteq> Data then Some False else isPlainValueUnsafe p v) slots)"
| "isPlainValueUnsafe p (JObj proto syms props) =
     (if proto \<noteq> ObjectProto then Some False
      else if syms then Some False
      else every_slot (\<lambda>(key, k, v).
        if \<not> key_ok p key then Some False
        else if k \<noteq> Data then Some False
        else if v = JUndefined then Some (record_undefined p)
        else isPlainValueUnsafe p v) props)"
| "isPlainValueUnsafe p JHostile = None"
| "isPlainValueUnsafe p JUndefined = Some False"
| "isPlainValueUnsafe p (JOther t) = Some False"

text \<open>The exported guards contain every throw.\<close>

definition contained :: "bool option \<Rightarrow> bool" where
  "contained r = (case r of Some b \<Rightarrow> b | None \<Rightarrow> False)"

definition isPlainValue :: "jsval \<Rightarrow> bool" where
  "isPlainValue v = contained (isPlainValueUnsafe strict_plain v)"

definition isPersistedPlainValue :: "jsval \<Rightarrow> bool" where
  "isPersistedPlainValue v = contained (isPlainValueUnsafe persisted_plain v)"

definition isJsonShapedValue :: "jsval \<Rightarrow> bool" where
  "isJsonShapedValue v = (v = JUndefined \<or> contained (isPlainValueUnsafe json_shaped v))"

text \<open>A plain tree as the runtime value it is.\<close>

fun embed :: "plain \<Rightarrow> jsval" where
  "embed PNull = JNull"
| "embed (PBool b) = JBool b"
| "embed (PNum n) = JNum (Fin n)"
| "embed (PStr s) = JStr s"
| "embed (PArr xs) = JArr False 0 (map (\<lambda>x. (Data, embed x)) xs)"
| "embed (PObj ps) = JObj ObjectProto False (map (\<lambda>(k, v). (k, Data, embed v)) ps)"

fun keys_ok :: "(str \<Rightarrow> bool) \<Rightarrow> plain \<Rightarrow> bool" where
  "keys_ok f (PArr xs) = (\<forall>x\<in>set xs. keys_ok f x)"
| "keys_ok f (PObj ps) = (\<forall>(k, v)\<in>set ps. f k \<and> keys_ok f v)"
| "keys_ok f _ = True"

section \<open>Canonical text\<close>

definition hex_char :: "nat \<Rightarrow> char" where
  "hex_char d = (if d < 10 then char_of (48 + d) else char_of (87 + d))"

text \<open>\<^verbatim>\<open>JSON.stringify\<close> on a string.\<close>

definition esc_char :: "char \<Rightarrow> str" where
  "esc_char c =
     (let n = (of_char c :: nat) in
      if n = 34 then [CHR 0x5C, CHR 0x22]
      else if n = 92 then [CHR 0x5C, CHR 0x5C]
      else if n = 8 then [CHR 0x5C, CHR ''b'']
      else if n = 9 then [CHR 0x5C, CHR ''t'']
      else if n = 10 then [CHR 0x5C, CHR ''n'']
      else if n = 12 then [CHR 0x5C, CHR ''f'']
      else if n = 13 then [CHR 0x5C, CHR ''r'']
      else if n < 32 then
        [CHR 0x5C, CHR ''u'', CHR ''0'', CHR ''0'', hex_char (n div 16), hex_char (n mod 16)]
      else [c])"

definition quote :: "str \<Rightarrow> str" where
  "quote s = CHR 0x22 # concat (map esc_char s) @ [CHR 0x22]"

fun num_text :: "fnum \<Rightarrow> str" where
  "num_text (NInt i) = int_text i"
| "num_text (NText t) = t"

fun commas :: "str list \<Rightarrow> str" where
  "commas [] = []"
| "commas [x] = x"
| "commas (x # y # xs) = x @ CHR '','' # commas (y # xs)"

datatype canonical_error =
    FiniteOnly
  | PlainOnly
  | UndefinedAt str
  | CannotExpress str
  | HostileValue
  | KeyPlainOnly

fun seq_results :: "('e + 'a) list \<Rightarrow> 'e + 'a list" where
  "seq_results [] = Inr []"
| "seq_results (r # rs) = and_then r (\<lambda>x. and_then (seq_results rs) (\<lambda>xs. Inr (x # xs)))"

lemma size_slot: "(k, v) \<in> set slots \<Longrightarrow> size v < Suc (size_list (size_prod (\<lambda>x. 0) size) slots)"
  by (induction slots) auto

lemma size_prop:
  "(key, k, v) \<in> set props \<Longrightarrow>
    size v < Suc (size_list (size_prod (\<lambda>x. 0) (size_prod (\<lambda>x. 0) size)) props)"
  by (induction props) auto

lemma size_field: "(k, v) \<in> set ps \<Longrightarrow> size v < Suc (size_list (size_prod (\<lambda>x. 0) size) ps)"
  by (induction ps) auto

lemma size_elem: "x \<in> set xs \<Longrightarrow> size x < Suc (size_list size xs)"
  by (induction xs) auto

text \<open>\<^verbatim>\<open>renderCanonical\<close>, on any runtime value.\<close>

function renderCanonical :: "jsval \<Rightarrow> canonical_error + str" where
  "renderCanonical JNull = Inr ''null''"
| "renderCanonical (JBool b) = Inr (if b then ''true'' else ''false'')"
| "renderCanonical (JNum n) =
     (case n of Fin f \<Rightarrow> Inr (num_text f) | NegZero \<Rightarrow> Inr ''0'' | _ \<Rightarrow> Inl FiniteOnly)"
| "renderCanonical (JStr s) = Inr (quote s)"
| "renderCanonical (JArr syms named slots) =
     and_then (seq_results (map (\<lambda>(k, v). if k = Hole then Inr [] else renderCanonical v) slots))
       (\<lambda>ts. Inr (CHR ''['' # commas ts @ '']''))"
| "renderCanonical (JObj proto syms props) =
     (if proto = OtherProto then Inl PlainOnly
      else and_then (seq_results (map (\<lambda>(key, k, v).
          if k = Hole \<or> v = JUndefined then Inl (UndefinedAt key)
          else and_then (renderCanonical v) (\<lambda>t. Inr (quote key @ CHR '':'' # t)))
        (sort_key fst props)))
       (\<lambda>ts. Inr (CHR ''{'' # commas ts @ ''}'')))"
| "renderCanonical JUndefined = Inl (CannotExpress ''undefined'')"
| "renderCanonical (JOther t) = Inl (CannotExpress t)"
| "renderCanonical JHostile = Inl HostileValue"
  by pat_completeness auto

termination
  by (relation "measure size") (auto dest: size_slot size_prop)

text \<open>The canonical text of a plain value; \<open>canonicalJson\<close> never fails on one.\<close>

function canonicalJson :: "plain \<Rightarrow> str" where
  "canonicalJson PNull = ''null''"
| "canonicalJson (PBool b) = (if b then ''true'' else ''false'')"
| "canonicalJson (PNum n) = num_text n"
| "canonicalJson (PStr s) = quote s"
| "canonicalJson (PArr xs) = CHR ''['' # commas (map canonicalJson xs) @ '']''"
| "canonicalJson (PObj ps) =
     CHR ''{'' # commas (map (\<lambda>(k, v). quote k @ CHR '':'' # canonicalJson v) (sort_key fst ps)) @ ''}''"
  by pat_completeness auto
termination
  by (relation "measure size") (auto dest: size_field size_elem)

text \<open>\<^verbatim>\<open>canonicalDigest\<close>: the hash of the canonical text under its scheme prefix.\<close>

definition canonicalDigest :: "(str \<Rightarrow> str) \<Rightarrow> plain \<Rightarrow> str" where
  "canonicalDigest sha v = ''sha256:'' @ sha (canonicalJson v)"

text \<open>
  \<^verbatim>\<open>canonicalKey\<close>, the in-memory equality profile: the same grammar with a type tag on
  every primitive.  The guard is re-run on each nested value, which it accepts whenever
  it accepted the whole.
\<close>

function keyText :: "plain \<Rightarrow> str" where
  "keyText PNull = ''null''"
| "keyText (PBool b) = ''boolean:'' @ (if b then ''true'' else ''false'')"
| "keyText (PNum n) = ''number:'' @ num_text n"
| "keyText (PStr s) = ''string:'' @ quote s"
| "keyText (PArr xs) = CHR ''['' # commas (map keyText xs) @ '']''"
| "keyText (PObj ps) =
     CHR ''{'' # commas (map (\<lambda>(k, v). quote k @ CHR '':'' # keyText v) (sort_key fst ps)) @ ''}''"
  by pat_completeness auto
termination
  by (relation "measure size") (auto dest: size_field size_elem)

definition canonicalKey :: "plain \<Rightarrow> canonical_error + str" where
  "canonicalKey v = (if isPlainValue (embed v) then Inr (keyText v) else Inl KeyPlainOnly)"

section \<open>Reading plain objects\<close>

text \<open>\<^verbatim>\<open>objectValue(value)?.field\<close> and its kin.\<close>

fun object_value :: "plain \<Rightarrow> (str \<times> plain) list option" where
  "object_value (PObj ps) = Some ps"
| "object_value _ = None"

definition plain_get :: "plain \<Rightarrow> str \<Rightarrow> plain option" where
  "plain_get v k = (case object_value v of None \<Rightarrow> None | Some ps \<Rightarrow> map_of ps k)"

lemma plain_get_PObj [simp]: "plain_get (PObj ps) k = map_of ps k"
  by (simp add: plain_get_def)

section \<open>The guard accepts exactly the plain trees\<close>

lemma embed_no_undefined [simp]: "embed p \<noteq> JUndefined" "JUndefined \<noteq> embed p"
  by (cases p; simp)+

lemma guard_embed:
  "isPlainValueUnsafe pol (embed p) = Some True \<longleftrightarrow> keys_ok (key_ok pol) p"
proof (induction p)
  case (PArr xs)
  have "length (filter (\<lambda>s. fst s \<noteq> Hole) (map (\<lambda>x. (Data, embed x)) xs)) = length xs"
    by (induction xs) auto
  with PArr show ?case by (auto simp: every_slot_True)
next
  case (PObj ps)
  then show ?case
    by (force simp: every_slot_True split: if_splits)
qed simp_all

lemma guard_only_plain:
  assumes "\<not> record_undefined pol"
  shows "isPlainValueUnsafe pol v = Some True \<Longrightarrow> \<exists>p. v = embed p"
  using assms
proof (induction pol v rule: isPlainValueUnsafe.induct)
  case (4 p n)
  then show ?case by (cases n) (auto intro: exI [of _ "PNum _"])
next
  case (5 p syms named slots)
  from 5 have kinds: "\<forall>s\<in>set slots. \<exists>q. s = (Data, embed q)"
    by (fastforce simp: every_slot_True split: if_splits)
  then have "\<exists>qs. slots = map (\<lambda>q. (Data, embed q)) qs"
    by (metis ex_map_conv)
  moreover from kinds have "filter (\<lambda>s. fst s \<noteq> Hole) slots = slots"
    by (auto intro!: filter_True)
  ultimately show ?case using 5(2)
    by (auto split: if_splits intro: exI [of _ "PArr _"])
next
  case (6 p proto syms props)
  from 6 have kinds: "\<forall>s\<in>set props. \<exists>q. s = (\<lambda>(k, v). (k, Data, embed v)) q"
    by (fastforce simp: every_slot_True split: if_splits)
  then have "\<exists>qs. props = map (\<lambda>(k, v). (k, Data, embed v)) qs"
    by (metis (no_types, lifting) ex_map_conv)
  with 6(2) show ?case
    by (auto split: if_splits intro: exI [of _ "PObj _"])
qed (auto intro: exI [of _ "PNull"] exI [of _ "PBool _"] exI [of _ "PStr _"])

section \<open>Canonical text is readable in one way\<close>

definition num_char :: "char \<Rightarrow> bool" where
  "num_char c \<longleftrightarrow> is_digit c \<or> c \<in> set ''-+.e''"

text \<open>
  The text of a number that is no integer: number characters, with a fraction or an
  exponent, starting with a digit or a sign.
\<close>

fun wf_num :: "fnum \<Rightarrow> bool" where
  "wf_num (NInt i) = True"
| "wf_num (NText t) = (list_all num_char t \<and> (CHR ''.'' \<in> set t \<or> CHR ''e'' \<in> set t) \<and>
     (is_digit (hd t) \<or> hd t = CHR ''-''))"

fun wf_plain :: "plain \<Rightarrow> bool" where
  "wf_plain (PNum n) = wf_num n"
| "wf_plain (PArr xs) = (\<forall>x\<in>set xs. wf_plain x)"
| "wf_plain (PObj ps) = (\<forall>(k, v)\<in>set ps. wf_plain v)"
| "wf_plain _ = True"

text \<open>Sorting the keys of every nested object: equality of values up to key order.\<close>

function key_sorted :: "plain \<Rightarrow> plain" where
  "key_sorted (PArr xs) = PArr (map key_sorted xs)"
| "key_sorted (PObj ps) = PObj (map (\<lambda>(k, v). (k, key_sorted v)) (sort_key fst ps))"
| "key_sorted PNull = PNull"
| "key_sorted (PBool b) = PBool b"
| "key_sorted (PNum n) = PNum n"
| "key_sorted (PStr s) = PStr s"
  by pat_completeness auto
termination
  by (relation "measure size") (auto dest: size_field size_elem)

subsection \<open>Strings\<close>

definition hex_val :: "char \<Rightarrow> nat" where
  "hex_val c = (let n = of_char c in if n < 58 then n - 48 else n - 87)"

lemma hex_val_char: "d < 16 \<Longrightarrow> hex_val (hex_char d) = d"
  by (simp add: hex_val_def hex_char_def)

fun unesc :: "str \<Rightarrow> (char \<times> str) option" where
  "unesc [] = None"
| "unesc (c # r) =
    (if c \<noteq> CHR 0x5C then Some (c, r)
     else case r of [] \<Rightarrow> None
     | k # r' \<Rightarrow>
       if k = CHR ''u'' then
         (case r' of _ # _ # a # b # r'' \<Rightarrow> Some (char_of (16 * hex_val a + hex_val b), r'') | _ \<Rightarrow> None)
       else Some (if k = CHR ''b'' then char_of (8::nat)
                  else if k = CHR ''t'' then char_of (9::nat)
                  else if k = CHR ''n'' then char_of (10::nat)
                  else if k = CHR ''f'' then char_of (12::nat)
                  else if k = CHR ''r'' then char_of (13::nat) else k, r'))"

lemma of_char_eq_iff: "(of_char c :: nat) = of_char d \<longleftrightarrow> c = d"
  by (metis char_of_char)

lemma unesc_esc_char: "unesc (esc_char c @ r) = Some (c, r)"
proof -
  define n where "n = (of_char c :: nat)"
  have c: "char_of n = c" by (simp add: n_def)
  have codes: "c = CHR 0x22 \<longleftrightarrow> n = 34" "c = CHR 0x5C \<longleftrightarrow> n = 92"
    unfolding n_def by (subst of_char_eq_iff [symmetric], simp)+
  have hex: "n < 32 \<Longrightarrow> 16 * hex_val (hex_char (n div 16)) + hex_val (hex_char (n mod 16)) = n"
    by (simp add: hex_val_char)
  consider "n = 34" | "n = 92" | "n = 8" | "n = 9" | "n = 10" | "n = 12" | "n = 13"
    | "n < 32" "n \<notin> {8, 9, 10, 12, 13}" | "32 \<le> n" "n \<noteq> 34" "n \<noteq> 92" by force
  then show ?thesis
  proof cases
    case 8
    then show ?thesis
      using hex c by (simp add: esc_char_def n_def [symmetric] Let_def)
  next
    case 9
    then show ?thesis
      using codes by (simp add: esc_char_def n_def [symmetric] Let_def)
  qed (use c codes in \<open>simp add: esc_char_def n_def [symmetric] Let_def\<close>)+
qed

lemma esc_char_nonempty [simp]: "esc_char c \<noteq> []"
  by (simp add: esc_char_def Let_def)

lemma esc_char_hd: "hd (esc_char c) \<noteq> CHR 0x22"
proof -
  have "(of_char c :: nat) \<noteq> 34 \<Longrightarrow> c \<noteq> CHR 0x22" by auto
  then show ?thesis by (simp add: esc_char_def Let_def)
qed

lemma quoted_body_unique:
  "concat (map esc_char a) @ CHR 0x22 # r = concat (map esc_char b) @ CHR 0x22 # s
    \<Longrightarrow> a = b \<and> r = s"
proof (induction a arbitrary: b)
  case Nil
  then show ?case
    by (cases b) (auto simp: esc_char_hd esc_char_hd [symmetric] hd_append dest!: arg_cong [of _ _ hd])
next
  case (Cons c a)
  show ?case
  proof (cases b)
    case Nil
    with Cons.prems show ?thesis
      by (auto simp: esc_char_hd esc_char_hd [symmetric] hd_append dest!: arg_cong [of _ _ hd])
  next
    case (Cons d b')
    from Cons.prems [unfolded Cons] have
      "unesc (esc_char c @ concat (map esc_char a) @ CHR 0x22 # r) =
       unesc (esc_char d @ concat (map esc_char b') @ CHR 0x22 # s)" by simp
    then have "c = d" and "concat (map esc_char a) @ CHR 0x22 # r = concat (map esc_char b') @ CHR 0x22 # s"
      by (simp_all add: unesc_esc_char)
    with Cons.IH Cons show ?thesis by auto
  qed
qed

lemma quote_unique: "quote a @ r = quote b @ s \<Longrightarrow> a = b \<and> r = s"
  by (rule quoted_body_unique) (simp add: quote_def)

subsection \<open>Numbers, sequences and nesting\<close>

definition delim :: "str \<Rightarrow> bool" where
  "delim r \<longleftrightarrow> (case r of [] \<Rightarrow> True | c # _ \<Rightarrow> c \<in> {CHR '','', CHR '']'', CHR ''}''})"

lemma delim_simps [simp]:
  "delim []" "delim (CHR '','' # r)" "delim (CHR '']'' # r)" "delim (CHR ''}'' # r)"
  by (simp_all add: delim_def)

lemma int_text_chars: "list_all num_char (int_text i)"
  by (auto simp: int_text_def num_char_def list_all_iff dest!: nat_text_digits)

lemma int_text_plain: "CHR ''.'' \<notin> set (int_text i)" "CHR ''e'' \<notin> set (int_text i)"
  by (auto simp: int_text_def is_digit_def dest!: nat_text_digits)

lemma int_text_hd: "is_digit (hd (int_text i)) \<or> hd (int_text i) = CHR ''-''"
  by (auto simp: int_text_def intro!: nat_text_digits hd_in_set)

lemma num_text_facts:
  assumes "wf_num n"
  shows num_text_chars: "list_all num_char (num_text n)"
    and num_text_hd: "is_digit (hd (num_text n)) \<or> hd (num_text n) = CHR ''-''"
    and num_text_nonempty: "num_text n \<noteq> []"
proof -
  show "list_all num_char (num_text n)"
    using assms int_text_chars by (cases n) auto
  show "is_digit (hd (num_text n)) \<or> hd (num_text n) = CHR ''-''"
    using assms int_text_hd by (cases n) auto
  show "num_text n \<noteq> []"
    using assms by (cases n) (auto simp: int_text_def)
qed

lemma num_text_inj: "wf_num m \<Longrightarrow> wf_num n \<Longrightarrow> num_text m = num_text n \<Longrightarrow> m = n"
  by (cases m; cases n) (auto simp: int_text_inj int_text_plain)

lemma delim_stops: "delim r \<Longrightarrow> takeWhile num_char r = []"
  by (cases r) (auto simp: delim_def num_char_def is_digit_def)

lemma num_text_unique:
  assumes "wf_num m" "wf_num n" "num_text m @ r = num_text n @ s" "delim r" "delim s"
  shows "m = n \<and> r = s"
proof -
  have take: "takeWhile num_char (num_text k @ t) = num_text k"
    if "wf_num k" "delim t" for k t
    using num_text_chars [OF that(1)] delim_stops [OF that(2)]
    by (subst takeWhile_append2) (auto simp: list_all_iff)
  have "num_text m = num_text n"
    using take [OF assms(1,4)] take [OF assms(2,5)] assms(3) by simp
  with assms show ?thesis by (auto intro: num_text_inj)
qed

text \<open>
  A comma-separated sequence whose elements can each be read in one way, closed by a
  bracket that starts none of them, can be read in one way.
\<close>

lemma commas_nonempty: "xs \<noteq> [] \<Longrightarrow> commas (x # xs) = x @ CHR '','' # commas xs"
  by (cases xs) auto

lemma commas_unique:
  assumes unique: "\<And>x y r s. x \<in> set xs \<Longrightarrow> y \<in> set ys \<Longrightarrow> f x @ r = f y @ s \<Longrightarrow> delim r \<Longrightarrow> delim s
      \<Longrightarrow> h x = h y \<and> r = s"
    and start: "\<And>x. x \<in> set xs \<union> set ys \<Longrightarrow> f x \<noteq> [] \<and> hd (f x) \<noteq> c"
    and c: "c = CHR '']'' \<or> c = CHR ''}''"
    and eq: "commas (map f xs) @ c # r = commas (map f ys) @ c # s"
  shows "map h xs = map h ys \<and> r = s"
  using unique start eq
proof (induction xs arbitrary: ys)
  case Nil
  show ?case
  proof (cases ys)
    case (Cons y zs)
    then have "hd (commas (map f ys) @ c # s) = hd (f y)"
      using Nil.prems(2) [of y] by (cases zs) (auto simp: hd_append)
    then show ?thesis using Nil.prems(2) [of y] Nil.prems(3) Cons by (metis append_Nil commas.simps(1) list.sel(1) list.set_intros(1) list.simps(8) Un_iff)
  qed (use Nil in auto)
next
  case (Cons x xs)
  obtain y zs where ys: "ys = y # zs"
  proof (cases ys)
    case Nil
    have "hd (commas (map f (x # xs)) @ c # r) = hd (f x)"
      using Cons.prems(2) [of x] by (cases xs) (auto simp: hd_append)
    then show ?thesis using Cons.prems(2) [of x] Cons.prems(3) Nil by (metis append_Nil commas.simps(1) list.sel(1) list.set_intros(1) list.simps(8) Un_iff)
  qed (use that in blast)
  define tl1 where "tl1 = (if xs = [] then c # r else CHR '','' # commas (map f xs) @ c # r)"
  define tl2 where "tl2 = (if zs = [] then c # s else CHR '','' # commas (map f zs) @ c # s)"
  have "f x @ tl1 = f y @ tl2"
    using Cons.prems(3) unfolding ys tl1_def tl2_def by (auto simp: commas_nonempty)
  moreover have "delim tl1" "delim tl2" using c by (auto simp: tl1_def tl2_def)
  ultimately have h: "h x = h y" and tls: "tl1 = tl2"
    using Cons.prems(1) [of x y] ys by auto
  show ?case
  proof (cases "xs = [] \<or> zs = []")
    case True
    with tls c h ys show ?thesis by (auto simp: tl1_def tl2_def split: if_splits)
  next
    case False
    with tls have "commas (map f xs) @ c # r = commas (map f zs) @ c # s"
      by (simp add: tl1_def tl2_def)
    then have "map h xs = map h zs \<and> r = s"
      using Cons.prems(1,2) ys by (intro Cons.IH) auto
    with h ys show ?thesis by simp
  qed
qed

lemma canonicalJson_nonempty: "wf_plain p \<Longrightarrow> canonicalJson p \<noteq> []"
  by (cases p) (auto simp: num_text_nonempty quote_def)

text \<open>The first character tells the kind of value.\<close>

fun kind_of :: "plain \<Rightarrow> nat" where
  "kind_of PNull = 0"
| "kind_of (PBool b) = (if b then 1 else 2)"
| "kind_of (PNum n) = 3"
| "kind_of (PStr s) = 4"
| "kind_of (PArr xs) = 5"
| "kind_of (PObj ps) = 6"

definition kind_char :: "char \<Rightarrow> nat" where
  "kind_char c = (if c = CHR ''n'' then 0 else if c = CHR ''t'' then 1 else if c = CHR ''f'' then 2
     else if is_digit c \<or> c = CHR ''-'' then 3 else if c = CHR 0x22 then 4
     else if c = CHR ''['' then 5 else if c = CHR ''{'' then 6 else 7)"

lemma kind_char_hd: "wf_plain p \<Longrightarrow> kind_char (hd (canonicalJson p)) = kind_of p"
proof (cases p)
  case (PNum n)
  assume "wf_plain p"
  with PNum have "is_digit (hd (num_text n)) \<or> hd (num_text n) = CHR ''-''"
    by (simp add: num_text_hd)
  with PNum show ?thesis by (auto simp: kind_char_def is_digit_def)
qed (auto simp: kind_char_def quote_def is_digit_def)

lemma canonicalJson_hd:
  assumes "wf_plain p"
  shows "hd (canonicalJson p) \<noteq> CHR '']''" "hd (canonicalJson p) \<noteq> CHR ''}''"
proof -
  have "kind_of p \<noteq> 7" by (cases p) auto
  then show "hd (canonicalJson p) \<noteq> CHR '']''" "hd (canonicalJson p) \<noteq> CHR ''}''"
    using kind_char_hd [OF assms] by (auto simp: kind_char_def is_digit_def)
qed

lemma canonicalJson_kind:
  assumes "wf_plain p" "wf_plain q" "canonicalJson p @ r = canonicalJson q @ s"
  shows "kind_of p = kind_of q"
  using assms canonicalJson_nonempty [of p] canonicalJson_nonempty [of q] kind_char_hd [of p] kind_char_hd [of q]
  by (metis hd_append2)

lemma canonicalJson_unique:
  "wf_plain p \<Longrightarrow> wf_plain q \<Longrightarrow> canonicalJson p @ r = canonicalJson q @ s \<Longrightarrow> delim r \<Longrightarrow> delim s
    \<Longrightarrow> key_sorted p = key_sorted q \<and> r = s"
proof (induction p arbitrary: q r s)
  case PNull
  then show ?case using canonicalJson_kind [OF PNull.prems(1-3)] by (cases q) (auto split: if_splits)
next
  case (PBool b)
  then show ?case using canonicalJson_kind [OF PBool.prems(1-3)] by (cases q) (auto split: if_splits)
next
  case (PNum n)
  then show ?case using canonicalJson_kind [OF PNum.prems(1-3)]
    by (cases q) (auto dest: num_text_unique split: if_splits)
next
  case (PStr t)
  then show ?case using canonicalJson_kind [OF PStr.prems(1-3)]
    by (cases q) (auto dest: quote_unique split: if_splits)
next
  case (PArr xs)
  then obtain ys where q: "q = PArr ys"
    using canonicalJson_kind [OF PArr.prems(1-3)] by (cases q) (auto split: if_splits)
  have "map key_sorted xs = map key_sorted ys \<and> r = s"
  proof (rule commas_unique [where f = canonicalJson and c = "CHR '']''"])
    show "commas (map canonicalJson xs) @ CHR '']'' # r = commas (map canonicalJson ys) @ CHR '']'' # s"
      using PArr.prems(3) q by simp
    show "canonicalJson x \<noteq> [] \<and> hd (canonicalJson x) \<noteq> CHR '']''" if "x \<in> set xs \<union> set ys" for x
      using that PArr.prems(1,2) q by (auto simp: canonicalJson_nonempty canonicalJson_hd)
  qed (use PArr q in auto)
  with q show ?case by simp
next
  case (PObj ps)
  then obtain qs where q: "q = PObj qs"
    using canonicalJson_kind [OF PObj.prems(1-3)] by (cases q) (auto split: if_splits)
  let ?f = "\<lambda>(k, v). quote k @ CHR '':'' # canonicalJson v"
  have "map (\<lambda>(k, v). (k, key_sorted v)) (sort_key fst ps) =
        map (\<lambda>(k, v). (k, key_sorted v)) (sort_key fst qs) \<and> r = s"
  proof (rule commas_unique [where f = ?f and c = "CHR ''}''"])
    show "commas (map ?f (sort_key fst ps)) @ CHR ''}'' # r = commas (map ?f (sort_key fst qs)) @ CHR ''}'' # s"
      using PObj.prems(3) q by simp
    fix x y r s
    assume x: "x \<in> set (sort_key fst ps)" and y: "y \<in> set (sort_key fst qs)"
      and eq: "?f x @ r = ?f y @ s" and d: "delim r" "delim s"
    obtain k v k' v' where xy: "x = (k, v)" "y = (k', v')" by (cases x; cases y) auto
    with eq have "k = k' \<and> CHR '':'' # canonicalJson v @ r = CHR '':'' # canonicalJson v' @ s"
      by (intro quote_unique) simp
    moreover have "wf_plain v" "wf_plain v'" using x y xy PObj.prems(1,2) q by auto
    moreover have "(k, v) \<in> set ps" using x xy by simp
    ultimately have "key_sorted v = key_sorted v' \<and> r = s" "k = k'"
      using PObj.IH [of "(k, v)" v v' r s] d by auto
    with xy show "(case x of (k, v) \<Rightarrow> (k, key_sorted v)) = (case y of (k, v) \<Rightarrow> (k, key_sorted v)) \<and> r = s"
      by simp
  qed (auto simp: quote_def)
  with q show ?case by simp
qed

lemma sort_key_map_snd: "sort_key fst (map (\<lambda>(k, v). (k, g v)) ps) = map (\<lambda>(k, v). (k, g v)) (sort_key fst ps)"
proof (induction ps)
  case (Cons p ps)
  have "insort_key fst (fst q, g (snd q)) (map (\<lambda>(k, v). (k, g v)) xs) = map (\<lambda>(k, v). (k, g v)) (insort_key fst q xs)" for q xs
    by (induction xs) (auto simp: case_prod_unfold)
  with Cons show ?case by (simp add: case_prod_unfold)
qed simp

lemma canonicalJson_key_sorted: "canonicalJson (key_sorted p) = canonicalJson p"
proof (induction p rule: key_sorted.induct)
  case (1 xs)
  then show ?case by (simp add: comp_def cong: map_cong)
next
  case (2 ps)
  have "sort_key fst (map (\<lambda>(k, v). (k, key_sorted v)) (sort_key fst ps)) = map (\<lambda>(k, v). (k, key_sorted v)) (sort_key fst ps)"
    by (simp add: sort_key_map_snd sort_key_id_if_sorted)
  with 2 show ?case
    by (simp add: comp_def case_prod_unfold cong: map_cong) (metis (no_types, lifting) map_cong prod.collapse set_sort)
qed simp_all

lemma canonicalJson_eq_iff:
  assumes "wf_plain p" "wf_plain q"
  shows "canonicalJson p = canonicalJson q \<longleftrightarrow> key_sorted p = key_sorted q"
proof
  assume "canonicalJson p = canonicalJson q"
  then show "key_sorted p = key_sorted q"
    using canonicalJson_unique [OF assms, of "[]" "[]"] by simp
next
  assume "key_sorted p = key_sorted q"
  then show "canonicalJson p = canonicalJson q"
    by (metis canonicalJson_key_sorted)
qed

lemma seq_results_map_Inr: "seq_results (map (\<lambda>x. Inr (g x)) xs) = Inr (map g xs)"
  by (induction xs) auto

lemma renderCanonical_embed: "renderCanonical (embed p) = Inr (canonicalJson p)"
proof (induction p)
  case (PArr xs)
  then have "map (\<lambda>(k, v). if k = Hole then Inr [] else renderCanonical v) (map (\<lambda>x. (Data, embed x)) xs)
    = map (\<lambda>x. Inr (canonicalJson x)) xs" by simp
  then show ?case by (simp only: embed.simps renderCanonical.simps seq_results_map_Inr) simp
next
  case (PObj ps)
  have "sort_key fst (map (\<lambda>(k, v). (k, Data, embed v)) ps) = map (\<lambda>(k, v). (k, Data, embed v)) (sort_key fst ps)"
    by (rule sort_key_map_snd)
  moreover have "map (\<lambda>(key, k, v). if k = Hole \<or> v = JUndefined then Inl (UndefinedAt key)
      else and_then (renderCanonical v) (\<lambda>t. Inr (quote key @ CHR '':'' # t)))
      (map (\<lambda>(k, v). (k, Data, embed v)) (sort_key fst ps))
    = map (\<lambda>kv. Inr ((\<lambda>(k, v). quote k @ CHR '':'' # canonicalJson v) kv)) (sort_key fst ps)"
    using PObj by force
  ultimately show ?case
    by (simp only: embed.simps renderCanonical.simps seq_results_map_Inr) simp
qed simp_all

section \<open>Properties\<close>

text \<open>
  C14. The strict guard accepts exactly the plain JSON trees without the three prototype
  keys: no getter, hole, symbol key, exotic prototype, undefined, negative zero or
  non-finite number gets through, and a hostile value is refused rather than thrown.
\<close>

theorem plain_guard_is_exact:
  "isPlainValue v \<longleftrightarrow> (\<exists>p. v = embed p \<and> keys_ok strict_plain_key p)"
proof -
  have "contained r \<longleftrightarrow> r = Some True" for r by (auto simp: contained_def split: option.splits)
  moreover have "isPlainValueUnsafe strict_plain v = Some True \<longleftrightarrow> (\<exists>p. v = embed p \<and> keys_ok strict_plain_key p)"
    using guard_only_plain [of strict_plain v] guard_embed [of strict_plain]
    by (auto simp: strict_plain_def)
  ultimately show ?thesis by (simp add: isPlainValue_def)
qed

text \<open>
  C15. Canonical text identifies a value up to the order of object keys: two well-formed plain
  values have the same canonical JSON exactly when they are equal once every object's keys
  are sorted, so a digest of it depends on nothing else and distinguishes everything else
  the hash does.
\<close>

theorem canonical_json_is_a_normal_form:
  assumes "wf_plain p" "wf_plain q"
  shows "canonicalJson p = canonicalJson q \<longleftrightarrow> key_sorted p = key_sorted q"
  by (rule canonicalJson_eq_iff [OF assms])

theorem canonical_json_is_a_normal_form_witness:
  "canonicalJson (PObj [(''b'', PNull), (''a'', PStr ''x'')]) = canonicalJson (PObj [(''a'', PStr ''x''), (''b'', PNull)])"
  using canonical_json_is_a_normal_form [of "PObj [(''b'', PNull), (''a'', PStr ''x'')]" "PObj [(''a'', PStr ''x''), (''b'', PNull)]"]
  by simp

text \<open>
  C16. The defensive renderer agrees with the canonical text on every value the guard admits,
  and never fails there.
\<close>

theorem render_agrees_on_admitted_values:
  assumes "isPersistedPlainValue v"
  shows "\<exists>p. v = embed p \<and> renderCanonical v = Inr (canonicalJson p)"
proof -
  have "isPlainValueUnsafe persisted_plain v = Some True"
    using assms by (auto simp: isPersistedPlainValue_def contained_def split: option.splits)
  with guard_only_plain [of persisted_plain v] obtain p where "v = embed p" by (auto simp: persisted_plain_def)
  then show ?thesis using renderCanonical_embed by auto
qed

theorem render_agrees_on_admitted_values_witness:
  "\<exists>p. JArr False 0 [(Data, JNull)] = embed p \<and> renderCanonical (JArr False 0 [(Data, JNull)]) = Inr (canonicalJson p)"
  by (rule render_agrees_on_admitted_values)
    (simp add: isPersistedPlainValue_def persisted_plain_def contained_def)

end
