(* ===== verification/Ledger.thy ===== *)
theory Ledger
  imports Json
begin

text \<open>
  The durable vocabulary of a session: action rows and the session row of
  \<^verbatim>\<open>packages/protocol/src/ledger/l0.ts\<close>, and the alarm chain of
  \<^verbatim>\<open>packages/agent/src/core/ports/alarm.ts\<close>, whose rows are actions of kind
  \<^verbatim>\<open>alarm\<close>.  An encoded payload \<^verbatim>\<open>{encodingVersion: 1, value}\<close> is its value.
\<close>

section \<open>Action rows\<close>

datatype action_kind =
    KPrompt | KSignal | KTurn | KLlm | KMessage | KRequest | KAlarm
  | KSessionConfigure | KPolicyDecision | KTool | KCompaction | KAction | KFoldCheckpoint

text \<open>\<open>ap_revert = None\<close> is \<^verbatim>\<open>irreversible: true\<close>.\<close>

record append_row =
  ap_id :: str
  ap_parentId :: "str option"
  ap_sessionId :: str
  ap_kind :: action_kind
  ap_intent :: plain
  ap_effect :: plain
  ap_ts :: epoch_ms
  ap_revert :: "plain option"

record node = append_row +
  nd_ordinal :: int

record receipt =
  rc_action :: node
  rc_revision :: int

definition append_valid :: "append_row \<Rightarrow> bool" where
  "append_valid a \<longleftrightarrow> ap_id a \<noteq> [] \<and> ap_parentId a \<noteq> Some [] \<and> ap_sessionId a \<noteq> [] \<and> 0 \<le> ap_ts a"

section \<open>The session row\<close>

datatype role = Resident | Child

datatype session_state = Idle | Running | Interrupted

record session_row =
  ss_id :: str
  ss_parentId :: "str option"
  ss_role :: role
  ss_fenceOwner :: "str option"
  ss_fence :: int
  ss_revision :: int
  ss_state :: session_state
  ss_toolsGeneration :: int
  ss_systemHash :: str
  ss_policyGeneration :: int

record generation_pointers =
  gp_toolsGeneration :: int
  gp_systemHash :: str
  gp_policyGeneration :: int

record request_count =
  cnt_since :: int
  cnt_count :: int

record session_commit =
  cm_sessionId :: str
  cm_owner :: str
  cm_fence :: int
  cm_now :: epoch_ms
  cm_expectedRevision :: int
  cm_actions :: "append_row list"
  cm_state :: session_state
  cm_generation :: "generation_pointers option"
  cm_requestCount :: "request_count option"

datatype refusal_reason = Stale | Revision

datatype commit_result =
    Committed session_row "receipt list"
  | Refused refusal_reason int int

section \<open>The alarm chain\<close>

text \<open>
  \<^verbatim>\<open>Alarm.occurrenceId\<close>: the identity of an occurrence, minted from the session, the
  alarm, the arm row's sequence number and the scheduling source.
\<close>

definition occurrenceId :: "(str \<Rightarrow> str) \<Rightarrow> str \<Rightarrow> str \<Rightarrow> int \<Rightarrow> str \<Rightarrow> str" where
  "occurrenceId sha sid alarmId armSeq sourceKey =
     canonicalDigest sha
       (PArr [PStr ''alarm.occurrence'', PStr sid, PStr alarmId, PNum (NInt armSeq), PStr sourceKey])"

definition appendAlarm ::
  "str \<Rightarrow> str option \<Rightarrow> str \<Rightarrow> plain \<Rightarrow> plain \<Rightarrow> plain option \<Rightarrow> epoch_ms \<Rightarrow> append_row" where
  "appendAlarm aid parent sid intent effect revert ts =
     \<lparr>ap_id = aid, ap_parentId = parent, ap_sessionId = sid, ap_kind = KAlarm,
      ap_intent = intent, ap_effect = effect, ap_ts = ts, ap_revert = revert\<rparr>"

record arm_input =
  arm_parentId :: "str option"
  arm_sessionId :: str
  arm_purpose :: str
  arm_at :: "epoch_ms option"
  arm_supersedes :: "str option"
  arm_alarmId :: str
  arm_sourceKey :: str
  arm_payload :: "(str \<times> plain) list"
  arm_armSeq :: int
  arm_ts :: epoch_ms

definition nullable :: "('a \<Rightarrow> plain) \<Rightarrow> 'a option \<Rightarrow> plain" where
  "nullable f v = (case v of None \<Rightarrow> PNull | Some x \<Rightarrow> f x)"

text \<open>The row and the occurrence it mints.\<close>

definition armAction :: "(str \<Rightarrow> str) \<Rightarrow> arm_input \<Rightarrow> append_row \<times> str" where
  "armAction sha i =
     (let occ = occurrenceId sha (arm_sessionId i) (arm_alarmId i) (arm_armSeq i) (arm_sourceKey i) in
      (appendAlarm (arm_alarmId i @ '':arm:'' @ int_text (arm_armSeq i)) (arm_parentId i) (arm_sessionId i)
        (PObj [(''op'', PStr ''arm''),
               (''purpose'', PStr (arm_purpose i)),
               (''at'', nullable (\<lambda>t. PNum (NInt t)) (arm_at i)),
               (''supersedes'', nullable PStr (arm_supersedes i)),
               (''alarmId'', PStr (arm_alarmId i)),
               (''sourceKey'', PStr (arm_sourceKey i)),
               (''payload'', PObj (arm_payload i))])
        (PObj [(''occurrenceId'', PStr occ)]) None (arm_ts i),
       occ))"

datatype fired_outcome = Delivered | StaleFiring | Exhausted

fun outcome_text :: "fired_outcome \<Rightarrow> str" where
  "outcome_text Delivered = ''delivered''"
| "outcome_text StaleFiring = ''stale''"
| "outcome_text Exhausted = ''exhausted''"

definition firedAction ::
  "str option \<Rightarrow> str \<Rightarrow> str \<Rightarrow> str \<Rightarrow> str \<Rightarrow> fired_outcome \<Rightarrow> epoch_ms \<Rightarrow> append_row" where
  "firedAction parent sid purpose alarmId occ outcome ts =
     appendAlarm (occ @ '':'' @ outcome_text outcome) parent sid
       (PObj [(''op'', PStr ''fired''),
              (''occurrenceId'', PStr occ),
              (''outcome'', PStr (outcome_text outcome)),
              (''purpose'', PStr purpose),
              (''alarmId'', PStr alarmId)])
       (PObj [(''op'', PStr ''fired''), (''occurrenceId'', PStr occ), (''outcome'', PStr (outcome_text outcome))])
       None ts"

datatype skip_reason = Superseded | Settled | Unknown

datatype alarm_disposition = Run | Skip skip_reason

record arm_view =
  av_occurrenceId :: str
  av_at :: "epoch_ms option"

text \<open>
  \<^verbatim>\<open>alarmDisposition\<close>: a delivered occurrence runs only while the chain's latest arm
  names it, is not retired, and no accepted firing settled it.
\<close>

definition alarmDisposition ::
  "(str \<Rightarrow> arm_view option) \<Rightarrow> (str \<Rightarrow> bool) \<Rightarrow> str \<Rightarrow> str \<Rightarrow> alarm_disposition" where
  "alarmDisposition latestArm settled alarmId occ =
     (case latestArm alarmId of
        None \<Rightarrow> Skip Unknown
      | Some arm \<Rightarrow>
          if av_occurrenceId arm \<noteq> occ \<or> av_at arm = None then Skip Superseded
          else if settled occ then Skip Settled
          else Run)"

lemma armAction_simps [simp]:
  "ap_sessionId (fst (armAction sha i)) = arm_sessionId i"
  "ap_kind (fst (armAction sha i)) = KAlarm"
  "ap_id (fst (armAction sha i)) = arm_alarmId i @ '':arm:'' @ int_text (arm_armSeq i)"
  "ap_parentId (fst (armAction sha i)) = arm_parentId i"
  by (simp_all add: armAction_def appendAlarm_def Let_def)

end
