(* ===== verification/Request_Schema.thy ===== *)
theory Request_Schema
  imports Ledger
begin

text \<open>
  The request commands of \<^verbatim>\<open>packages/protocol/src/ledger/session-transition.ts\<close>: each
  schema object is a record, each enumeration a datatype, and the checks the schema
  makes are the boolean functions \<open>..._valid\<close>.  The functions \<open>..._plain\<close>
  give the JSON object a record is when it is stored or digested; an absent optional
  field has no entry.
\<close>

section \<open>Records\<close>

type_synonym domain_revisions = "(str \<times> int) list"

record correlation =
  co_endpointId :: "str option"
  co_channelId :: "str option"
  co_replyToMessageId :: "str option"
  co_chain :: "str list option"
  co_threadId :: "str option"
  co_tokenHash :: "str option"
  co_externalConversationId :: "str option"

definition no_correlation :: correlation where
  "no_correlation = \<lparr>co_endpointId = None, co_channelId = None, co_replyToMessageId = None, co_chain = None,
     co_threadId = None, co_tokenHash = None, co_externalConversationId = None\<rparr>"

datatype allowed_action = ReportResult | AskClarification | AttachArtifact | DeclineTask

datatype principal_kind = OwnerPrincipal | ActorPrincipal | SessionPrincipal

record principal =
  pr_kind :: principal_kind
  pr_principalId :: str
  pr_evidenceId :: str

record reply =
  rp_replyId :: str
  rp_responderId :: str
  rp_content :: str
  rp_receivedAt :: epoch_ms

datatype request_mode = ApprovalMode | AnswerMode

datatype request_resolution_rule = First | Quorum | All

datatype request_state = Open | Resolved | RefusedState | Expired | Cancelled

datatype request_outcome = Answered | OutcomeUnknown | Denied | CancelledOutcome

record request =
  rq_requestId :: str
  rq_sessionId :: str
  rq_turnId :: "str option"
  rq_callId :: str
  rq_mode :: request_mode
  rq_parsedInput :: plain
  rq_inputHash :: str
  rq_effectHash :: str
  rq_generation :: int
  rq_toolsGeneration :: int
  rq_toolsHash :: str
  rq_systemHash :: str
  rq_domainRevisions :: domain_revisions
  rq_deadline :: epoch_ms
  rq_expectedResponders :: "str list"
  rq_correlation :: correlation
  rq_allowedActions :: "allowed_action list"
  rq_bindingDigest :: str
  rq_resolution :: request_resolution_rule
  rq_threshold :: int
  rq_seenReplyIds :: "str list"
  rq_replies :: "reply list"
  rq_state :: request_state
  rq_outcome :: "request_outcome option"
  rq_createdAt :: epoch_ms

datatype terminal_kind = Completed | ErrorTerminal | InterruptedTerminal

datatype delivery_width = Steer | FollowUp

record outbound_message =
  om_messageId :: str
  om_sourceSessionId :: str
  om_sourceActionId :: str
  om_destinationSessionId :: str
  om_requestId :: str
  om_replyTo :: str
  om_terminal :: terminal_kind
  om_content :: str
  om_delivery :: "delivery_width option"
  om_digest :: str

datatype decision = Answer | Approve | Refuse

record answer =
  an_inputId :: str
  an_requestId :: str
  an_sessionId :: str
  an_receivedAt :: epoch_ms
  an_principal :: principal
  an_bindingDigest :: str
  an_inputHash :: str
  an_effectHash :: str
  an_generation :: int
  an_toolsHash :: str
  an_domainRevisions :: domain_revisions
  an_decision :: decision
  an_allowedAction :: allowed_action
  an_content :: str
  an_outbound :: "outbound_message option"

datatype receipt_value = Accepted | RejectedValue | UnknownValue

record delivery_receipt =
  dr_inputId :: str
  dr_requestId :: str
  dr_sessionId :: str
  dr_sourceActionId :: str
  dr_externalMessageId :: "str option"
  dr_value :: receipt_value
  dr_at :: epoch_ms

datatype payload =
    RequestOpen request
  | RequestAnswer answer
  | RequestTimeout str
  | RequestCancel str principal
  | RequestDelivery delivery_receipt

record authority =
  au_owner :: str
  au_fence :: int

record command =
  c_version :: int
  c_inputId :: str
  c_sessionId :: str
  c_at :: epoch_ms
  c_expectedRevision :: int
  c_authority :: authority
  c_payload :: payload

datatype resolution =
    Opened | Attached | ResolvedRes | RefusedRes | ExpiredRes | CancelledRes
  | LateUnknown | RejectedRes | Duplicate | DeliveryRecorded

section \<open>Schema checks\<close>

definition id_ok :: "str \<Rightarrow> bool" where
  [oni_defs]: "id_ok s \<longleftrightarrow> s \<noteq> []"

definition opt_ok :: "('a \<Rightarrow> bool) \<Rightarrow> 'a option \<Rightarrow> bool" where
  [oni_defs]: "opt_ok f v = (case v of None \<Rightarrow> True | Some x \<Rightarrow> f x)"

definition revisions_ok :: "domain_revisions \<Rightarrow> bool" where
  "revisions_ok m \<longleftrightarrow> list_all (\<lambda>p. id_ok (fst p)) m \<and> distinct (map fst m)"

definition correlation_valid :: "correlation \<Rightarrow> bool" where
  "correlation_valid c \<longleftrightarrow>
     opt_ok id_ok (co_endpointId c) \<and> opt_ok id_ok (co_channelId c) \<and>
     opt_ok id_ok (co_replyToMessageId c) \<and> opt_ok (list_all id_ok) (co_chain c) \<and>
     opt_ok id_ok (co_threadId c) \<and> opt_ok id_ok (co_tokenHash c) \<and>
     opt_ok id_ok (co_externalConversationId c)"

definition principal_valid :: "principal \<Rightarrow> bool" where
  "principal_valid p \<longleftrightarrow> id_ok (pr_principalId p) \<and> id_ok (pr_evidenceId p)"

definition reply_valid :: "reply \<Rightarrow> bool" where
  "reply_valid r \<longleftrightarrow> id_ok (rp_replyId r) \<and> id_ok (rp_responderId r) \<and> 0 \<le> rp_receivedAt r"

text \<open>The refinement of \<^verbatim>\<open>Request\<close>: the threshold the rule demands, and the outcome of each state.\<close>

definition required_threshold :: "request \<Rightarrow> int" where
  "required_threshold r =
     (case rq_resolution r of
        All \<Rightarrow> int (length (rq_expectedResponders r))
      | First \<Rightarrow> 1
      | Quorum \<Rightarrow> rq_threshold r)"

definition threshold_consistent :: "request \<Rightarrow> bool" where
  "threshold_consistent r \<longleftrightarrow>
     length (new_set (rq_expectedResponders r)) = length (rq_expectedResponders r) \<and>
     rq_threshold r = required_threshold r \<and>
     required_threshold r \<le> int (length (rq_expectedResponders r))"

fun state_outcome :: "request_state \<Rightarrow> request_outcome option" where
  "state_outcome Open = None"
| "state_outcome Resolved = Some Answered"
| "state_outcome RefusedState = Some Denied"
| "state_outcome Expired = Some OutcomeUnknown"
| "state_outcome Cancelled = Some CancelledOutcome"

definition request_valid :: "request \<Rightarrow> bool" where
  "request_valid r \<longleftrightarrow>
     id_ok (rq_requestId r) \<and> id_ok (rq_sessionId r) \<and> opt_ok id_ok (rq_turnId r) \<and>
     id_ok (rq_callId r) \<and> id_ok (rq_inputHash r) \<and> id_ok (rq_effectHash r) \<and>
     0 \<le> rq_generation r \<and> 0 \<le> rq_toolsGeneration r \<and>
     id_ok (rq_toolsHash r) \<and> id_ok (rq_systemHash r) \<and> revisions_ok (rq_domainRevisions r) \<and>
     0 \<le> rq_deadline r \<and> rq_expectedResponders r \<noteq> [] \<and> list_all id_ok (rq_expectedResponders r) \<and>
     correlation_valid (rq_correlation r) \<and> rq_allowedActions r \<noteq> [] \<and>
     id_ok (rq_bindingDigest r) \<and> 0 < rq_threshold r \<and>
     list_all id_ok (rq_seenReplyIds r) \<and> list_all reply_valid (rq_replies r) \<and>
     0 \<le> rq_createdAt r \<and>
     threshold_consistent r \<and> rq_outcome r = state_outcome (rq_state r)"

definition outbound_valid :: "outbound_message \<Rightarrow> bool" where
  "outbound_valid m \<longleftrightarrow>
     id_ok (om_messageId m) \<and> id_ok (om_sourceSessionId m) \<and> id_ok (om_sourceActionId m) \<and>
     id_ok (om_destinationSessionId m) \<and> id_ok (om_requestId m) \<and> id_ok (om_replyTo m) \<and> id_ok (om_digest m)"

definition answer_valid :: "answer \<Rightarrow> bool" where
  "answer_valid a \<longleftrightarrow>
     id_ok (an_inputId a) \<and> id_ok (an_requestId a) \<and> id_ok (an_sessionId a) \<and> 0 \<le> an_receivedAt a \<and>
     principal_valid (an_principal a) \<and> id_ok (an_bindingDigest a) \<and> id_ok (an_inputHash a) \<and>
     id_ok (an_effectHash a) \<and> 0 \<le> an_generation a \<and> id_ok (an_toolsHash a) \<and>
     revisions_ok (an_domainRevisions a) \<and> opt_ok outbound_valid (an_outbound a)"

definition receipt_valid :: "delivery_receipt \<Rightarrow> bool" where
  "receipt_valid r \<longleftrightarrow>
     id_ok (dr_inputId r) \<and> id_ok (dr_requestId r) \<and> id_ok (dr_sessionId r) \<and>
     id_ok (dr_sourceActionId r) \<and> opt_ok id_ok (dr_externalMessageId r) \<and> 0 \<le> dr_at r"

fun payload_valid :: "payload \<Rightarrow> bool" where
  "payload_valid (RequestOpen r) = request_valid r"
| "payload_valid (RequestAnswer a) = answer_valid a"
| "payload_valid (RequestTimeout i) = id_ok i"
| "payload_valid (RequestCancel i p) = (id_ok i \<and> principal_valid p)"
| "payload_valid (RequestDelivery r) = receipt_valid r"

definition command_valid :: "command \<Rightarrow> bool" where
  "command_valid c \<longleftrightarrow>
     c_version c = 1 \<and> id_ok (c_inputId c) \<and> id_ok (c_sessionId c) \<and> 0 \<le> c_at c \<and>
     0 \<le> c_expectedRevision c \<and> id_ok (au_owner (c_authority c)) \<and> 0 < au_fence (c_authority c) \<and>
     payload_valid (c_payload c)"

section \<open>JSON form\<close>

fun allowed_action_text :: "allowed_action \<Rightarrow> str" where
  "allowed_action_text ReportResult = ''report_result''"
| "allowed_action_text AskClarification = ''ask_clarification''"
| "allowed_action_text AttachArtifact = ''attach_artifact''"
| "allowed_action_text DeclineTask = ''decline_task''"

fun principal_kind_text :: "principal_kind \<Rightarrow> str" where
  "principal_kind_text OwnerPrincipal = ''owner''"
| "principal_kind_text ActorPrincipal = ''actor''"
| "principal_kind_text SessionPrincipal = ''session''"

fun mode_text :: "request_mode \<Rightarrow> str" where
  "mode_text ApprovalMode = ''approval''"
| "mode_text AnswerMode = ''answer''"

fun rule_text :: "request_resolution_rule \<Rightarrow> str" where
  "rule_text First = ''first''"
| "rule_text Quorum = ''quorum''"
| "rule_text All = ''all''"

fun state_text :: "request_state \<Rightarrow> str" where
  "state_text Open = ''open''"
| "state_text Resolved = ''resolved''"
| "state_text RefusedState = ''refused''"
| "state_text Expired = ''expired''"
| "state_text Cancelled = ''cancelled''"

fun request_outcome_text :: "request_outcome \<Rightarrow> str" where
  "request_outcome_text Answered = ''answered''"
| "request_outcome_text OutcomeUnknown = ''outcome_unknown''"
| "request_outcome_text Denied = ''denied''"
| "request_outcome_text CancelledOutcome = ''cancelled''"

fun terminal_text :: "terminal_kind \<Rightarrow> str" where
  "terminal_text Completed = ''completed''"
| "terminal_text ErrorTerminal = ''error''"
| "terminal_text InterruptedTerminal = ''interrupted''"

fun width_text :: "delivery_width \<Rightarrow> str" where
  "width_text Steer = ''steer''"
| "width_text FollowUp = ''followUp''"

fun decision_text :: "decision \<Rightarrow> str" where
  "decision_text Answer = ''answer''"
| "decision_text Approve = ''approve''"
| "decision_text Refuse = ''refuse''"

fun receipt_value_text :: "receipt_value \<Rightarrow> str" where
  "receipt_value_text Accepted = ''accepted''"
| "receipt_value_text RejectedValue = ''rejected''"
| "receipt_value_text UnknownValue = ''unknown''"

fun resolution_text :: "resolution \<Rightarrow> str" where
  "resolution_text Opened = ''opened''"
| "resolution_text Attached = ''attached''"
| "resolution_text ResolvedRes = ''resolved''"
| "resolution_text RefusedRes = ''refused''"
| "resolution_text ExpiredRes = ''expired''"
| "resolution_text CancelledRes = ''cancelled''"
| "resolution_text LateUnknown = ''late_unknown''"
| "resolution_text RejectedRes = ''rejected''"
| "resolution_text Duplicate = ''duplicate''"
| "resolution_text DeliveryRecorded = ''delivery_recorded''"

definition all_resolutions :: "resolution list" where
  "all_resolutions = [Opened, Attached, ResolvedRes, RefusedRes, ExpiredRes, CancelledRes,
     LateUnknown, RejectedRes, Duplicate, DeliveryRecorded]"

text \<open>\<^verbatim>\<open>SessionTransition.Resolution.safeParse\<close>.\<close>

definition parse_resolution :: "plain option \<Rightarrow> resolution option" where
  "parse_resolution v = (case v of Some (PStr s) \<Rightarrow> find (\<lambda>r. resolution_text r = s) all_resolutions | _ \<Rightarrow> None)"

definition num :: "int \<Rightarrow> plain" where
  "num i = PNum (NInt i)"

definition strs :: "str list \<Rightarrow> plain" where
  "strs xs = PArr (map PStr xs)"

definition revisions_plain :: "domain_revisions \<Rightarrow> plain" where
  "revisions_plain m = PObj (map (\<lambda>(k, v). (k, num v)) m)"

fun opt_field :: "str \<Rightarrow> ('a \<Rightarrow> plain) \<Rightarrow> 'a option \<Rightarrow> (str \<times> plain) list" where
  "opt_field k f None = []"
| "opt_field k f (Some x) = [(k, f x)]"

definition correlation_plain :: "correlation \<Rightarrow> plain" where
  "correlation_plain c = PObj (
     opt_field ''endpointId'' PStr (co_endpointId c) @
     opt_field ''channelId'' PStr (co_channelId c) @
     opt_field ''replyToMessageId'' PStr (co_replyToMessageId c) @
     opt_field ''chain'' strs (co_chain c) @
     opt_field ''threadId'' PStr (co_threadId c) @
     opt_field ''tokenHash'' PStr (co_tokenHash c) @
     opt_field ''externalConversationId'' PStr (co_externalConversationId c))"

definition principal_plain :: "principal \<Rightarrow> plain" where
  "principal_plain p = PObj [
     (''kind'', PStr (principal_kind_text (pr_kind p))),
     (''principalId'', PStr (pr_principalId p)),
     (''evidenceId'', PStr (pr_evidenceId p))]"

definition reply_plain :: "reply \<Rightarrow> plain" where
  "reply_plain r = PObj [
     (''replyId'', PStr (rp_replyId r)),
     (''responderId'', PStr (rp_responderId r)),
     (''content'', PStr (rp_content r)),
     (''receivedAt'', num (rp_receivedAt r))]"

definition request_plain :: "request \<Rightarrow> plain" where
  "request_plain r = PObj [
     (''requestId'', PStr (rq_requestId r)),
     (''sessionId'', PStr (rq_sessionId r)),
     (''turnId'', nullable PStr (rq_turnId r)),
     (''callId'', PStr (rq_callId r)),
     (''mode'', PStr (mode_text (rq_mode r))),
     (''parsedInput'', rq_parsedInput r),
     (''inputHash'', PStr (rq_inputHash r)),
     (''effectHash'', PStr (rq_effectHash r)),
     (''generation'', num (rq_generation r)),
     (''toolsGeneration'', num (rq_toolsGeneration r)),
     (''toolsHash'', PStr (rq_toolsHash r)),
     (''systemHash'', PStr (rq_systemHash r)),
     (''domainRevisions'', revisions_plain (rq_domainRevisions r)),
     (''deadline'', num (rq_deadline r)),
     (''expectedResponders'', strs (rq_expectedResponders r)),
     (''correlation'', correlation_plain (rq_correlation r)),
     (''allowedActions'', strs (map allowed_action_text (rq_allowedActions r))),
     (''bindingDigest'', PStr (rq_bindingDigest r)),
     (''resolution'', PStr (rule_text (rq_resolution r))),
     (''threshold'', num (rq_threshold r)),
     (''seenReplyIds'', strs (rq_seenReplyIds r)),
     (''replies'', PArr (map reply_plain (rq_replies r))),
     (''state'', PStr (state_text (rq_state r))),
     (''outcome'', nullable (\<lambda>x. PStr (request_outcome_text x)) (rq_outcome r)),
     (''createdAt'', num (rq_createdAt r))]"

definition outbound_plain :: "outbound_message \<Rightarrow> plain" where
  "outbound_plain m = PObj ([
     (''messageId'', PStr (om_messageId m)),
     (''sourceSessionId'', PStr (om_sourceSessionId m)),
     (''sourceActionId'', PStr (om_sourceActionId m)),
     (''destinationSessionId'', PStr (om_destinationSessionId m)),
     (''requestId'', PStr (om_requestId m)),
     (''replyTo'', PStr (om_replyTo m)),
     (''terminal'', PStr (terminal_text (om_terminal m))),
     (''content'', PStr (om_content m))] @
     opt_field ''delivery'' (\<lambda>w. PStr (width_text w)) (om_delivery m) @
     [(''digest'', PStr (om_digest m))])"

text \<open>An answer's object, with or without its reception time.\<close>

definition answer_fields :: "bool \<Rightarrow> answer \<Rightarrow> (str \<times> plain) list" where
  "answer_fields with_received a = [
     (''inputId'', PStr (an_inputId a)),
     (''requestId'', PStr (an_requestId a)),
     (''sessionId'', PStr (an_sessionId a))] @
     (if with_received then [(''receivedAt'', num (an_receivedAt a))] else []) @ [
     (''principal'', principal_plain (an_principal a)),
     (''bindingDigest'', PStr (an_bindingDigest a)),
     (''inputHash'', PStr (an_inputHash a)),
     (''effectHash'', PStr (an_effectHash a)),
     (''generation'', num (an_generation a)),
     (''toolsHash'', PStr (an_toolsHash a)),
     (''domainRevisions'', revisions_plain (an_domainRevisions a)),
     (''decision'', PStr (decision_text (an_decision a))),
     (''allowedAction'', PStr (allowed_action_text (an_allowedAction a))),
     (''content'', PStr (an_content a))] @
     opt_field ''outbound'' outbound_plain (an_outbound a)"

definition receipt_fields :: "bool \<Rightarrow> delivery_receipt \<Rightarrow> (str \<times> plain) list" where
  "receipt_fields with_at r = [
     (''inputId'', PStr (dr_inputId r)),
     (''requestId'', PStr (dr_requestId r)),
     (''sessionId'', PStr (dr_sessionId r)),
     (''sourceActionId'', PStr (dr_sourceActionId r))] @
     opt_field ''externalMessageId'' PStr (dr_externalMessageId r) @
     [(''value'', PStr (receipt_value_text (dr_value r)))] @
     (if with_at then [(''at'', num (dr_at r))] else [])"

fun payload_kind :: "payload \<Rightarrow> str" where
  "payload_kind (RequestOpen r) = ''request.open''"
| "payload_kind (RequestAnswer a) = ''request.answer''"
| "payload_kind (RequestTimeout i) = ''request.timeout''"
| "payload_kind (RequestCancel i p) = ''request.cancel''"
| "payload_kind (RequestDelivery r) = ''request.delivery''"

lemma parse_resolution_text [simp]: "parse_resolution (Some (PStr (resolution_text r))) = Some r"
  by (cases r) (simp_all add: parse_resolution_def all_resolutions_def)

end
