(* ===== verification/Request_Binding.thy ===== *)
theory Request_Binding
  imports Request_Schema
begin

text \<open>
  The records a request transition writes:
  \<^verbatim>\<open>packages/agent/src/core/journal/request-binding.ts\<close>.  A request is bound by the
  digest of everything its answer must agree with; every command writes one input record
  under the request, a terminal one writes the resolution record as well, and the
  deadline alarm is armed with the opening and retired with the terminal transition.
\<close>

section \<open>The binding digest\<close>

definition requestBindingDigest :: "(str \<Rightarrow> str) \<Rightarrow> request \<Rightarrow> str" where
  "requestBindingDigest sha r = canonicalDigest sha (PObj [
     (''requestId'', PStr (rq_requestId r)),
     (''sessionId'', PStr (rq_sessionId r)),
     (''callId'', PStr (rq_callId r)),
     (''mode'', PStr (mode_text (rq_mode r))),
     (''inputHash'', PStr (rq_inputHash r)),
     (''effectHash'', PStr (rq_effectHash r)),
     (''generation'', num (rq_generation r)),
     (''toolsGeneration'', num (rq_toolsGeneration r)),
     (''toolsHash'', PStr (rq_toolsHash r)),
     (''systemHash'', PStr (rq_systemHash r)),
     (''domainRevisions'', revisions_plain (rq_domainRevisions r)),
     (''deadline'', num (rq_deadline r)),
     (''expectedResponders'', strs (rq_expectedResponders r)),
     (''correlation'', correlation_plain (rq_correlation r)),
     (''allowedActions'', strs (map allowed_action_text (rq_allowedActions r))),
     (''resolution'', PStr (rule_text (rq_resolution r))),
     (''threshold'', num (rq_threshold r))])"

record captured_approval =
  ca_id :: str
  ca_sessionId :: str
  ca_turnId :: "str option"
  ca_callId :: str
  ca_intent :: plain
  ca_inputHash :: str
  ca_generation :: int
  ca_toolsGeneration :: "int option"
  ca_toolsHash :: "str option"

text \<open>
  \<^verbatim>\<open>createApprovalRequest\<close>: the request an approval opens; \<^const>\<open>None\<close> where
  \<^verbatim>\<open>SessionTransition.Request.parse\<close> throws.
\<close>

definition createApprovalRequest ::
  "(str \<Rightarrow> str) \<Rightarrow> captured_approval \<Rightarrow> plain \<Rightarrow> domain_revisions option \<Rightarrow> str option \<Rightarrow> epoch_ms \<Rightarrow> int \<Rightarrow>
    str list \<Rightarrow> request option" where
  "createApprovalRequest sha cap effect revs systemHash createdAt timeout responders =
     (let r = \<lparr>rq_requestId = ca_id cap,
               rq_sessionId = ca_sessionId cap,
               rq_turnId = ca_turnId cap,
               rq_callId = ca_callId cap,
               rq_mode = ApprovalMode,
               rq_parsedInput = ca_intent cap,
               rq_inputHash = ca_inputHash cap,
               rq_effectHash = canonicalDigest sha effect,
               rq_generation = ca_generation cap,
               rq_toolsGeneration = or_else (ca_toolsGeneration cap) 0,
               rq_toolsHash = or_else (ca_toolsHash cap) (canonicalDigest sha (PArr [])),
               rq_systemHash = or_else systemHash (canonicalDigest sha (PArr [])),
               rq_domainRevisions = or_else revs [],
               rq_deadline = createdAt + timeout,
               rq_expectedResponders = responders,
               rq_correlation = no_correlation,
               rq_allowedActions = [ReportResult],
               rq_bindingDigest = ''pending'',
               rq_resolution = First,
               rq_threshold = 1,
               rq_seenReplyIds = [],
               rq_replies = [],
               rq_state = Open,
               rq_outcome = None,
               rq_createdAt = createdAt\<rparr>
      in if request_valid r then Some (r\<lparr>rq_bindingDigest := requestBindingDigest sha r\<rparr>) else None)"

section \<open>Ledger records\<close>

fun payloadEvidence :: "payload \<Rightarrow> (str \<times> plain) list" where
  "payloadEvidence (RequestAnswer a) = [(''answer'', PObj (answer_fields True a))]"
| "payloadEvidence (RequestDelivery r) = [(''receipt'', PObj (receipt_fields True r))]"
| "payloadEvidence _ = []"

fun lifecyclePhase :: "payload \<Rightarrow> request \<Rightarrow> str" where
  "lifecyclePhase (RequestAnswer a) r = ''answered''"
| "lifecyclePhase _ r =
     (if rq_state r = Open then ''open'' else if rq_state r = Expired then ''expired'' else ''resolved'')"

definition input_record_id :: "str \<Rightarrow> str \<Rightarrow> str" where
  "input_record_id rid iid = rid @ '':input:'' @ iid"

definition resolution_record_id :: "str \<Rightarrow> str" where
  "resolution_record_id rid = rid @ '':resolution''"

definition inputRecord :: "command \<Rightarrow> request \<Rightarrow> str \<Rightarrow> resolution \<Rightarrow> append_row" where
  "inputRecord c r digest res =
     \<lparr>ap_id = input_record_id (rq_requestId r) (c_inputId c),
      ap_parentId = Some (rq_requestId r),
      ap_sessionId = c_sessionId c,
      ap_kind = KRequest,
      ap_intent = PObj [(''inputId'', PStr (c_inputId c)),
                        (''inputDigest'', PStr digest),
                        (''command'', PStr (payload_kind (c_payload c)))],
      ap_effect = PObj ([(''phase'', PStr (lifecyclePhase (c_payload c) r)),
                         (''request'', request_plain r),
                         (''resolution'', PStr (resolution_text res))] @ payloadEvidence (c_payload c)),
      ap_ts = c_at c,
      ap_revert = None\<rparr>"

definition resolutionRecord :: "command \<Rightarrow> request \<Rightarrow> resolution \<Rightarrow> append_row" where
  "resolutionRecord c r res =
     \<lparr>ap_id = resolution_record_id (rq_requestId r),
      ap_parentId = Some (rq_requestId r),
      ap_sessionId = c_sessionId c,
      ap_kind = KRequest,
      ap_intent = PObj [(''phase'', PStr ''resolution'')],
      ap_effect = PObj [(''phase'', PStr (if rq_state r = Expired then ''expired'' else ''resolved'')),
                        (''request'', request_plain r),
                        (''resolution'', PStr (resolution_text res))],
      ap_ts = c_at c,
      ap_revert = None\<rparr>"

definition deadline_alarm_id :: "str \<Rightarrow> str" where
  "deadline_alarm_id rid = rid @ '':deadline''"

definition deadline_arm :: "command \<Rightarrow> request \<Rightarrow> epoch_ms option \<Rightarrow> str option \<Rightarrow> int \<Rightarrow> arm_input" where
  "deadline_arm c r at supersedes armSeq =
     \<lparr>arm_parentId = None,
      arm_sessionId = c_sessionId c,
      arm_purpose = ''deadline'',
      arm_at = at,
      arm_supersedes = supersedes,
      arm_alarmId = deadline_alarm_id (rq_requestId r),
      arm_sourceKey = ''deadline'',
      arm_payload = [(''requestId'', PStr (rq_requestId r))],
      arm_armSeq = armSeq,
      arm_ts = c_at c\<rparr>"

fun is_open :: "payload \<Rightarrow> bool" where
  "is_open (RequestOpen r) = True"
| "is_open _ = False"

definition deadlineArms :: "(str \<Rightarrow> str) \<Rightarrow> command \<Rightarrow> request \<Rightarrow> bool \<Rightarrow> append_row list" where
  "deadlineArms sha c r terminal =
     (if is_open (c_payload c) then
        [fst (armAction sha (deadline_arm c r (Some (rq_deadline r)) None 1))]
      else if \<not> terminal then []
      else [fst (armAction sha (deadline_arm c r None
              (Some (occurrenceId sha (c_sessionId c) (deadline_alarm_id (rq_requestId r)) 1 ''deadline'')) 2))])"

lemma record_simps [simp]:
  "ap_id (inputRecord c r d res) = input_record_id (rq_requestId r) (c_inputId c)"
  "ap_sessionId (inputRecord c r d res) = c_sessionId c"
  "ap_parentId (inputRecord c r d res) = Some (rq_requestId r)"
  "ap_kind (inputRecord c r d res) = KRequest"
  "ap_id (resolutionRecord c r res) = resolution_record_id (rq_requestId r)"
  "ap_sessionId (resolutionRecord c r res) = c_sessionId c"
  "ap_parentId (resolutionRecord c r res) = Some (rq_requestId r)"
  "ap_kind (resolutionRecord c r res) = KRequest"
  by (simp_all add: inputRecord_def resolutionRecord_def)

lemma deadlineArms_kind: "a \<in> set (deadlineArms sha c r t) \<Longrightarrow> ap_kind a = KAlarm \<and> ap_sessionId a = c_sessionId c"
  by (auto simp: deadlineArms_def deadline_arm_def split: if_splits)

end
