(* ===== verification/Request_Transition.thy ===== *)
theory Request_Transition
  imports Request_Binding
begin

text \<open>
  The original-request state machine:
  \<^verbatim>\<open>packages/agent/src/core/session/request-transition.ts\<close>, one definition per function
  of the file.  \<open>decideRequestTransition\<close> is pure: it reads a command and a
  snapshot of the session and returns the resolution, the next request and the rows to
  commit.
\<close>

section \<open>Data\<close>

datatype input_kind = Prompt | Interrupt | Resume | CancelInput | ActionInput

record delivery_commit =
  dc_id :: str
  dc_sessionId :: str
  dc_kind :: input_kind
  dc_content :: str
  dc_createdAt :: epoch_ms
  dc_parentActionId :: "str option"
  dc_origin :: plain

record request_decision =
  rd_resolution :: resolution
  rd_request :: "request option"
  rd_actions :: "append_row list"
  rd_receive :: "delivery_commit option"
  rd_requestCount :: "request_count option"

record request_snapshot =
  sn_row :: session_row
  sn_inputRecord :: "node option"
  sn_invocation :: "node option"
  sn_request :: "request option"
  sn_domainRevisions :: "domain_revisions option"
  sn_requests :: "request list option"

record recent_open =
  ro_limit :: int
  ro_windowMs :: int

definition rejected :: request_decision where
  "rejected = \<lparr>rd_resolution = RejectedRes, rd_request = None, rd_actions = [], rd_receive = None,
     rd_requestCount = None\<rparr>"

section \<open>Guards\<close>

definition ownsRequestRevision :: "command \<Rightarrow> session_row \<Rightarrow> bool" where
  "ownsRequestRevision c row \<longleftrightarrow>
     ss_id row = c_sessionId c \<and>
     ss_fenceOwner row = Some (au_owner (c_authority c)) \<and>
     ss_fence row = au_fence (c_authority c) \<and>
     ss_revision row = c_expectedRevision c"

text \<open>The request a command names; for an opening, the request it opens.\<close>

fun targetRequestId :: "payload \<Rightarrow> str" where
  "targetRequestId (RequestOpen r) = rq_requestId r"
| "targetRequestId (RequestAnswer a) = an_requestId a"
| "targetRequestId (RequestDelivery r) = dr_requestId r"
| "targetRequestId (RequestTimeout i) = i"
| "targetRequestId (RequestCancel i p) = i"

definition targets :: "request \<Rightarrow> payload \<Rightarrow> str \<Rightarrow> bool" where
  "targets r p sid \<longleftrightarrow> rq_requestId r = targetRequestId p \<and> rq_sessionId r = sid"

fun requestInputDigest :: "(str \<Rightarrow> str) \<Rightarrow> payload \<Rightarrow> str" where
  "requestInputDigest sha (RequestAnswer a) =
     canonicalDigest sha (PObj [(''kind'', PStr ''request.answer''), (''answer'', PObj (answer_fields False a))])"
| "requestInputDigest sha (RequestDelivery r) =
     canonicalDigest sha (PObj [(''kind'', PStr ''request.delivery''), (''receipt'', PObj (receipt_fields False r))])"
| "requestInputDigest sha (RequestOpen r) =
     canonicalDigest sha (PObj [(''kind'', PStr ''request.open''), (''request'', request_plain r)])"
| "requestInputDigest sha (RequestTimeout i) =
     canonicalDigest sha (PObj [(''kind'', PStr ''request.timeout''), (''requestId'', PStr i)])"
| "requestInputDigest sha (RequestCancel i p) =
     canonicalDigest sha (PObj [(''kind'', PStr ''request.cancel''), (''requestId'', PStr i),
       (''principal'', principal_plain p)])"

section \<open>A repeated input\<close>

definition recordedResolution :: "node \<Rightarrow> resolution option" where
  "recordedResolution n = parse_resolution (plain_get (ap_effect n) ''resolution'')"

definition replayedInput :: "node \<Rightarrow> request option \<Rightarrow> str \<Rightarrow> request_decision" where
  "replayedInput n r digest =
     (if plain_get (ap_intent n) ''inputDigest'' \<noteq> Some (PStr digest) then rejected
      else case recordedResolution n of
        None \<Rightarrow> rejected
      | Some res \<Rightarrow> rejected\<lparr>rd_resolution := res, rd_request := r\<rparr>)"

definition repeatedInput :: "command \<Rightarrow> request_snapshot \<Rightarrow> str \<Rightarrow> request_decision option" where
  "repeatedInput c sn digest =
     (case sn_inputRecord sn of
        None \<Rightarrow> None
      | Some prev \<Rightarrow>
          let rid = targetRequestId (c_payload c) in
          Some (if ap_sessionId prev = c_sessionId c \<and>
                   ap_parentId prev = Some rid \<and>
                   ap_id prev = input_record_id rid (c_inputId c) \<and>
                   plain_get (ap_intent prev) ''inputId'' = Some (PStr (c_inputId c))
                then replayedInput prev (sn_request sn) digest
                else rejected))"

section \<open>Recording a transition\<close>

definition receivesReply :: "request \<Rightarrow> resolution \<Rightarrow> bool" where
  "receivesReply r res \<longleftrightarrow> rq_mode r = AnswerMode \<and> (res = Attached \<or> res = ResolvedRes)"

definition replyIntake :: "epoch_ms \<Rightarrow> request \<Rightarrow> answer \<Rightarrow> delivery_commit" where
  "replyIntake at r a =
     \<lparr>dc_id = an_inputId a,
      dc_sessionId = rq_sessionId r,
      dc_kind = Prompt,
      dc_content = an_content a,
      dc_createdAt = at,
      dc_parentActionId = Some (rq_requestId r),
      dc_origin = (case an_outbound a of
          Some m \<Rightarrow> outbound_plain m
        | None \<Rightarrow> PObj [(''kind'', PStr ''external_reply''),
                        (''messageId'', PStr (an_inputId a)),
                        (''sourceActionId'', PStr (rq_requestId r)),
                        (''replyTo'', PStr (rq_requestId r))])\<rparr>"

definition receivingIntake :: "command \<Rightarrow> request \<Rightarrow> resolution \<Rightarrow> delivery_commit option" where
  "receivingIntake c r res =
     (case c_payload c of
        RequestAnswer a \<Rightarrow> if receivesReply r res then Some (replyIntake (c_at c) r a) else None
      | _ \<Rightarrow> None)"

definition recordRequest ::
  "(str \<Rightarrow> str) \<Rightarrow> command \<Rightarrow> request \<Rightarrow> str \<Rightarrow> resolution \<Rightarrow> bool \<Rightarrow> request_decision" where
  "recordRequest sha c r digest res terminal =
     \<lparr>rd_resolution = res,
      rd_request = Some r,
      rd_actions = [inputRecord c r digest res] @
        (if terminal then [resolutionRecord c r res] else []) @
        deadlineArms sha c r terminal,
      rd_receive = receivingIntake c r res,
      rd_requestCount = None\<rparr>"

section \<open>Opening\<close>

definition openApprovalSince :: "int \<Rightarrow> request \<Rightarrow> bool" where
  "openApprovalSince since r \<longleftrightarrow> rq_mode r = ApprovalMode \<and> rq_state r = Open \<and> since < rq_createdAt r"

definition sessionOpenApprovalCount :: "request_snapshot \<Rightarrow> request \<Rightarrow> int \<Rightarrow> request_count option" where
  "sessionOpenApprovalCount sn r since =
     (if rq_mode r \<noteq> ApprovalMode then None
      else Some \<lparr>cnt_since = since,
                 cnt_count = int (length (filter (openApprovalSince since) (or_else (sn_requests sn) [])))\<rparr>)"

definition exceedsApprovalBudget :: "request_count option \<Rightarrow> int \<Rightarrow> bool" where
  "exceedsApprovalBudget cnt limit = (case cnt of None \<Rightarrow> False | Some n \<Rightarrow> limit \<le> cnt_count n)"

definition freshRequestShape :: "request \<Rightarrow> bool" where
  "freshRequestShape r \<longleftrightarrow> rq_state r = Open \<and> rq_outcome r = None \<and> rq_seenReplyIds r = [] \<and> rq_replies r = []"

definition recordedInvocation :: "node option \<Rightarrow> str \<Rightarrow> (str \<times> plain) list option" where
  "recordedInvocation original sid =
     (case original of
        None \<Rightarrow> None
      | Some n \<Rightarrow>
          if ap_sessionId n \<noteq> sid then None
          else case object_value (ap_intent n) of
            None \<Rightarrow> None
          | Some invk \<Rightarrow> if map_of invk ''phase'' = Some (PStr ''intent'') then Some invk else None)"

definition domainRevisionsAgree :: "(str \<Rightarrow> str) \<Rightarrow> plain option \<Rightarrow> domain_revisions \<Rightarrow> bool" where
  "domainRevisionsAgree sha recorded expected =
     (case recorded of
        None \<Rightarrow> True
      | Some v \<Rightarrow> canonicalDigest sha v = canonicalDigest sha (revisions_plain expected))"

text \<open>\<^verbatim>\<open>invocation.originalArgs ?? invocation.value\<close>: a null counts as absent.\<close>

definition original_args :: "(str \<times> plain) list \<Rightarrow> plain \<Rightarrow> plain" where
  "original_args invk v =
     (case map_of invk ''originalArgs'' of None \<Rightarrow> v | Some PNull \<Rightarrow> v | Some a \<Rightarrow> a)"

definition originalInvocationMatches :: "(str \<Rightarrow> str) \<Rightarrow> request \<Rightarrow> request_snapshot \<Rightarrow> bool" where
  "originalInvocationMatches sha r sn =
     (case recordedInvocation (sn_invocation sn) (ss_id (sn_row sn)) of
        None \<Rightarrow> False
      | Some invk \<Rightarrow>
          (case map_of invk ''value'' of
             None \<Rightarrow> False
           | Some v \<Rightarrow>
               map_option ap_id (sn_invocation sn) = Some (rq_requestId r) \<and>
               canonicalDigest sha (original_args invk v) = rq_inputHash r \<and>
               canonicalDigest sha (rq_parsedInput r) = rq_inputHash r \<and>
               map_of invk ''effectHash'' = Some (PStr (rq_effectHash r)) \<and>
               domainRevisionsAgree sha (map_of invk ''domainRevisions'') (rq_domainRevisions r)))"

definition generationMatches :: "request \<Rightarrow> session_row \<Rightarrow> bool" where
  "generationMatches r row \<longleftrightarrow>
     rq_generation r = ss_policyGeneration row \<and>
     rq_toolsGeneration r = ss_toolsGeneration row \<and>
     rq_systemHash r = ss_systemHash row"

definition admitsOpen :: "(str \<Rightarrow> str) \<Rightarrow> request \<Rightarrow> request_snapshot \<Rightarrow> bool" where
  "admitsOpen sha r sn \<longleftrightarrow>
     sn_request sn = None \<and>
     originalInvocationMatches sha r sn \<and>
     rq_sessionId r = ss_id (sn_row sn) \<and>
     freshRequestShape r \<and>
     generationMatches r (sn_row sn) \<and>
     rq_bindingDigest r = requestBindingDigest sha r"

definition openRequest ::
  "(str \<Rightarrow> str) \<Rightarrow> command \<Rightarrow> request_snapshot \<Rightarrow> request \<Rightarrow> str \<Rightarrow> recent_open \<Rightarrow> request_decision" where
  "openRequest sha c sn r digest recent =
     (let cnt = sessionOpenApprovalCount sn r (c_at c - ro_windowMs recent) in
      if exceedsApprovalBudget cnt (ro_limit recent) \<or> \<not> admitsOpen sha r sn then rejected
      else (recordRequest sha c r digest Opened False)\<lparr>rd_requestCount := cnt\<rparr>)"

section \<open>Delivery receipts\<close>

definition recordDelivery ::
  "(str \<Rightarrow> str) \<Rightarrow> command \<Rightarrow> request \<Rightarrow> delivery_receipt \<Rightarrow> str \<Rightarrow> request_decision" where
  "recordDelivery sha c cur rc digest =
     (if \<not> (dr_sessionId rc = c_sessionId c \<and> dr_sourceActionId rc = rq_requestId cur \<and>
            dr_inputId rc = c_inputId c) then rejected
      else
        let r = (case dr_externalMessageId rc of
                   None \<Rightarrow> cur
                 | Some m \<Rightarrow>
                     let r' = cur\<lparr>rq_correlation := (rq_correlation cur)\<lparr>co_replyToMessageId := Some m\<rparr>\<rparr>
                     in r'\<lparr>rq_bindingDigest := requestBindingDigest sha r'\<rparr>)
        in recordRequest sha c r digest DeliveryRecorded False)"

section \<open>Answers\<close>

definition answerAddressed :: "answer \<Rightarrow> command \<Rightarrow> bool" where
  "answerAddressed a c \<longleftrightarrow> an_sessionId a = c_sessionId c \<and> an_inputId a = c_inputId c"

definition withSeenReply :: "request \<Rightarrow> str \<Rightarrow> request" where
  "withSeenReply r iid = r\<lparr>rq_seenReplyIds := new_set (rq_seenReplyIds r @ [iid])\<rparr>"

definition lateAnswer ::
  "(str \<Rightarrow> str) \<Rightarrow> command \<Rightarrow> request \<Rightarrow> answer \<Rightarrow> str \<Rightarrow> request_decision" where
  "lateAnswer sha c cur a digest =
     (let terminal = (rq_state cur = Open);
          seen = withSeenReply cur (an_inputId a);
          r = (if terminal then seen\<lparr>rq_state := Expired, rq_outcome := Some OutcomeUnknown\<rparr> else seen)
      in recordRequest sha c r digest LateUnknown terminal)"

definition replyOf :: "answer \<Rightarrow> reply" where
  "replyOf a =
     \<lparr>rp_replyId = an_inputId a,
      rp_responderId = pr_principalId (an_principal a),
      rp_content = an_content a,
      rp_receivedAt = an_receivedAt a\<rparr>"

definition settleReply ::
  "(str \<Rightarrow> str) \<Rightarrow> command \<Rightarrow> request \<Rightarrow> answer \<Rightarrow> str \<Rightarrow> request_decision" where
  "settleReply sha c r a digest =
     (if an_decision a = Refuse then
        recordRequest sha c (r\<lparr>rq_state := RefusedState, rq_outcome := Some Denied\<rparr>) digest RefusedRes True
      else if rq_threshold r \<le> int (length (rq_replies r)) then
        recordRequest sha c (r\<lparr>rq_state := Resolved, rq_outcome := Some Answered\<rparr>) digest ResolvedRes True
      else recordRequest sha c r digest Attached False)"

definition attachAnswer ::
  "(str \<Rightarrow> str) \<Rightarrow> command \<Rightarrow> request \<Rightarrow> answer \<Rightarrow> str \<Rightarrow> request_decision" where
  "attachAnswer sha c cur a digest =
     (let previouslySeen = an_inputId a \<in> set (rq_seenReplyIds cur);
          seen = withSeenReply cur (an_inputId a)
      in if rq_state seen \<noteq> Open \<or> previouslySeen \<or>
            list_ex (\<lambda>rp. rp_responderId rp = pr_principalId (an_principal a)) (rq_replies seen)
         then recordRequest sha c seen digest Duplicate False
         else settleReply sha c (seen\<lparr>rq_replies := rq_replies seen @ [replyOf a]\<rparr>) a digest)"

definition principalValid :: "answer \<Rightarrow> request \<Rightarrow> bool" where
  "principalValid a r =
     (if rq_mode r = ApprovalMode then pr_kind (an_principal a) = OwnerPrincipal \<and> an_decision a \<noteq> Answer
      else an_decision a \<noteq> Approve)"

definition domainRevisionsMatch :: "(str \<Rightarrow> str) \<Rightarrow> request \<Rightarrow> domain_revisions option \<Rightarrow> bool" where
  "domainRevisionsMatch sha r current =
     (case current of
        None \<Rightarrow> rq_domainRevisions r = []
      | Some m \<Rightarrow> canonicalDigest sha (revisions_plain m) = canonicalDigest sha (revisions_plain (rq_domainRevisions r)))"

definition answerBindingMatches :: "(str \<Rightarrow> str) \<Rightarrow> answer \<Rightarrow> request \<Rightarrow> request_snapshot \<Rightarrow> bool" where
  "answerBindingMatches sha a r sn \<longleftrightarrow>
     principalValid a r \<and>
     pr_principalId (an_principal a) \<in> set (rq_expectedResponders r) \<and>
     an_bindingDigest a = rq_bindingDigest r \<and>
     an_inputHash a = rq_inputHash r \<and>
     an_effectHash a = rq_effectHash r \<and>
     an_generation a = rq_generation r \<and>
     an_toolsHash a = rq_toolsHash r \<and>
     an_allowedAction a \<in> set (rq_allowedActions r) \<and>
     canonicalDigest sha (revisions_plain (an_domainRevisions a)) =
       canonicalDigest sha (revisions_plain (rq_domainRevisions r)) \<and>
     domainRevisionsMatch sha r (sn_domainRevisions sn) \<and>
     generationMatches r (sn_row sn)"

definition answerRequest ::
  "(str \<Rightarrow> str) \<Rightarrow> command \<Rightarrow> request_snapshot \<Rightarrow> request \<Rightarrow> answer \<Rightarrow> str \<Rightarrow> request_decision" where
  "answerRequest sha c sn cur a digest =
     (if \<not> answerAddressed a c then rejected
      else if rq_deadline cur \<le> max (c_at c) (an_receivedAt a) then lateAnswer sha c cur a digest
      else if \<not> answerBindingMatches sha a cur sn then recordRequest sha c cur digest RejectedRes False
      else attachAnswer sha c cur a digest)"

section \<open>Timeout and cancellation\<close>

definition expireRequest :: "(str \<Rightarrow> str) \<Rightarrow> command \<Rightarrow> request \<Rightarrow> str \<Rightarrow> request_decision" where
  "expireRequest sha c cur digest =
     (if c_at c < rq_deadline cur then rejected
      else recordRequest sha c (cur\<lparr>rq_state := Expired, rq_outcome := Some OutcomeUnknown\<rparr>) digest ExpiredRes True)"

definition mayCancel :: "principal \<Rightarrow> str \<Rightarrow> bool" where
  "mayCancel p sid \<longleftrightarrow> pr_kind p = OwnerPrincipal \<or> (pr_kind p = SessionPrincipal \<and> pr_principalId p = sid)"

definition cancelRequest ::
  "(str \<Rightarrow> str) \<Rightarrow> command \<Rightarrow> request \<Rightarrow> principal \<Rightarrow> str \<Rightarrow> request_decision" where
  "cancelRequest sha c cur p digest =
     (if \<not> mayCancel p (c_sessionId c) then recordRequest sha c cur digest RejectedRes False
      else recordRequest sha c (cur\<lparr>rq_state := Cancelled, rq_outcome := Some CancelledOutcome\<rparr>) digest CancelledRes True)"

text \<open>\<^verbatim>\<open>closeRequest\<close>: \<^const>\<open>None\<close> is a timeout, \<open>Some p\<close> a cancellation by \<open>p\<close>.\<close>

definition closeRequest ::
  "(str \<Rightarrow> str) \<Rightarrow> command \<Rightarrow> request \<Rightarrow> principal option \<Rightarrow> str \<Rightarrow> request_decision" where
  "closeRequest sha c cur who digest =
     (if rq_state cur \<noteq> Open then recordRequest sha c cur digest Duplicate False
      else case who of
        None \<Rightarrow> expireRequest sha c cur digest
      | Some p \<Rightarrow> cancelRequest sha c cur p digest)"

section \<open>The decision\<close>

fun transitionExisting ::
  "(str \<Rightarrow> str) \<Rightarrow> command \<Rightarrow> request_snapshot \<Rightarrow> request \<Rightarrow> payload \<Rightarrow> str \<Rightarrow> request_decision" where
  "transitionExisting sha c sn cur (RequestDelivery rc) digest = recordDelivery sha c cur rc digest"
| "transitionExisting sha c sn cur (RequestAnswer a) digest = answerRequest sha c sn cur a digest"
| "transitionExisting sha c sn cur (RequestTimeout i) digest = closeRequest sha c cur None digest"
| "transitionExisting sha c sn cur (RequestCancel i p) digest = closeRequest sha c cur (Some p) digest"
| "transitionExisting sha c sn cur (RequestOpen r) digest = rejected"

definition transition ::
  "(str \<Rightarrow> str) \<Rightarrow> command \<Rightarrow> request_snapshot \<Rightarrow> str \<Rightarrow> recent_open \<Rightarrow> request_decision" where
  "transition sha c sn digest recent =
     (case c_payload c of
        RequestOpen r \<Rightarrow> openRequest sha c sn r digest recent
      | p \<Rightarrow>
          (case sn_request sn of
             None \<Rightarrow> rejected
           | Some cur \<Rightarrow>
               if \<not> targets cur p (ss_id (sn_row sn)) then rejected
               else transitionExisting sha c sn cur p digest))"

definition decideRequestTransition ::
  "(str \<Rightarrow> str) \<Rightarrow> command \<Rightarrow> request_snapshot \<Rightarrow> recent_open \<Rightarrow> request_decision" where
  "decideRequestTransition sha c sn recent =
     (if \<not> command_valid c \<or> \<not> ownsRequestRevision c (sn_row sn) then rejected
      else let digest = requestInputDigest sha (c_payload c) in
        case repeatedInput c sn digest of
          Some d \<Rightarrow> d
        | None \<Rightarrow> transition sha c sn digest recent)"

end
