(* ===== verification/Request_Machine.thy ===== *)
theory Request_Machine
  imports Request_Transition
begin

text \<open>
  What the request state machine guarantees.  \<open>existing_cases\<close> lists every way a
  command can move an existing request; the invariant \<open>request_inv\<close>, the
  irrevocability of terminal states, the authority behind an approval and the contents
  of the log of a request's whole history are proved from it.
\<close>

section \<open>The shape of a decision\<close>

lemma recordRequest_simps [simp]:
  "rd_resolution (recordRequest sha c r dg res t) = res"
  "rd_request (recordRequest sha c r dg res t) = Some r"
  "rd_requestCount (recordRequest sha c r dg res t) = None"
  "rd_actions (recordRequest sha c r dg res t) =
    inputRecord c r dg res # (if t then [resolutionRecord c r res] else []) @ deadlineArms sha c r t"
  "rd_receive (recordRequest sha c r dg res t) = receivingIntake c r res"
  by (simp_all add: recordRequest_def)

lemma rejected_simps [simp]:
  "rd_resolution rejected = RejectedRes" "rd_request rejected = None" "rd_actions rejected = []"
  "rd_receive rejected = None" "rd_requestCount rejected = None"
  by (simp_all add: rejected_def)

lemma recordRequest_not_rejected [simp]: "recordRequest sha c r dg res t \<noteq> rejected"
  by (simp add: recordRequest_def rejected_def)

lemma withSeenReply_simps [simp]:
  "rq_state (withSeenReply r i) = rq_state r" "rq_outcome (withSeenReply r i) = rq_outcome r"
  "rq_replies (withSeenReply r i) = rq_replies r" "rq_threshold (withSeenReply r i) = rq_threshold r"
  "rq_requestId (withSeenReply r i) = rq_requestId r" "rq_sessionId (withSeenReply r i) = rq_sessionId r"
  "rq_deadline (withSeenReply r i) = rq_deadline r" "rq_mode (withSeenReply r i) = rq_mode r"
  "rq_expectedResponders (withSeenReply r i) = rq_expectedResponders r"
  "rq_seenReplyIds (withSeenReply r i) = new_set (rq_seenReplyIds r @ [i])"
  by (simp_all add: withSeenReply_def)

definition answer_admitted ::
  "(str \<Rightarrow> str) \<Rightarrow> command \<Rightarrow> request_snapshot \<Rightarrow> request \<Rightarrow> answer \<Rightarrow> bool" where
  "answer_admitted sha c sn cur a \<longleftrightarrow>
     answerAddressed a c \<and> max (c_at c) (an_receivedAt a) < rq_deadline cur \<and>
     answerBindingMatches sha a cur sn \<and> rq_state cur = Open \<and>
     an_inputId a \<notin> set (rq_seenReplyIds cur) \<and>
     (\<forall>rp\<in>set (rq_replies cur). rp_responderId rp \<noteq> pr_principalId (an_principal a))"

definition with_reply :: "request \<Rightarrow> answer \<Rightarrow> request" where
  "with_reply cur a = (withSeenReply cur (an_inputId a))\<lparr>rq_replies := rq_replies cur @ [replyOf a]\<rparr>"

lemma with_reply_simps [simp]:
  "rq_state (with_reply r a) = rq_state r" "rq_outcome (with_reply r a) = rq_outcome r"
  "rq_replies (with_reply r a) = rq_replies r @ [replyOf a]" "rq_threshold (with_reply r a) = rq_threshold r"
  "rq_requestId (with_reply r a) = rq_requestId r" "rq_sessionId (with_reply r a) = rq_sessionId r"
  "rq_deadline (with_reply r a) = rq_deadline r" "rq_mode (with_reply r a) = rq_mode r"
  "rq_expectedResponders (with_reply r a) = rq_expectedResponders r"
  "rq_seenReplyIds (with_reply r a) = new_set (rq_seenReplyIds r @ [an_inputId a])"
  by (simp_all add: with_reply_def)

definition rebound :: "(str \<Rightarrow> str) \<Rightarrow> request \<Rightarrow> str \<Rightarrow> request" where
  "rebound sha cur m =
     (let r = cur\<lparr>rq_correlation := (rq_correlation cur)\<lparr>co_replyToMessageId := Some m\<rparr>\<rparr>
      in r\<lparr>rq_bindingDigest := requestBindingDigest sha r\<rparr>)"

lemma answer_cases:
  assumes "answerRequest sha c sn cur a dg \<noteq> rejected"
  obtains (late) "rq_deadline cur \<le> max (c_at c) (an_receivedAt a)"
      "answerRequest sha c sn cur a dg = recordRequest sha c
         (if rq_state cur = Open
          then (withSeenReply cur (an_inputId a))\<lparr>rq_state := Expired, rq_outcome := Some OutcomeUnknown\<rparr>
          else withSeenReply cur (an_inputId a)) dg LateUnknown (rq_state cur = Open)"
  | (mismatch) "\<not> answerBindingMatches sha a cur sn"
      "answerRequest sha c sn cur a dg = recordRequest sha c cur dg RejectedRes False"
  | (duplicate)
      "answerRequest sha c sn cur a dg = recordRequest sha c (withSeenReply cur (an_inputId a)) dg Duplicate False"
  | (refuse) "answer_admitted sha c sn cur a" "an_decision a = Refuse"
      "answerRequest sha c sn cur a dg = recordRequest sha c
         ((with_reply cur a)\<lparr>rq_state := RefusedState, rq_outcome := Some Denied\<rparr>) dg RefusedRes True"
  | (resolve) "answer_admitted sha c sn cur a" "an_decision a \<noteq> Refuse"
      "rq_threshold cur \<le> int (length (rq_replies cur)) + 1"
      "answerRequest sha c sn cur a dg = recordRequest sha c
         ((with_reply cur a)\<lparr>rq_state := Resolved, rq_outcome := Some Answered\<rparr>) dg ResolvedRes True"
  | (attach) "answer_admitted sha c sn cur a" "an_decision a \<noteq> Refuse"
      "int (length (rq_replies cur)) + 1 < rq_threshold cur"
      "answerRequest sha c sn cur a dg = recordRequest sha c (with_reply cur a) dg Attached False"
proof -
  consider (1) "\<not> answerAddressed a c" | (2) "rq_deadline cur \<le> max (c_at c) (an_receivedAt a)" "answerAddressed a c"
    | (3) "max (c_at c) (an_receivedAt a) < rq_deadline cur" "\<not> answerBindingMatches sha a cur sn" "answerAddressed a c"
    | (4) "max (c_at c) (an_receivedAt a) < rq_deadline cur" "answerBindingMatches sha a cur sn" "answerAddressed a c"
        "\<not> answer_admitted sha c sn cur a"
    | (5) "answer_admitted sha c sn cur a"
    using not_le by blast
  then show ?thesis
  proof cases
    case 1
    with assms show ?thesis by (simp add: answerRequest_def)
  next
    case 2
    then show ?thesis by (intro late) (simp_all add: answerRequest_def lateAnswer_def Let_def)
  next
    case 3
    then show ?thesis by (intro mismatch) (simp_all add: answerRequest_def le_max_iff_disj)
  next
    case 4
    then have "rq_state cur \<noteq> Open \<or> an_inputId a \<in> set (rq_seenReplyIds cur) \<or>
        list_ex (\<lambda>rp. rp_responderId rp = pr_principalId (an_principal a)) (rq_replies cur)"
      by (auto simp: answer_admitted_def list_ex_iff)
    with 4 show ?thesis
      by (intro duplicate) (auto simp: answerRequest_def attachAnswer_def Let_def)
  next
    case 5
    then have s: "answerRequest sha c sn cur a dg = settleReply sha c (with_reply cur a) a dg"
      by (auto simp: answer_admitted_def answerRequest_def attachAnswer_def with_reply_def Let_def list_ex_iff)
    consider "an_decision a = Refuse"
      | "an_decision a \<noteq> Refuse" "rq_threshold cur \<le> int (length (rq_replies cur)) + 1"
      | "an_decision a \<noteq> Refuse" "int (length (rq_replies cur)) + 1 < rq_threshold cur"
      using not_le by blast
    then show ?thesis
    proof cases
      case 1
      with s 5 show ?thesis by (intro refuse) (simp_all add: settleReply_def)
    next
      case 2
      with s 5 show ?thesis by (intro resolve) (simp_all add: settleReply_def)
    next
      case 3
      with s 5 show ?thesis by (intro attach) (simp_all add: settleReply_def)
    qed
  qed
qed

lemma existing_cases:
  assumes "transitionExisting sha c sn cur p dg \<noteq> rejected"
  obtains (answer) a where "p = RequestAnswer a" "transitionExisting sha c sn cur p dg = answerRequest sha c sn cur a dg"
  | (delivery) rc where "p = RequestDelivery rc"
      "transitionExisting sha c sn cur p dg = recordRequest sha c
        (case dr_externalMessageId rc of None \<Rightarrow> cur | Some m \<Rightarrow> rebound sha cur m) dg DeliveryRecorded False"
  | (closed) "rq_state cur \<noteq> Open" "transitionExisting sha c sn cur p dg = recordRequest sha c cur dg Duplicate False"
  | (expire) i where "p = RequestTimeout i" "rq_state cur = Open" "rq_deadline cur \<le> c_at c"
      "transitionExisting sha c sn cur p dg =
        recordRequest sha c (cur\<lparr>rq_state := Expired, rq_outcome := Some OutcomeUnknown\<rparr>) dg ExpiredRes True"
  | (cancel) i w where "p = RequestCancel i w" "rq_state cur = Open" "mayCancel w (c_sessionId c)"
      "transitionExisting sha c sn cur p dg =
        recordRequest sha c (cur\<lparr>rq_state := Cancelled, rq_outcome := Some CancelledOutcome\<rparr>) dg CancelledRes True"
  | (cancel_denied) i w where "p = RequestCancel i w" "rq_state cur = Open" "\<not> mayCancel w (c_sessionId c)"
      "transitionExisting sha c sn cur p dg = recordRequest sha c cur dg RejectedRes False"
proof (cases p)
  case (RequestDelivery rc)
  with assms show ?thesis
    by (intro delivery [of rc])
      (auto simp: recordDelivery_def rebound_def Let_def split: if_splits option.splits)
next
  case (RequestTimeout i)
  with assms show ?thesis using closed expire
    by (auto simp: closeRequest_def expireRequest_def not_less split: if_splits)
next
  case (RequestCancel i w)
  with assms show ?thesis using closed cancel cancel_denied
    by (auto simp: closeRequest_def cancelRequest_def split: if_splits)
qed (use assms answer in auto)


lemma replayedInput_actions [simp]: "rd_actions (replayedInput n r dg) = []"
  by (simp add: replayedInput_def split: option.split)

lemma replayedInput_request: "rd_request (replayedInput n r dg) = Some r' \<Longrightarrow> r = Some r'"
  by (auto simp: replayedInput_def split: option.splits if_splits)

lemma answer_some: "answerRequest sha c sn cur a dg \<noteq> rejected \<Longrightarrow> \<exists>r. rd_request (answerRequest sha c sn cur a dg) = Some r"
  by (erule answer_cases) simp_all

lemma existing_some:
  assumes "transitionExisting sha c sn cur p dg \<noteq> rejected"
  shows "\<exists>r. rd_request (transitionExisting sha c sn cur p dg) = Some r"
  using assms
proof (cases rule: existing_cases)
  case (answer a)
  with assms show ?thesis by (metis answer_some)
qed simp_all

lemma transition_existing:
  "\<not> is_open (c_payload c) \<Longrightarrow> transition sha c sn dg recent =
    (case sn_request sn of
       None \<Rightarrow> rejected
     | Some cur \<Rightarrow> if targets cur (c_payload c) (ss_id (sn_row sn))
         then transitionExisting sha c sn cur (c_payload c) dg else rejected)"
  by (cases "c_payload c") (simp_all add: transition_def split: option.split)

lemma answer_actions: "answerRequest sha c sn cur a dg \<noteq> rejected \<Longrightarrow> rd_actions (answerRequest sha c sn cur a dg) \<noteq> []"
  by (erule answer_cases) simp_all

lemma existing_actions:
  assumes "transitionExisting sha c sn cur p dg \<noteq> rejected"
  shows "rd_actions (transitionExisting sha c sn cur p dg) \<noteq> []"
  using assms
proof (cases rule: existing_cases)
  case (answer a)
  with assms show ?thesis by (metis answer_actions)
qed simp_all

lemma decide_cases:
  assumes "rd_actions (decideRequestTransition sha c sn recent) \<noteq> []"
  obtains (opened) r where "c_payload c = RequestOpen r" "command_valid c" "ownsRequestRevision c (sn_row sn)"
      "admitsOpen sha r sn"
      "\<not> exceedsApprovalBudget (sessionOpenApprovalCount sn r (c_at c - ro_windowMs recent)) (ro_limit recent)"
      "decideRequestTransition sha c sn recent =
        (recordRequest sha c r (requestInputDigest sha (c_payload c)) Opened False)
          \<lparr>rd_requestCount := sessionOpenApprovalCount sn r (c_at c - ro_windowMs recent)\<rparr>"
  | (existing) cur where "sn_request sn = Some cur" "targets cur (c_payload c) (ss_id (sn_row sn))"
      "command_valid c" "ownsRequestRevision c (sn_row sn)"
      "decideRequestTransition sha c sn recent =
        transitionExisting sha c sn cur (c_payload c) (requestInputDigest sha (c_payload c))"
      "transitionExisting sha c sn cur (c_payload c) (requestInputDigest sha (c_payload c)) \<noteq> rejected"
proof -
  let ?dg = "requestInputDigest sha (c_payload c)"
  from assms have ok: "command_valid c" "ownsRequestRevision c (sn_row sn)"
    by (auto simp: decideRequestTransition_def split: if_splits)
  have "repeatedInput c sn ?dg = None"
    using assms ok by (auto simp: decideRequestTransition_def repeatedInput_def Let_def split: option.splits if_splits)
  with ok have d: "decideRequestTransition sha c sn recent = transition sha c sn ?dg recent"
    by (simp add: decideRequestTransition_def)
  show ?thesis
  proof (cases "is_open (c_payload c)")
    case True
    then obtain r where r: "c_payload c = RequestOpen r" by (cases "c_payload c") auto
    then have t: "transition sha c sn ?dg recent = openRequest sha c sn r ?dg recent"
      by (simp add: transition_def)
    with d assms have "\<not> (exceedsApprovalBudget (sessionOpenApprovalCount sn r (c_at c - ro_windowMs recent)) (ro_limit recent)
        \<or> \<not> admitsOpen sha r sn)"
      by (auto simp: openRequest_def Let_def split: if_splits)
    moreover from this have "openRequest sha c sn r ?dg recent = (recordRequest sha c r ?dg Opened False)
        \<lparr>rd_requestCount := sessionOpenApprovalCount sn r (c_at c - ro_windowMs recent)\<rparr>"
      by (simp add: openRequest_def Let_def)
    ultimately show ?thesis using d t ok by (intro opened [OF r]) simp_all
  next
    case False
    note t = transition_existing [OF this, of sha sn ?dg recent]
    from assms have "transition sha c sn ?dg recent \<noteq> rejected" by (auto simp: d)
    with t obtain cur where cur: "sn_request sn = Some cur" "targets cur (c_payload c) (ss_id (sn_row sn))"
      and e: "transition sha c sn ?dg recent = transitionExisting sha c sn cur (c_payload c) ?dg"
      by (cases "sn_request sn") (simp_all split: if_splits)
    show ?thesis
      by (rule existing [OF cur ok]) (use d e \<open>transition sha c sn ?dg recent \<noteq> rejected\<close> in simp_all)
  qed
qed

lemma decide_silent:
  assumes "rd_actions (decideRequestTransition sha c sn recent) = []"
    and "rd_request (decideRequestTransition sha c sn recent) = Some r"
  shows "sn_request sn = Some r"
proof (cases "command_valid c \<and> ownsRequestRevision c (sn_row sn)")
  case True
  let ?dg = "requestInputDigest sha (c_payload c)"
  show ?thesis
  proof (cases "repeatedInput c sn ?dg")
    case None
    with True have d: "decideRequestTransition sha c sn recent = transition sha c sn ?dg recent"
      by (simp add: decideRequestTransition_def)
    have "transition sha c sn ?dg recent = rejected"
    proof (cases "is_open (c_payload c)")
      case True
      then obtain r where "c_payload c = RequestOpen r" by (cases "c_payload c") auto
      with d assms(1) show ?thesis
        by (auto simp: transition_def openRequest_def Let_def split: if_splits)
    next
      case False
      note t = transition_existing [OF this, of sha sn ?dg recent]
      show ?thesis
      proof (cases "sn_request sn")
        case (Some cur)
        with t d assms(1) existing_actions [of sha c sn cur "c_payload c" ?dg] show ?thesis
          by (cases "targets cur (c_payload c) (ss_id (sn_row sn))") auto
      qed (use t in simp)
    qed
    with d assms(2) show ?thesis by simp
  next
    case (Some d)
    with True assms(2) show ?thesis
      by (auto simp: decideRequestTransition_def repeatedInput_def Let_def split: option.splits if_splits
          dest: replayedInput_request)
  qed
next
  case False
  with assms(2) show ?thesis by (auto simp: decideRequestTransition_def)
qed

lemma decide_fresh_existing:
  assumes "command_valid c" "ownsRequestRevision c (sn_row sn)" "sn_inputRecord sn = None" "\<not> is_open (c_payload c)"
    "sn_request sn = Some cur" "targets cur (c_payload c) (ss_id (sn_row sn))"
  shows "decideRequestTransition sha c sn recent =
    transitionExisting sha c sn cur (c_payload c) (requestInputDigest sha (c_payload c))"
  using assms by (simp add: decideRequestTransition_def repeatedInput_def transition_existing)

section \<open>The invariant\<close>

definition request_inv :: "request \<Rightarrow> bool" where
  "request_inv r \<longleftrightarrow>
     request_valid r \<and>
     distinct (rq_seenReplyIds r) \<and>
     distinct (map rp_responderId (rq_replies r)) \<and>
     (\<forall>rp\<in>set (rq_replies r). rp_replyId rp \<in> set (rq_seenReplyIds r) \<and>
        rp_responderId rp \<in> set (rq_expectedResponders r) \<and> rp_receivedAt rp < rq_deadline r) \<and>
     (rq_state r = Open \<longrightarrow> int (length (rq_replies r)) < rq_threshold r) \<and>
     (rq_state r = Resolved \<longrightarrow> int (length (rq_replies r)) = rq_threshold r)"

lemma digest_nonempty [simp]: "canonicalDigest sha v \<noteq> []"
  by (simp add: canonicalDigest_def)

lemma threshold_consistent_update [simp]:
  "threshold_consistent (r\<lparr>rq_seenReplyIds := x1\<rparr>) = threshold_consistent r"
  "threshold_consistent (r\<lparr>rq_replies := x2\<rparr>) = threshold_consistent r"
  "threshold_consistent (r\<lparr>rq_state := x3\<rparr>) = threshold_consistent r"
  "threshold_consistent (r\<lparr>rq_outcome := x4\<rparr>) = threshold_consistent r"
  "threshold_consistent (r\<lparr>rq_correlation := x5\<rparr>) = threshold_consistent r"
  "threshold_consistent (r\<lparr>rq_bindingDigest := x6\<rparr>) = threshold_consistent r"
  by (simp_all add: threshold_consistent_def required_threshold_def split: request_resolution_rule.splits)

lemma list_all_new_set [simp]: "list_all P (new_set xs) = list_all P xs"
  by (simp add: list_all_iff)

lemma request_inv_restate:
  assumes "request_inv r" "st \<noteq> Open" "st \<noteq> Resolved"
  shows "request_inv (r\<lparr>rq_state := st, rq_outcome := state_outcome st\<rparr>)"
  using assms by (auto simp: request_inv_def request_valid_def)

lemma request_inv_seen:
  assumes "request_inv r" "id_ok i"
  shows "request_inv (withSeenReply r i)"
proof -
  have "request_valid (withSeenReply r i)"
    using assms by (simp add: request_inv_def request_valid_def withSeenReply_def)
  with assms show ?thesis by (auto simp: request_inv_def)
qed

lemma request_inv_reply:
  assumes inv: "request_inv cur" and adm: "answer_admitted sha c sn cur a" and av: "answer_valid a"
    and st: "st = Open \<Longrightarrow> int (length (rq_replies cur)) + 1 < rq_threshold cur"
      "st = Resolved \<Longrightarrow> rq_threshold cur \<le> int (length (rq_replies cur)) + 1"
  shows "request_inv ((with_reply cur a)\<lparr>rq_state := st, rq_outcome := state_outcome st\<rparr>)"
proof -
  have "request_valid ((with_reply cur a)\<lparr>rq_state := st, rq_outcome := state_outcome st\<rparr>)"
    using inv av
    by (simp add: request_inv_def request_valid_def with_reply_def withSeenReply_def answer_valid_def
        principal_valid_def reply_valid_def replyOf_def)
  moreover have "int (length (rq_replies cur)) < rq_threshold cur"
    using inv adm by (auto simp: request_inv_def answer_admitted_def)
  moreover have "pr_principalId (an_principal a) \<in> set (rq_expectedResponders cur)"
    using adm by (simp add: answer_admitted_def answerBindingMatches_def)
  moreover have "rp_responderId ` set (rq_replies cur) \<inter> {pr_principalId (an_principal a)} = {}"
    using adm by (auto simp: answer_admitted_def)
  ultimately show ?thesis
    using inv adm st by (auto simp: request_inv_def answer_admitted_def replyOf_def)
qed

lemma request_inv_rebound: "request_inv cur \<Longrightarrow> id_ok m \<Longrightarrow> request_inv (rebound sha cur m)"
  by (simp add: request_inv_def request_valid_def rebound_def Let_def correlation_valid_def opt_ok_def
      id_ok_def requestBindingDigest_def)

lemma answer_keeps_inv:
  assumes inv: "request_inv cur" and av: "answer_valid a"
    and r: "rd_request (answerRequest sha c sn cur a dg) = Some r"
  shows "request_inv r"
proof -
  have iid: "id_ok (an_inputId a)" using av by (simp add: answer_valid_def)
  have "answerRequest sha c sn cur a dg \<noteq> rejected" using r by auto
  then show ?thesis
  proof (cases rule: answer_cases)
    case late
    with r have "r = (if rq_state cur = Open
        then (withSeenReply cur (an_inputId a))\<lparr>rq_state := Expired, rq_outcome := state_outcome Expired\<rparr>
        else withSeenReply cur (an_inputId a))" by (auto split: if_splits)
    with request_inv_seen [OF inv iid] show ?thesis
      by (simp add: request_inv_restate del: state_outcome.simps split: if_splits)
  next
    case refuse
    with r request_inv_reply [OF inv refuse(1) av, of RefusedState] show ?thesis by simp
  next
    case resolve
    with r request_inv_reply [OF inv resolve(1) av, of Resolved] show ?thesis by simp
  next
    case attach
    have "rq_state cur = Open" using attach(1) by (simp add: answer_admitted_def)
    moreover from inv have "rq_outcome cur = state_outcome (rq_state cur)"
      by (simp add: request_inv_def request_valid_def)
    ultimately have "(with_reply cur a)\<lparr>rq_state := Open, rq_outcome := None\<rparr> = with_reply cur a"
      by (simp add: with_reply_def withSeenReply_def)
    with r attach request_inv_reply [OF inv attach(1) av, of Open] show ?thesis by simp
  qed (use r inv iid request_inv_seen in auto)
qed

lemma existing_keeps_inv:
  assumes inv: "request_inv cur" and pv: "payload_valid p"
    and r: "rd_request (transitionExisting sha c sn cur p dg) = Some r"
  shows "request_inv r"
proof -
  have "transitionExisting sha c sn cur p dg \<noteq> rejected" using r by auto
  then show ?thesis
  proof (cases rule: existing_cases)
    case (answer a)
    with r pv show ?thesis by (auto intro: answer_keeps_inv [OF inv, of a])
  next
    case (delivery rc)
    with r inv pv show ?thesis
      by (auto simp: receipt_valid_def opt_ok_def request_inv_rebound split: option.splits)
  next
    case (expire i)
    with r request_inv_restate [OF inv, of Expired] show ?thesis by simp
  next
    case (cancel i w)
    with r request_inv_restate [OF inv, of Cancelled] show ?thesis by simp
  qed (use r inv in auto)
qed

lemma decide_keeps_inv:
  assumes r: "rd_request (decideRequestTransition sha c sn recent) = Some r"
    and cur: "\<And>cur. sn_request sn = Some cur \<Longrightarrow> request_inv cur"
  shows "request_inv r"
proof (cases "rd_actions (decideRequestTransition sha c sn recent) = []")
  case True
  with r cur show ?thesis using decide_silent by blast
next
  case False
  then show ?thesis
  proof (cases rule: decide_cases)
    case (opened q)
    with r have "r = q" by simp
    moreover have "request_valid q" using opened by (simp add: command_valid_def)
    ultimately show ?thesis
      using opened(4) by (auto simp: admitsOpen_def freshRequestShape_def request_inv_def request_valid_def)
  next
    case (existing cur')
    then show ?thesis
      using r cur existing_keeps_inv [of cur' "c_payload c"] by (simp add: command_valid_def)
  qed
qed

section \<open>Terminal states\<close>

lemma answer_terminal:
  assumes "rq_state cur \<noteq> Open" "rd_request (answerRequest sha c sn cur a dg) = Some r"
  shows "rq_state r = rq_state cur \<and> rq_outcome r = rq_outcome cur \<and> rq_replies r = rq_replies cur \<and>
    rq_requestId r = rq_requestId cur \<and> rd_actions (answerRequest sha c sn cur a dg) =
      [inputRecord c r dg (rd_resolution (answerRequest sha c sn cur a dg))] @ deadlineArms sha c r False \<and>
    rd_resolution (answerRequest sha c sn cur a dg) \<in> {LateUnknown, RejectedRes, Duplicate}"
proof -
  have "answerRequest sha c sn cur a dg \<noteq> rejected" using assms(2) by auto
  then show ?thesis
    using assms by (cases rule: answer_cases) (auto simp: answer_admitted_def)
qed

lemma existing_terminal:
  assumes st: "rq_state cur \<noteq> Open" and r: "rd_request (transitionExisting sha c sn cur p dg) = Some r"
  shows "rq_state r = rq_state cur \<and> rq_outcome r = rq_outcome cur \<and> rq_replies r = rq_replies cur \<and>
    rq_requestId r = rq_requestId cur \<and>
    rd_actions (transitionExisting sha c sn cur p dg) =
      [inputRecord c r dg (rd_resolution (transitionExisting sha c sn cur p dg))] @ deadlineArms sha c r False"
proof -
  have "transitionExisting sha c sn cur p dg \<noteq> rejected" using r by auto
  then show ?thesis
  proof (cases rule: existing_cases)
    case (answer a)
    with r answer_terminal [OF st, of sha c sn a dg r] show ?thesis by simp
  next
    case (delivery rc)
    with r show ?thesis by (auto simp: rebound_def Let_def split: option.splits)
  qed (use st r in auto)
qed

section \<open>What identifies a transition\<close>

lemma existing_request_id:
  assumes "rd_request (transitionExisting sha c sn cur p dg) = Some r"
  shows "rq_requestId r = rq_requestId cur"
proof -
  have "transitionExisting sha c sn cur p dg \<noteq> rejected" using assms by auto
  then show ?thesis
  proof (cases rule: existing_cases)
    case (answer a)
    have "answerRequest sha c sn cur a dg \<noteq> rejected" using assms answer by auto
    then show ?thesis using assms answer by (cases rule: answer_cases) (auto split: if_splits)
  qed (use assms in \<open>auto simp: rebound_def Let_def split: option.splits\<close>)
qed

lemma existing_input_record:
  assumes "transitionExisting sha c sn cur p dg \<noteq> rejected"
  shows "\<exists>r. rd_request (transitionExisting sha c sn cur p dg) = Some r \<and>
    hd (rd_actions (transitionExisting sha c sn cur p dg)) =
      inputRecord c r dg (rd_resolution (transitionExisting sha c sn cur p dg))"
  using assms
proof (cases rule: existing_cases)
  case (answer a)
  then have "answerRequest sha c sn cur a dg \<noteq> rejected" using assms by metis
  then show ?thesis using answer by (cases rule: answer_cases) simp_all
qed simp_all

lemma decide_input_record:
  assumes "rd_actions (decideRequestTransition sha c sn recent) \<noteq> []"
  shows "\<exists>r. rd_request (decideRequestTransition sha c sn recent) = Some r \<and>
    rq_requestId r = targetRequestId (c_payload c) \<and>
    hd (rd_actions (decideRequestTransition sha c sn recent)) =
      inputRecord c r (requestInputDigest sha (c_payload c)) (rd_resolution (decideRequestTransition sha c sn recent))"
  using assms
proof (cases rule: decide_cases)
  case (opened r)
  then show ?thesis by (simp del: requestInputDigest.simps)
next
  case (existing cur)
  from existing_input_record [OF existing(6)] obtain r where
    "rd_request (decideRequestTransition sha c sn recent) = Some r"
    "hd (rd_actions (decideRequestTransition sha c sn recent)) =
      inputRecord c r (requestInputDigest sha (c_payload c)) (rd_resolution (decideRequestTransition sha c sn recent))"
    unfolding existing(5) by blast
  with existing_request_id [of sha c sn cur "c_payload c" _ r] existing show ?thesis
    by (auto simp: targets_def)
qed

section \<open>The log of a request's history\<close>

text \<open>
  A history of one request: every step decides a command against a snapshot that holds
  the current request and appends the rows of a decision that writes some.
\<close>

record request_history =
  rh_request :: "request option"
  rh_log :: "append_row list"

inductive history_step ::
  "(str \<Rightarrow> str) \<Rightarrow> recent_open \<Rightarrow> request_history \<Rightarrow> request_history \<Rightarrow> bool" for sha recent where
  decide: "sn_request sn = rh_request h \<Longrightarrow> d = decideRequestTransition sha c sn recent \<Longrightarrow> rd_actions d \<noteq> [] \<Longrightarrow>
    history_step sha recent h \<lparr>rh_request = rd_request d, rh_log = rh_log h @ rd_actions d\<rparr>"

inductive history :: "(str \<Rightarrow> str) \<Rightarrow> recent_open \<Rightarrow> request_history \<Rightarrow> bool" for sha recent where
  start: "history sha recent \<lparr>rh_request = None, rh_log = []\<rparr>"
| step: "history sha recent h \<Longrightarrow> history_step sha recent h h' \<Longrightarrow> history sha recent h'"

definition resolution_rows :: "request \<Rightarrow> append_row list \<Rightarrow> append_row list" where
  "resolution_rows r log = filter (\<lambda>a. ap_kind a = KRequest \<and> ap_id a = resolution_record_id (rq_requestId r)) log"

definition deadline_rows :: "request \<Rightarrow> append_row list \<Rightarrow> append_row list" where
  "deadline_rows r log = filter (\<lambda>a. ap_kind a = KAlarm) log"

definition arm_row :: "append_row \<Rightarrow> bool" where
  "arm_row a \<longleftrightarrow> plain_get (ap_intent a) ''at'' \<noteq> Some PNull"

text \<open>
  The log agrees with the request: one resolution record exactly when it is terminal,
  and the last row of its deadline alarm arms it exactly while it is open.
\<close>

definition log_agrees :: "request \<Rightarrow> append_row list \<Rightarrow> bool" where
  "log_agrees r log \<longleftrightarrow>
     length (resolution_rows r log) = (if rq_state r = Open then 0 else 1) \<and>
     deadline_rows r log \<noteq> [] \<and>
     (arm_row (last (deadline_rows r log)) \<longleftrightarrow> rq_state r = Open)"

lemma input_not_resolution [simp]: "input_record_id rid iid \<noteq> resolution_record_id rid"
  by (simp add: input_record_id_def resolution_record_id_def)

lemma resolution_rows_simps [simp]:
  "resolution_rows r [] = []"
  "resolution_rows r (log @ log') = resolution_rows r log @ resolution_rows r log'"
  "resolution_rows r (inputRecord c q dg res # log) =
    (if input_record_id (rq_requestId q) (c_inputId c) = resolution_record_id (rq_requestId r)
     then inputRecord c q dg res # resolution_rows r log else resolution_rows r log)"
  "resolution_rows r (resolutionRecord c q res # log) =
    (if rq_requestId q = rq_requestId r then resolutionRecord c q res # resolution_rows r log else resolution_rows r log)"
  "resolution_rows r (deadlineArms sha c q t) = []"
  by (auto simp: resolution_rows_def resolution_record_id_def filter_empty_conv dest: deadlineArms_kind)

lemma deadline_rows_simps [simp]:
  "deadline_rows r [] = []"
  "deadline_rows r (log @ log') = deadline_rows r log @ deadline_rows r log'"
  "deadline_rows r (inputRecord c q dg res # log) = deadline_rows r log"
  "deadline_rows r (resolutionRecord c q res # log) = deadline_rows r log"
  "deadline_rows r (deadlineArms sha c q t) = deadlineArms sha c q t"
  by (auto simp: deadline_rows_def filter_id_conv dest: deadlineArms_kind)

lemma arm_row_armAction: "arm_row (fst (armAction sha i)) \<longleftrightarrow> arm_at i \<noteq> None"
  by (auto simp: arm_row_def armAction_def appendAlarm_def Let_def nullable_def split: option.split)

lemma log_agrees_opened:
  "rq_state r = Open \<Longrightarrow> is_open (c_payload c) \<Longrightarrow>
    log_agrees r (rd_actions (recordRequest sha c r dg Opened False))"
  by (simp add: log_agrees_def deadlineArms_def arm_row_armAction deadline_arm_def deadline_rows_def resolution_rows_def)

lemma log_agrees_kept:
  assumes "log_agrees cur log" "rq_requestId r = rq_requestId cur" "rq_state r = rq_state cur" "\<not> is_open (c_payload c)"
  shows "log_agrees r (log @ rd_actions (recordRequest sha c r dg res False))"
  using assms by (simp add: log_agrees_def deadlineArms_def resolution_rows_def deadline_rows_def)

lemma log_agrees_closed:
  assumes "log_agrees cur log" "rq_requestId r = rq_requestId cur" "rq_state cur = Open" "rq_state r \<noteq> Open"
    "\<not> is_open (c_payload c)"
  shows "log_agrees r (log @ rd_actions (recordRequest sha c r dg res True))"
  using assms
  by (simp add: log_agrees_def deadlineArms_def resolution_rows_def deadline_rows_def arm_row_armAction deadline_arm_def)

lemma answer_log:
  assumes "log_agrees cur log" "\<not> is_open (c_payload c)" "rd_request (answerRequest sha c sn cur a dg) = Some r"
  shows "log_agrees r (log @ rd_actions (answerRequest sha c sn cur a dg))"
proof -
  have "answerRequest sha c sn cur a dg \<noteq> rejected" using assms(3) by auto
  then show ?thesis
  proof (cases rule: answer_cases)
    case late
    with assms show ?thesis
      by (cases "rq_state cur = Open") (auto simp del: recordRequest_simps(4)
          intro!: log_agrees_closed [of cur] log_agrees_kept [of cur])
  qed (use assms in \<open>auto simp: answer_admitted_def simp del: recordRequest_simps(4)
      intro!: log_agrees_closed [of cur] log_agrees_kept [of cur]\<close>)
qed

lemma existing_log:
  assumes "log_agrees cur log" "\<not> is_open (c_payload c)" "rd_request (transitionExisting sha c sn cur p dg) = Some r"
  shows "log_agrees r (log @ rd_actions (transitionExisting sha c sn cur p dg))"
proof -
  have "transitionExisting sha c sn cur p dg \<noteq> rejected" using assms(3) by auto
  then show ?thesis
  proof (cases rule: existing_cases)
    case (answer a)
    with assms answer_log [of cur log c sha sn a dg r] show ?thesis by simp
  qed (use assms in \<open>auto simp: rebound_def Let_def simp del: recordRequest_simps(4)
      intro!: log_agrees_closed [of cur] log_agrees_kept [of cur] split: option.splits\<close>)
qed

lemma history_agrees:
  "history sha recent h \<Longrightarrow>
    (case rh_request h of None \<Rightarrow> rh_log h = [] | Some r \<Rightarrow> request_inv r \<and> log_agrees r (rh_log h))"
proof (induction rule: history.induct)
  case (step h h')
  from step.hyps(2) obtain sn c where sn: "sn_request sn = rh_request h"
    and acts: "rd_actions (decideRequestTransition sha c sn recent) \<noteq> []"
    and h': "rh_request h' = rd_request (decideRequestTransition sha c sn recent)"
      "rh_log h' = rh_log h @ rd_actions (decideRequestTransition sha c sn recent)"
    by (auto elim!: history_step.cases)
  have cur: "request_inv cur" if "sn_request sn = Some cur" for cur
    using step.IH sn that by (cases "rh_request h") simp_all
  from acts show ?case
  proof (cases rule: decide_cases)
    case (opened r)
    then have none: "rh_request h = None" using sn by (simp add: admitsOpen_def)
    have "log_agrees r (rd_actions (recordRequest sha c r (requestInputDigest sha (c_payload c)) Opened False))"
      using opened by (intro log_agrees_opened) (simp_all add: admitsOpen_def freshRequestShape_def)
    moreover have "request_inv r"
      using decide_keeps_inv [of sha c sn recent r] opened cur by simp
    ultimately show ?thesis using none step.IH h' opened by (simp del: requestInputDigest.simps)
  next
    case (existing q)
    obtain r where r: "rd_request (decideRequestTransition sha c sn recent) = Some r"
      using existing(5) existing_some [OF existing(6)] by metis
    have "\<not> is_open (c_payload c)" using existing(6) by (cases "c_payload c") auto
    then have "log_agrees r (rh_log h @ rd_actions (decideRequestTransition sha c sn recent))"
      using existing r sn step.IH existing_log [of q "rh_log h" c sha sn "c_payload c"
          "requestInputDigest sha (c_payload c)" r] by simp
    moreover have "request_inv r" using decide_keeps_inv [OF r cur] by blast
    ultimately show ?thesis using h' r by simp
  qed
qed simp

end
