(* ===== verification/Request_Properties.thy ===== *)
theory Request_Properties
  imports Request_Machine
begin

text \<open>
  The properties of the request state machine, stated over
  \<open>decideRequestTransition\<close> and over whole histories of a request, with
  concrete instances.
\<close>

section \<open>A concrete request\<close>

text \<open>The data of the concrete instances below, over a hash that is a constant.\<close>

definition demo_sha :: "str \<Rightarrow> str" where
  "demo_sha s = ''h''"

lemma demo_digest [simp]: "canonicalDigest demo_sha v = ''sha256:h''"
  by (simp add: canonicalDigest_def demo_sha_def)

definition demo_row :: session_row where
  "demo_row = \<lparr>ss_id = ''s1'', ss_parentId = None, ss_role = Resident, ss_fenceOwner = Some ''o'', ss_fence = 3,
     ss_revision = 7, ss_state = Running, ss_toolsGeneration = 1, ss_systemHash = ''sys'', ss_policyGeneration = 2\<rparr>"

definition demo_captured :: captured_approval where
  "demo_captured = \<lparr>ca_id = ''r1'', ca_sessionId = ''s1'', ca_turnId = Some ''t1'', ca_callId = ''c1'',
     ca_intent = PNull, ca_inputHash = ''sha256:h'', ca_generation = 2,
     ca_toolsGeneration = Some 1, ca_toolsHash = Some ''tools''\<rparr>"

definition demo_request :: request where
  "demo_request = \<lparr>rq_requestId = ''r1'', rq_sessionId = ''s1'', rq_turnId = Some ''t1'', rq_callId = ''c1'',
     rq_mode = ApprovalMode, rq_parsedInput = PNull, rq_inputHash = ''sha256:h'', rq_effectHash = ''sha256:h'',
     rq_generation = 2, rq_toolsGeneration = 1, rq_toolsHash = ''tools'', rq_systemHash = ''sys'',
     rq_domainRevisions = [], rq_deadline = 150, rq_expectedResponders = [''owner''],
     rq_correlation = no_correlation, rq_allowedActions = [ReportResult], rq_bindingDigest = ''sha256:h'',
     rq_resolution = First, rq_threshold = 1, rq_seenReplyIds = [], rq_replies = [], rq_state = Open,
     rq_outcome = None, rq_createdAt = 100\<rparr>"

definition demo_invocation :: node where
  "demo_invocation = \<lparr>ap_id = ''r1'', ap_parentId = None, ap_sessionId = ''s1'', ap_kind = KTool,
     ap_intent = PObj [(''phase'', PStr ''intent''), (''op'', PStr ''write''), (''value'', PNull),
       (''effectHash'', PStr ''sha256:h'')],
     ap_effect = PNull, ap_ts = 99, ap_revert = None, nd_ordinal = 6\<rparr>"

definition demo_snapshot :: "request option \<Rightarrow> request_snapshot" where
  "demo_snapshot r = \<lparr>sn_row = demo_row, sn_inputRecord = None, sn_invocation = Some demo_invocation,
     sn_request = r, sn_domainRevisions = None, sn_requests = None\<rparr>"

definition demo_command :: "payload \<Rightarrow> epoch_ms \<Rightarrow> command" where
  "demo_command p t = \<lparr>c_version = 1, c_inputId = ''i1'', c_sessionId = ''s1'', c_at = t, c_expectedRevision = 7,
     c_authority = \<lparr>au_owner = ''o'', au_fence = 3\<rparr>, c_payload = p\<rparr>"

definition demo_answer :: "decision \<Rightarrow> answer" where
  "demo_answer d = \<lparr>an_inputId = ''i1'', an_requestId = ''r1'', an_sessionId = ''s1'', an_receivedAt = 110,
     an_principal = \<lparr>pr_kind = OwnerPrincipal, pr_principalId = ''owner'', pr_evidenceId = ''e''\<rparr>,
     an_bindingDigest = rq_bindingDigest demo_request, an_inputHash = rq_inputHash demo_request,
     an_effectHash = rq_effectHash demo_request, an_generation = 2, an_toolsHash = ''tools'',
     an_domainRevisions = [], an_decision = d, an_allowedAction = ReportResult, an_content = ''ok'',
     an_outbound = None\<rparr>"

definition demo_recent :: recent_open where
  "demo_recent = \<lparr>ro_limit = 3, ro_windowMs = 1000\<rparr>"

definition demo_opening :: request_decision where
  "demo_opening = decideRequestTransition demo_sha (demo_command (RequestOpen demo_request) 101) (demo_snapshot None) demo_recent"

definition demo_approval :: request_decision where
  "demo_approval = decideRequestTransition demo_sha (demo_command (RequestAnswer (demo_answer Approve)) 120)
     (demo_snapshot (Some demo_request)) demo_recent"

definition demo_timeout :: request_decision where
  "demo_timeout = decideRequestTransition demo_sha (demo_command (RequestTimeout ''r1'') 200)
     (demo_snapshot (Some demo_request)) demo_recent"

definition demo_history :: request_history where
  "demo_history = \<lparr>rh_request = rd_request demo_opening, rh_log = [] @ rd_actions demo_opening\<rparr>"

lemmas demo_defs = demo_row_def demo_captured_def demo_request_def demo_invocation_def demo_snapshot_def
  demo_command_def demo_answer_def demo_recent_def

lemmas validity_defs = command_valid_def request_valid_def answer_valid_def principal_valid_def
  correlation_valid_def no_correlation_def threshold_consistent_def required_threshold_def id_ok_def opt_ok_def
  revisions_ok_def new_set_def set_add_def

lemmas decision_defs = decideRequestTransition_def ownsRequestRevision_def repeatedInput_def transition_def
  openRequest_def admitsOpen_def originalInvocationMatches_def recordedInvocation_def original_args_def
  domainRevisionsAgree_def freshRequestShape_def generationMatches_def requestBindingDigest_def
  sessionOpenApprovalCount_def exceedsApprovalBudget_def or_else_def targets_def answerRequest_def
  answerAddressed_def answerBindingMatches_def principalValid_def domainRevisionsMatch_def attachAnswer_def
  withSeenReply_def settleReply_def replyOf_def lateAnswer_def closeRequest_def expireRequest_def Let_def

lemma demo_opening_facts: "rd_request demo_opening = Some demo_request" "rd_actions demo_opening \<noteq> []"
  unfolding demo_opening_def by (simp_all add: demo_defs validity_defs decision_defs)

lemma demo_approval_facts:
  "rd_request demo_approval \<noteq> None" "rq_state (the (rd_request demo_approval)) = Resolved"
  unfolding demo_approval_def by (simp_all add: demo_defs validity_defs decision_defs)

lemma demo_history: "history demo_sha demo_recent demo_history"
proof (rule history.step [OF history.start])
  show "history_step demo_sha demo_recent \<lparr>rh_request = None, rh_log = []\<rparr> demo_history"
    unfolding demo_history_def
    using history_step.decide [of "demo_snapshot None" "\<lparr>rh_request = None, rh_log = []\<rparr>" demo_opening demo_sha
        "demo_command (RequestOpen demo_request) 101" demo_recent] demo_opening_facts(2)
    by (simp add: demo_opening_def demo_snapshot_def)
qed

section \<open>Properties\<close>

text \<open>
  C1. In every history of a request, however its commands interleave, the request
  satisfies its schema; seen reply ids and responders are pairwise distinct; every reply comes
  from an expected responder and was received before the deadline; an open request has
  fewer replies than its threshold and a resolved one exactly as many; and the log holds
  exactly one resolution record when the request is terminal and none while it is open, its last
  deadline row arming the alarm exactly while the request is open.
\<close>

theorem request_history_sound:
  assumes "history sha recent h" and "rh_request h = Some r"
  shows "request_inv r \<and> log_agrees r (rh_log h)"
  using history_agrees [OF assms(1)] assms(2) by simp

theorem request_history_sound_witness:
  "history demo_sha demo_recent demo_history \<and> rh_request demo_history = Some demo_request \<and>
   request_inv demo_request \<and> log_agrees demo_request (rh_log demo_history)"
proof -
  have r: "rh_request demo_history = Some demo_request"
    by (simp add: demo_history_def demo_opening_facts)
  show ?thesis using demo_history r request_history_sound [OF demo_history r] by simp
qed

text \<open>
  C2. An approval is granted only by the owner: if a decision takes an open approval
  request to the resolved state, the command is an approving answer by an owner principal
  among the expected responders, received and decided before the deadline, agreeing with the binding
  digest, input, effect, tools and generation of the request and of the session row,
  under the session's current fence and revision.
\<close>

theorem approval_needs_owner:
  assumes cur: "sn_request sn = Some cur" "rq_mode cur = ApprovalMode" "rq_state cur = Open"
    and r: "rd_request (decideRequestTransition sha c sn recent) = Some r" "rq_state r = Resolved"
  shows "\<exists>a. c_payload c = RequestAnswer a \<and> pr_kind (an_principal a) = OwnerPrincipal \<and> an_decision a = Approve \<and>
      pr_principalId (an_principal a) \<in> set (rq_expectedResponders cur) \<and>
      c_at c < rq_deadline cur \<and> an_receivedAt a < rq_deadline cur \<and>
      an_bindingDigest a = rq_bindingDigest cur \<and> an_inputHash a = rq_inputHash cur \<and>
      an_effectHash a = rq_effectHash cur \<and> an_toolsHash a = rq_toolsHash cur \<and>
      generationMatches cur (sn_row sn) \<and> ownsRequestRevision c (sn_row sn)"
proof -
  have "rd_actions (decideRequestTransition sha c sn recent) \<noteq> []"
    using decide_silent [OF _ r(1)] cur r(2) by auto
  then show ?thesis
  proof (cases rule: decide_cases)
    case (opened q)
    then show ?thesis using cur by (simp add: admitsOpen_def)
  next
    case (existing q)
    with cur have q: "q = cur" by simp
    note d = existing(5) [unfolded q]
    from existing(6) [unfolded q] show ?thesis
    proof (cases rule: existing_cases)
      case (answer a)
      have "answerRequest sha c sn cur a (requestInputDigest sha (c_payload c)) \<noteq> rejected"
        using existing(6) answer q by (simp del: requestInputDigest.simps)
      then show ?thesis
      proof (cases rule: answer_cases)
        case resolve
        then have "an_decision a = Approve" "pr_kind (an_principal a) = OwnerPrincipal"
          using cur(2) by (cases "an_decision a"; auto simp: answer_admitted_def answerBindingMatches_def principalValid_def)+
        with resolve(1) answer(1) existing(4) show ?thesis
          by (auto simp: answer_admitted_def answerBindingMatches_def)
      qed (use d answer r cur in \<open>auto split: if_splits\<close>)
    next
      case (delivery rc)
      with d r cur show ?thesis by (auto simp: rebound_def Let_def split: option.splits)
    qed (use d r cur in auto)
  qed
qed

theorem approval_needs_owner_witness:
  "\<exists>r a. rd_request demo_approval = Some r \<and> rq_state r = Resolved \<and>
    c_payload (demo_command (RequestAnswer (demo_answer Approve)) 120) = RequestAnswer a \<and>
    an_decision a = Approve \<and> pr_kind (an_principal a) = OwnerPrincipal"
proof -
  obtain r where r: "rd_request demo_approval = Some r" "rq_state r = Resolved"
    using demo_approval_facts by auto
  have "sn_request (demo_snapshot (Some demo_request)) = Some demo_request" by (simp add: demo_snapshot_def)
  moreover have "rq_mode demo_request = ApprovalMode" "rq_state demo_request = Open" by (simp_all add: demo_request_def)
  ultimately show ?thesis
    using approval_needs_owner [OF _ _ _ r(1) [unfolded demo_approval_def] r(2)] r by fastforce
qed

text \<open>
  C3. A terminal request is final: whatever command is decided against it, its state,
  outcome and replies stay what they are and no second resolution record is written.
\<close>

theorem terminal_request_is_final:
  assumes cur: "sn_request sn = Some cur" "rq_state cur \<noteq> Open"
    and r: "rd_request (decideRequestTransition sha c sn recent) = Some r"
  shows "rq_state r = rq_state cur \<and> rq_outcome r = rq_outcome cur \<and> rq_replies r = rq_replies cur \<and>
    resolution_rows cur (rd_actions (decideRequestTransition sha c sn recent)) = []"
proof (cases "rd_actions (decideRequestTransition sha c sn recent) = []")
  case True
  with decide_silent [OF True r] cur show ?thesis by simp
next
  case False
  then show ?thesis
  proof (cases rule: decide_cases)
    case (opened q)
    then show ?thesis using cur by (simp add: admitsOpen_def)
  next
    case (existing q)
    with cur have q: "q = cur" by simp
    from existing_terminal [OF cur(2), of sha c sn "c_payload c" "requestInputDigest sha (c_payload c)" r]
      existing(5) q r show ?thesis by (simp del: requestInputDigest.simps)
  qed
qed

theorem terminal_request_is_final_witness:
  "\<exists>cur r. rq_state cur = Expired \<and>
    rd_request (decideRequestTransition demo_sha (demo_command (RequestAnswer (demo_answer Approve)) 120)
      (demo_snapshot (Some cur)) demo_recent) = Some r \<and> rq_state r = Expired \<and> rq_replies r = rq_replies cur"
proof -
  define cur where "cur = demo_request\<lparr>rq_state := Expired, rq_outcome := Some OutcomeUnknown\<rparr>"
  have "rd_request (decideRequestTransition demo_sha (demo_command (RequestAnswer (demo_answer Approve)) 120)
      (demo_snapshot (Some cur)) demo_recent) \<noteq> None" unfolding cur_def by (simp add: demo_defs validity_defs decision_defs)
  then obtain r where r: "rd_request (decideRequestTransition demo_sha (demo_command (RequestAnswer (demo_answer Approve)) 120)
      (demo_snapshot (Some cur)) demo_recent) = Some r" by auto
  have "sn_request (demo_snapshot (Some cur)) = Some cur" "rq_state cur \<noteq> Open" "rq_state cur = Expired"
    by (simp_all add: demo_snapshot_def cur_def)
  with terminal_request_is_final [OF this(1,2) r] r show ?thesis by auto
qed

text \<open>
  C4. Redelivery is idempotent: once a command has written its input record, deciding
  any command with the same input id, session and digest against a snapshot that holds
  that record returns the recorded resolution and writes nothing.
\<close>

theorem repeated_command_is_silent:
  assumes first: "rd_actions (decideRequestTransition sha c sn recent) \<noteq> []"
    and row: "append_row.truncate n = hd (rd_actions (decideRequestTransition sha c sn recent))"
    and again: "command_valid c'" "ownsRequestRevision c' (sn_row sn')" "sn_inputRecord sn' = Some n"
      "c_inputId c' = c_inputId c" "c_sessionId c' = c_sessionId c"
      "targetRequestId (c_payload c') = targetRequestId (c_payload c)"
      "requestInputDigest sha (c_payload c') = requestInputDigest sha (c_payload c)"
  shows "decideRequestTransition sha c' sn' recent' =
    rejected\<lparr>rd_resolution := rd_resolution (decideRequestTransition sha c sn recent), rd_request := sn_request sn'\<rparr>"
proof -
  let ?d = "decideRequestTransition sha c sn recent"
  from decide_input_record [OF first] obtain r where rid: "rq_requestId r = targetRequestId (c_payload c)"
    and hd: "hd (rd_actions ?d) = inputRecord c r (requestInputDigest sha (c_payload c)) (rd_resolution ?d)"
    by blast
  have n: "ap_sessionId n = c_sessionId c" "ap_parentId n = Some (targetRequestId (c_payload c))"
    "ap_id n = input_record_id (targetRequestId (c_payload c)) (c_inputId c)"
    "plain_get (ap_intent n) ''inputId'' = Some (PStr (c_inputId c))"
    "plain_get (ap_intent n) ''inputDigest'' = Some (PStr (requestInputDigest sha (c_payload c)))"
    "recordedResolution n = Some (rd_resolution ?d)"
    using row rid unfolding hd
    by (cases n; simp add: append_row.defs inputRecord_def recordedResolution_def del: requestInputDigest.simps)+
  then have "repeatedInput c' sn' (requestInputDigest sha (c_payload c')) =
      Some (replayedInput n (sn_request sn') (requestInputDigest sha (c_payload c)))"
    using again by (simp add: repeatedInput_def Let_def del: requestInputDigest.simps)
  with again n show ?thesis
    by (simp add: decideRequestTransition_def replayedInput_def del: requestInputDigest.simps)
qed

theorem repeated_command_is_silent_witness:
  "\<exists>n. decideRequestTransition demo_sha (demo_command (RequestOpen demo_request) 140)
      ((demo_snapshot (Some demo_request))\<lparr>sn_inputRecord := Some n\<rparr>) demo_recent =
    rejected\<lparr>rd_resolution := Opened, rd_request := Some demo_request\<rparr>"
proof -
  define n where "n = append_row.extend (hd (rd_actions demo_opening)) \<lparr>nd_ordinal = 8\<rparr>"
  have "append_row.truncate n = hd (rd_actions demo_opening)"
    by (simp add: n_def append_row.defs)
  moreover have "rd_resolution demo_opening = Opened"
    unfolding demo_opening_def by (simp add: demo_defs validity_defs decision_defs)
  moreover have "command_valid (demo_command (RequestOpen demo_request) 140)"
    "ownsRequestRevision (demo_command (RequestOpen demo_request) 140) demo_row"
    by (simp_all add: demo_defs validity_defs ownsRequestRevision_def)
  moreover have dec: "decideRequestTransition demo_sha (demo_command (RequestOpen demo_request) 101) (demo_snapshot None) demo_recent
      = demo_opening"
    by (simp add: demo_opening_def)
  moreover have "sn_row ((demo_snapshot (Some demo_request))\<lparr>sn_inputRecord := Some n\<rparr>) = demo_row"
    "sn_inputRecord ((demo_snapshot (Some demo_request))\<lparr>sn_inputRecord := Some n\<rparr>) = Some n"
    "sn_request ((demo_snapshot (Some demo_request))\<lparr>sn_inputRecord := Some n\<rparr>) = Some demo_request"
    by (simp_all add: demo_snapshot_def)
  moreover have "c_inputId (demo_command (RequestOpen demo_request) 140) = c_inputId (demo_command (RequestOpen demo_request) 101)"
    "c_sessionId (demo_command (RequestOpen demo_request) 140) = c_sessionId (demo_command (RequestOpen demo_request) 101)"
    "c_payload (demo_command (RequestOpen demo_request) 140) = c_payload (demo_command (RequestOpen demo_request) 101)"
    by (simp_all add: demo_command_def)
  ultimately have "decideRequestTransition demo_sha (demo_command (RequestOpen demo_request) 140)
      ((demo_snapshot (Some demo_request))\<lparr>sn_inputRecord := Some n\<rparr>) demo_recent =
    rejected\<lparr>rd_resolution := Opened, rd_request := Some demo_request\<rparr>"
    using repeated_command_is_silent [of demo_sha "demo_command (RequestOpen demo_request) 101" "demo_snapshot None"
        demo_recent n "demo_command (RequestOpen demo_request) 140"
        "(demo_snapshot (Some demo_request))\<lparr>sn_inputRecord := Some n\<rparr>" demo_recent]
      demo_opening_facts(2)
    by (simp only: simp_thms)
  then show ?thesis by blast
qed

text \<open>
  C5. An answer that arrives or is decided at or after the deadline never settles the
  request: it is recorded as \<^verbatim>\<open>late_unknown\<close>, adds no reply and delivers no input to the session,
  and an open request expires with an unknown outcome.
\<close>

theorem late_answer_never_settles:
  assumes "command_valid c" "ownsRequestRevision c (sn_row sn)" "sn_inputRecord sn = None"
    and "c_payload c = RequestAnswer a" "answerAddressed a c"
    and "sn_request sn = Some cur" "targets cur (RequestAnswer a) (ss_id (sn_row sn))"
    and late: "rq_deadline cur \<le> max (c_at c) (an_receivedAt a)"
  shows "\<exists>r. rd_request (decideRequestTransition sha c sn recent) = Some r \<and>
    rd_resolution (decideRequestTransition sha c sn recent) = LateUnknown \<and>
    rd_receive (decideRequestTransition sha c sn recent) = None \<and>
    rq_replies r = rq_replies cur \<and>
    rq_state r = (if rq_state cur = Open then Expired else rq_state cur) \<and>
    rq_outcome r = (if rq_state cur = Open then Some OutcomeUnknown else rq_outcome cur)"
proof -
  have "decideRequestTransition sha c sn recent = lateAnswer sha c cur a (requestInputDigest sha (RequestAnswer a))"
    using assms decide_fresh_existing [of c sn cur sha recent] by (simp add: answerRequest_def)
  then show ?thesis
    using assms(4) by (simp add: lateAnswer_def Let_def receivingIntake_def receivesReply_def)
qed

theorem late_answer_never_settles_witness:
  "\<exists>r. rd_request (decideRequestTransition demo_sha (demo_command (RequestAnswer (demo_answer Approve)) 150)
      (demo_snapshot (Some demo_request)) demo_recent) = Some r \<and> rq_state r = Expired \<and> rq_replies r = []"
  using late_answer_never_settles [of "demo_command (RequestAnswer (demo_answer Approve)) 150"
      "demo_snapshot (Some demo_request)" "demo_answer Approve" demo_request demo_sha demo_recent]
  by (auto simp: demo_defs validity_defs ownsRequestRevision_def answerAddressed_def targets_def)

text \<open>
  C6. The approval budget: an approval is opened only while fewer than \<^verbatim>\<open>limit\<close> open
  approvals of the session were created inside the window, and the decision carries
  exactly the count it was made on, for the store to re-check.
\<close>

theorem approval_budget_enforced:
  assumes "rd_resolution (decideRequestTransition sha c sn recent) = Opened"
    and "rd_actions (decideRequestTransition sha c sn recent) \<noteq> []"
    and "c_payload c = RequestOpen r" "rq_mode r = ApprovalMode"
  shows "int (length (filter (openApprovalSince (c_at c - ro_windowMs recent)) (or_else (sn_requests sn) []))) < ro_limit recent \<and>
    rd_requestCount (decideRequestTransition sha c sn recent) =
      Some \<lparr>cnt_since = c_at c - ro_windowMs recent,
            cnt_count = int (length (filter (openApprovalSince (c_at c - ro_windowMs recent)) (or_else (sn_requests sn) [])))\<rparr>"
  using assms(2)
proof (cases rule: decide_cases)
  case (opened q)
  with assms show ?thesis
    by (simp add: sessionOpenApprovalCount_def exceedsApprovalBudget_def not_le)
next
  case (existing q)
  then show ?thesis using assms(3) by simp
qed

theorem approval_budget_enforced_witness:
  "rd_requestCount demo_opening = Some \<lparr>cnt_since = -899, cnt_count = 0\<rparr>"
  using approval_budget_enforced [of demo_sha "demo_command (RequestOpen demo_request) 101" "demo_snapshot None"
      demo_recent demo_request] demo_opening_facts
  unfolding demo_opening_def by (simp add: demo_defs validity_defs decision_defs)

text \<open>
  C7. The approval life cycle goes through: a request built by
  \<^verbatim>\<open>createApprovalRequest\<close> is answered, before its deadline and under unchanged
  generations and revisions, by an expected owner who copies its binding; the answer
  resolves it when it approves and refuses it when it refuses.
\<close>

theorem owner_answer_settles_approval:
  assumes r: "createApprovalRequest sha cap effect revs systemHash created timeout responders = Some r"
    and cmd: "command_valid c" "ownsRequestRevision c (sn_row sn)" "sn_inputRecord sn = None"
      "c_payload c = RequestAnswer a" "answerAddressed a c" "sn_request sn = Some r"
      "targets r (RequestAnswer a) (ss_id (sn_row sn))"
    and time: "c_at c < created + timeout" "an_receivedAt a < created + timeout"
    and who: "pr_kind (an_principal a) = OwnerPrincipal" "pr_principalId (an_principal a) \<in> set responders"
      "an_decision a \<noteq> Answer"
    and bound: "an_bindingDigest a = rq_bindingDigest r" "an_inputHash a = rq_inputHash r"
      "an_effectHash a = rq_effectHash r" "an_generation a = rq_generation r" "an_toolsHash a = rq_toolsHash r"
      "an_allowedAction a = ReportResult" "an_domainRevisions a = rq_domainRevisions r"
      "sn_domainRevisions sn = (if rq_domainRevisions r = [] then None else Some (rq_domainRevisions r))"
      "generationMatches r (sn_row sn)"
  shows "rd_resolution (decideRequestTransition sha c sn recent) = (if an_decision a = Refuse then RefusedRes else ResolvedRes)"
proof -
  have shape: "rq_mode r = ApprovalMode" "rq_state r = Open" "rq_replies r = []" "rq_seenReplyIds r = []"
    "rq_threshold r = 1" "rq_deadline r = created + timeout" "rq_expectedResponders r = responders"
    "rq_allowedActions r = [ReportResult]"
    using r by (auto simp: createApprovalRequest_def Let_def split: if_splits)
  have adm: "answer_admitted sha c sn r a"
    using cmd time who bound shape
    by (auto simp: answer_admitted_def answerBindingMatches_def principalValid_def domainRevisionsMatch_def)
  have "decideRequestTransition sha c sn recent = answerRequest sha c sn r a (requestInputDigest sha (RequestAnswer a))"
    using cmd decide_fresh_existing [of c sn r sha recent] by simp
  moreover have "answerRequest sha c sn r a dg = settleReply sha c (with_reply r a) a dg" for dg
    using adm by (auto simp: answer_admitted_def answerRequest_def attachAnswer_def with_reply_def Let_def list_ex_iff)
  ultimately show ?thesis using shape by (simp add: settleReply_def)
qed

theorem owner_answer_settles_approval_witness:
  "rd_resolution demo_approval = ResolvedRes"
proof -
  have r: "createApprovalRequest demo_sha demo_captured (PBool True) None (Some ''sys'') 100 50 [''owner''] = Some demo_request"
    by (simp add: createApprovalRequest_def demo_captured_def demo_request_def validity_defs or_else_def Let_def
        requestBindingDigest_def)
  show ?thesis unfolding demo_approval_def
    using owner_answer_settles_approval [OF r, of "demo_command (RequestAnswer (demo_answer Approve)) 120"
        "demo_snapshot (Some demo_request)" "demo_answer Approve" demo_recent]
    by (simp add: demo_defs validity_defs ownsRequestRevision_def answerAddressed_def targets_def generationMatches_def)
qed

end
