(* ===== verification/Store.thy ===== *)
theory Store
  imports Ledger
begin

text \<open>
  One session file: the tables of \<^verbatim>\<open>packages/agent/src/core/store/session-file/index.ts\<close>
  and the writes of \<^verbatim>\<open>store/storage/sqlite-l0-write.ts\<close>,
  \<^verbatim>\<open>store/storage/sqlite-l0-sessions.ts\<close>, \<^verbatim>\<open>session-file/alarms.ts\<close>,
  \<^verbatim>\<open>session-file/outputs.ts\<close> and \<^verbatim>\<open>store/decision.ts\<close>.  A table is the list of its
  rows in insertion order; a JSON text column is the value it encodes.  A statement that
  violates a constraint of the schema throws, and a transaction whose body throws leaves
  the file as it was.  The journal's row schemas and the row cap are the environment.
\<close>

section \<open>The tables\<close>

record armed_row =
  aa_alarmId :: str
  aa_occurrenceId :: str
  aa_fireAt :: fnum
  aa_strikes :: int

record tool_output =
  to_outputId :: str
  to_bytes :: str
  to_mediaType :: "str option"

record decision_fact =
  df_key :: str
  df_type :: str
  df_data :: plain
  df_timeCreated :: epoch_ms

record session_file =
  fl_sessions :: "session_row list"
  fl_actions :: "node list"
  fl_armed :: "armed_row list"
  fl_outputs :: "tool_output list"
  fl_facts :: "decision_fact list"

definition empty_file :: session_file where
  "empty_file = \<lparr>fl_sessions = [], fl_actions = [], fl_armed = [], fl_outputs = [], fl_facts = []\<rparr>"

text \<open>
  \<^verbatim>\<open>Journal.declarationFor(kind)\<close>, with \<^const>\<open>None\<close> for a kind that declares no schema; a
  schema maps an intent and an effect to its first issue, if any.
\<close>

record store_env =
  en_declaration :: "action_kind \<Rightarrow> (plain \<Rightarrow> plain \<Rightarrow> str option) option"
  en_rowByteCap :: int

definition DEFAULT_ROW_BYTE_CAP :: int where
  "DEFAULT_ROW_BYTE_CAP = 1024 * 1024"

section \<open>Errors\<close>

datatype materialize_reason = MInput | MConfiguration | MState
datatype create_reason = CDuplicate | COrphanIndex
datatype commit_reason = CRevision | CFence

datatype store_error =
    SessionNotFound str
  | MaterializeRefused str materialize_reason
  | CreateRefused str create_reason
  | FenceRefused str "str option" int
  | CommitRefused str commit_reason int int int int
  | SchemaRefused str str action_kind str
  | CorruptRecord str str
  | Thrown
  | AgentFailure str

text \<open>A typed refusal wins; a foreign throw becomes an \<^verbatim>\<open>AgentFailure\<close>.\<close>

fun writeEffect :: "str \<Rightarrow> store_error + 'a \<Rightarrow> store_error + 'a" where
  "writeEffect op (Inl Thrown) = Inl (AgentFailure op)"
| "writeEffect op r = r"

text \<open>\<^verbatim>\<open>db.transaction(operation).immediate()\<close>.\<close>

definition transaction ::
  "(session_file \<Rightarrow> store_error + 'a \<times> session_file) \<Rightarrow> session_file \<Rightarrow> (store_error + 'a) \<times> session_file" where
  "transaction f db = (case f db of Inl e \<Rightarrow> (Inl e, db) | Inr (x, db') \<Rightarrow> (Inr x, db'))"

section \<open>Payload size\<close>

fun stringify :: "plain \<Rightarrow> str" where
  "stringify PNull = ''null''"
| "stringify (PBool b) = (if b then ''true'' else ''false'')"
| "stringify (PNum n) = num_text n"
| "stringify (PStr s) = quote s"
| "stringify (PArr xs) = ''['' @ commas (map stringify xs) @ '']''"
| "stringify (PObj ps) = ''{'' @ commas (map (\<lambda>(k, v). quote k @ CHR '':'' # stringify v) ps) @ ''}''"

text \<open>\<^verbatim>\<open>Buffer.byteLength\<close>: the length in UTF-8.\<close>

definition byteLength :: "str \<Rightarrow> int" where
  "byteLength s = sum_list (map (\<lambda>c. if of_char c < (128 :: nat) then 1 else 2) s)"

definition actionPayloadBytes :: "('a) append_row_scheme \<Rightarrow> int" where
  "actionPayloadBytes a =
     byteLength (stringify (ap_intent a) @ stringify (ap_effect a) @
       (case ap_revert a of None \<Rightarrow> [] | Some r \<Rightarrow> stringify r))"

definition storedActionRow :: "append_row \<Rightarrow> int \<Rightarrow> node" where
  "storedActionRow a ordinal = append_row.extend a \<lparr>nd_ordinal = ordinal\<rparr>"

section \<open>Session rows\<close>

definition selectSession :: "session_file \<Rightarrow> str \<Rightarrow> session_row option" where
  "selectSession db sid = find (\<lambda>s. ss_id s = sid) (fl_sessions db)"

definition insertSession :: "session_row \<Rightarrow> session_file \<Rightarrow> bool \<times> session_file" where
  "insertSession row db =
     (if selectSession db (ss_id row) \<noteq> None then (False, db)
      else (True, db\<lparr>fl_sessions := fl_sessions db @ [row]\<rparr>))"

text \<open>\<^verbatim>\<open>UPDATE session SET ... WHERE ...\<close>, with the number of rows it changed.\<close>

definition update_sessions ::
  "(session_row \<Rightarrow> bool) \<Rightarrow> (session_row \<Rightarrow> session_row) \<Rightarrow> session_file \<Rightarrow> nat \<times> session_file" where
  "update_sessions p f db =
     (length (filter p (fl_sessions db)),
      db\<lparr>fl_sessions := map (\<lambda>s. if p s then f s else s) (fl_sessions db)\<rparr>)"

section \<open>Row admission\<close>

definition refuseRow :: "store_env \<Rightarrow> append_row \<Rightarrow> store_error + unit" where
  "refuseRow env a =
     (case (case en_declaration env (ap_kind a) of
              None \<Rightarrow> None
            | Some schema \<Rightarrow> schema (ap_intent a) (ap_effect a)) of
        Some issue \<Rightarrow> Inl (SchemaRefused (ap_sessionId a) (ap_id a) (ap_kind a) issue)
      | None \<Rightarrow>
          if actionPayloadBytes a > en_rowByteCap env
          then Inl (SchemaRefused (ap_sessionId a) (ap_id a) (ap_kind a) ''row_bytes'')
          else Inr ())"

fun refuseRows :: "store_env \<Rightarrow> append_row list \<Rightarrow> store_error + unit" where
  "refuseRows env [] = Inr ()"
| "refuseRows env (a # as) = and_then (refuseRow env a) (\<lambda>_. refuseRows env as)"

definition actionExists :: "session_file \<Rightarrow> str \<Rightarrow> bool" where
  "actionExists db aid = (find (\<lambda>n. ap_id n = aid) (fl_actions db) \<noteq> None)"

definition parentBelongsToSession :: "session_file \<Rightarrow> str \<Rightarrow> str \<Rightarrow> bool" where
  "parentBelongsToSession db parent sid =
     (case find (\<lambda>n. ap_id n = parent) (fl_actions db) of None \<Rightarrow> False | Some n \<Rightarrow> ap_sessionId n = sid)"

text \<open>The loop of \<^verbatim>\<open>validActionBatch\<close> with the ids it has seen.\<close>

fun validBatchFrom :: "str list \<Rightarrow> session_file \<Rightarrow> append_row list \<Rightarrow> str \<Rightarrow> bool" where
  "validBatchFrom ids db [] sid = True"
| "validBatchFrom ids db (a # as) sid =
     (if ap_sessionId a \<noteq> sid \<or> ap_id a \<in> set ids \<or> actionExists db (ap_id a) then False
      else if (case ap_parentId a of None \<Rightarrow> False
               | Some p \<Rightarrow> p \<notin> set ids \<and> \<not> parentBelongsToSession db p sid) then False
      else validBatchFrom (set_add (ap_id a) ids) db as sid)"

definition validActionBatch :: "session_file \<Rightarrow> append_row list \<Rightarrow> str \<Rightarrow> bool" where
  "validActionBatch db as sid = validBatchFrom [] db as sid"

section \<open>The armed-alarm index\<close>

datatype armed_delta =
    Upsert str str fnum
  | Retire str
  | FiredDelta str

definition arm_delta_intent :: "plain \<Rightarrow> (str \<times> fnum option) option" where
  "arm_delta_intent v =
     (if plain_get v ''op'' \<noteq> Some (PStr ''arm'') then None
      else case (plain_get v ''alarmId'', plain_get v ''at'') of
        (Some (PStr i), Some PNull) \<Rightarrow> if i = [] then None else Some (i, None)
      | (Some (PStr i), Some (PNum t)) \<Rightarrow> if i = [] then None else Some (i, Some t)
      | _ \<Rightarrow> None)"

definition occurrence_field :: "plain \<Rightarrow> str option" where
  "occurrence_field v =
     (case plain_get v ''occurrenceId'' of Some (PStr i) \<Rightarrow> if i = [] then None else Some i | _ \<Rightarrow> None)"

definition armedAlarmDelta :: "('a) append_row_scheme \<Rightarrow> armed_delta option" where
  "armedAlarmDelta a =
     (if ap_kind a \<noteq> KAlarm then None
      else case arm_delta_intent (ap_intent a) of
        Some (alarmId, None) \<Rightarrow> Some (Retire alarmId)
      | Some (alarmId, Some fireAt) \<Rightarrow>
          (case occurrence_field (ap_effect a) of
             None \<Rightarrow> None
           | Some occ \<Rightarrow> Some (Upsert alarmId occ fireAt))
      | None \<Rightarrow>
          if plain_get (ap_intent a) ''op'' = Some (PStr ''fired'')
          then map_option FiredDelta (occurrence_field (ap_intent a))
          else None)"

definition upsert_armed :: "str \<Rightarrow> str \<Rightarrow> fnum \<Rightarrow> armed_row list \<Rightarrow> armed_row list" where
  "upsert_armed alarmId occ fireAt t =
     (let row = \<lparr>aa_alarmId = alarmId, aa_occurrenceId = occ, aa_fireAt = fireAt, aa_strikes = 0\<rparr> in
      if alarmId \<in> aa_alarmId ` set t then map (\<lambda>r. if aa_alarmId r = alarmId then row else r) t
      else t @ [row])"

text \<open>The upsert violates \<^verbatim>\<open>occurrence_id UNIQUE\<close> when another alarm holds the occurrence.\<close>

fun applyArmedAlarmDelta :: "armed_delta \<Rightarrow> armed_row list \<Rightarrow> store_error + armed_row list" where
  "applyArmedAlarmDelta (Upsert alarmId occ fireAt) t =
     (if list_ex (\<lambda>r. aa_occurrenceId r = occ \<and> aa_alarmId r \<noteq> alarmId) t then Inl Thrown
      else Inr (upsert_armed alarmId occ fireAt t))"
| "applyArmedAlarmDelta (Retire alarmId) t = Inr (filter (\<lambda>r. aa_alarmId r \<noteq> alarmId) t)"
| "applyArmedAlarmDelta (FiredDelta occ) t = Inr (filter (\<lambda>r. aa_occurrenceId r \<noteq> occ) t)"

definition applyDelta :: "armed_delta option \<Rightarrow> armed_row list \<Rightarrow> store_error + armed_row list" where
  "applyDelta d t = (case d of None \<Rightarrow> Inr t | Some d \<Rightarrow> applyArmedAlarmDelta d t)"

section \<open>Appending\<close>

text \<open>
  The constraints of the \<^verbatim>\<open>action\<close> table: its primary key, \<^verbatim>\<open>UNIQUE (session_id, ordinal)\<close>,
  \<^verbatim>\<open>ordinal > 0\<close>, and the references to the parent action and the session.
\<close>

definition insertable :: "session_file \<Rightarrow> node \<Rightarrow> bool" where
  "insertable db n \<longleftrightarrow>
     \<not> actionExists db (ap_id n) \<and> 0 < nd_ordinal n \<and>
     \<not> list_ex (\<lambda>m. ap_sessionId m = ap_sessionId n \<and> nd_ordinal m = nd_ordinal n) (fl_actions db) \<and>
     (case ap_parentId n of None \<Rightarrow> True | Some p \<Rightarrow> actionExists db p \<or> p = ap_id n) \<and>
     selectSession db (ap_sessionId n) \<noteq> None"

definition appendValidatedAction ::
  "append_row \<Rightarrow> int \<Rightarrow> session_file \<Rightarrow> store_error + receipt option \<times> session_file" where
  "appendValidatedAction a expectedRevision db =
     (let revision = expectedRevision + 1;
          (changes, db1) = update_sessions (\<lambda>s. ss_id s = ap_sessionId a \<and> ss_revision s = expectedRevision)
            (ss_revision_update (\<lambda>_. revision)) db;
          stored = storedActionRow a revision in
      if changes \<noteq> 1 then Inr (None, db1)
      else if \<not> insertable db1 stored then Inl Thrown
      else and_then (applyDelta (armedAlarmDelta a) (fl_armed db1)) (\<lambda>armed.
        Inr (Some \<lparr>rc_action = stored, rc_revision = revision\<rparr>,
             db1\<lparr>fl_actions := fl_actions db1 @ [stored], fl_armed := armed\<rparr>)))"

definition appendAction ::
  "store_env \<Rightarrow> append_row \<Rightarrow> int \<Rightarrow> session_file \<Rightarrow> store_error + receipt option \<times> session_file" where
  "appendAction env a expectedRevision db =
     and_then (refuseRow env a) (\<lambda>_.
       if \<not> validActionBatch db [a] (ap_sessionId a) then Inr (None, db)
       else appendValidatedAction a expectedRevision db)"

section \<open>The open-approval count\<close>

definition request_field :: "node \<Rightarrow> str \<Rightarrow> plain option" where
  "request_field n k = (case plain_get (ap_effect n) ''request'' of None \<Rightarrow> None | Some r \<Rightarrow> plain_get r k)"

text \<open>The first row per key.\<close>

fun first_per :: "('a \<Rightarrow> 'k) \<Rightarrow> 'a list \<Rightarrow> 'a list" where
  "first_per f [] = []"
| "first_per f (x # xs) = x # filter (\<lambda>y. f y \<noteq> f x) (first_per f xs)"

text \<open>
  Of the request rows, the newest per request id that is an open approval created after
  \<open>since\<close>; a creation time the row schema admits is a whole number.
\<close>

definition newest_request_rows :: "session_file \<Rightarrow> node list" where
  "newest_request_rows db =
     first_per (\<lambda>n. request_field n ''requestId'')
       (sort_key (\<lambda>n. - nd_ordinal n) (filter (\<lambda>n. ap_kind n = KRequest) (fl_actions db)))"

definition open_approval_row :: "int \<Rightarrow> node \<Rightarrow> bool" where
  "open_approval_row since n \<longleftrightarrow>
     request_field n ''state'' = Some (PStr ''open'') \<and>
     request_field n ''mode'' = Some (PStr ''approval'') \<and>
     (case request_field n ''createdAt'' of Some (PNum (NInt t)) \<Rightarrow> t > since | _ \<Rightarrow> False)"

definition storedOpenApprovalCount :: "session_file \<Rightarrow> int \<Rightarrow> int" where
  "storedOpenApprovalCount db since = int (length (filter (open_approval_row since) (newest_request_rows db)))"

section \<open>Committing\<close>

definition refusedSessionCommit :: "refusal_reason \<Rightarrow> session_row \<Rightarrow> commit_result" where
  "refusedSessionCommit reason current = Refused reason (ss_fence current) (ss_revision current)"

definition sessionAuthorityRefusal :: "session_file \<Rightarrow> session_commit \<Rightarrow> session_row \<Rightarrow> commit_result option" where
  "sessionAuthorityRefusal db req current =
     (if ss_fenceOwner current \<noteq> Some (cm_owner req) \<or> ss_fence current \<noteq> cm_fence req
      then Some (refusedSessionCommit Stale current)
      else if ss_revision current \<noteq> cm_expectedRevision req
      then Some (refusedSessionCommit Revision current)
      else case cm_requestCount req of
        None \<Rightarrow> None
      | Some rc \<Rightarrow>
          if storedOpenApprovalCount db (cnt_since rc) \<noteq> cnt_count rc
          then Some (refusedSessionCommit Revision current) else None)"

text \<open>The append loop: the receipts so far and the running revision.\<close>

fun appendLoop ::
  "append_row list \<Rightarrow> int \<Rightarrow> receipt list \<Rightarrow> session_file \<Rightarrow> store_error + (receipt list \<times> int) option \<times> session_file" where
  "appendLoop [] revision receipts db = Inr (Some (receipts, revision), db)"
| "appendLoop (a # as) revision receipts db =
     and_then (appendValidatedAction a revision db) (\<lambda>(r, db').
       case r of
         None \<Rightarrow> Inr (None, db')
       | Some rc \<Rightarrow> appendLoop as (rc_revision rc) (receipts @ [rc]) db')"

definition generation_of_row :: "session_row \<Rightarrow> generation_pointers" where
  "generation_of_row s =
     \<lparr>gp_toolsGeneration = ss_toolsGeneration s, gp_systemHash = ss_systemHash s, gp_policyGeneration = ss_policyGeneration s\<rparr>"

definition commitSession ::
  "store_env \<Rightarrow> session_commit \<Rightarrow> session_file \<Rightarrow> store_error + commit_result option \<times> session_file" where
  "commitSession env req db =
     (case selectSession db (cm_sessionId req) of
        None \<Rightarrow> Inr (None, db)
      | Some current \<Rightarrow>
          (case sessionAuthorityRefusal db req current of
             Some refusal \<Rightarrow> Inr (Some refusal, db)
           | None \<Rightarrow>
               and_then (refuseRows env (cm_actions req)) (\<lambda>_.
                 if \<not> validActionBatch db (cm_actions req) (cm_sessionId req)
                 then Inr (Some (refusedSessionCommit Revision current), db)
                 else and_then (appendLoop (cm_actions req) (ss_revision current) [] db) (\<lambda>(loop, db1).
                   case loop of
                     None \<Rightarrow> Inr (Some (refusedSessionCommit Revision current), db1)
                   | Some (receipts, revision) \<Rightarrow>
                       let g = (case cm_generation req of Some g \<Rightarrow> g | None \<Rightarrow> generation_of_row current);
                           (changes, db2) = update_sessions
                             (\<lambda>s. ss_id s = cm_sessionId req \<and> ss_fenceOwner s = Some (cm_owner req) \<and>
                                  ss_fence s = cm_fence req \<and> ss_revision s = revision)
                             (\<lambda>s. s\<lparr>ss_state := cm_state req, ss_toolsGeneration := gp_toolsGeneration g,
                                    ss_systemHash := gp_systemHash g, ss_policyGeneration := gp_policyGeneration g\<rparr>) db1
                       in if changes \<noteq> 1 then Inr (Some (refusedSessionCommit Stale current), db2)
                          else case selectSession db2 (cm_sessionId req) of
                            None \<Rightarrow> Inl (CorruptRecord ''session.commit'' (cm_sessionId req))
                          | Some row \<Rightarrow> Inr (Some (Committed row receipts), db2)))))"

section \<open>The session adapter\<close>

text \<open>\<^verbatim>\<open>LedgerSession.Row.parse\<close>, \<^verbatim>\<open>Commit.parse\<close> and \<^verbatim>\<open>AdoptFence.parse\<close>.\<close>

definition row_valid :: "session_row \<Rightarrow> bool" where
  "row_valid s \<longleftrightarrow> ss_id s \<noteq> [] \<and> ss_parentId s \<noteq> Some [] \<and> ss_fenceOwner s \<noteq> Some [] \<and>
     0 \<le> ss_fence s \<and> 0 \<le> ss_revision s \<and> 0 \<le> ss_toolsGeneration s \<and> 0 \<le> ss_policyGeneration s"

definition commit_valid :: "session_commit \<Rightarrow> bool" where
  "commit_valid c \<longleftrightarrow> cm_sessionId c \<noteq> [] \<and> cm_owner c \<noteq> [] \<and> 0 < cm_fence c \<and> 0 \<le> cm_now c \<and>
     0 \<le> cm_expectedRevision c \<and> list_all append_valid (cm_actions c) \<and>
     (case cm_generation c of None \<Rightarrow> True
      | Some g \<Rightarrow> 0 \<le> gp_toolsGeneration g \<and> 0 \<le> gp_policyGeneration g) \<and>
     (case cm_requestCount c of None \<Rightarrow> True | Some rc \<Rightarrow> 0 \<le> cnt_count rc)"

record materialize =
  mt_row :: session_row
  mt_initialAction :: append_row

definition materialize_valid :: "materialize \<Rightarrow> bool" where
  "materialize_valid m \<longleftrightarrow> row_valid (mt_row m) \<and> append_valid (mt_initialAction m)"

datatype materialize_result =
    Created session_row receipt
  | Existing session_row

definition materializeSession ::
  "store_env \<Rightarrow> materialize \<Rightarrow> session_file \<Rightarrow> store_error + materialize_result \<times> session_file" where
  "materializeSession env m db =
     (let row = mt_row m; a = mt_initialAction m; sid = ss_id row in
      if ap_sessionId a \<noteq> sid \<or> ap_kind a \<noteq> KSessionConfigure \<or> ap_parentId a \<noteq> None \<or> ss_revision row \<noteq> 0
      then Inl (MaterializeRefused sid MInput)
      else let (inserted, db1) = insertSession row db in
        if \<not> inserted then
          (case selectSession db1 sid of
             None \<Rightarrow> Inl (MaterializeRefused sid MState)
           | Some existing \<Rightarrow> Inr (Existing existing, db1))
        else and_then (appendAction env a 0 db1) (\<lambda>(r, db2).
          case r of
            None \<Rightarrow> Inl (MaterializeRefused sid MConfiguration)
          | Some rc \<Rightarrow>
              (case selectSession db2 sid of
                 None \<Rightarrow> Inl (CorruptRecord ''materialize'' sid)
               | Some row' \<Rightarrow> Inr (Created row' rc, db2))))"

record adopt_fence =
  af_sessionId :: str
  af_owner :: str
  af_fence :: int

definition adopt_valid :: "adopt_fence \<Rightarrow> bool" where
  "adopt_valid a \<longleftrightarrow> af_sessionId a \<noteq> [] \<and> af_owner a \<noteq> [] \<and> 0 < af_fence a"

definition staleLeaseRefusal :: "session_row \<Rightarrow> store_error" where
  "staleLeaseRefusal current = FenceRefused (ss_id current) (ss_fenceOwner current) (ss_fence current)"

definition adoptFence :: "adopt_fence \<Rightarrow> session_file \<Rightarrow> store_error + int \<times> session_file" where
  "adoptFence req db =
     (case selectSession db (af_sessionId req) of
        None \<Rightarrow> Inl (SessionNotFound (af_sessionId req))
      | Some current \<Rightarrow>
          if ss_fenceOwner current = Some (af_owner req) \<and> ss_fence current = af_fence req then Inr (af_fence req, db)
          else if ss_fence current \<ge> af_fence req then Inl (staleLeaseRefusal current)
          else let (changes, db1) = update_sessions (\<lambda>s. ss_id s = af_sessionId req \<and> ss_fence s < af_fence req)
                 (\<lambda>s. s\<lparr>ss_fenceOwner := Some (af_owner req), ss_fence := af_fence req\<rparr>) db
               in if changes \<noteq> 1 then Inl (staleLeaseRefusal current) else Inr (af_fence req, db1))"

definition sessions_materialize ::
  "store_env \<Rightarrow> materialize \<Rightarrow> session_file \<Rightarrow> (store_error + materialize_result) \<times> session_file" where
  "sessions_materialize env m db =
     (let (r, db') = transaction (\<lambda>db. if \<not> materialize_valid m then Inl Thrown else materializeSession env m db) db
      in (writeEffect ''session.materialize'' r, db'))"

definition sessions_adoptFence :: "adopt_fence \<Rightarrow> session_file \<Rightarrow> (store_error + int) \<times> session_file" where
  "sessions_adoptFence a db =
     (let (r, db') = transaction (\<lambda>db. if \<not> adopt_valid a then Inl Thrown else adoptFence a db) db
      in (writeEffect ''session.adoptFence'' r, db'))"

fun commit_reason_of :: "refusal_reason \<Rightarrow> commit_reason" where
  "commit_reason_of Stale = CFence"
| "commit_reason_of Revision = CRevision"

text \<open>\<^verbatim>\<open>sessions.commit\<close>: a refused result is thrown inside the transaction.\<close>

definition commitUnit ::
  "store_env \<Rightarrow> session_commit \<Rightarrow> session_file \<Rightarrow> store_error + (session_row \<times> receipt list) \<times> session_file" where
  "commitUnit env req db =
     (if \<not> commit_valid req then Inl Thrown
      else and_then (commitSession env req db) (\<lambda>(result, db').
        case result of
          None \<Rightarrow> Inl (SessionNotFound (cm_sessionId req))
        | Some (Refused reason fence revision) \<Rightarrow>
            Inl (CommitRefused (cm_sessionId req) (commit_reason_of reason)
              (cm_expectedRevision req) revision (cm_fence req) fence)
        | Some (Committed row receipts) \<Rightarrow> Inr ((row, receipts), db')))"

definition sessions_commit ::
  "store_env \<Rightarrow> session_commit \<Rightarrow> session_file \<Rightarrow> (store_error + session_row \<times> receipt list) \<times> session_file" where
  "sessions_commit env req db =
     (let (r, db') = transaction (commitUnit env req) db in (writeEffect ''session.commit'' r, db'))"

definition actions_append ::
  "store_env \<Rightarrow> append_row \<Rightarrow> int \<Rightarrow> session_file \<Rightarrow> (store_error + receipt option) \<times> session_file" where
  "actions_append env a expectedRevision db =
     (if \<not> append_valid a then (Inl Thrown, db) else transaction (appendAction env a expectedRevision) db)"

section \<open>Index, outputs and facts\<close>

definition armedAlarm :: "session_file \<Rightarrow> str \<Rightarrow> (str \<times> fnum) option" where
  "armedAlarm db alarmId =
     map_option (\<lambda>r. (aa_occurrenceId r, aa_fireAt r)) (find (\<lambda>r. aa_alarmId r = alarmId) (fl_armed db))"

definition armedCount :: "session_file \<Rightarrow> nat" where
  "armedCount db = length (fl_armed db)"

definition strikeArmedAlarm :: "str \<Rightarrow> session_file \<Rightarrow> int option \<times> session_file" where
  "strikeArmedAlarm occ db =
     (let t = map (\<lambda>r. if aa_occurrenceId r = occ then r\<lparr>aa_strikes := aa_strikes r + 1\<rparr> else r) (fl_armed db) in
      (map_option aa_strikes (find (\<lambda>r. aa_occurrenceId r = occ) t), db\<lparr>fl_armed := t\<rparr>))"

definition requeueArmedAlarm :: "str \<Rightarrow> fnum \<Rightarrow> session_file \<Rightarrow> bool \<times> session_file" where
  "requeueArmedAlarm occ at db =
     (list_ex (\<lambda>r. aa_occurrenceId r = occ) (fl_armed db),
      db\<lparr>fl_armed := map (\<lambda>r. if aa_occurrenceId r = occ then r\<lparr>aa_fireAt := at, aa_strikes := 0\<rparr> else r) (fl_armed db)\<rparr>)"

definition toolOutputs_put :: "tool_output \<Rightarrow> session_file \<Rightarrow> session_file" where
  "toolOutputs_put w db =
     (if list_ex (\<lambda>r. to_outputId r = to_outputId w) (fl_outputs db) then db
      else db\<lparr>fl_outputs := fl_outputs db @ [w]\<rparr>)"

definition toolOutputs_get :: "session_file \<Rightarrow> str \<Rightarrow> tool_output option" where
  "toolOutputs_get db i = find (\<lambda>r. to_outputId r = i) (fl_outputs db)"

definition decisionFacts_head :: "session_file \<Rightarrow> str \<Rightarrow> decision_fact option" where
  "decisionFacts_head db k = find (\<lambda>f. df_key f = k) (fl_facts db)"

text \<open>Whether the fact was recorded now, and the fact the key holds.\<close>

definition decisionFacts_record :: "decision_fact \<Rightarrow> session_file \<Rightarrow> (bool \<times> decision_fact option) \<times> session_file" where
  "decisionFacts_record f db =
     (if decisionFacts_head db (df_key f) \<noteq> None then ((False, decisionFacts_head db (df_key f)), db)
      else let db' = db\<lparr>fl_facts := fl_facts db @ [f]\<rparr> in ((True, decisionFacts_head db' (df_key f)), db'))"

section \<open>Creation and fork\<close>

text \<open>\<^verbatim>\<open>DELETE FROM session\<close> cascades to its actions; the armed index is left alone.\<close>

definition delete_session :: "str \<Rightarrow> session_file \<Rightarrow> session_file" where
  "delete_session sid db =
     db\<lparr>fl_sessions := filter (\<lambda>s. ss_id s \<noteq> sid) (fl_sessions db),
        fl_actions := filter (\<lambda>n. ap_sessionId n \<noteq> sid) (fl_actions db),
        fl_outputs := []\<rparr>"

text \<open>
  \<^verbatim>\<open>indexed\<close>: the file commits first; \<open>index\<close> is what the catalog unit answers, with
  \<^const>\<open>None\<close> a throw, which the compensation lets through.
\<close>

definition indexed ::
  "bool option \<Rightarrow> materialize \<Rightarrow> (session_file \<Rightarrow> store_error + 'a \<times> session_file) \<Rightarrow> session_file
    \<Rightarrow> (store_error + 'a) \<times> session_file" where
  "indexed index m write db =
     (if \<not> materialize_valid m then (Inl Thrown, db)
      else let (r, db1) = transaction write db; sid = ss_id (mt_row m) in
        case r of
          Inl e \<Rightarrow> (Inl e, db1)
        | Inr written \<Rightarrow>
            (case index of
               None \<Rightarrow> (Inl Thrown, delete_session sid db1)
             | Some False \<Rightarrow> (Inl (CreateRefused sid COrphanIndex), delete_session sid db1)
             | Some True \<Rightarrow> (Inr written, db1)))"

definition session_create ::
  "store_env \<Rightarrow> materialize \<Rightarrow> bool option \<Rightarrow> session_file \<Rightarrow> (store_error + session_row \<times> receipt) \<times> session_file" where
  "session_create env m index db =
     (let (r, db') = indexed index m (\<lambda>db.
          and_then (materializeSession env m db) (\<lambda>(result, db1).
            case result of
              Created row rc \<Rightarrow> Inr ((row, rc), db1)
            | Existing _ \<Rightarrow> Inl (CreateRefused (ss_id (mt_row m)) CDuplicate))) db
      in (writeEffect ''session.create'' r, db'))"

fun forkCopies :: "store_env \<Rightarrow> append_row list \<Rightarrow> receipt \<Rightarrow> session_file \<Rightarrow> store_error + receipt \<times> session_file" where
  "forkCopies env [] rc db = Inr (rc, db)"
| "forkCopies env (copy # copies) rc db =
     (if \<not> append_valid copy then Inl Thrown
      else and_then (appendAction env copy (rc_revision rc) db) (\<lambda>(r, db').
        case r of
          None \<Rightarrow> Inl (CorruptRecord ''session.fork'' (ap_id copy))
        | Some rc' \<Rightarrow> forkCopies env copies rc' db'))"

record fork_receipt =
  fr_row :: session_row
  fr_head :: str
  fr_copied :: nat

definition forkUnit ::
  "store_env \<Rightarrow> materialize \<Rightarrow> append_row list \<Rightarrow> tool_output list \<Rightarrow> session_file
    \<Rightarrow> store_error + fork_receipt \<times> session_file" where
  "forkUnit env m copies outputs db =
     and_then (materializeSession env m db) (\<lambda>(result, db1).
       case result of
         Existing _ \<Rightarrow> Inl (MaterializeRefused (ss_id (mt_row m)) MState)
       | Created _ rc0 \<Rightarrow>
           and_then (forkCopies env copies rc0 db1) (\<lambda>(rc, db2).
             let db3 = fold toolOutputs_put outputs db2 in
             case selectSession db3 (ss_id (mt_row m)) of
               None \<Rightarrow> Inl (CorruptRecord ''session.fork'' (ss_id (mt_row m)))
             | Some row \<Rightarrow>
                 Inr (\<lparr>fr_row = row, fr_head = ap_id (rc_action rc), fr_copied = length copies\<rparr>, db3)))"

definition session_fork ::
  "store_env \<Rightarrow> materialize \<Rightarrow> append_row list \<Rightarrow> tool_output list \<Rightarrow> bool option \<Rightarrow> session_file
    \<Rightarrow> (store_error + fork_receipt) \<times> session_file" where
  "session_fork env m copies outputs index db =
     (let (r, db') = indexed index m (forkUnit env m copies outputs) db in (writeEffect ''session.fork'' r, db'))"

end
