(* ===== verification/Store_Invariant.thy ===== *)
theory Store_Invariant
  imports Store
begin

text \<open>
  What every write keeps of a session file: ids are unique, the ordinals of a session
  are exactly \<open>1 \<dots> revision\<close> in log order, a row's parent is an earlier row of the same
  session, and the armed index is keyed both ways.  Under this invariant the append loop
  of a commit has a closed form, from which the behaviour of \<^const>\<open>commitSession\<close> on
  every branch follows.
\<close>

section \<open>The invariant\<close>

definition log_of :: "str \<Rightarrow> session_file \<Rightarrow> node list" where
  "log_of sid db = filter (\<lambda>n. ap_sessionId n = sid) (fl_actions db)"

definition parent_ok :: "node list \<Rightarrow> node \<Rightarrow> bool" where
  "parent_ok ns n \<longleftrightarrow> (case ap_parentId n of None \<Rightarrow> True
     | Some p \<Rightarrow> (\<exists>m\<in>set ns. ap_id m = p \<and> ap_sessionId m = ap_sessionId n \<and> nd_ordinal m < nd_ordinal n))"

definition armed_ok :: "armed_row list \<Rightarrow> bool" where
  "armed_ok t \<longleftrightarrow> distinct (map aa_alarmId t) \<and> distinct (map aa_occurrenceId t)"

definition file_inv :: "session_file \<Rightarrow> bool" where
  "file_inv db \<longleftrightarrow>
     distinct (map ss_id (fl_sessions db)) \<and>
     distinct (map ap_id (fl_actions db)) \<and>
     (\<forall>s\<in>set (fl_sessions db). 0 \<le> ss_revision s \<and> map nd_ordinal (log_of (ss_id s) db) = [1..ss_revision s]) \<and>
     (\<forall>n\<in>set (fl_actions db). ap_sessionId n \<in> ss_id ` set (fl_sessions db)) \<and>
     (\<forall>n\<in>set (fl_actions db). parent_ok (fl_actions db) n) \<and>
     armed_ok (fl_armed db)"

lemma file_invD:
  assumes "file_inv db"
  shows "distinct (map ss_id (fl_sessions db))" "distinct (map ap_id (fl_actions db))"
    "s \<in> set (fl_sessions db) \<Longrightarrow> 0 \<le> ss_revision s"
    "s \<in> set (fl_sessions db) \<Longrightarrow> map nd_ordinal (log_of (ss_id s) db) = [1..ss_revision s]"
    "n \<in> set (fl_actions db) \<Longrightarrow> ap_sessionId n \<in> ss_id ` set (fl_sessions db)"
    "n \<in> set (fl_actions db) \<Longrightarrow> parent_ok (fl_actions db) n"
    "armed_ok (fl_armed db)"
  using assms by (auto simp: file_inv_def)

lemma file_inv_empty [simp]: "file_inv empty_file"
  by (simp add: file_inv_def empty_file_def armed_ok_def)

subsection \<open>Keyed tables\<close>

lemma find_Some_mem: "find P xs = Some x \<Longrightarrow> x \<in> set xs \<and> P x"
  by (auto simp: find_Some_iff)

lemma find_keyed:
  "distinct (map k xs) \<Longrightarrow> x \<in> set xs \<Longrightarrow> find (\<lambda>y. k y = k x) xs = Some x"
  by (induction xs) (auto simp: image_iff)

lemma selectSession_Some:
  "selectSession db sid = Some s \<Longrightarrow> s \<in> set (fl_sessions db) \<and> ss_id s = sid"
  by (auto simp: selectSession_def dest: find_Some_mem)

lemma selectSession_None: "selectSession db sid = None \<longleftrightarrow> sid \<notin> ss_id ` set (fl_sessions db)"
  by (auto simp: selectSession_def find_None_iff)

lemma selectSession_iff:
  assumes "distinct (map ss_id (fl_sessions db))"
  shows "selectSession db sid = Some s \<longleftrightarrow> s \<in> set (fl_sessions db) \<and> ss_id s = sid"
  using assms find_keyed [OF assms, of s] selectSession_Some [of db sid s] by (auto simp: selectSession_def)

lemma actionExists_iff: "actionExists db aid \<longleftrightarrow> aid \<in> ap_id ` set (fl_actions db)"
  by (auto simp: actionExists_def find_None_iff)

lemma parentBelongs_iff:
  assumes "distinct (map ap_id (fl_actions db))"
  shows "parentBelongsToSession db p sid \<longleftrightarrow> (\<exists>m\<in>set (fl_actions db). ap_id m = p \<and> ap_sessionId m = sid)"
proof (cases "find (\<lambda>n. ap_id n = p) (fl_actions db)")
  case None
  then have "\<forall>m\<in>set (fl_actions db). ap_id m \<noteq> p" by (simp add: find_None_iff)
  with None show ?thesis by (simp add: parentBelongsToSession_def)
next
  case (Some n)
  then have n: "n \<in> set (fl_actions db)" "ap_id n = p" by (auto dest: find_Some_mem)
  then have "m = n" if "m \<in> set (fl_actions db)" "ap_id m = p" for m
    using assms that by (auto simp: distinct_map inj_on_def)
  with n have "(\<exists>m\<in>set (fl_actions db). ap_id m = p \<and> ap_sessionId m = sid) \<longleftrightarrow> ap_sessionId n = sid" by blast
  with Some show ?thesis by (simp add: parentBelongsToSession_def)
qed

lemma update_one:
  assumes "distinct (map k xs)" "x \<in> set xs"
  shows "filter (\<lambda>y. k y = k x \<and> P y) xs = (if P x then [x] else [])"
  using assms by (induction xs) (auto simp: image_iff filter_empty_conv)

lemma keyed_eq: "distinct (map k xs) \<Longrightarrow> x \<in> set xs \<Longrightarrow> y \<in> set xs \<Longrightarrow> k x = k y \<Longrightarrow> x = y"
  by (auto simp: distinct_map inj_on_def)

lemma map_update_one:
  assumes "distinct (map k xs)" "x \<in> set xs" "P x"
  shows "map (\<lambda>y. if k y = k x \<and> P y then f y else y) xs = map (\<lambda>y. if k y = k x then f y else y) xs"
proof (rule map_cong [OF refl])
  fix y assume "y \<in> set xs"
  with assms keyed_eq [OF assms(1) this assms(2)]
  show "(if k y = k x \<and> P y then f y else y) = (if k y = k x then f y else y)" by auto
qed

section \<open>The armed index\<close>

lemma armed_keys: "armed_ok t \<Longrightarrow> r \<in> set t \<Longrightarrow> r' \<in> set t \<Longrightarrow> aa_alarmId r = aa_alarmId r' \<Longrightarrow> r = r'"
  by (auto simp: armed_ok_def distinct_map inj_on_def)

lemma distinct_map_if_key:
  assumes "distinct (map k xs)" "distinct (map g xs)" "\<forall>y\<in>set xs. g y = v \<longrightarrow> k y = key"
  shows "distinct (map (\<lambda>y. if k y = key then v else g y) xs)"
  using assms by (induction xs) (auto simp: image_iff)

lemma applyDelta_armed_ok:
  assumes "armed_ok t" "applyDelta d t = Inr t'"
  shows "armed_ok t'"
proof (cases d)
  case (Some e)
  show ?thesis
  proof (cases e)
    case (Upsert alarmId occ fireAt)
    with assms Some have free: "\<forall>r\<in>set t. aa_occurrenceId r = occ \<longrightarrow> aa_alarmId r = alarmId"
      and t': "t' = upsert_armed alarmId occ fireAt t"
      by (auto simp: applyDelta_def list_ex_iff split: if_splits)
    show ?thesis
    proof (cases "alarmId \<in> aa_alarmId ` set t")
      case True
      have occs: "map aa_occurrenceId t' = map (\<lambda>r. if aa_alarmId r = alarmId then occ else aa_occurrenceId r) t"
        and alarms: "map aa_alarmId t' = map aa_alarmId t"
        using True by (auto simp: t' upsert_armed_def Let_def)
      show ?thesis unfolding armed_ok_def occs alarms
        using assms(1) free distinct_map_if_key [of aa_alarmId t aa_occurrenceId occ alarmId]
        by (simp add: armed_ok_def)
    next
      case False
      with free have "occ \<notin> aa_occurrenceId ` set t" by auto
      with False assms(1) show ?thesis
        by (simp add: t' upsert_armed_def Let_def armed_ok_def)
    qed
  qed (use assms Some in \<open>auto simp: applyDelta_def armed_ok_def distinct_map inj_on_def\<close>)
qed (use assms in \<open>auto simp: applyDelta_def\<close>)

definition armed_after :: "append_row list \<Rightarrow> armed_row list \<Rightarrow> store_error + armed_row list" where
  "armed_after as t = fold_fail (\<lambda>a. applyDelta (armedAlarmDelta a)) as t"

lemma armed_after_simps [simp]:
  "armed_after [] t = Inr t"
  "armed_after (a # as) t = and_then (applyDelta (armedAlarmDelta a) t) (armed_after as)"
  by (simp_all add: armed_after_def [abs_def])

lemma armed_after_ok: "armed_after as t = Inr t' \<Longrightarrow> armed_ok t \<Longrightarrow> armed_ok t'"
  unfolding armed_after_def by (erule fold_fail_invariant) (auto intro: applyDelta_armed_ok)

section \<open>One append\<close>

definition set_revision :: "str \<Rightarrow> int \<Rightarrow> session_row list \<Rightarrow> session_row list" where
  "set_revision sid r ss = map (\<lambda>s. if ss_id s = sid then s\<lparr>ss_revision := r\<rparr> else s) ss"

lemma map_id_set_revision [simp]: "map ss_id (set_revision sid r ss) = map ss_id ss"
  by (simp add: set_revision_def comp_def if_distrib cong: if_cong)

lemma set_id_set_revision [simp]: "ss_id ` set (set_revision sid r ss) = ss_id ` set ss"
  by (metis list.set_map map_id_set_revision)

lemma set_revision_set_revision [simp]: "set_revision sid r (set_revision sid q ss) = set_revision sid r ss"
  by (simp add: set_revision_def)

lemma set_revision_same:
  assumes "distinct (map ss_id ss)" "s \<in> set ss"
  shows "set_revision (ss_id s) (ss_revision s) ss = ss"
proof -
  have "s\<lparr>ss_revision := ss_revision s\<rparr> = s" by (cases s) simp
  then have "(if ss_id x = ss_id s then x\<lparr>ss_revision := ss_revision s\<rparr> else x) = x" if "x \<in> set ss" for x
    using keyed_eq [OF assms(1) that assms(2)] by (cases "ss_id x = ss_id s") simp_all
  then show ?thesis unfolding set_revision_def by (intro map_idI) blast
qed

text \<open>The rows a batch stores, and the file after it.\<close>

fun stored_from :: "int \<Rightarrow> append_row list \<Rightarrow> node list" where
  "stored_from r [] = []"
| "stored_from r (a # as) = storedActionRow a (r + 1) # stored_from (r + 1) as"

definition appended :: "str \<Rightarrow> int \<Rightarrow> append_row list \<Rightarrow> armed_row list \<Rightarrow> session_file \<Rightarrow> session_file" where
  "appended sid r as armed db =
     db\<lparr>fl_sessions := set_revision sid (r + int (length as)) (fl_sessions db),
        fl_actions := fl_actions db @ stored_from r as, fl_armed := armed\<rparr>"

lemma storedActionRow_sel [simp]:
  "ap_id (storedActionRow a r) = ap_id a" "ap_parentId (storedActionRow a r) = ap_parentId a"
  "ap_sessionId (storedActionRow a r) = ap_sessionId a" "ap_kind (storedActionRow a r) = ap_kind a"
  "ap_intent (storedActionRow a r) = ap_intent a" "ap_effect (storedActionRow a r) = ap_effect a"
  "ap_ts (storedActionRow a r) = ap_ts a" "ap_revert (storedActionRow a r) = ap_revert a"
  "nd_ordinal (storedActionRow a r) = r" "append_row.truncate (storedActionRow a r) = a"
  by (simp_all add: storedActionRow_def append_row.defs)

lemma appended_sel [simp]:
  "fl_actions (appended sid r as armed db) = fl_actions db @ stored_from r as"
  "fl_armed (appended sid r as armed db) = armed"
  "fl_sessions (appended sid r as armed db) = set_revision sid (r + int (length as)) (fl_sessions db)"
  "fl_outputs (appended sid r as armed db) = fl_outputs db"
  "fl_facts (appended sid r as armed db) = fl_facts db"
  by (simp_all add: appended_def)

lemma log_of_appended:
  "log_of sid' (appended sid r as armed db) = log_of sid' db @ filter (\<lambda>n. ap_sessionId n = sid') (stored_from r as)"
  by (simp add: log_of_def)

text \<open>When a row may follow the log.\<close>

definition admissible :: "session_file \<Rightarrow> append_row \<Rightarrow> bool" where
  "admissible db a \<longleftrightarrow> \<not> actionExists db (ap_id a) \<and>
     (case ap_parentId a of None \<Rightarrow> True | Some p \<Rightarrow> parentBelongsToSession db p (ap_sessionId a))"

lemma ordinals_bounded:
  assumes "file_inv db" "s \<in> set (fl_sessions db)" "n \<in> set (fl_actions db)" "ap_sessionId n = ss_id s"
  shows "1 \<le> nd_ordinal n" "nd_ordinal n \<le> ss_revision s"
proof -
  have "nd_ordinal n \<in> set (map nd_ordinal (log_of (ss_id s) db))"
    using assms by (simp add: log_of_def)
  then show "1 \<le> nd_ordinal n" "nd_ordinal n \<le> ss_revision s"
    using file_invD(4) [OF assms(1,2)] by simp_all
qed

lemma append_one:
  assumes inv: "file_inv db" and s: "selectSession db (ap_sessionId a) = Some s" and adm: "admissible db a"
  shows "appendValidatedAction a (ss_revision s) db =
    and_then (applyDelta (armedAlarmDelta a) (fl_armed db)) (\<lambda>armed.
      Inr (Some \<lparr>rc_action = storedActionRow a (ss_revision s + 1), rc_revision = ss_revision s + 1\<rparr>,
           appended (ap_sessionId a) (ss_revision s) [a] armed db))"
proof -
  note d = file_invD [OF inv]
  from s have s': "s \<in> set (fl_sessions db)" "ss_id s = ap_sessionId a" by (auto dest: selectSession_Some)
  have upd: "update_sessions (\<lambda>t. ss_id t = ap_sessionId a \<and> ss_revision t = ss_revision s)
      (ss_revision_update (\<lambda>_. ss_revision s + 1)) db =
    (1, db\<lparr>fl_sessions := set_revision (ap_sessionId a) (ss_revision s + 1) (fl_sessions db)\<rparr>)"
    using update_one [OF d(1) s'(1), of "\<lambda>t. ss_revision t = ss_revision s"]
      map_update_one [OF d(1) s'(1), of "\<lambda>t. ss_revision t = ss_revision s"]
    by (simp add: update_sessions_def set_revision_def s'(2))
  have "ap_sessionId m = ap_sessionId a \<longrightarrow> nd_ordinal m \<noteq> ss_revision s + 1" if "m \<in> set (fl_actions db)" for m
    using ordinals_bounded(2) [OF inv s'(1) that] s' by auto
  then have "insertable (db\<lparr>fl_sessions := set_revision (ap_sessionId a) (ss_revision s + 1) (fl_sessions db)\<rparr>)
      (storedActionRow a (ss_revision s + 1))"
    using adm s' d(3) [OF s'(1)] image_eqI [of "ap_sessionId a" ss_id s "set (fl_sessions db)"]
    by (auto simp: insertable_def admissible_def actionExists_iff list_ex_iff selectSession_None
        parentBelongs_iff [OF d(2)] split: option.splits)
  then show ?thesis
    by (simp add: appendValidatedAction_def upd appended_def Let_def)
qed

lemma appended_one_inv:
  assumes inv: "file_inv db" and s: "selectSession db (ap_sessionId a) = Some s" and adm: "admissible db a"
    and armed: "armed_ok armed"
  shows "file_inv (appended (ap_sessionId a) (ss_revision s) [a] armed db)"
proof -
  note d = file_invD [OF inv]
  let ?n = "storedActionRow a (ss_revision s + 1)"
  from s have s': "s \<in> set (fl_sessions db)" "ss_id s = ap_sessionId a" by (auto dest: selectSession_Some)
  have "parent_ok (fl_actions db @ [?n]) ?n"
  proof (cases "ap_parentId a")
    case (Some p)
    with adm obtain m where m: "m \<in> set (fl_actions db)" "ap_id m = p" "ap_sessionId m = ap_sessionId a"
      by (auto simp: admissible_def parentBelongs_iff [OF d(2)])
    with ordinals_bounded(2) [OF inv s'(1) m(1)] s'(2) have "nd_ordinal m < ss_revision s + 1" by simp
    with Some m show ?thesis by (auto simp: parent_ok_def)
  qed (simp add: parent_ok_def)
  moreover have "parent_ok (fl_actions db @ [?n]) n" if "n \<in> set (fl_actions db)" for n
    using d(6) [OF that] by (auto simp: parent_ok_def split: option.splits)
  moreover have "0 \<le> ss_revision t \<and> map nd_ordinal (log_of (ss_id t) (appended (ap_sessionId a) (ss_revision s) [a] armed db)) = [1..ss_revision t]"
    if t: "t \<in> set (set_revision (ap_sessionId a) (ss_revision s + 1) (fl_sessions db))" for t
  proof -
    from t obtain u where u: "u \<in> set (fl_sessions db)"
      and tu: "t = (if ss_id u = ap_sessionId a then u\<lparr>ss_revision := ss_revision s + 1\<rparr> else u)"
      by (auto simp: set_revision_def)
    show ?thesis
    proof (cases "ss_id u = ap_sessionId a")
      case True
      with u s' d(1) have "u = s" by (auto simp: distinct_map inj_on_def)
      with tu True u d(3) [OF u] d(4) [OF u] show ?thesis
        by (simp add: log_of_appended upto_rec2)
    next
      case False
      with tu u d(3) [OF u] d(4) [OF u] show ?thesis by (auto simp: log_of_appended)
    qed
  qed
  ultimately show ?thesis
    using adm armed s' d(1,2,5) image_eqI [of "ap_sessionId a" ss_id s "set (fl_sessions db)"]
    by (auto simp: file_inv_def admissible_def actionExists_iff)
qed

section \<open>A batch of appends\<close>

lemma validBatchFrom_cong:
  assumes "\<And>x. x \<in> set ids' \<or> actionExists db' x \<longleftrightarrow> x \<in> set ids \<or> actionExists db x"
    and "\<And>p. p \<in> set ids' \<or> parentBelongsToSession db' p sid \<longleftrightarrow> p \<in> set ids \<or> parentBelongsToSession db p sid"
  shows "validBatchFrom ids' db' as sid = validBatchFrom ids db as sid"
  using assms
proof (induction as arbitrary: ids ids')
  case (Cons a as)
  have "validBatchFrom (set_add (ap_id a) ids') db' as sid = validBatchFrom (set_add (ap_id a) ids) db as sid"
    using Cons.prems by (intro Cons.IH) auto
  with Cons.prems show ?case by (auto split: option.splits)
qed simp

lemma validActionBatch_Cons:
  assumes inv: "file_inv db" and valid: "validActionBatch db (a # as) sid"
  shows "ap_sessionId a = sid" "admissible db a"
    "validActionBatch (appended sid r [a] armed db) as sid"
proof -
  from valid show sid: "ap_sessionId a = sid" and "admissible db a"
    by (auto simp: validActionBatch_def admissible_def split: if_splits option.splits)
  then have fresh: "\<not> actionExists db (ap_id a)" by (simp add: admissible_def)
  let ?db' = "appended sid r [a] armed db"
  have d: "distinct (map ap_id (fl_actions db))" "distinct (map ap_id (fl_actions ?db'))"
    using file_invD(2) [OF inv] fresh by (auto simp: actionExists_iff)
  have "validBatchFrom [] ?db' as sid = validBatchFrom [ap_id a] db as sid"
    using sid by (intro validBatchFrom_cong) (auto simp: actionExists_iff parentBelongs_iff [OF d(1)] parentBelongs_iff [OF d(2)])
  moreover have "validBatchFrom [ap_id a] db as sid"
    using valid by (auto simp: validActionBatch_def set_add_def split: if_splits)
  ultimately show "validActionBatch ?db' as sid" by (simp add: validActionBatch_def)
qed

lemma selectSession_appended:
  assumes "selectSession db sid = Some s"
  shows "selectSession (appended sid r as armed db) sid = Some (s\<lparr>ss_revision := r + int (length as)\<rparr>)"
proof -
  have "find (\<lambda>s. ss_id s = sid) (set_revision sid q ss) = map_option (\<lambda>s. s\<lparr>ss_revision := q\<rparr>) (find (\<lambda>s. ss_id s = sid) ss)" for q ss
    by (induction ss) (auto simp: set_revision_def)
  with assms show ?thesis by (simp add: selectSession_def)
qed

lemma selectSession_appended_other:
  assumes "sid' \<noteq> sid"
  shows "selectSession (appended sid r as armed db) sid' = selectSession db sid'"
proof -
  have "find (\<lambda>s. ss_id s = sid') (set_revision sid q ss) = find (\<lambda>s. ss_id s = sid') ss" for q ss
    using assms by (induction ss) (auto simp: set_revision_def)
  then show ?thesis by (simp add: selectSession_def)
qed

definition receipts_of :: "node list \<Rightarrow> receipt list" where
  "receipts_of ns = map (\<lambda>n. \<lparr>rc_action = n, rc_revision = nd_ordinal n\<rparr>) ns"

lemma appended_appended:
  "appended sid (r + 1) as armed' (appended sid r [a] armed db) = appended sid r (a # as) armed' db"
  by (simp add: appended_def add_ac)

lemma appendLoop_closed:
  assumes "file_inv db" "selectSession db sid = Some s" "ss_revision s = r" "validActionBatch db as sid"
  shows "appendLoop as r rcs db =
    and_then (armed_after as (fl_armed db)) (\<lambda>armed.
      Inr (Some (rcs @ receipts_of (stored_from r as), r + int (length as)), appended sid r as armed db))"
  using assms
proof (induction as arbitrary: db s r rcs)
  case Nil
  then have "appended sid r [] (fl_armed db) db = db"
    using set_revision_same [OF file_invD(1) [OF Nil.prems(1)], of s] selectSession_Some [OF Nil.prems(2)]
    by (simp add: appended_def)
  then show ?case by (simp add: receipts_of_def)
next
  case (Cons a as)
  note c = validActionBatch_Cons [OF Cons.prems(1,4)]
  show ?case
  proof (cases "applyDelta (armedAlarmDelta a) (fl_armed db)")
    case (Inl e)
    with append_one [OF Cons.prems(1), of a s] c Cons.prems show ?thesis by simp
  next
    case (Inr armed)
    let ?db = "appended sid r [a] armed db"
    have "armed_ok armed" using applyDelta_armed_ok [OF file_invD(7) [OF Cons.prems(1)] Inr] .
    then have i: "file_inv ?db" using appended_one_inv [OF Cons.prems(1), of a s] c Cons.prems by simp
    have "appendLoop as (r + 1) (rcs @ [\<lparr>rc_action = storedActionRow a (r + 1), rc_revision = r + 1\<rparr>]) ?db =
      and_then (armed_after as armed) (\<lambda>armed'.
        Inr (Some ((rcs @ [\<lparr>rc_action = storedActionRow a (r + 1), rc_revision = r + 1\<rparr>]) @ receipts_of (stored_from (r + 1) as),
             r + 1 + int (length as)), appended sid (r + 1) as armed' ?db))"
      using Cons.IH [OF i selectSession_appended [OF Cons.prems(2)] _ c(3)] by simp
    with append_one [OF Cons.prems(1), of a s] c Cons.prems Inr show ?thesis
      by (simp add: appended_appended receipts_of_def add.assoc)
  qed
qed

lemma appended_inv:
  assumes "file_inv db" "selectSession db sid = Some s" "ss_revision s = r" "validActionBatch db as sid"
    and "armed_after as (fl_armed db) = Inr armed"
  shows "file_inv (appended sid r as armed db)"
  using assms
proof (induction as arbitrary: db s r)
  case Nil
  then have "appended sid r [] armed db = db"
    using set_revision_same [OF file_invD(1) [OF Nil.prems(1)], of s] selectSession_Some [OF Nil.prems(2)]
    by (simp add: appended_def)
  with Nil show ?case by simp
next
  case (Cons a as)
  note c = validActionBatch_Cons [OF Cons.prems(1,4)]
  from Cons.prems(5) obtain t where t: "applyDelta (armedAlarmDelta a) (fl_armed db) = Inr t" "armed_after as t = Inr armed"
    by (auto simp: and_then_eq_Inr)
  have "armed_ok t" using applyDelta_armed_ok [OF file_invD(7) [OF Cons.prems(1)] t(1)] .
  then have i: "file_inv (appended sid r [a] t db)"
    using appended_one_inv [OF Cons.prems(1), of a s] c Cons.prems by simp
  show ?case
    using Cons.IH [OF i selectSession_appended [OF Cons.prems(2)] _ c(3)] t(2) by (simp add: appended_appended)
qed

end
