(* ===== verification/Store_Machine.thy ===== *)
theory Store_Machine
  imports Store_Invariant "HOL-Library.Sublist"
begin

text \<open>
  The behaviour of every write of a session file under the invariant, the file as a
  state machine over its operations, and the interface a fenced writer relies on: the
  log only grows, the fence never falls, and a commit is accepted only under the current
  fence and revision.
\<close>

section \<open>The outcome of a commit\<close>

definition settled_row :: "session_commit \<Rightarrow> session_row \<Rightarrow> session_row" where
  "settled_row req cur =
     (let g = (case cm_generation req of Some g \<Rightarrow> g | None \<Rightarrow> generation_of_row cur) in
      cur\<lparr>ss_revision := ss_revision cur + int (length (cm_actions req)), ss_state := cm_state req,
          ss_toolsGeneration := gp_toolsGeneration g, ss_systemHash := gp_systemHash g,
          ss_policyGeneration := gp_policyGeneration g\<rparr>)"

definition committed_file :: "session_commit \<Rightarrow> session_row \<Rightarrow> armed_row list \<Rightarrow> session_file \<Rightarrow> session_file" where
  "committed_file req cur armed db =
     (appended (cm_sessionId req) (ss_revision cur) (cm_actions req) armed db)
       \<lparr>fl_sessions := map (\<lambda>s. if ss_id s = cm_sessionId req then settled_row req cur else s) (fl_sessions db)\<rparr>"

lemma settled_row_sel [simp]:
  "ss_id (settled_row req cur) = ss_id cur" "ss_fence (settled_row req cur) = ss_fence cur"
  "ss_fenceOwner (settled_row req cur) = ss_fenceOwner cur"
  "ss_revision (settled_row req cur) = ss_revision cur + int (length (cm_actions req))"
  "ss_state (settled_row req cur) = cm_state req" "ss_role (settled_row req cur) = ss_role cur"
  "ss_parentId (settled_row req cur) = ss_parentId cur"
  by (simp_all add: settled_row_def Let_def)

lemma find_map_keyed: "(\<And>s. k (g s) = k s) \<Longrightarrow> find (\<lambda>s. k s = key) (map g xs) = map_option g (find (\<lambda>s. k s = key) xs)"
  by (induction xs) auto

lemma find_map_if:
  "find (\<lambda>s. k s = key) (map (\<lambda>s. if k s = key then v else s) xs) =
    (if k v = key then map_option (\<lambda>_. v) (find (\<lambda>s. k s = key) xs) else None)"
  by (induction xs) auto

lemma find_map_if_other:
  "key' \<noteq> key \<Longrightarrow> k v = key \<Longrightarrow> find (\<lambda>s. k s = key') (map (\<lambda>s. if k s = key then v else s) xs) = find (\<lambda>s. k s = key') xs"
  by (induction xs) auto

lemma select_committed:
  assumes "selectSession db (cm_sessionId req) = Some cur"
  shows "selectSession (committed_file req cur armed db) (cm_sessionId req) = Some (settled_row req cur)"
    "sid \<noteq> cm_sessionId req \<Longrightarrow> selectSession (committed_file req cur armed db) sid = selectSession db sid"
  using assms selectSession_Some [OF assms]
  by (auto simp: selectSession_def committed_file_def find_map_if find_map_if_other)

lemma authority_None:
  "sessionAuthorityRefusal db req cur = None \<longleftrightarrow>
    ss_fenceOwner cur = Some (cm_owner req) \<and> ss_fence cur = cm_fence req \<and>
    ss_revision cur = cm_expectedRevision req \<and>
    (case cm_requestCount req of None \<Rightarrow> True | Some rc \<Rightarrow> storedOpenApprovalCount db (cnt_since rc) = cnt_count rc)"
  by (auto simp: sessionAuthorityRefusal_def split: option.splits)

lemma authority_Some:
  "sessionAuthorityRefusal db req cur = Some x \<Longrightarrow> \<exists>reason. x = Refused reason (ss_fence cur) (ss_revision cur)"
  by (auto simp: sessionAuthorityRefusal_def refusedSessionCommit_def split: if_splits option.splits)

lemma settle_update:
  assumes inv: "file_inv db" and cur: "selectSession db (cm_sessionId req) = Some cur"
    and own: "ss_fenceOwner cur = Some (cm_owner req)" "ss_fence cur = cm_fence req"
    and g: "g = (case cm_generation req of Some g \<Rightarrow> g | None \<Rightarrow> generation_of_row cur)"
  shows "update_sessions (\<lambda>s. ss_id s = cm_sessionId req \<and> ss_fenceOwner s = Some (cm_owner req) \<and>
        ss_fence s = cm_fence req \<and> ss_revision s = ss_revision cur + int (length (cm_actions req)))
      (\<lambda>s. s\<lparr>ss_state := cm_state req, ss_toolsGeneration := gp_toolsGeneration g,
             ss_systemHash := gp_systemHash g, ss_policyGeneration := gp_policyGeneration g\<rparr>)
      (appended (cm_sessionId req) (ss_revision cur) (cm_actions req) armed db) =
    (1, committed_file req cur armed db)"
proof -
  let ?q = "ss_revision cur + int (length (cm_actions req))"
  let ?c = "cur\<lparr>ss_revision := ?q\<rparr>"
  let ?ss = "set_revision (cm_sessionId req) ?q (fl_sessions db)"
  from cur have c: "cur \<in> set (fl_sessions db)" "ss_id cur = cm_sessionId req" by (auto dest: selectSession_Some)
  have d: "distinct (map ss_id (fl_sessions db))" "distinct (map ss_id ?ss)" using file_invD(1) [OF inv] by simp_all
  have in_ss: "?c \<in> set ?ss" using c by (force simp: set_revision_def)
  let ?P = "\<lambda>s. ss_fenceOwner s = Some (cm_owner req) \<and> ss_fence s = cm_fence req \<and> ss_revision s = ?q"
  let ?f = "\<lambda>s. s\<lparr>ss_state := cm_state req, ss_toolsGeneration := gp_toolsGeneration g,
             ss_systemHash := gp_systemHash g, ss_policyGeneration := gp_policyGeneration g\<rparr>"
  have P: "?P ?c" using own by simp
  have "map (\<lambda>s. if ss_id s = ss_id ?c \<and> ?P s then ?f s else s) ?ss =
      map (\<lambda>s. if ss_id s = ss_id ?c then ?f s else s) ?ss"
    by (rule map_update_one [where P = ?P, OF d(2) in_ss P])
  also have "\<dots> = map (\<lambda>s. if ss_id s = cm_sessionId req then settled_row req cur else s) (fl_sessions db)"
    unfolding set_revision_def map_map
  proof (rule map_cong [OF refl])
    fix s assume s: "s \<in> set (fl_sessions db)"
    show "((\<lambda>s. if ss_id s = ss_id ?c then ?f s else s) \<circ> (\<lambda>s. if ss_id s = cm_sessionId req then s\<lparr>ss_revision := ?q\<rparr> else s)) s =
      (if ss_id s = cm_sessionId req then settled_row req cur else s)"
    proof (cases "ss_id s = cm_sessionId req")
      case True
      with keyed_eq [OF d(1) s c(1)] c(2) have "s = cur" by simp
      with c(2) show ?thesis by (simp add: settled_row_def Let_def g)
    qed (simp add: c(2))
  qed
  finally have m: "map (\<lambda>s. if ss_id s = ss_id ?c \<and> ?P s then ?f s else s) ?ss =
      map (\<lambda>s. if ss_id s = cm_sessionId req then settled_row req cur else s) (fl_sessions db)" .
  have "filter (\<lambda>s. ss_id s = ss_id ?c \<and> ?P s) ?ss = [?c]"
    using update_one [OF d(2) in_ss, of ?P] P by simp
  with m c show ?thesis
    by (simp add: update_sessions_def committed_file_def conj_assoc)
qed

lemma commitSession_closed:
  assumes inv: "file_inv db"
  shows "commitSession env req db =
    (case selectSession db (cm_sessionId req) of
       None \<Rightarrow> Inr (None, db)
     | Some cur \<Rightarrow>
         (case sessionAuthorityRefusal db req cur of
            Some refusal \<Rightarrow> Inr (Some refusal, db)
          | None \<Rightarrow> and_then (refuseRows env (cm_actions req)) (\<lambda>_.
              if \<not> validActionBatch db (cm_actions req) (cm_sessionId req)
              then Inr (Some (refusedSessionCommit Revision cur), db)
              else and_then (armed_after (cm_actions req) (fl_armed db)) (\<lambda>armed.
                Inr (Some (Committed (settled_row req cur) (receipts_of (stored_from (ss_revision cur) (cm_actions req)))),
                     committed_file req cur armed db)))))"
proof (cases "selectSession db (cm_sessionId req)")
  case (Some cur)
  show ?thesis
  proof (cases "sessionAuthorityRefusal db req cur")
    case None
    then have own: "ss_fenceOwner cur = Some (cm_owner req)" "ss_fence cur = cm_fence req" by (auto simp: authority_None)
    show ?thesis
    proof (cases "validActionBatch db (cm_actions req) (cm_sessionId req)")
      case True
      note l = appendLoop_closed [OF inv Some refl True, of "[]"]
      note u = settle_update [OF inv Some own refl]
      show ?thesis
        by (cases "armed_after (cm_actions req) (fl_armed db)"; cases "refuseRows env (cm_actions req)")
          (simp_all add: commitSession_def Some None True l u Let_def select_committed [OF Some])
    qed (simp add: commitSession_def Some None)
  qed (simp add: commitSession_def Some)
qed (simp add: commitSession_def)

text \<open>An accepted commit.\<close>

definition commit_accepts :: "store_env \<Rightarrow> session_commit \<Rightarrow> session_file \<Rightarrow> session_row \<Rightarrow> armed_row list \<Rightarrow> bool" where
  "commit_accepts env req db cur armed \<longleftrightarrow>
     commit_valid req \<and> selectSession db (cm_sessionId req) = Some cur \<and>
     sessionAuthorityRefusal db req cur = None \<and> refuseRows env (cm_actions req) = Inr () \<and>
     validActionBatch db (cm_actions req) (cm_sessionId req) \<and>
     armed_after (cm_actions req) (fl_armed db) = Inr armed"

lemma transaction_Inl [simp]: "f db = Inl e \<Longrightarrow> transaction f db = (Inl e, db)"
  by (simp add: transaction_def)

lemma transaction_Inr [simp]: "f db = Inr (x, db') \<Longrightarrow> transaction f db = (Inr x, db')"
  by (simp add: transaction_def)

lemma transaction_eq_Inr: "transaction f db = (Inr x, db') \<longleftrightarrow> f db = Inr (x, db')"
  by (auto simp: transaction_def split: sum.splits)

lemma transaction_eq_Inl: "transaction f db = (Inl e, db') \<longleftrightarrow> f db = Inl e \<and> db' = db"
  by (auto simp: transaction_def split: sum.splits)

lemma writeEffect_eq_Inr [simp]: "writeEffect op r = Inr x \<longleftrightarrow> r = Inr x"
  by (cases "(op, r)" rule: writeEffect.cases) auto

lemma writeEffect_eq_Inl: "writeEffect op r = Inl e \<Longrightarrow> \<exists>e'. r = Inl e'"
  by (cases "(op, r)" rule: writeEffect.cases) auto

lemma sessions_commit_Inr:
  assumes "file_inv db"
  shows "sessions_commit env req db = (Inr (row, rcs), db') \<longleftrightarrow>
    (\<exists>cur armed. commit_accepts env req db cur armed \<and> row = settled_row req cur \<and>
      rcs = receipts_of (stored_from (ss_revision cur) (cm_actions req)) \<and> db' = committed_file req cur armed db)"
proof -
  have "sessions_commit env req db = (Inr (row, rcs), db') \<longleftrightarrow> commitUnit env req db = Inr ((row, rcs), db')"
    by (auto simp: sessions_commit_def transaction_def split: sum.splits)
  also have "\<dots> \<longleftrightarrow> (\<exists>cur armed. commit_accepts env req db cur armed \<and> row = settled_row req cur \<and>
      rcs = receipts_of (stored_from (ss_revision cur) (cm_actions req)) \<and> db' = committed_file req cur armed db)"
  proof (cases "selectSession db (cm_sessionId req)")
    case (Some cur)
    show ?thesis
    proof (cases "sessionAuthorityRefusal db req cur")
      case None
      show ?thesis unfolding commitUnit_def commitSession_closed [OF assms] commit_accepts_def
        by (cases "refuseRows env (cm_actions req)"; cases "armed_after (cm_actions req) (fl_armed db)")
          (auto simp: Some None refusedSessionCommit_def)
    next
      case (Some x)
      with authority_Some [OF Some] \<open>selectSession db _ = Some cur\<close> show ?thesis
        unfolding commitUnit_def commitSession_closed [OF assms] commit_accepts_def by auto
    qed
  qed (simp add: commitUnit_def commitSession_closed [OF assms] commit_accepts_def)
  finally show ?thesis .
qed

lemma sessions_commit_Inl: "sessions_commit env req db = (Inl e, db') \<Longrightarrow> db' = db"
  by (auto simp: sessions_commit_def transaction_def split: sum.splits)

section \<open>Every operation keeps the invariant\<close>

text \<open>The invariant reads only the ids and revisions of the session rows.\<close>

lemma file_inv_rows:
  assumes "file_inv db" "map (\<lambda>s. (ss_id s, ss_revision s)) (fl_sessions db') = map (\<lambda>s. (ss_id s, ss_revision s)) (fl_sessions db)"
    and "fl_actions db' = fl_actions db" "armed_ok (fl_armed db')"
  shows "file_inv db'"
proof -
  have ids: "map ss_id (fl_sessions db') = map ss_id (fl_sessions db)"
    using arg_cong [OF assms(2), of "map fst"] by (simp add: comp_def)
  then have img: "ss_id ` set (fl_sessions db') = ss_id ` set (fl_sessions db)" by (metis list.set_map)
  have "\<exists>u\<in>set (fl_sessions db). ss_id u = ss_id s \<and> ss_revision u = ss_revision s" if "s \<in> set (fl_sessions db')" for s
  proof -
    have "(ss_id s, ss_revision s) \<in> set (map (\<lambda>s. (ss_id s, ss_revision s)) (fl_sessions db))"
      using that by (subst assms(2) [symmetric]) simp
    then show ?thesis by auto
  qed
  moreover have "log_of sid db' = log_of sid db" for sid by (simp add: log_of_def assms(3))
  ultimately show ?thesis
    using assms(1,3,4) ids img unfolding file_inv_def by (metis (no_types, lifting))
qed

lemma committed_inv:
  assumes "file_inv db" "commit_accepts env req db cur armed"
  shows "file_inv (committed_file req cur armed db)"
proof (rule file_inv_rows)
  let ?db = "appended (cm_sessionId req) (ss_revision cur) (cm_actions req) armed db"
  from assms(2) have cur: "selectSession db (cm_sessionId req) = Some cur"
    and v: "validActionBatch db (cm_actions req) (cm_sessionId req)"
    and a: "armed_after (cm_actions req) (fl_armed db) = Inr armed" by (auto simp: commit_accepts_def)
  show i: "file_inv ?db" by (rule appended_inv [OF assms(1) cur refl v a])
  show "map (\<lambda>s. (ss_id s, ss_revision s)) (fl_sessions (committed_file req cur armed db)) =
      map (\<lambda>s. (ss_id s, ss_revision s)) (fl_sessions ?db)"
    using selectSession_Some [OF cur] by (auto simp: committed_file_def set_revision_def)
  show "armed_ok (fl_armed (committed_file req cur armed db))" using file_invD(7) [OF i] by (simp add: committed_file_def)
qed (simp add: committed_file_def)

lemma appendAction_Inr:
  assumes "file_inv db" "appendAction env a r db = Inr (res, db')"
  shows "(res = None \<and> db' = db) \<or>
    (\<exists>s armed. selectSession db (ap_sessionId a) = Some s \<and> ss_revision s = r \<and> admissible db a \<and> refuseRow env a = Inr () \<and>
      applyDelta (armedAlarmDelta a) (fl_armed db) = Inr armed \<and>
      res = Some \<lparr>rc_action = storedActionRow a (r + 1), rc_revision = r + 1\<rparr> \<and>
      db' = appended (ap_sessionId a) r [a] armed db)"
proof (cases "validActionBatch db [a] (ap_sessionId a)")
  case valid: True
  then have adm: "admissible db a" by (auto simp: validActionBatch_def admissible_def split: if_splits option.splits)
  from assms(2) valid have ap: "appendValidatedAction a r db = Inr (res, db')" and rf: "refuseRow env a = Inr ()"
    by (auto simp: appendAction_def and_then_eq_Inr)
  show ?thesis
  proof (cases "\<exists>s. selectSession db (ap_sessionId a) = Some s \<and> ss_revision s = r")
    case True
    then obtain s where s: "selectSession db (ap_sessionId a) = Some s" "ss_revision s = r" by auto
    from ap append_one [OF assms(1) s(1) adm] s(2) obtain armed where
      "applyDelta (armedAlarmDelta a) (fl_armed db) = Inr armed" "db' = appended (ap_sessionId a) r [a] armed db"
      "res = Some \<lparr>rc_action = storedActionRow a (r + 1), rc_revision = r + 1\<rparr>"
      by (cases "applyDelta (armedAlarmDelta a) (fl_armed db)") auto
    with s adm rf show ?thesis by blast
  next
    case False
    then have none: "\<forall>s\<in>set (fl_sessions db). \<not> (ss_id s = ap_sessionId a \<and> ss_revision s = r)"
      using selectSession_iff [OF file_invD(1) [OF assms(1)]] by blast
    then have f: "filter (\<lambda>s. ss_id s = ap_sessionId a \<and> ss_revision s = r) (fl_sessions db) = []"
      by (simp add: filter_empty_conv)
    have "map (\<lambda>s. if ss_id s = ap_sessionId a \<and> ss_revision s = r then ss_revision_update (\<lambda>_. r + 1) s else s) (fl_sessions db) = fl_sessions db"
      using none by (intro map_idI) auto
    with ap f show ?thesis by (simp add: appendValidatedAction_def update_sessions_def Let_def)
  qed
qed (use assms in \<open>auto simp: appendAction_def and_then_eq_Inr\<close>)

lemma appendAction_inv:
  assumes "file_inv db" "appendAction env a r db = Inr (res, db')"
  shows "file_inv db'"
  using appendAction_Inr [OF assms]
proof (elim disjE exE conjE)
  fix s armed assume a: "selectSession db (ap_sessionId a) = Some s" "ss_revision s = r" "admissible db a"
    "applyDelta (armedAlarmDelta a) (fl_armed db) = Inr armed" "db' = appended (ap_sessionId a) r [a] armed db"
  then show ?thesis
    using appended_one_inv [OF assms(1) a(1,3) applyDelta_armed_ok [OF file_invD(7) [OF assms(1)] a(4)]] by simp
qed (use assms in simp)

lemma insertSession_inv:
  assumes "file_inv db" "insertSession row db = (True, db')" "ss_revision row = 0"
  shows "file_inv db'"
proof -
  from assms(2) have new: "ss_id row \<notin> ss_id ` set (fl_sessions db)" and db': "db' = db\<lparr>fl_sessions := fl_sessions db @ [row]\<rparr>"
    by (auto simp: insertSession_def selectSession_None split: if_splits)
  note d = file_invD [OF assms(1)]
  have "ap_sessionId n \<noteq> ss_id row" if "n \<in> set (fl_actions db)" for n using d(5) [OF that] new by metis
  then have "log_of (ss_id row) db = []" by (simp add: log_of_def filter_empty_conv)
  moreover have "log_of sid db' = log_of sid db" for sid by (simp add: log_of_def db')
  ultimately show ?thesis
    using assms(1,3) new d(5) by (fastforce simp: file_inv_def db')
qed

lemma materializeSession_Inr:
  assumes "file_inv db" "materializeSession env m db = Inr (res, db')"
  shows "(\<exists>row. res = Existing row \<and> db' = db) \<or>
    (\<exists>armed row rc. res = Created row rc \<and> selectSession db (ss_id (mt_row m)) = None \<and> ss_revision (mt_row m) = 0 \<and>
      ap_sessionId (mt_initialAction m) = ss_id (mt_row m) \<and>
      file_inv db' \<and> rc_revision rc = 1 \<and> rc_action rc = storedActionRow (mt_initialAction m) 1 \<and>
      row = (mt_row m)\<lparr>ss_revision := 1\<rparr> \<and>
      db' = appended (ss_id (mt_row m)) 0 [mt_initialAction m] armed (db\<lparr>fl_sessions := fl_sessions db @ [mt_row m]\<rparr>))"
proof -
  let ?sid = "ss_id (mt_row m)" and ?a = "mt_initialAction m"
  from assms(2) have g: "ap_sessionId ?a = ?sid" "ss_revision (mt_row m) = 0"
    by (auto simp: materializeSession_def Let_def split: if_splits)
  show ?thesis
  proof (cases "selectSession db ?sid")
    case (Some row)
    with assms(2) show ?thesis by (auto simp: materializeSession_def insertSession_def Let_def split: if_splits)
  next
    case None
    let ?db1 = "db\<lparr>fl_sessions := fl_sessions db @ [mt_row m]\<rparr>"
    have ins: "insertSession (mt_row m) db = (True, ?db1)" using None by (simp add: insertSession_def)
    note i1 = insertSession_inv [OF assms(1) ins g(2)]
    from assms(2) ins obtain rc where ap: "appendAction env ?a 0 ?db1 = Inr (Some rc, db')"
      and sel: "\<exists>row. selectSession db' ?sid = Some row \<and> res = Created row rc"
      by (auto simp: materializeSession_def Let_def and_then_eq_Inr split: if_splits option.splits)
    from appendAction_Inr [OF i1 ap] obtain armed where
      "rc = \<lparr>rc_action = storedActionRow ?a 1, rc_revision = 1\<rparr>" and db': "db' = appended ?sid 0 [?a] armed ?db1"
      using g by auto
    moreover have "selectSession ?db1 ?sid = Some (mt_row m)"
      using selectSession_iff [OF file_invD(1) [OF i1], of ?sid "mt_row m"] by simp
    then have "selectSession db' ?sid = Some ((mt_row m)\<lparr>ss_revision := 1\<rparr>)"
      using selectSession_appended [of ?db1 ?sid "mt_row m" 0 "[?a]" armed] by (simp add: db')
    ultimately show ?thesis using sel appendAction_inv [OF i1 ap] None g by auto
  qed
qed

lemma delete_session_inv:
  assumes "file_inv db"
  shows "file_inv (delete_session sid db)"
proof -
  note d = file_invD [OF assms]
  have "log_of sid' (delete_session sid db) = log_of sid' db" if "sid' \<noteq> sid" for sid'
    using that by (auto simp: log_of_def delete_session_def intro!: filter_cong)
  moreover have "parent_ok (filter (\<lambda>n. ap_sessionId n \<noteq> sid) (fl_actions db)) n"
    if "n \<in> set (fl_actions db)" "ap_sessionId n \<noteq> sid" for n
    using d(6) [OF that(1)] that(2) by (fastforce simp: parent_ok_def split: option.splits)
  moreover have "distinct (map ss_id (filter (\<lambda>s. ss_id s \<noteq> sid) (fl_sessions db)))"
    "distinct (map ap_id (filter (\<lambda>n. ap_sessionId n \<noteq> sid) (fl_actions db)))"
    using d(1,2) by (auto intro: distinct_map_filter)
  moreover have "ap_sessionId n \<in> ss_id ` {x \<in> set (fl_sessions db). ss_id x \<noteq> sid}"
    if "n \<in> set (fl_actions db)" "ap_sessionId n \<noteq> sid" for n
    using d(5) [OF that(1)] that(2) by auto
  ultimately show ?thesis
    using d by (simp add: file_inv_def delete_session_def)
qed

lemma forkCopies_inv:
  assumes "file_inv db" "forkCopies env copies rc db = Inr (rc', db')"
  shows "file_inv db'"
  using assms
proof (induction copies arbitrary: rc db)
  case (Cons c cs)
  from Cons.prems(2) obtain rc1 db1 where "appendAction env c (rc_revision rc) db = Inr (Some rc1, db1)"
    and "forkCopies env cs rc1 db1 = Inr (rc', db')"
    by (auto simp: and_then_eq_Inr split: if_splits option.splits)
  with Cons.IH appendAction_inv [OF Cons.prems(1)] show ?case by blast
qed simp

lemma toolOutputs_put_frame [simp]:
  "fl_sessions (toolOutputs_put w db) = fl_sessions db" "fl_actions (toolOutputs_put w db) = fl_actions db"
  "fl_armed (toolOutputs_put w db) = fl_armed db"
  by (simp_all add: toolOutputs_put_def)

lemma fold_put_frame [simp]:
  "fl_sessions (fold toolOutputs_put ws db) = fl_sessions db" "fl_actions (fold toolOutputs_put ws db) = fl_actions db"
  "fl_armed (fold toolOutputs_put ws db) = fl_armed db"
  by (induction ws arbitrary: db) simp_all

lemma strike_frame [simp]:
  "fl_sessions (snd (strikeArmedAlarm occ db)) = fl_sessions db" "fl_actions (snd (strikeArmedAlarm occ db)) = fl_actions db"
  by (simp_all add: strikeArmedAlarm_def Let_def)

lemma requeue_frame [simp]:
  "fl_sessions (snd (requeueArmedAlarm occ at db)) = fl_sessions db" "fl_actions (snd (requeueArmedAlarm occ at db)) = fl_actions db"
  by (simp_all add: requeueArmedAlarm_def)

lemma record_frame [simp]:
  "fl_sessions (snd (decisionFacts_record f db)) = fl_sessions db" "fl_actions (snd (decisionFacts_record f db)) = fl_actions db"
  "fl_armed (snd (decisionFacts_record f db)) = fl_armed db"
  by (simp_all add: decisionFacts_record_def Let_def)

definition armed_keys_of :: "session_file \<Rightarrow> (str \<times> str) list" where
  "armed_keys_of db = map (\<lambda>r. (aa_alarmId r, aa_occurrenceId r)) (fl_armed db)"

lemma armed_ok_keys: "armed_ok (fl_armed db) \<longleftrightarrow> distinct (map fst (armed_keys_of db)) \<and> distinct (map snd (armed_keys_of db))"
  by (simp add: armed_ok_def armed_keys_of_def comp_def)

lemma other_keys [simp]:
  "armed_keys_of (toolOutputs_put w db) = armed_keys_of db" "armed_keys_of (snd (decisionFacts_record f db)) = armed_keys_of db"
  by (simp_all add: armed_keys_of_def)

lemma strike_keys [simp]: "armed_keys_of (snd (strikeArmedAlarm occ db)) = armed_keys_of db"
  by (auto simp: armed_keys_of_def strikeArmedAlarm_def Let_def)

lemma requeue_keys [simp]: "armed_keys_of (snd (requeueArmedAlarm occ at db)) = armed_keys_of db"
  by (auto simp: armed_keys_of_def requeueArmedAlarm_def)

lemma file_inv_frame:
  assumes "file_inv db" "fl_sessions db' = fl_sessions db" "fl_actions db' = fl_actions db"
    "armed_keys_of db' = armed_keys_of db"
  shows "file_inv db'"
  using file_invD(7) [OF assms(1)] assms by (intro file_inv_rows [OF assms(1)]) (simp_all add: armed_ok_keys)

lemma adoptFence_Inr:
  assumes "file_inv db" "adoptFence req db = Inr (f, db')"
  shows "\<exists>cur. selectSession db (af_sessionId req) = Some cur \<and> f = af_fence req \<and>
    ((ss_fenceOwner cur = Some (af_owner req) \<and> ss_fence cur = af_fence req \<and> db' = db) \<or>
     (ss_fence cur < af_fence req \<and>
      db' = db\<lparr>fl_sessions := map (\<lambda>s. if ss_id s = af_sessionId req
        then s\<lparr>ss_fenceOwner := Some (af_owner req), ss_fence := af_fence req\<rparr> else s) (fl_sessions db)\<rparr>))"
proof (cases "selectSession db (af_sessionId req)")
  case (Some cur)
  then have c: "cur \<in> set (fl_sessions db)" "ss_id cur = af_sessionId req" by (auto dest: selectSession_Some)
  have "map (\<lambda>s. if ss_id s = ss_id cur \<and> ss_fence s < af_fence req then f s else s) (fl_sessions db) =
      map (\<lambda>s. if ss_id s = ss_id cur then f s else s) (fl_sessions db)" if "ss_fence cur < af_fence req" for f
    by (rule map_update_one [where P = "\<lambda>s. ss_fence s < af_fence req", OF file_invD(1) [OF assms(1)] c(1) that])
  with Some assms(2) c(2) show ?thesis
    by (auto simp: adoptFence_def update_sessions_def Let_def simp del: map_eq_conv split: if_splits)
qed (use assms in \<open>simp add: adoptFence_def\<close>)

section \<open>The file as a state machine\<close>

datatype store_op =
    OpMaterialize materialize
  | OpAdopt adopt_fence
  | OpCommit session_commit
  | OpAppend append_row int
  | OpStrike str
  | OpRequeue str fnum
  | OpPut tool_output
  | OpRecord decision_fact
  | OpCreate materialize "bool option"
  | OpFork materialize "append_row list" "tool_output list" "bool option"

fun run_op :: "store_env \<Rightarrow> store_op \<Rightarrow> session_file \<Rightarrow> session_file" where
  "run_op env (OpMaterialize m) db = snd (sessions_materialize env m db)"
| "run_op env (OpAdopt a) db = snd (sessions_adoptFence a db)"
| "run_op env (OpCommit c) db = snd (sessions_commit env c db)"
| "run_op env (OpAppend a r) db = snd (actions_append env a r db)"
| "run_op env (OpStrike occ) db = snd (strikeArmedAlarm occ db)"
| "run_op env (OpRequeue occ t) db = snd (requeueArmedAlarm occ t db)"
| "run_op env (OpPut w) db = toolOutputs_put w db"
| "run_op env (OpRecord f) db = snd (decisionFacts_record f db)"
| "run_op env (OpCreate m index) db = snd (session_create env m index db)"
| "run_op env (OpFork m copies outputs index) db = snd (session_fork env m copies outputs index db)"

text \<open>A new session with its first rows.\<close>

definition genesis :: "store_env \<Rightarrow> materialize \<Rightarrow> session_file \<Rightarrow> session_file \<Rightarrow> bool" where
  "genesis env m db db' \<longleftrightarrow> (\<exists>row rc db1 copies rc' db2. materializeSession env m db = Inr (Created row rc, db1) \<and>
     forkCopies env copies rc db1 = Inr (rc', db2) \<and> fl_sessions db' = fl_sessions db2 \<and>
     fl_actions db' = fl_actions db2 \<and> armed_keys_of db' = armed_keys_of db2)"

text \<open>
  What an operation can do to the file: nothing to sessions and log, a commit, an append,
  an adoption, or a new session; a creation the catalog does not index is taken back.
\<close>

inductive file_effect :: "store_env \<Rightarrow> session_file \<Rightarrow> session_file \<Rightarrow> bool" for env db where
  idle: "fl_sessions db' = fl_sessions db \<Longrightarrow> fl_actions db' = fl_actions db \<Longrightarrow> armed_keys_of db' = armed_keys_of db
    \<Longrightarrow> file_effect env db db'"
| commit: "commit_accepts env req db cur armed \<Longrightarrow> file_effect env db (committed_file req cur armed db)"
| append: "appendAction env a r db = Inr (Some rc, db') \<Longrightarrow> file_effect env db db'"
| adopt: "adoptFence req db = Inr (f, db') \<Longrightarrow> file_effect env db db'"
| create: "genesis env m db db' \<Longrightarrow> file_effect env db db'"

definition compensated :: "store_env \<Rightarrow> session_file \<Rightarrow> session_file \<Rightarrow> bool" where
  "compensated env db db' \<longleftrightarrow> (\<exists>m db1. genesis env m db db1 \<and> db' = delete_session (ss_id (mt_row m)) db1)"

fun unindexed :: "store_op \<Rightarrow> bool" where
  "unindexed (OpCreate m index) = (index \<noteq> Some True)"
| "unindexed (OpFork m copies outputs index) = (index \<noteq> Some True)"
| "unindexed _ = False"

lemma file_effect_refl [intro, simp]: "file_effect env db db"
  by (rule idle) simp_all

lemma indexed_snd:
  "snd (indexed index m write db) =
    (if \<not> materialize_valid m then db
     else case write db of
       Inl e \<Rightarrow> db
     | Inr (x, db1) \<Rightarrow> if index = Some True then db1 else delete_session (ss_id (mt_row m)) db1)"
  by (auto simp: indexed_def transaction_def Let_def split: sum.splits option.splits bool.splits)

lemma indexed_effect:
  assumes "\<And>x db1. write db = Inr (x, db1) \<Longrightarrow> genesis env m db db1"
  shows "file_effect env db (snd (indexed index m write db)) \<or>
    index \<noteq> Some True \<and> compensated env db (snd (indexed index m write db))"
proof (cases "write db")
  case (Inr y)
  obtain x db1 where y: "y = (x, db1)" by (cases y)
  with assms Inr have "genesis env m db db1" by simp
  then have "file_effect env db db1" "compensated env db (delete_session (ss_id (mt_row m)) db1)"
    unfolding compensated_def by (blast intro: file_effect.create)+
  with Inr y show ?thesis by (simp add: indexed_snd)
qed (simp add: indexed_snd)

lemma create_genesis:
  assumes "and_then (materializeSession env m db) (\<lambda>(result, db1). case result of
      Created row rc \<Rightarrow> Inr ((row, rc), db1) | Existing _ \<Rightarrow> Inl e) = Inr (x, db')"
  shows "genesis env m db db'"
proof (cases "materializeSession env m db")
  case (Inr y)
  obtain res db1 where y: "y = (res, db1)" by (cases y)
  with assms Inr obtain row rc where "res = Created row rc" "db1 = db'" by (cases res) auto
  with Inr y show ?thesis
    unfolding genesis_def by (intro exI [of _ row] exI [of _ rc] exI [of _ db'] exI [of _ "[]"]) simp
qed (use assms in simp)

lemma fork_genesis:
  assumes "forkUnit env m copies outputs db = Inr (x, db')"
  shows "genesis env m db db'"
proof (cases "materializeSession env m db")
  case (Inr y)
  obtain res db1 where y: "y = (res, db1)" by (cases y)
  with assms Inr obtain row rc where r: "res = Created row rc" by (cases res) (auto simp: forkUnit_def)
  from assms Inr y r obtain rc' db2 where "forkCopies env copies rc db1 = Inr (rc', db2)"
    "db' = fold toolOutputs_put outputs db2"
    by (auto simp: forkUnit_def and_then_eq_Inr Let_def split: option.splits)
  with Inr y r show ?thesis
    unfolding genesis_def
    by (intro exI [of _ row] exI [of _ rc] exI [of _ db1] exI [of _ copies] exI [of _ rc'] exI [of _ db2])
      (simp add: armed_keys_of_def)
qed (use assms in \<open>simp add: forkUnit_def\<close>)

lemma run_op_effect:
  "file_inv db \<Longrightarrow> file_effect env db (run_op env op db) \<or> unindexed op \<and> compensated env db (run_op env op db)"
proof (cases op)
  case (OpMaterialize m)
  assume inv: "file_inv db"
  show ?thesis
  proof (cases "materialize_valid m \<and> (\<exists>r db'. materializeSession env m db = Inr (r, db'))")
    case True
    then obtain r db' where m: "materialize_valid m" "materializeSession env m db = Inr (r, db')" by auto
    show ?thesis
    proof (cases r)
      case (Created row rc)
      with m have "genesis env m db db'"
        unfolding genesis_def by (intro exI [of _ row] exI [of _ rc] exI [of _ db'] exI [of _ "[]"]) simp
      with m show ?thesis
        by (simp add: OpMaterialize sessions_materialize_def transaction_def file_effect.create)
    next
      case (Existing row)
      with m materializeSession_Inr [OF inv m(2)] show ?thesis
        by (simp add: OpMaterialize sessions_materialize_def transaction_def)
    qed
  next
    case False
    then show ?thesis by (auto simp: OpMaterialize sessions_materialize_def transaction_def split: sum.splits)
  qed
next
  case (OpAdopt a)
  then show ?thesis
    by (auto simp: sessions_adoptFence_def transaction_def split: sum.splits if_splits intro: file_effect.adopt)
next
  case (OpCommit c)
  assume inv: "file_inv db"
  show ?thesis
  proof (cases "sessions_commit env c db")
    case (Pair r db')
    show ?thesis
    proof (cases r)
      case (Inl e)
      with Pair sessions_commit_Inl [of env c db e db'] show ?thesis by (simp add: OpCommit)
    next
      case (Inr x)
      obtain row rcs where x: "x = (row, rcs)" by (cases x)
      with Pair Inr sessions_commit_Inr [OF inv, of env c row rcs db'] show ?thesis
        by (auto simp: OpCommit intro: file_effect.commit)
    qed
  qed
next
  case (OpAppend a r)
  assume inv: "file_inv db"
  show ?thesis
  proof (cases "appendAction env a r db")
    case (Inl e)
    then show ?thesis by (simp add: OpAppend actions_append_def)
  next
    case (Inr x)
    obtain o' db' where x: "x = (o', db')" by (cases x)
    show ?thesis
    proof (cases o')
      case None
      with appendAction_Inr [OF inv, of env a r None db'] Inr x show ?thesis by (auto simp: OpAppend actions_append_def)
    next
      case (Some rc)
      with Inr x show ?thesis by (auto simp: OpAppend actions_append_def intro: file_effect.append)
    qed
  qed
next
  case (OpCreate m index)
  then show ?thesis
    by (simp add: session_create_def case_prod_beta) (rule indexed_effect [simplified], rule create_genesis, assumption)
next
  case (OpFork m copies outputs index)
  then show ?thesis
    by (simp add: session_fork_def case_prod_beta) (rule indexed_effect [simplified], rule fork_genesis, assumption)
qed (auto intro!: file_effect.idle)

lemma genesis_inv:
  assumes "file_inv db" "genesis env m db db'"
  shows "file_inv db'" "selectSession db (ss_id (mt_row m)) = None"
proof -
  from assms(2) obtain row rc db1 copies rc' db2 where g: "materializeSession env m db = Inr (Created row rc, db1)"
    "forkCopies env copies rc db1 = Inr (rc', db2)" "fl_sessions db' = fl_sessions db2"
    "fl_actions db' = fl_actions db2" "armed_keys_of db' = armed_keys_of db2" unfolding genesis_def by blast
  from materializeSession_Inr [OF assms(1) g(1)] have "file_inv db1" and n: "selectSession db (ss_id (mt_row m)) = None" by auto
  then have "file_inv db2" using forkCopies_inv g(2) by blast
  then show "file_inv db'" using file_inv_frame g(3-5) by blast
  show "selectSession db (ss_id (mt_row m)) = None" by (rule n)
qed

lemma file_effect_inv:
  assumes "file_inv db" "file_effect env db db'"
  shows "file_inv db'"
  using assms(2)
proof cases
  case idle
  then show ?thesis using file_inv_frame [OF assms(1)] by blast
next
  case (commit req cur armed)
  then show ?thesis using committed_inv [OF assms(1)] by simp
next
  case (append a r rc)
  then show ?thesis using appendAction_inv [OF assms(1)] by simp
next
  case (adopt req f)
  from adoptFence_Inr [OF assms(1) adopt] show ?thesis
    using assms(1) file_invD(7) [OF assms(1)] by (auto intro!: file_inv_rows [OF assms(1)])
next
  case (create m)
  then show ?thesis using genesis_inv [OF assms(1)] by blast
qed

lemma compensated_inv: "file_inv db \<Longrightarrow> compensated env db db' \<Longrightarrow> file_inv db'"
  unfolding compensated_def using genesis_inv delete_session_inv by blast

lemma run_op_inv: "file_inv db \<Longrightarrow> file_inv (run_op env op db)"
  using file_effect_inv compensated_inv run_op_effect by blast

lemma history_inv: "file_inv db \<Longrightarrow> file_inv (fold (run_op env) ops db)"
  by (induction ops arbitrary: db) (simp_all add: run_op_inv)

section \<open>What a session sees\<close>

text \<open>A session row that was there stays, its fence does not fall and its log only grows.\<close>

definition advances :: "str \<Rightarrow> session_file \<Rightarrow> session_file \<Rightarrow> bool" where
  "advances sid db db' \<longleftrightarrow>
     (\<forall>s. selectSession db sid = Some s \<longrightarrow>
       (\<exists>s'. selectSession db' sid = Some s' \<and> ss_fence s \<le> ss_fence s' \<and>
         (ss_fence s = ss_fence s' \<longrightarrow> ss_fenceOwner s = ss_fenceOwner s')) \<and>
       prefix (log_of sid db) (log_of sid db'))"

lemma advances_refl [simp]: "advances sid db db"
  by (simp add: advances_def)

lemma advances_trans: "advances sid a b \<Longrightarrow> advances sid b c \<Longrightarrow> advances sid a c"
  unfolding advances_def
proof (intro allI impI)
  fix s
  assume ab: "\<forall>s. selectSession a sid = Some s \<longrightarrow> (\<exists>s'. selectSession b sid = Some s' \<and> ss_fence s \<le> ss_fence s' \<and>
      (ss_fence s = ss_fence s' \<longrightarrow> ss_fenceOwner s = ss_fenceOwner s')) \<and> prefix (log_of sid a) (log_of sid b)"
    and bc: "\<forall>s. selectSession b sid = Some s \<longrightarrow> (\<exists>s'. selectSession c sid = Some s' \<and> ss_fence s \<le> ss_fence s' \<and>
      (ss_fence s = ss_fence s' \<longrightarrow> ss_fenceOwner s = ss_fenceOwner s')) \<and> prefix (log_of sid b) (log_of sid c)"
    and s: "selectSession a sid = Some s"
  from ab s obtain t where t: "selectSession b sid = Some t" "ss_fence s \<le> ss_fence t"
    "ss_fence s = ss_fence t \<longrightarrow> ss_fenceOwner s = ss_fenceOwner t" "prefix (log_of sid a) (log_of sid b)" by blast
  from bc t(1) obtain u where u: "selectSession c sid = Some u" "ss_fence t \<le> ss_fence u"
    "ss_fence t = ss_fence u \<longrightarrow> ss_fenceOwner t = ss_fenceOwner u" "prefix (log_of sid b) (log_of sid c)" by blast
  from t u have "prefix (log_of sid a) (log_of sid c)" "ss_fence s \<le> ss_fence u"
    "ss_fence s = ss_fence u \<longrightarrow> ss_fenceOwner s = ss_fenceOwner u" by auto
  with u(1) show "(\<exists>s'. selectSession c sid = Some s' \<and> ss_fence s \<le> ss_fence s' \<and>
      (ss_fence s = ss_fence s' \<longrightarrow> ss_fenceOwner s = ss_fenceOwner s')) \<and> prefix (log_of sid a) (log_of sid c)"
    by blast
qed

lemma advances_appended:
  "advances sid db (appended sid' r as armed db)"
proof (cases "sid = sid'")
  case True
  then show ?thesis by (auto simp: advances_def selectSession_appended log_of_appended)
next
  case False
  then show ?thesis by (auto simp: advances_def selectSession_appended_other log_of_appended)
qed

lemma advances_frame:
  "fl_sessions db' = fl_sessions db \<Longrightarrow> fl_actions db' = fl_actions db \<Longrightarrow> advances sid db db'"
  by (simp add: advances_def selectSession_def log_of_def)

lemma advances_appendAction:
  assumes "file_inv db" "appendAction env a r db = Inr (res, db')"
  shows "advances sid db db'"
  using appendAction_Inr [OF assms] advances_appended by auto

lemma advances_forkCopies:
  assumes "file_inv db" "forkCopies env copies rc db = Inr (rc', db')"
  shows "advances sid db db'"
  using assms
proof (induction copies arbitrary: rc db)
  case (Cons c cs)
  from Cons.prems(2) obtain rc1 db1 where a: "appendAction env c (rc_revision rc) db = Inr (Some rc1, db1)"
    and "forkCopies env cs rc1 db1 = Inr (rc', db')"
    by (auto simp: and_then_eq_Inr split: if_splits option.splits)
  with Cons.IH [OF appendAction_inv [OF Cons.prems(1) a]] advances_appendAction [OF Cons.prems(1) a] show ?case
    using advances_trans by blast
qed simp

lemma advances_materialize:
  assumes "file_inv db" "materializeSession env m db = Inr (res, db')"
  shows "advances sid db db'"
proof -
  have "advances sid db (db\<lparr>fl_sessions := fl_sessions db @ [row]\<rparr>)" for row
  proof -
    have "find P (xs @ [x]) = Some y" if "find P xs = Some y" for P :: "session_row \<Rightarrow> bool" and xs x y
      using that by (induction xs) (auto split: if_splits)
    then show ?thesis by (auto simp: advances_def selectSession_def log_of_def)
  qed
  then have "advances sid db (appended sid' r as armed (db\<lparr>fl_sessions := fl_sessions db @ [row]\<rparr>))" for sid' r as armed row
    using advances_trans advances_appended by blast
  then show ?thesis
    using materializeSession_Inr [OF assms] by auto
qed

lemma advances_delete: "sid \<noteq> sid' \<Longrightarrow> advances sid db (delete_session sid' db)"
proof -
  assume ne: "sid \<noteq> sid'"
  have "find (\<lambda>s. ss_id s = sid) (filter (\<lambda>s. ss_id s \<noteq> sid') ss) = find (\<lambda>s. ss_id s = sid) ss" for ss
    using ne by (induction ss) auto
  then have "selectSession (delete_session sid' db) sid = selectSession db sid"
    by (simp add: selectSession_def delete_session_def)
  moreover have "filter (\<lambda>n. ap_sessionId n \<noteq> sid' \<and> ap_sessionId n = sid) ns = filter (\<lambda>n. ap_sessionId n = sid) ns" for ns :: "node list"
    using ne by (intro filter_cong) auto
  then have "log_of sid (delete_session sid' db) = log_of sid db"
    by (simp add: log_of_def delete_session_def)
  ultimately show ?thesis by (simp add: advances_def)
qed

lemma advances_genesis:
  assumes "file_inv db" "genesis env m db db'"
  shows "advances sid db db'"
proof -
  from assms(2) obtain row rc db1 copies rc' db2 where g: "materializeSession env m db = Inr (Created row rc, db1)"
    "forkCopies env copies rc db1 = Inr (rc', db2)" "fl_sessions db' = fl_sessions db2"
    "fl_actions db' = fl_actions db2" unfolding genesis_def by blast
  from materializeSession_Inr [OF assms(1) g(1)] have i1: "file_inv db1" by auto
  show ?thesis
    by (rule advances_trans [OF advances_trans [OF advances_materialize [OF assms(1) g(1)] advances_forkCopies [OF i1 g(2)]]
          advances_frame [OF g(3,4)]])
qed

lemma advances_compensated:
  assumes "file_inv db" "compensated env db db'"
  shows "advances sid db db'"
proof -
  from assms(2) obtain m db1 where g: "genesis env m db db1" "db' = delete_session (ss_id (mt_row m)) db1"
    unfolding compensated_def by blast
  show ?thesis
  proof (cases "sid = ss_id (mt_row m)")
    case True
    with genesis_inv(2) [OF assms(1) g(1)] show ?thesis by (simp add: advances_def)
  next
    case False
    from advances_trans [OF advances_genesis [OF assms(1) g(1)] advances_delete [OF False]] g(2) show ?thesis by simp
  qed
qed

lemma file_effect_advances:
  assumes inv: "file_inv db" and "file_effect env db db'"
  shows "advances sid db db'"
  using assms(2)
proof cases
  case idle
  then show ?thesis by (simp add: advances_frame)
next
  case (commit req cur armed)
  then have "selectSession db (cm_sessionId req) = Some cur" by (simp add: commit_accepts_def)
  from select_committed [OF this] this show ?thesis
    by (cases "sid = cm_sessionId req") (auto simp: advances_def commit log_of_def committed_file_def)
next
  case (append a r rc)
  then show ?thesis using advances_appendAction [OF inv] by simp
next
  case (adopt req f)
  let ?g = "\<lambda>s. if ss_id s = af_sessionId req then s\<lparr>ss_fenceOwner := Some (af_owner req), ss_fence := af_fence req\<rparr> else s"
  from adoptFence_Inr [OF inv adopt] obtain cur where cur: "selectSession db (af_sessionId req) = Some cur"
    and "db' = db \<or> ss_fence cur < af_fence req \<and> db' = db\<lparr>fl_sessions := map ?g (fl_sessions db)\<rparr>" by auto
  then consider "db' = db" | (moved) "ss_fence cur < af_fence req" "db' = db\<lparr>fl_sessions := map ?g (fl_sessions db)\<rparr>" by blast
  then show ?thesis
  proof cases
    case moved
    then have "selectSession db' sid = map_option ?g (selectSession db sid)"
      unfolding selectSession_def by (simp add: find_map_keyed)
    moreover have "log_of sid db' = log_of sid db" by (simp add: log_of_def moved)
    ultimately show ?thesis
      using cur moved(1) selectSession_Some [of db sid] by (auto simp: advances_def)
  qed simp
next
  case (create m)
  then show ?thesis by (rule advances_genesis [OF inv])
qed

lemma run_op_advances: "file_inv db \<Longrightarrow> advances sid db (run_op env op db)"
  using run_op_effect file_effect_advances advances_compensated by blast

lemma history_advances:
  assumes "file_inv db"
  shows "advances sid db (fold (run_op env) ops db)"
  using assms
proof (induction ops arbitrary: db)
  case (Cons op ops)
  show ?case
    using advances_trans [OF run_op_advances [OF Cons.prems] Cons.IH [OF run_op_inv [OF Cons.prems]]]
    by simp
qed simp

end
