(* ===== verification/Fenced_Log.thy ===== *)
theory Fenced_Log
  imports Prelude "HOL-Library.Sublist"
begin

text \<open>
  The interface a fenced writer sees of a durable session: a log that only grows under
  any operation, a fence that never falls, and commits accepted only under the current
  fence and at the current length of the log.  The two classical guarantees of fencing
  follow from those laws alone: a writer whose fence has been superseded never commits
  again, and of two commits prepared against one revision at most one lands.
\<close>

locale append_only =
  fixes sound :: "'st \<Rightarrow> bool"
    and live :: "'st \<Rightarrow> bool"
    and log_at :: "'st \<Rightarrow> 'row list"
    and step :: "'op \<Rightarrow> 'st \<Rightarrow> 'st"
  assumes step_sound: "sound s \<Longrightarrow> sound (step op s)"
    and step_live: "sound s \<Longrightarrow> live s \<Longrightarrow> live (step op s)"
    and step_log: "sound s \<Longrightarrow> live s \<Longrightarrow> prefix (log_at s) (log_at (step op s))"
begin

lemma steps_sound: "sound s \<Longrightarrow> sound (fold step ops s)"
  by (induction ops arbitrary: s) (simp_all add: step_sound)

lemma steps_live: "sound s \<Longrightarrow> live s \<Longrightarrow> live (fold step ops s)"
  by (induction ops arbitrary: s) (simp_all add: step_sound step_live)

lemma steps_log: "sound s \<Longrightarrow> live s \<Longrightarrow> prefix (log_at s) (log_at (fold step ops s))"
proof (induction ops arbitrary: s)
  case (Cons op ops)
  from step_log [OF Cons.prems, of op] Cons.IH [OF step_sound step_live] Cons.prems show ?case
    using prefix_order.trans by fastforce
qed simp

lemma nth_kept:
  assumes "sound s" "live s" "i < length (log_at s)"
  shows "i < length (log_at (fold step ops s))" "log_at (fold step ops s) ! i = log_at s ! i"
  using steps_log [OF assms(1,2), of ops] assms(3) by (auto simp: prefix_def nth_append)

end

locale fenced_log = append_only sound live log_at step
  for sound :: "'st \<Rightarrow> bool" and live :: "'st \<Rightarrow> bool" and log_at :: "'st \<Rightarrow> 'row list"
    and step :: "'op \<Rightarrow> 'st \<Rightarrow> 'st" +
  fixes fence_at :: "'st \<Rightarrow> int"
    and commit :: "'req \<Rightarrow> 'st \<Rightarrow> 'st option"
    and req_fence :: "'req \<Rightarrow> int"
    and req_revision :: "'req \<Rightarrow> int"
    and req_rows :: "'req \<Rightarrow> nat"
  assumes step_fence: "sound s \<Longrightarrow> live s \<Longrightarrow> fence_at s \<le> fence_at (step op s)"
    and commit_guard: "sound s \<Longrightarrow> commit r s = Some s' \<Longrightarrow>
      live s \<and> fence_at s = req_fence r \<and> int (length (log_at s)) = req_revision r"
    and commit_effect: "sound s \<Longrightarrow> commit r s = Some s' \<Longrightarrow>
      sound s' \<and> live s' \<and> length (log_at s') = length (log_at s) + req_rows r"
begin

lemma steps_fence: "sound s \<Longrightarrow> live s \<Longrightarrow> fence_at s \<le> fence_at (fold step ops s)"
proof (induction ops arbitrary: s)
  case (Cons op ops)
  from step_fence [OF Cons.prems, of op] Cons.IH [OF step_sound [OF Cons.prems(1)] step_live [OF Cons.prems]]
  show ?case by (auto intro: order_trans)
qed simp

lemma stale_never_commits:
  assumes "sound s" "live s" "req_fence r < fence_at s"
  shows "commit r (fold step ops s) = None"
proof (rule ccontr)
  assume "commit r (fold step ops s) \<noteq> None"
  then obtain s' where "commit r (fold step ops s) = Some s'" by auto
  from commit_guard [OF steps_sound [OF assms(1)] this] steps_fence [OF assms(1,2), of ops] assms(3)
  show False by simp
qed

lemma one_winner:
  assumes "sound s" "commit r s = Some s'" "0 < req_rows r" "req_revision r' = req_revision r"
  shows "commit r' (fold step ops s') = None"
proof (rule ccontr)
  assume "commit r' (fold step ops s') \<noteq> None"
  then obtain u where u: "commit r' (fold step ops s') = Some u" by auto
  note e = commit_effect [OF assms(1,2)] commit_guard [OF assms(1,2)]
  have "length (log_at s') \<le> length (log_at (fold step ops s'))"
    using steps_log [of s' ops] e by (auto dest: prefix_length_le)
  moreover have "int (length (log_at (fold step ops s'))) = req_revision r'"
    using commit_guard [OF steps_sound u] e by simp
  ultimately show False using e assms(3,4) by simp
qed

end

end
