(* ===== verification/Store_Properties.thy ===== *)
theory Store_Properties
  imports Store_Machine Fenced_Log
begin

text \<open>
  The guarantees of the session store: its file as a fenced log, the outcome and the
  atomicity of commits, the armed-alarm index as a function of the log, and the
  compensation of refused creations.
\<close>

section \<open>The file as a fenced log\<close>

definition fence_of :: "str \<Rightarrow> session_file \<Rightarrow> int" where
  "fence_of sid db = (case selectSession db sid of None \<Rightarrow> 0 | Some s \<Rightarrow> ss_fence s)"

definition commit_to :: "store_env \<Rightarrow> str \<Rightarrow> session_commit \<Rightarrow> session_file \<Rightarrow> session_file option" where
  "commit_to env sid req db =
     (if cm_sessionId req \<noteq> sid then None
      else case sessions_commit env req db of (Inr _, db') \<Rightarrow> Some db' | (Inl _, _) \<Rightarrow> None)"

lemma commit_to_Some:
  assumes "file_inv db" "commit_to env sid req db = Some db'"
  shows "\<exists>cur armed. cm_sessionId req = sid \<and> commit_accepts env req db cur armed \<and> db' = committed_file req cur armed db"
proof -
  from assms(2) obtain row rcs where "cm_sessionId req = sid" "sessions_commit env req db = (Inr (row, rcs), db')"
    by (auto simp: commit_to_def split: if_splits prod.splits sum.splits)
  with sessions_commit_Inr [OF assms(1), of env req row rcs db'] show ?thesis by auto
qed

lemma length_log:
  assumes "file_inv db" "selectSession db sid = Some s"
  shows "int (length (log_of sid db)) = ss_revision s"
proof -
  from assms(2) have s: "s \<in> set (fl_sessions db)" "ss_id s = sid" by (auto dest: selectSession_Some)
  have "length (map nd_ordinal (log_of sid db)) = length [1..ss_revision s]"
    using file_invD(4) [OF assms(1) s(1)] s(2) by simp
  then show ?thesis using file_invD(3) [OF assms(1) s(1)] by simp
qed

lemma stored_from_session:
  "list_all (\<lambda>a. ap_sessionId a = sid) as \<Longrightarrow> filter (\<lambda>n. ap_sessionId n = sid) (stored_from r as) = stored_from r as"
  "list_all (\<lambda>a. ap_sessionId a = sid) as \<Longrightarrow> sid' \<noteq> sid \<Longrightarrow> filter (\<lambda>n. ap_sessionId n = sid') (stored_from r as) = []"
  by (induction as arbitrary: r) auto

lemma validBatchFrom_session: "validBatchFrom ids db as sid \<Longrightarrow> list_all (\<lambda>a. ap_sessionId a = sid) as"
  by (induction as arbitrary: ids) (auto split: if_splits)

lemma length_stored_from [simp]: "length (stored_from r as) = length as"
  by (induction as arbitrary: r) auto

lemma log_committed:
  assumes "commit_accepts env req db cur armed"
  shows "log_of (cm_sessionId req) (committed_file req cur armed db) =
      log_of (cm_sessionId req) db @ stored_from (ss_revision cur) (cm_actions req)"
    "sid \<noteq> cm_sessionId req \<Longrightarrow> log_of sid (committed_file req cur armed db) = log_of sid db"
proof -
  have "list_all (\<lambda>a. ap_sessionId a = cm_sessionId req) (cm_actions req)"
    using assms by (auto simp: commit_accepts_def validActionBatch_def dest: validBatchFrom_session)
  note s = stored_from_session [OF this]
  show "log_of (cm_sessionId req) (committed_file req cur armed db) =
      log_of (cm_sessionId req) db @ stored_from (ss_revision cur) (cm_actions req)"
    "sid \<noteq> cm_sessionId req \<Longrightarrow> log_of sid (committed_file req cur armed db) = log_of sid db"
    using s by (simp_all add: log_of_def committed_file_def)
qed

interpretation sfile: fenced_log file_inv "\<lambda>db. selectSession db sid \<noteq> None" "log_of sid" "run_op env"
  "fence_of sid" "commit_to env sid" cm_fence cm_expectedRevision "\<lambda>req. length (cm_actions req)"
  for env sid
proof
  fix db op
  assume inv: "file_inv db"
  note adv = run_op_advances [OF inv, of sid env op]
  show "file_inv (run_op env op db)" by (rule run_op_inv [OF inv])
  {
    assume "selectSession db sid \<noteq> None"
    then obtain s where "selectSession db sid = Some s" by auto
    with adv show "selectSession (run_op env op db) sid \<noteq> None" "prefix (log_of sid db) (log_of sid (run_op env op db))"
      "fence_of sid db \<le> fence_of sid (run_op env op db)"
      by (auto simp: advances_def fence_of_def)
  }
next
  fix db req db'
  assume inv: "file_inv db" and c: "commit_to env sid req db = Some db'"
  from commit_to_Some [OF inv c] obtain cur armed where sid: "cm_sessionId req = sid"
    and acc: "commit_accepts env req db cur armed" and db': "db' = committed_file req cur armed db" by auto
  from acc have sel: "selectSession db (cm_sessionId req) = Some cur" by (simp add: commit_accepts_def)
  have "ss_fence cur = cm_fence req" "ss_revision cur = cm_expectedRevision req"
    using acc by (auto simp: commit_accepts_def authority_None)
  with length_log [OF inv sel] sel sid
  show "selectSession db sid \<noteq> None \<and> fence_of sid db = cm_fence req \<and> int (length (log_of sid db)) = cm_expectedRevision req"
    by (simp add: fence_of_def)
  show "file_inv db' \<and> selectSession db' sid \<noteq> None \<and> length (log_of sid db') = length (log_of sid db) + length (cm_actions req)"
    using committed_inv [OF inv acc] select_committed [OF sel] log_committed [OF acc] sid db' by simp
qed

section \<open>The armed index follows the log\<close>

fun key_delta :: "armed_delta option \<Rightarrow> (str \<times> str) list \<Rightarrow> (str \<times> str) list" where
  "key_delta None ks = ks"
| "key_delta (Some (Upsert alarmId occ t)) ks = put alarmId occ ks"
| "key_delta (Some (Retire alarmId)) ks = del alarmId ks"
| "key_delta (Some (FiredDelta occ)) ks = filter (\<lambda>p. snd p \<noteq> occ) ks"

definition replay_keys :: "node list \<Rightarrow> (str \<times> str) list" where
  "replay_keys ns = fold (\<lambda>n. key_delta (armedAlarmDelta n)) ns []"

definition index_agrees :: "session_file \<Rightarrow> bool" where
  "index_agrees db \<longleftrightarrow> armed_keys_of db = replay_keys (fl_actions db)"

abbreviation armed_key :: "armed_row \<Rightarrow> str \<times> str" where
  "armed_key r \<equiv> (aa_alarmId r, aa_occurrenceId r)"

lemma put_fresh: "k \<notin> fst ` set m \<Longrightarrow> put k v m = m @ [(k, v)]"
  by (induction k v m rule: put.induct) auto

lemma put_keyed:
  "distinct (map fst m) \<Longrightarrow> k \<in> fst ` set m \<Longrightarrow> put k v m = map (\<lambda>p. if fst p = k then (k, v) else p) m"
proof (induction k v m rule: put.induct)
  case (2 k v k' v' m)
  show ?case
  proof (cases "k = k'")
    case True
    with 2 have "\<forall>p\<in>set m. fst p \<noteq> k" by force
    then have "map (\<lambda>p. if fst p = k then (k, v) else p) m = m" by (intro map_idI) auto
    with True show ?thesis by simp
  next
    case False
    with 2 show ?thesis by auto
  qed
qed simp

lemma applyDelta_keys:
  assumes "armed_ok t" "applyDelta d t = Inr t'"
  shows "map armed_key t' = key_delta d (map armed_key t)"
proof (cases d)
  case (Some e)
  show ?thesis
  proof (cases e)
    case (Upsert alarmId occ fireAt)
    with assms Some have t': "t' = upsert_armed alarmId occ fireAt t"
      by (auto simp: applyDelta_def split: if_splits)
    have k: "fst ` set (map armed_key t) = aa_alarmId ` set t" "distinct (map fst (map armed_key t))"
      using assms(1) by (auto simp: armed_ok_def comp_def image_image)
    show ?thesis
      by (cases "alarmId \<in> aa_alarmId ` set t")
        (simp_all add: Some Upsert t' upsert_armed_def Let_def put_keyed [OF k(2)] put_fresh k(1) del: set_map)
  qed (use assms Some in \<open>auto simp: applyDelta_def del_def filter_map comp_def\<close>)
qed (use assms in \<open>simp add: applyDelta_def\<close>)

lemma replay_keys_append: "replay_keys (ns @ [n]) = key_delta (armedAlarmDelta n) (replay_keys ns)"
  by (simp add: replay_keys_def)

lemma armedAlarmDelta_stored [simp]: "armedAlarmDelta (storedActionRow a r) = armedAlarmDelta a"
  unfolding armedAlarmDelta_def storedActionRow_sel by (rule refl)

lemma armed_after_keys:
  "armed_ok t \<Longrightarrow> armed_after as t = Inr t' \<Longrightarrow> map armed_key t = replay_keys ns \<Longrightarrow>
    map armed_key t' = replay_keys (ns @ stored_from r as)"
proof (induction as arbitrary: t ns r)
  case (Cons a as)
  from Cons.prems(2) obtain u where u: "applyDelta (armedAlarmDelta a) t = Inr u" "armed_after as u = Inr t'"
    by (auto simp: and_then_eq_Inr)
  have "map armed_key u = replay_keys (ns @ [storedActionRow a (r + 1)])"
    using applyDelta_keys [OF Cons.prems(1) u(1)] Cons.prems(3) by (simp add: replay_keys_append)
  from Cons.IH [OF applyDelta_armed_ok [OF Cons.prems(1) u(1)] u(2) this, of "r + 1"] show ?case by simp
qed simp

lemma index_appendAction:
  assumes "file_inv db" "index_agrees db" "appendAction env a r db = Inr (res, db')"
  shows "index_agrees db'"
  using appendAction_Inr [OF assms(1,3)]
proof (elim disjE exE conjE)
  fix s armed
  assume "applyDelta (armedAlarmDelta a) (fl_armed db) = Inr armed" "db' = appended (ap_sessionId a) r [a] armed db"
  with assms(2) applyDelta_keys [OF file_invD(7) [OF assms(1)]] show ?thesis
    by (simp add: index_agrees_def armed_keys_of_def replay_keys_append)
qed (use assms in simp)

lemma index_forkCopies:
  assumes "file_inv db" "index_agrees db" "forkCopies env copies rc db = Inr (rc', db')"
  shows "index_agrees db'"
  using assms
proof (induction copies arbitrary: rc db)
  case (Cons c cs)
  from Cons.prems(3) obtain rc1 db1 where a: "appendAction env c (rc_revision rc) db = Inr (Some rc1, db1)"
    and "forkCopies env cs rc1 db1 = Inr (rc', db')"
    by (auto simp: and_then_eq_Inr split: if_splits option.splits)
  with Cons.IH [OF appendAction_inv [OF Cons.prems(1) a] index_appendAction [OF Cons.prems(1,2) a]] show ?case
    by blast
qed simp

lemma index_materialize:
  assumes "file_inv db" "index_agrees db" "materializeSession env m db = Inr (Created row rc, db')"
  shows "index_agrees db'"
proof -
  from assms(3) obtain db1 where ins: "insertSession (mt_row m) db = (True, db1)" and r: "ss_revision (mt_row m) = 0"
    and ap: "appendAction env (mt_initialAction m) 0 db1 = Inr (Some rc, db')"
    by (auto simp: materializeSession_def Let_def and_then_eq_Inr split: if_splits option.splits prod.splits)
  have "index_agrees db1" using assms(2) ins
    by (auto simp: insertSession_def index_agrees_def armed_keys_of_def split: if_splits)
  then show ?thesis using index_appendAction [OF insertSession_inv [OF assms(1) ins r] _ ap] by simp
qed

lemma file_effect_index:
  assumes inv: "file_inv db" and ag: "index_agrees db" and "file_effect env db db'"
  shows "index_agrees db'"
  using assms(3)
proof cases
  case idle
  with ag show ?thesis by (simp add: index_agrees_def)
next
  case (commit req cur armed)
  then have "armed_after (cm_actions req) (fl_armed db) = Inr armed" by (simp add: commit_accepts_def)
  from armed_after_keys [OF file_invD(7) [OF inv] this] ag commit show ?thesis
    by (simp add: index_agrees_def armed_keys_of_def committed_file_def)
next
  case (append a r rc)
  then show ?thesis using index_appendAction [OF inv ag] by blast
next
  case (adopt req f)
  from adoptFence_Inr [OF inv adopt] ag show ?thesis by (auto simp: index_agrees_def armed_keys_of_def)
next
  case (create m)
  then obtain row rc db1 copies rc' db2 where g: "materializeSession env m db = Inr (Created row rc, db1)"
    "forkCopies env copies rc db1 = Inr (rc', db2)" "fl_actions db' = fl_actions db2" "armed_keys_of db' = armed_keys_of db2"
    unfolding genesis_def by blast
  from materializeSession_Inr [OF inv g(1)] have "file_inv db1" by auto
  with index_forkCopies [OF _ index_materialize [OF inv ag g(1)] g(2)] g(3,4) show ?thesis
    by (simp add: index_agrees_def)
qed

lemma history_index:
  assumes "file_inv db" "index_agrees db" "list_all (\<lambda>op. \<not> unindexed op) ops"
  shows "index_agrees (fold (run_op env) ops db)"
  using assms
proof (induction ops arbitrary: db)
  case (Cons op ops)
  have "index_agrees (run_op env op db)"
    using run_op_effect [OF Cons.prems(1), of env op] Cons.prems(3) file_effect_index [OF Cons.prems(1,2)] by auto
  with Cons run_op_inv [OF Cons.prems(1)] show ?case by simp
qed simp

text \<open>Which rows end the life of an armed occurrence.\<close>

fun ends :: "str \<Rightarrow> str \<Rightarrow> armed_delta option \<Rightarrow> bool" where
  "ends alarmId occ None = False"
| "ends alarmId occ (Some (Upsert a o' t)) = (a = alarmId)"
| "ends alarmId occ (Some (Retire a)) = (a = alarmId)"
| "ends alarmId occ (Some (FiredDelta o')) = (o' = occ)"

definition armed_in_log :: "node list \<Rightarrow> str \<Rightarrow> str \<Rightarrow> bool" where
  "armed_in_log ns alarmId occ \<longleftrightarrow>
     (\<exists>xs n ys t. ns = xs @ n # ys \<and> armedAlarmDelta n = Some (Upsert alarmId occ t) \<and>
       (\<forall>m\<in>set ys. \<not> ends alarmId occ (armedAlarmDelta m)))"

lemma armed_in_log_snoc:
  "armed_in_log (ns @ [n]) alarmId occ \<longleftrightarrow>
    (\<exists>t. armedAlarmDelta n = Some (Upsert alarmId occ t)) \<or>
    armed_in_log ns alarmId occ \<and> \<not> ends alarmId occ (armedAlarmDelta n)"
proof
  assume "armed_in_log (ns @ [n]) alarmId occ"
  then obtain xs m ys t where s: "ns @ [n] = xs @ m # ys" "armedAlarmDelta m = Some (Upsert alarmId occ t)"
    "\<forall>m\<in>set ys. \<not> ends alarmId occ (armedAlarmDelta m)" unfolding armed_in_log_def by blast
  show "(\<exists>t. armedAlarmDelta n = Some (Upsert alarmId occ t)) \<or>
    armed_in_log ns alarmId occ \<and> \<not> ends alarmId occ (armedAlarmDelta n)"
  proof (cases ys rule: rev_cases)
    case Nil
    with s show ?thesis by auto
  next
    case (snoc zs z)
    with s have z: "ns = xs @ m # zs" "z = n" by simp_all
    with s(2,3) snoc have "armed_in_log ns alarmId occ" unfolding armed_in_log_def by auto
    with s(3) z snoc show ?thesis by simp
  qed
next
  assume "(\<exists>t. armedAlarmDelta n = Some (Upsert alarmId occ t)) \<or>
    armed_in_log ns alarmId occ \<and> \<not> ends alarmId occ (armedAlarmDelta n)"
  then show "armed_in_log (ns @ [n]) alarmId occ"
  proof
    assume "\<exists>t. armedAlarmDelta n = Some (Upsert alarmId occ t)"
    then show ?thesis unfolding armed_in_log_def by (intro exI [of _ ns] exI [of _ n] exI [of _ "[]"]) auto
  next
    assume a: "armed_in_log ns alarmId occ \<and> \<not> ends alarmId occ (armedAlarmDelta n)"
    then obtain xs m ys t where "ns = xs @ m # ys" "armedAlarmDelta m = Some (Upsert alarmId occ t)"
      "\<forall>m\<in>set ys. \<not> ends alarmId occ (armedAlarmDelta m)" unfolding armed_in_log_def by blast
    with a show ?thesis unfolding armed_in_log_def
      by (intro exI [of _ xs] exI [of _ m] exI [of _ "ys @ [n]"] exI [of _ t]) auto
  qed
qed

lemma replay_keys_distinct: "distinct (map fst (replay_keys ns))"
proof (induction ns rule: rev_induct)
  case (snoc n ns)
  then show ?case unfolding replay_keys_append
    by (cases "(armedAlarmDelta n, replay_keys ns)" rule: key_delta.cases) (auto intro: distinct_map_filter)
qed (simp add: replay_keys_def)

lemma set_put: "distinct (map fst m) \<Longrightarrow> set (put k v m) = insert (k, v) {p \<in> set m. fst p \<noteq> k}"
proof (induction k v m rule: put.induct)
  case (2 k v k' v' m)
  then show ?case by (auto simp: image_iff)
qed simp

lemma replay_keys_mem: "(alarmId, occ) \<in> set (replay_keys ns) \<longleftrightarrow> armed_in_log ns alarmId occ"
proof (induction ns rule: rev_induct)
  case Nil
  then show ?case by (simp add: replay_keys_def armed_in_log_def)
next
  case (snoc n ns)
  then show ?case unfolding replay_keys_append armed_in_log_snoc
    using set_put [OF replay_keys_distinct [of ns]]
    by (cases "(armedAlarmDelta n, replay_keys ns)" rule: key_delta.cases) (auto simp: del_def)
qed

section \<open>Other sessions of the file\<close>

definition outside :: "str \<Rightarrow> session_file \<Rightarrow> session_row list \<times> node list" where
  "outside sid db = (filter (\<lambda>s. ss_id s \<noteq> sid) (fl_sessions db), filter (\<lambda>n. ap_sessionId n \<noteq> sid) (fl_actions db))"

lemma outside_appended:
  "list_all (\<lambda>a. ap_sessionId a = sid) as \<Longrightarrow> outside sid (appended sid r as armed db) = outside sid db"
proof -
  assume a: "list_all (\<lambda>a. ap_sessionId a = sid) as"
  have "filter (\<lambda>s. ss_id s \<noteq> sid) (set_revision sid q ss) = filter (\<lambda>s. ss_id s \<noteq> sid) ss" for q ss
    by (induction ss) (auto simp: set_revision_def)
  moreover have "filter (\<lambda>n. ap_sessionId n \<noteq> sid) (stored_from r as) = []"
    using a by (induction as arbitrary: r) auto
  ultimately show ?thesis by (simp add: outside_def)
qed

lemma outside_forkCopies:
  assumes "file_inv db" "forkCopies env copies rc db = Inr (rc', db')" "list_all (\<lambda>a. ap_sessionId a = sid) copies"
  shows "outside sid db' = outside sid db"
  using assms
proof (induction copies arbitrary: rc db)
  case (Cons c cs)
  from Cons.prems(2) obtain rc1 db1 where a: "appendAction env c (rc_revision rc) db = Inr (Some rc1, db1)"
    and "forkCopies env cs rc1 db1 = Inr (rc', db')"
    by (auto simp: and_then_eq_Inr split: if_splits option.splits)
  with Cons.IH [OF appendAction_inv [OF Cons.prems(1) a]] appendAction_Inr [OF Cons.prems(1) a] Cons.prems(3)
  show ?case using outside_appended [of sid "[c]"] by auto
qed simp

lemma outside_fork:
  assumes "file_inv db" "forkUnit env m copies outputs db = Inr (x, db')"
    and "list_all (\<lambda>a. ap_sessionId a = ss_id (mt_row m)) copies"
  shows "outside (ss_id (mt_row m)) db' = outside (ss_id (mt_row m)) db"
proof (cases "materializeSession env m db")
  case (Inr y)
  obtain res db1 where y: "y = (res, db1)" by (cases y)
  with assms Inr obtain row rc where res: "res = Created row rc" by (cases res) (auto simp: forkUnit_def)
  from assms(2) Inr y res obtain rc' db2 where f: "forkCopies env copies rc db1 = Inr (rc', db2)"
    and db': "db' = fold toolOutputs_put outputs db2"
    by (auto simp: forkUnit_def and_then_eq_Inr Let_def split: option.splits)
  from materializeSession_Inr [OF assms(1)] Inr y res obtain armed where inv1: "file_inv db1"
    and a: "ap_sessionId (mt_initialAction m) = ss_id (mt_row m)"
    and db1: "db1 = appended (ss_id (mt_row m)) 0 [mt_initialAction m] armed (db\<lparr>fl_sessions := fl_sessions db @ [mt_row m]\<rparr>)"
    by (metis (no_types, lifting) materialize_result.distinct(1) prod.inject sum.inject(2))
  have "outside (ss_id (mt_row m)) db1 = outside (ss_id (mt_row m)) db"
    using outside_appended [of "ss_id (mt_row m)" "[mt_initialAction m]"] a by (simp add: db1) (simp add: outside_def)
  with outside_forkCopies [OF inv1 f assms(3)] show ?thesis by (simp add: db' outside_def)
qed (use assms in \<open>simp add: forkUnit_def\<close>)

lemma outside_absent:
  assumes "file_inv db" "selectSession db sid = None"
  shows "outside sid db = (fl_sessions db, fl_actions db)"
proof -
  have "\<forall>s\<in>set (fl_sessions db). ss_id s \<noteq> sid" using assms(2) by (auto simp: selectSession_None)
  moreover from this have "\<forall>n\<in>set (fl_actions db). ap_sessionId n \<noteq> sid" using file_invD(5) [OF assms(1)] by fastforce
  ultimately show ?thesis by (simp add: outside_def filter_id_conv)
qed

section \<open>A file for the witnesses\<close>

definition demo_env :: store_env where
  "demo_env = \<lparr>en_declaration = (\<lambda>_. None), en_rowByteCap = DEFAULT_ROW_BYTE_CAP\<rparr>"

definition demo_session :: session_row where
  "demo_session = \<lparr>ss_id = ''s'', ss_parentId = None, ss_role = Resident, ss_fenceOwner = None, ss_fence = 0,
     ss_revision = 0, ss_state = Idle, ss_toolsGeneration = 1, ss_systemHash = [], ss_policyGeneration = 1\<rparr>"

definition demo_append :: "str \<Rightarrow> action_kind \<Rightarrow> str option \<Rightarrow> append_row" where
  "demo_append i k parent = \<lparr>ap_id = i, ap_parentId = parent, ap_sessionId = ''s'', ap_kind = k,
     ap_intent = PNull, ap_effect = PNull, ap_ts = 5, ap_revert = None\<rparr>"

definition demo_arm :: append_row where
  "demo_arm = \<lparr>ap_id = ''w:arm:1'', ap_parentId = None, ap_sessionId = ''s'', ap_kind = KAlarm,
     ap_intent = PObj [(''op'', PStr ''arm''), (''alarmId'', PStr ''w''), (''at'', PNum (NInt 90))],
     ap_effect = PObj [(''occurrenceId'', PStr ''w1'')], ap_ts = 5, ap_revert = None\<rparr>"

definition demo_commit :: "int \<Rightarrow> int \<Rightarrow> append_row list \<Rightarrow> session_commit" where
  "demo_commit fence revision as = \<lparr>cm_sessionId = ''s'', cm_owner = ''o'', cm_fence = fence, cm_now = 6,
     cm_expectedRevision = revision, cm_actions = as, cm_state = Running, cm_generation = None, cm_requestCount = None\<rparr>"

definition demo_ops :: "store_op list" where
  "demo_ops = [OpMaterialize \<lparr>mt_row = demo_session, mt_initialAction = demo_append ''c'' KSessionConfigure None\<rparr>,
     OpAdopt \<lparr>af_sessionId = ''s'', af_owner = ''o'', af_fence = 1\<rparr>,
     OpCommit (demo_commit 1 1 [demo_append ''p'' KPrompt None, demo_arm])]"

definition demo_file :: session_file where
  "demo_file = fold (run_op demo_env) demo_ops empty_file"

lemma demo_file_value:
  "selectSession demo_file ''s'' = Some (demo_session\<lparr>ss_fenceOwner := Some ''o'', ss_fence := 1, ss_revision := 3, ss_state := Running\<rparr>)"
  "map ap_id (log_of ''s'' demo_file) = [''c'', ''p'', ''w:arm:1'']" "armed_keys_of demo_file = [(''w'', ''w1'')]"
  by code_simp+

lemma demo_file_inv: "file_inv demo_file"
  unfolding demo_file_def by (rule history_inv) simp

section \<open>Properties\<close>

text \<open>
  C8. Whatever sequence of operations a session file has gone through, its ids are unique,
  the ordinals of each session's log are exactly 1 up to its revision, every row's parent
  is an earlier row of the same session, and the armed index is keyed both ways.
\<close>

theorem store_history_sound: "file_inv (fold (run_op env) ops empty_file)"
  by (rule history_inv) simp

text \<open>
  C9. An accepted commit held the current owner, fence and revision (and the open-approval
  count it was decided on); it appends exactly its actions, in order, to the log of its
  session, numbered from the next revision, touches no other session's log, and the
  returned row and receipts are the ones stored.
\<close>

theorem accepted_commit_appends_its_actions:
  assumes "sessions_commit env req (fold (run_op env) ops empty_file) = (Inr (row, rcs), db')"
  shows "\<exists>cur. selectSession (fold (run_op env) ops empty_file) (cm_sessionId req) = Some cur \<and>
    ss_fenceOwner cur = Some (cm_owner req) \<and> ss_fence cur = cm_fence req \<and> ss_revision cur = cm_expectedRevision req \<and>
    (\<forall>rc. cm_requestCount req = Some rc \<longrightarrow>
      storedOpenApprovalCount (fold (run_op env) ops empty_file) (cnt_since rc) = cnt_count rc) \<and>
    log_of (cm_sessionId req) db' = log_of (cm_sessionId req) (fold (run_op env) ops empty_file) @ map rc_action rcs \<and>
    map append_row.truncate (map rc_action rcs) = cm_actions req \<and>
    map nd_ordinal (map rc_action rcs) = [cm_expectedRevision req + 1..cm_expectedRevision req + int (length (cm_actions req))] \<and>
    (\<forall>sid. sid \<noteq> cm_sessionId req \<longrightarrow> log_of sid db' = log_of sid (fold (run_op env) ops empty_file)) \<and>
    selectSession db' (cm_sessionId req) = Some row \<and> row = settled_row req cur"
proof -
  let ?db = "fold (run_op env) ops empty_file"
  have inv: "file_inv ?db" by (rule history_inv) simp
  from assms sessions_commit_Inr [OF inv] obtain cur armed where acc: "commit_accepts env req ?db cur armed"
    and row: "row = settled_row req cur" and rcs: "rcs = receipts_of (stored_from (ss_revision cur) (cm_actions req))"
    and db': "db' = committed_file req cur armed ?db" by blast
  from acc have sel: "selectSession ?db (cm_sessionId req) = Some cur"
    and auth: "sessionAuthorityRefusal ?db req cur = None" by (simp_all add: commit_accepts_def)
  have rows: "map rc_action rcs = stored_from (ss_revision cur) (cm_actions req)"
    by (simp add: rcs receipts_of_def comp_def)
  have "map append_row.truncate (stored_from r as) = as" for r as
    by (induction as arbitrary: r) simp_all
  moreover have "map nd_ordinal (stored_from r as) = [r + 1..r + int (length as)]" for r as
    by (induction as arbitrary: r) (simp_all add: upto_rec1 add.assoc)
  ultimately show ?thesis
    using auth sel log_committed [OF acc] select_committed(1) [OF sel]
    by (auto simp: authority_None rows row db' split: option.splits)
qed

theorem accepted_commit_appends_its_actions_witness:
  "\<exists>row rcs db'. sessions_commit demo_env (demo_commit 1 3 [demo_append ''q'' KTurn (Some ''p'')]) demo_file = (Inr (row, rcs), db') \<and>
    ss_revision row = 4 \<and> map rc_revision rcs = [4] \<and> length (log_of ''s'' db') = 4"
proof -
  let ?c = "demo_commit 1 3 [demo_append ''q'' KTurn (Some ''p'')]"
  have "is_ok (fst (sessions_commit demo_env ?c demo_file))" "map_option (map rc_revision \<circ> snd) (case fst (sessions_commit demo_env ?c demo_file) of Inr x \<Rightarrow> Some x | _ \<Rightarrow> None) = Some [4]"
    by code_simp+
  then obtain row rcs db' where r: "sessions_commit demo_env ?c demo_file = (Inr (row, rcs), db')" "map rc_revision rcs = [4]"
    by (cases "sessions_commit demo_env ?c demo_file") (auto simp: is_ok_iff)
  from accepted_commit_appends_its_actions [OF r(1) [unfolded demo_file_def]] demo_file_value(1) have
    "ss_revision row = 4" "length (log_of ''s'' db') = length (log_of ''s'' demo_file) + length rcs"
    by (auto simp: demo_file_def demo_commit_def)
  moreover have "length (log_of ''s'' demo_file) = 3" using arg_cong [OF demo_file_value(2), of length] by simp
  moreover have "length rcs = 1" using arg_cong [OF r(2), of length] by simp
  ultimately show ?thesis using r by auto
qed

text \<open>
  C10. Commits are all or nothing: a commit that fails in any way leaves the file exactly as
  it was, and the write kernel itself never returns a refusal with rows already appended.
\<close>

theorem refused_commit_writes_nothing:
  assumes "db = fold (run_op env) ops empty_file"
  shows "(\<not> is_ok (fst (sessions_commit env req db)) \<longrightarrow> snd (sessions_commit env req db) = db) \<and>
    (\<forall>reason f r db'. commitSession env req db = Inr (Some (Refused reason f r), db') \<longrightarrow> db' = db)"
proof -
  have inv: "file_inv db" unfolding assms by (rule history_inv) simp
  have "db' = db" if "commitSession env req db = Inr (Some (Refused reason f r), db')" for reason f r db'
    using that unfolding commitSession_closed [OF inv]
    by (auto simp: and_then_eq_Inr split: option.splits if_splits)
  moreover have "\<not> is_ok (fst (sessions_commit env req db)) \<longrightarrow> snd (sessions_commit env req db) = db"
    by (cases "sessions_commit env req db"; cases "fst (sessions_commit env req db)") (auto dest: sessions_commit_Inl)
  ultimately show ?thesis by blast
qed

theorem refused_commit_writes_nothing_witness:
  "\<not> is_ok (fst (sessions_commit demo_env (demo_commit 1 2 [demo_arm]) demo_file)) \<and>
    snd (sessions_commit demo_env (demo_commit 1 2 [demo_arm]) demo_file) = demo_file"
proof -
  have f: "\<not> is_ok (fst (sessions_commit demo_env (demo_commit 1 2 [demo_arm]) demo_file))" by code_simp
  with refused_commit_writes_nothing [of demo_file demo_env demo_ops "demo_commit 1 2 [demo_arm]"] show ?thesis
    by (simp add: demo_file_def)
qed

text \<open>
  C11. A superseded writer is shut out for good: once a session file has adopted a fence,
  every later commit under a smaller fence is refused, whatever happens in between.
\<close>

theorem stale_fence_never_commits:
  assumes "file_inv db" "sessions_adoptFence a db = (Inr f, db')"
    and "cm_sessionId req = af_sessionId a" "cm_fence req < af_fence a"
  shows "\<not> is_ok (fst (sessions_commit env req (fold (run_op env) ops db')))"
proof -
  have ad: "adoptFence a db = Inr (f, db')"
    using assms(2) by (auto simp: sessions_adoptFence_def transaction_def split: sum.splits if_splits)
  have eff: "file_effect env db db'" by (rule file_effect.adopt [OF ad])
  have inv: "file_inv db'" by (rule file_effect_inv [OF assms(1) eff])
  from adoptFence_Inr [OF assms(1) ad] obtain cur where cur: "selectSession db (af_sessionId a) = Some cur"
    and "ss_fence cur = af_fence a \<and> db' = db \<or> db' = db\<lparr>fl_sessions := map (\<lambda>s. if ss_id s = af_sessionId a
        then s\<lparr>ss_fenceOwner := Some (af_owner a), ss_fence := af_fence a\<rparr> else s) (fl_sessions db)\<rparr>" by auto
  then have "\<exists>s. selectSession db' (af_sessionId a) = Some s \<and> ss_fence s = af_fence a"
    using selectSession_Some [OF cur] by (auto simp: selectSession_def find_map_keyed)
  then have live: "selectSession db' (af_sessionId a) \<noteq> None" "cm_fence req < fence_of (af_sessionId a) db'"
    using assms(4) by (auto simp: fence_of_def)
  have "commit_to env (af_sessionId a) req (fold (run_op env) ops db') = None"
    by (rule sfile.stale_never_commits [OF inv live])
  then show ?thesis using assms(3)
    by (auto simp: commit_to_def is_ok_iff split: prod.splits sum.splits)
qed

theorem stale_fence_never_commits_witness:
  "\<not> is_ok (fst (sessions_commit demo_env (demo_commit 1 3 [])
     (fold (run_op demo_env) [] (snd (sessions_adoptFence \<lparr>af_sessionId = ''s'', af_owner = ''o2'', af_fence = 2\<rparr> demo_file)))))"
proof -
  let ?a = "\<lparr>af_sessionId = ''s'', af_owner = ''o2'', af_fence = 2\<rparr>"
  have "fst (sessions_adoptFence ?a demo_file) = Inr 2" by code_simp
  then have "sessions_adoptFence ?a demo_file = (Inr 2, snd (sessions_adoptFence ?a demo_file))"
    by (metis prod.collapse)
  from stale_fence_never_commits [OF demo_file_inv this, of "demo_commit 1 3 []" demo_env "[]"] show ?thesis
    by (simp add: demo_commit_def)
qed

text \<open>
  C12. Optimistic concurrency: of two non-empty commits prepared against the same revision of
  a session, once one is accepted the other is refused, then and ever after.
\<close>

theorem same_revision_commits_once:
  assumes "file_inv db" "sessions_commit env req db = (Inr x, db')" "cm_actions req \<noteq> []"
    and "cm_sessionId req' = cm_sessionId req" "cm_expectedRevision req' = cm_expectedRevision req"
  shows "\<not> is_ok (fst (sessions_commit env req' (fold (run_op env) ops db')))"
proof -
  have c: "commit_to env (cm_sessionId req) req db = Some db'" using assms(2) by (simp add: commit_to_def)
  have "commit_to env (cm_sessionId req) req' (fold (run_op env) ops db') = None"
    by (rule sfile.one_winner [OF assms(1) c]) (use assms in simp_all)
  then show ?thesis using assms(4) by (auto simp: commit_to_def is_ok_iff split: prod.splits sum.splits)
qed

theorem same_revision_commits_once_witness:
  "\<not> is_ok (fst (sessions_commit demo_env (demo_commit 1 3 [demo_append ''r'' KTurn None])
     (snd (sessions_commit demo_env (demo_commit 1 3 [demo_append ''q'' KTurn None]) demo_file))))"
proof -
  let ?c = "demo_commit 1 3 [demo_append ''q'' KTurn None]"
  have "is_ok (fst (sessions_commit demo_env ?c demo_file))" by code_simp
  then obtain x where "sessions_commit demo_env ?c demo_file = (Inr x, snd (sessions_commit demo_env ?c demo_file))"
    by (cases "sessions_commit demo_env ?c demo_file") (auto simp: is_ok_iff)
  from same_revision_commits_once [OF demo_file_inv this, of "demo_commit 1 3 [demo_append ''r'' KTurn None]" "[]"] show ?thesis
    by (simp add: demo_commit_def)
qed

text \<open>
  C13. The armed-alarm index is exact: after any operations in which no creation was taken
  back, an alarm is armed with an occurrence exactly when the log holds an arm row for it
  after which no row re-arms or retires the alarm or fires the occurrence.
\<close>

theorem armed_index_is_exact:
  assumes "list_all (\<lambda>op. \<not> unindexed op) ops"
  shows "map_option fst (armedAlarm (fold (run_op env) ops empty_file) alarmId) = Some occ \<longleftrightarrow>
    armed_in_log (fl_actions (fold (run_op env) ops empty_file)) alarmId occ"
proof -
  let ?db = "fold (run_op env) ops empty_file"
  have inv: "file_inv ?db" by (rule history_inv) simp
  have "index_agrees empty_file" by (simp add: index_agrees_def empty_file_def armed_keys_of_def replay_keys_def)
  then have ag: "armed_keys_of ?db = replay_keys (fl_actions ?db)"
    using history_index [OF _ _ assms, of empty_file env] by (simp add: index_agrees_def)
  have "map_option fst (armedAlarm ?db alarmId) = Some occ \<longleftrightarrow> (\<exists>r\<in>set (fl_armed ?db). aa_alarmId r = alarmId \<and> aa_occurrenceId r = occ)"
  proof
    assume "map_option fst (armedAlarm ?db alarmId) = Some occ"
    then show "\<exists>r\<in>set (fl_armed ?db). aa_alarmId r = alarmId \<and> aa_occurrenceId r = occ"
      by (auto simp: armedAlarm_def dest: find_Some_mem)
  next
    assume "\<exists>r\<in>set (fl_armed ?db). aa_alarmId r = alarmId \<and> aa_occurrenceId r = occ"
    then obtain r where r: "r \<in> set (fl_armed ?db)" "aa_alarmId r = alarmId" "aa_occurrenceId r = occ" by auto
    with find_keyed [of aa_alarmId "fl_armed ?db" r] file_invD(7) [OF inv]
    show "map_option fst (armedAlarm ?db alarmId) = Some occ" by (simp add: armedAlarm_def armed_ok_def)
  qed
  also have "\<dots> \<longleftrightarrow> (alarmId, occ) \<in> set (armed_keys_of ?db)" by (auto simp: armed_keys_of_def)
  finally show ?thesis by (simp add: ag replay_keys_mem)
qed

theorem armed_index_is_exact_witness: "armed_in_log (fl_actions demo_file) ''w'' ''w1''"
proof -
  have "map_option fst (armedAlarm demo_file ''w'') = Some ''w1''" by code_simp
  moreover have "list_all (\<lambda>op. \<not> unindexed op) demo_ops" by (simp add: demo_ops_def)
  ultimately show ?thesis
    using armed_index_is_exact [of demo_ops demo_env "''w''" "''w1''"] by (simp add: demo_file_def)
qed

text \<open>
  Creation is compensated: when the catalog refuses or fails to index a new session, the
  file's sessions and log are what they were before the creation.
\<close>

lemma unindexed_creation_is_undone:
  assumes "file_inv db" "index \<noteq> Some True" "list_all (\<lambda>a. ap_sessionId a = ss_id (mt_row m)) copies"
  shows "fl_sessions (snd (session_fork env m copies outputs index db)) = fl_sessions db \<and>
    fl_actions (snd (session_fork env m copies outputs index db)) = fl_actions db"
proof -
  let ?sid = "ss_id (mt_row m)"
  have undo: "fl_sessions (delete_session ?sid db') = fl_sessions db \<and> fl_actions (delete_session ?sid db') = fl_actions db"
    if f: "forkUnit env m copies outputs db = Inr (x, db')" for x db'
    using outside_fork [OF assms(1) f assms(3)] outside_absent [OF assms(1) genesis_inv(2) [OF assms(1) fork_genesis [OF f]]]
    by (simp add: outside_def delete_session_def)
  show ?thesis
    using assms(2) undo by (auto simp: session_fork_def case_prod_beta indexed_snd split: sum.splits)
qed

end
