(* ===== verification/Reads.thy ===== *)
theory Reads
  imports Store
begin

text \<open>
  The reads of a session file: \<^verbatim>\<open>packages/agent/src/core/store/session-file/reads.ts\<close>, one
  definition per statement.  The JSON functions of the database are written out: a path
  reads own members of objects only, JSON null and a missing member are both the SQL
  null, booleans are 0 and 1, and an array or object is its text.  Rows always decode
  here, because a text column is the value it encodes; what the file does with a row
  that does not decode is not modelled.
\<close>

section \<open>JSON columns\<close>

datatype sql_value = SNull | SInt int | SReal str | SText str

fun sql_of_json :: "plain \<Rightarrow> sql_value" where
  "sql_of_json PNull = SNull"
| "sql_of_json (PBool b) = SInt (if b then 1 else 0)"
| "sql_of_json (PNum (NInt i)) = SInt i"
| "sql_of_json (PNum (NText s)) = SReal s"
| "sql_of_json (PStr s) = SText s"
| "sql_of_json (PArr xs) = SText (stringify (PArr xs))"
| "sql_of_json (PObj ps) = SText (stringify (PObj ps))"

fun json_at :: "plain \<Rightarrow> str list \<Rightarrow> plain option" where
  "json_at v [] = Some v"
| "json_at v (k # ks) = (case plain_get v k of None \<Rightarrow> None | Some w \<Rightarrow> json_at w ks)"

definition json_extract :: "plain \<Rightarrow> str list \<Rightarrow> sql_value" where
  "json_extract v path = (case json_at v path of None \<Rightarrow> SNull | Some w \<Rightarrow> sql_of_json w)"

definition coalesce :: "sql_value \<Rightarrow> sql_value \<Rightarrow> sql_value" where
  "coalesce v w = (if v = SNull then w else v)"

text \<open>
  Equality and order of SQL values, false where the null makes them unknown; a text is
  above every number.  \<open>text_key\<close> is what a value is compared as with a text column.
\<close>

definition sql_eq :: "sql_value \<Rightarrow> sql_value \<Rightarrow> bool" where
  "sql_eq v w \<longleftrightarrow> v \<noteq> SNull \<and> v = w"

definition sql_ne :: "sql_value \<Rightarrow> sql_value \<Rightarrow> bool" where
  "sql_ne v w \<longleftrightarrow> v \<noteq> SNull \<and> w \<noteq> SNull \<and> v \<noteq> w"

definition above_text :: "sql_value \<Rightarrow> str \<Rightarrow> bool" where
  "above_text v s = (case v of SText t \<Rightarrow> s < t | _ \<Rightarrow> False)"

fun text_key :: "sql_value \<Rightarrow> str option" where
  "text_key SNull = None"
| "text_key (SInt i) = Some (int_text i)"
| "text_key (SReal s) = Some s"
| "text_key (SText s) = Some s"

text \<open>\<^verbatim>\<open>json_each(column, path)\<close>: the members at the path, one row for a primitive.\<close>

fun json_members :: "plain \<Rightarrow> plain list" where
  "json_members (PArr xs) = xs"
| "json_members (PObj ps) = map snd ps"
| "json_members v = [v]"

definition json_each :: "plain \<Rightarrow> str list \<Rightarrow> plain list" where
  "json_each v path = (case json_at v path of None \<Rightarrow> [] | Some w \<Rightarrow> json_members w)"

abbreviation intent_at :: "('a) append_row_scheme \<Rightarrow> str list \<Rightarrow> sql_value" where
  "intent_at a path \<equiv> json_extract (ap_intent a) path"

abbreviation effect_at :: "('a) append_row_scheme \<Rightarrow> str list \<Rightarrow> sql_value" where
  "effect_at a path \<equiv> json_extract (ap_effect a) path"

section \<open>Rows of a session\<close>

text \<open>The rows of a session by ordinal; the newest of them with a property; a page.\<close>

definition rows_of :: "str \<Rightarrow> session_file \<Rightarrow> node list" where
  "rows_of sid db = sort_key nd_ordinal (filter (\<lambda>n. ap_sessionId n = sid) (fl_actions db))"

definition newest :: "(node \<Rightarrow> bool) \<Rightarrow> node list \<Rightarrow> node option" where
  "newest p rows = find p (rev rows)"

definition pageSize :: "int \<Rightarrow> store_error + nat" where
  "pageSize limit = (if 1 \<le> limit \<and> limit \<le> 256 then Inr (nat limit) else Inl Thrown)"

definition page_of :: "int \<Rightarrow> node list \<Rightarrow> store_error + node list" where
  "page_of limit rows = and_then (pageSize limit) (\<lambda>n. Inr (take n rows))"

definition actionById :: "session_file \<Rightarrow> str \<Rightarrow> node option" where
  "actionById db i = find (\<lambda>n. ap_id n = i) (fl_actions db)"

definition latestAction :: "session_file \<Rightarrow> str \<Rightarrow> int \<Rightarrow> node option" where
  "latestAction db sid throughRevision = newest (\<lambda>n. nd_ordinal n \<le> throughRevision) (rows_of sid db)"

definition latestFoldCheckpoint :: "session_file \<Rightarrow> str \<Rightarrow> int \<Rightarrow> node option" where
  "latestFoldCheckpoint db sid throughRevision =
     newest (\<lambda>n. ap_kind n = KFoldCheckpoint \<and> nd_ordinal n \<le> throughRevision) (rows_of sid db)"

definition range_rows :: "session_file \<Rightarrow> str \<Rightarrow> int \<Rightarrow> int \<Rightarrow> store_error + node list" where
  "range_rows db sid afterRevision limit =
     page_of limit (filter (\<lambda>n. nd_ordinal n > afterRevision) (rows_of sid db))"

definition payloadBytes :: "session_file \<Rightarrow> str \<Rightarrow> int \<Rightarrow> int \<Rightarrow> int" where
  "payloadBytes db sid afterRevision throughRevision =
     sum_list (map (\<lambda>n. byteLength (stringify (ap_intent n)) + byteLength (stringify (ap_effect n)) +
         (case ap_revert n of None \<Rightarrow> 0 | Some r \<Rightarrow> byteLength (stringify r)))
       (filter (\<lambda>n. nd_ordinal n > afterRevision \<and> nd_ordinal n \<le> throughRevision) (rows_of sid db)))"

text \<open>At most one row: the newest configuration below a revision.\<close>

definition configurationActions :: "session_file \<Rightarrow> str \<Rightarrow> int \<Rightarrow> node list" where
  "configurationActions db sid beforeRevision =
     (case newest (\<lambda>n. ap_kind n = KSessionConfigure \<and> nd_ordinal n < beforeRevision) (rows_of sid db) of
        None \<Rightarrow> [] | Some n \<Rightarrow> [n])"

definition generationFor :: "session_file \<Rightarrow> str \<Rightarrow> int \<Rightarrow> node option" where
  "generationFor db sid generation =
     newest (\<lambda>n. ap_kind n = KSessionConfigure \<and> sql_eq (effect_at n [''snapshot'', ''generation'']) (SInt generation))
       (rows_of sid db)"

section \<open>Turns\<close>

definition is_turn_terminal :: "node \<Rightarrow> bool" where
  "is_turn_terminal n \<longleftrightarrow> ap_kind n = KTurn \<and> effect_at n [''phase''] = SText ''terminal''"

definition is_turn_intent :: "node \<Rightarrow> bool" where
  "is_turn_intent n \<longleftrightarrow> ap_kind n = KTurn \<and> intent_at n [''phase''] = SText ''intent''"

definition turnTerminalFor :: "session_file \<Rightarrow> str \<Rightarrow> str \<Rightarrow> node option" where
  "turnTerminalFor db sid turnId =
     newest (\<lambda>n. is_turn_terminal n \<and> effect_at n [''turnId''] = SText turnId) (rows_of sid db)"

definition latestTurnTerminal :: "session_file \<Rightarrow> str \<Rightarrow> node option" where
  "latestTurnTerminal db sid = newest is_turn_terminal (rows_of sid db)"

definition latestTurnUpdate :: "session_file \<Rightarrow> str \<Rightarrow> str \<Rightarrow> node option" where
  "latestTurnUpdate db sid turnId =
     newest (\<lambda>n. ap_kind n = KTurn \<and>
       (intent_at n [''turnId''] = SText turnId \<or> effect_at n [''turnId''] = SText turnId)) (rows_of sid db)"

definition turnIntentsPage :: "session_file \<Rightarrow> str \<Rightarrow> int \<Rightarrow> int \<Rightarrow> store_error + node list" where
  "turnIntentsPage db sid beforeRevision limit =
     page_of limit (rev (filter (\<lambda>n. is_turn_intent n \<and> nd_ordinal n < beforeRevision) (rows_of sid db)))"

text \<open>\<^verbatim>\<open>LIMIT 1 OFFSET count\<close> of the intents, newest first.\<close>

definition turnWindowStart :: "session_file \<Rightarrow> str \<Rightarrow> int \<Rightarrow> int \<Rightarrow> store_error + int" where
  "turnWindowStart db sid beforeRevision count =
     (if count < 0 then Inl Thrown
      else case drop (nat count) (rev (filter (\<lambda>n. is_turn_intent n \<and> nd_ordinal n < beforeRevision) (rows_of sid db))) of
        [] \<Rightarrow> Inr 0
      | n # _ \<Rightarrow> Inr (nd_ordinal n))"

definition input_row_kind :: "action_kind \<Rightarrow> bool" where
  "input_row_kind k \<longleftrightarrow> k = KPrompt \<or> k = KSignal \<or> k = KAction"

definition turnTailPage :: "session_file \<Rightarrow> str \<Rightarrow> int \<Rightarrow> int \<Rightarrow> store_error + node list" where
  "turnTailPage db sid cursor limit =
     page_of limit (filter (\<lambda>n. (ap_kind n = KTurn \<or> input_row_kind (ap_kind n)) \<and> nd_ordinal n > cursor) (rows_of sid db))"

text \<open>\<^verbatim>\<open>a.id NOT IN (SELECT turnId ... terminal)\<close>.\<close>

definition openTurnsPage :: "session_file \<Rightarrow> str \<Rightarrow> int \<Rightarrow> int \<Rightarrow> store_error + node list" where
  "openTurnsPage db sid cursor limit =
     (let closed = map (\<lambda>n. text_key (effect_at n [''turnId''])) (filter is_turn_terminal (rows_of sid db)) in
      page_of limit (filter (\<lambda>n. is_turn_intent n \<and> nd_ordinal n > cursor \<and> Some (ap_id n) \<notin> set closed) (rows_of sid db)))"

text \<open>The last model attempt of another turn.\<close>

definition priorModelAttempt :: "session_file \<Rightarrow> str \<Rightarrow> str \<Rightarrow> node option" where
  "priorModelAttempt db sid turnId =
     newest (\<lambda>n. ap_kind n = KLlm \<and> intent_at n [''phase''] = SText ''intent'' \<and> intent_at n [''attempt''] \<noteq> SNull \<and>
         intent_at n [''op''] = SText ''chat'' \<and>
         (case ap_parentId n of None \<Rightarrow> False
          | Some p \<Rightarrow> (case actionById db p of None \<Rightarrow> False
              | Some llm \<Rightarrow> (case ap_parentId llm of None \<Rightarrow> False
                  | Some q \<Rightarrow> q \<noteq> turnId \<and>
                      coalesce (case actionById db q of None \<Rightarrow> SNull | Some turn \<Rightarrow> intent_at turn [''turnId'']) (SText [])
                        \<noteq> SText turnId))))
       (rows_of sid db)"

section \<open>Operations\<close>

definition is_result_of :: "str \<Rightarrow> node \<Rightarrow> bool" where
  "is_result_of parent n \<longleftrightarrow> ap_parentId n = Some parent \<and> ap_kind n \<noteq> KFoldCheckpoint \<and>
     effect_at n [''phase''] = SText ''result''"

definition action_resultFor :: "session_file \<Rightarrow> str \<Rightarrow> str \<Rightarrow> node option" where
  "action_resultFor db sid parentId = newest (is_result_of parentId) (rows_of sid db)"

definition operationChildrenPage :: "session_file \<Rightarrow> str \<Rightarrow> str \<Rightarrow> int \<Rightarrow> int \<Rightarrow> store_error + node list" where
  "operationChildrenPage db sid parentId cursor limit =
     page_of limit (filter (\<lambda>n. ap_parentId n = Some parentId \<and> nd_ordinal n > cursor) (rows_of sid db))"

definition operation_kind :: "action_kind \<Rightarrow> bool" where
  "operation_kind k \<longleftrightarrow> k = KLlm \<or> k = KMessage \<or> k = KCompaction \<or> k = KTool"

definition same_wave :: "node \<Rightarrow> node \<Rightarrow> bool" where
  "same_wave m n \<longleftrightarrow> sql_eq (intent_at m [''waveId'']) (intent_at n [''waveId''])"

definition approval_required :: "node \<Rightarrow> bool" where
  "approval_required n \<longleftrightarrow> intent_at n [''approvalRequired''] = SInt 1"

definition openOperationsPage :: "session_file \<Rightarrow> str \<Rightarrow> str \<Rightarrow> int \<Rightarrow> int \<Rightarrow> store_error + node list" where
  "openOperationsPage db sid turnId cursor limit =
     (let rows = rows_of sid db in
      page_of limit (filter (\<lambda>a. nd_ordinal a > cursor \<and> operation_kind (ap_kind a) \<and>
        intent_at a [''phase''] = SText ''intent'' \<and>
        (ap_parentId a = Some turnId \<or> intent_at a [''turnId''] = SText turnId \<or>
         list_ex (\<lambda>t. ap_kind t = KTurn \<and> intent_at t [''phase''] = SText ''resume'' \<and>
           intent_at t [''turnId''] = SText turnId \<and> ap_parentId a = Some (ap_id t)) rows) \<and>
        \<not> list_ex (is_result_of (ap_id a)) rows \<and>
        (ap_kind a \<noteq> KTool \<or> \<not> list_ex (\<lambda>g. same_wave g a \<and> approval_required g) rows)) rows))"

definition guardedOperationsPage :: "session_file \<Rightarrow> str \<Rightarrow> str \<Rightarrow> int \<Rightarrow> int \<Rightarrow> store_error + node list" where
  "guardedOperationsPage db sid turnId cursor limit =
     (let rows = rows_of sid db in
      page_of limit (filter (\<lambda>a. nd_ordinal a > cursor \<and>
        list_ex (\<lambda>m. ap_kind m = KTool \<and> intent_at m [''phase''] = SText ''intent'' \<and>
          (ap_id a = ap_id m \<or> ap_parentId a = Some (ap_id m)) \<and>
          list_ex (\<lambda>g. ap_kind g = KTool \<and> intent_at g [''turnId''] = SText turnId \<and> approval_required g \<and> same_wave g m) rows \<and>
          list_ex (\<lambda>u. ap_kind u = KTool \<and> intent_at u [''phase''] = SText ''intent'' \<and> same_wave u m \<and>
            \<not> list_ex (is_result_of (ap_id u)) rows) rows) rows) rows))"

section \<open>Inputs\<close>

definition is_input_row :: "node \<Rightarrow> bool" where
  "is_input_row n \<longleftrightarrow> input_row_kind (ap_kind n) \<and> effect_at n [''deliveryKind''] \<noteq> SNull"

text \<open>
  \<^verbatim>\<open>PENDING_MESSAGES_SQL\<close>: the input rows that no delivery row and no list of stale inputs
  names.
\<close>

definition delivered_keys :: "node list \<Rightarrow> str option list" where
  "delivered_keys rows =
     filter (\<lambda>k. k \<noteq> None) (map (\<lambda>d. text_key (intent_at d [''deliveryId''])) (filter (\<lambda>d. input_row_kind (ap_kind d)) rows))"

definition stale_keys :: "node list \<Rightarrow> str option list" where
  "stale_keys rows =
     filter (\<lambda>k. k \<noteq> None) (concat (map (\<lambda>t. map (\<lambda>v. text_key (sql_of_json v)) (json_each (ap_intent t) [''consumedStale'']))
       (filter (\<lambda>t. ap_kind t = KTurn) rows)))"

definition pendingMessages :: "session_file \<Rightarrow> str \<Rightarrow> node list" where
  "pendingMessages db sid =
     (let rows = rows_of sid db in
      filter (\<lambda>n. is_input_row n \<and> Some (ap_id n) \<notin> set (delivered_keys rows) \<and> Some (ap_id n) \<notin> set (stale_keys rows)) rows)"

definition inputMessages :: "session_file \<Rightarrow> str \<Rightarrow> node list" where
  "inputMessages db sid = filter is_input_row (rows_of sid db)"

definition latestCompaction :: "session_file \<Rightarrow> str \<Rightarrow> node option" where
  "latestCompaction db sid =
     newest (\<lambda>n. ap_kind n = KCompaction \<and> effect_at n [''terminal''] = SText ''executed'') (rows_of sid db)"

section \<open>Requests, messages and policy decisions\<close>

definition requestInputById :: "session_file \<Rightarrow> str \<Rightarrow> str \<Rightarrow> node option" where
  "requestInputById db sid inputId =
     newest (\<lambda>n. ap_kind n = KRequest \<and> intent_at n [''inputId''] = SText inputId) (rows_of sid db)"

definition request_id_at :: "node \<Rightarrow> sql_value" where
  "request_id_at n = effect_at n [''request'', ''requestId'']"

text \<open>\<^verbatim>\<open>ORDER BY rowid\<close> is the order of insertion.\<close>

definition requestStateById :: "session_file \<Rightarrow> str \<Rightarrow> node option" where
  "requestStateById db i = newest (\<lambda>n. ap_kind n = KRequest \<and> request_id_at n = SText i) (fl_actions db)"

fun newest_per :: "(node \<Rightarrow> sql_value) \<Rightarrow> node list \<Rightarrow> node list" where
  "newest_per f [] = []"
| "newest_per f (n # ns) = (if list_ex (\<lambda>m. f m = f n) ns then newest_per f ns else n # newest_per f ns)"

definition requestStatesPage :: "session_file \<Rightarrow> str option \<Rightarrow> str \<Rightarrow> int \<Rightarrow> store_error + node list" where
  "requestStatesPage db sid cursor limit =
     page_of limit (sort_key (\<lambda>n. or_else (text_key (request_id_at n)) [])
       (filter (\<lambda>n. (case sid of None \<Rightarrow> True | Some s \<Rightarrow> ap_sessionId n = s) \<and> above_text (request_id_at n) cursor)
         (newest_per request_id_at (filter (\<lambda>n. ap_kind n = KRequest) (fl_actions db)))))"

definition message_id_at :: "node \<Rightarrow> sql_value" where
  "message_id_at n = effect_at n [''outbound'', ''message'', ''messageId'']"

definition is_outbound_row :: "node \<Rightarrow> bool" where
  "is_outbound_row n \<longleftrightarrow> ap_kind n = KMessage \<and> (intent_at n [''op''] = SText ''open'' \<or> intent_at n [''op''] = SText ''ack'')"

definition outbound_key :: "node \<Rightarrow> sql_value" where
  "outbound_key n = coalesce (message_id_at n) (SText (ap_id n))"

definition outboundStatesPage :: "session_file \<Rightarrow> str \<Rightarrow> str \<Rightarrow> int \<Rightarrow> store_error + node list" where
  "outboundStatesPage db sid cursor limit =
     (let rows = filter is_outbound_row (rows_of sid db) in
      page_of limit (sort_key (\<lambda>n. or_else (text_key (outbound_key n)) [])
        (filter (\<lambda>n. above_text (outbound_key n) cursor \<and>
          (message_id_at n = SNull \<or> \<not> list_ex (\<lambda>m. message_id_at m = message_id_at n \<and> nd_ordinal m > nd_ordinal n) rows)) rows)))"

definition policyDecisionRuleIds :: "session_file \<Rightarrow> str \<Rightarrow> str \<Rightarrow> store_error + str list option" where
  "policyDecisionRuleIds db sid inputHash =
     (case newest (\<lambda>n. ap_kind n = KPolicyDecision \<and> intent_at n [''inputHash''] = SText inputHash) (rows_of sid db) of
        None \<Rightarrow> Inr None
      | Some n \<Rightarrow>
          (case plain_get (ap_intent n) ''matchedRuleIds'' of
             Some (PArr xs) \<Rightarrow>
               if list_all (\<lambda>v. case v of PStr _ \<Rightarrow> True | _ \<Rightarrow> False) xs
               then Inr (Some (concat (map (\<lambda>v. case v of PStr s \<Rightarrow> [s] | _ \<Rightarrow> []) xs)))
               else Inl Thrown
           | _ \<Rightarrow> Inl Thrown))"

definition messageActionByPlatformId :: "session_file \<Rightarrow> str \<Rightarrow> str \<Rightarrow> node option" where
  "messageActionByPlatformId db sid messageId =
     find (\<lambda>n. ap_kind n = KMessage \<and> intent_at n [''value'', ''messageId''] = SText messageId) (rows_of sid db)"

text \<open>
  The row that received an outbound message: the prompt of that id, or an answered
  request whose answer (by the runtime schema \<open>answer_ok\<close>) carries it.
\<close>

definition outboundReceipt :: "(plain \<Rightarrow> bool) \<Rightarrow> session_file \<Rightarrow> str \<Rightarrow> str \<Rightarrow> (node \<times> int) option" where
  "outboundReceipt answer_ok db sid messageId =
     map_option (\<lambda>n. (n, nd_ordinal n))
       (find (\<lambda>n. (ap_kind n = KPrompt \<and> ap_id n = messageId) \<or>
           (ap_kind n = KRequest \<and> effect_at n [''phase''] = SText ''answered'' \<and>
            effect_at n [''answer'', ''outbound'', ''messageId''] = SText messageId \<and>
            (case plain_get (ap_effect n) ''answer'' of None \<Rightarrow> False | Some v \<Rightarrow> answer_ok v)))
         (rows_of sid db))"

end
