(* ===== verification/Decode.thy ===== *)
theory Decode
  imports Json
begin

text \<open>
  Reading plain values through the schemas of the protocol.  A reader gives the decoded
  value or nothing; an object schema reads each of its fields, an optional field may be
  absent, and a strict one admits no other field.  The writers below give the objects
  the code builds, where an absent field has no entry.
\<close>

named_theorems decode_simps

section \<open>Readers\<close>

definition MAX_SAFE_INTEGER :: int where
  "MAX_SAFE_INTEGER = 9007199254740991"

fun read_str :: "plain \<Rightarrow> str option" where
  "read_str (PStr s) = Some s"
| "read_str _ = None"

definition read_id :: "plain \<Rightarrow> str option" where
  "read_id v = (case read_str v of Some s \<Rightarrow> if s = [] then None else Some s | None \<Rightarrow> None)"

fun read_int :: "plain \<Rightarrow> int option" where
  "read_int (PNum (NInt i)) = (if \<bar>i\<bar> \<le> MAX_SAFE_INTEGER then Some i else None)"
| "read_int _ = None"

definition read_from :: "int \<Rightarrow> plain \<Rightarrow> int option" where
  "read_from low v = (case read_int v of Some i \<Rightarrow> if low \<le> i then Some i else None | None \<Rightarrow> None)"

abbreviation read_natural :: "plain \<Rightarrow> int option" where
  "read_natural \<equiv> read_from 0"

abbreviation read_positive :: "plain \<Rightarrow> int option" where
  "read_positive \<equiv> read_from 1"

definition read_enum :: "(str \<times> 'a) list \<Rightarrow> plain \<Rightarrow> 'a option" where
  "read_enum table v = Option.bind (read_str v) (map_of table)"

definition read_true :: "plain \<Rightarrow> unit option" where
  "read_true v = (if v = PBool True then Some () else None)"

definition read_nullable :: "(plain \<Rightarrow> 'a option) \<Rightarrow> plain \<Rightarrow> 'a option option" where
  "read_nullable f v = (if v = PNull then Some None else map_option Some (f v))"

fun read_all :: "(plain \<Rightarrow> 'a option) \<Rightarrow> plain list \<Rightarrow> 'a list option" where
  "read_all f [] = Some []"
| "read_all f (v # vs) = Option.bind (f v) (\<lambda>x. map_option (Cons x) (read_all f vs))"

fun read_list :: "(plain \<Rightarrow> 'a option) \<Rightarrow> plain \<Rightarrow> 'a list option" where
  "read_list f (PArr vs) = read_all f vs"
| "read_list f _ = None"

definition field :: "str \<Rightarrow> (plain \<Rightarrow> 'a option) \<Rightarrow> (str \<times> plain) list \<Rightarrow> 'a option" where
  "field k f ps = Option.bind (map_of ps k) f"

definition optional :: "str \<Rightarrow> (plain \<Rightarrow> 'a option) \<Rightarrow> (str \<times> plain) list \<Rightarrow> 'a option option" where
  "optional k f ps = (case map_of ps k of None \<Rightarrow> Some None | Some v \<Rightarrow> map_option Some (f v))"

definition strict :: "str list \<Rightarrow> (str \<times> plain) list \<Rightarrow> unit option" where
  "strict ks ps = (if set (map fst ps) \<subseteq> set ks then Some () else None)"

section \<open>Writers\<close>

fun opt_entry :: "str \<Rightarrow> ('a \<Rightarrow> plain) \<Rightarrow> 'a option \<Rightarrow> (str \<times> plain) list" where
  "opt_entry k f None = []"
| "opt_entry k f (Some x) = [(k, f x)]"

definition PInt :: "int \<Rightarrow> plain" where
  "PInt i = PNum (NInt i)"

section \<open>Reading back what was written\<close>

lemma read_simps [decode_simps]:
  "read_id (PStr s) = (if s = [] then None else Some s)"
  "read_from low (PInt i) = (if \<bar>i\<bar> \<le> MAX_SAFE_INTEGER \<and> low \<le> i then Some i else None)"
  "read_enum table (PStr s) = map_of table s"
  "read_true (PBool True) = Some ()"
  "read_nullable f PNull = Some None"
  "v \<noteq> PNull \<Longrightarrow> read_nullable f v = map_option Some (f v)"
  by (auto simp: read_id_def read_from_def read_enum_def read_true_def read_nullable_def PInt_def)

lemma map_of_opt_entry [decode_simps]:
  "map_of (opt_entry k f v) k' = (if k = k' then map_option f v else None)"
  by (cases v) auto

lemma fst_opt_entry: "fst ` set (opt_entry k f v) \<subseteq> {k}"
  by (cases v) auto

lemma field_present [decode_simps]: "map_of ps k = Some v \<Longrightarrow> field k f ps = f v"
  by (simp add: field_def)

lemma optional_absent [decode_simps]: "map_of ps k = None \<Longrightarrow> optional k f ps = Some None"
  by (simp add: optional_def)

lemma optional_present [decode_simps]: "map_of ps k = Some v \<Longrightarrow> optional k f ps = map_option Some (f v)"
  by (simp add: optional_def)

lemma read_all_map: "(\<And>x. x \<in> set xs \<Longrightarrow> f (g x) = Some x) \<Longrightarrow> read_all f (map g xs) = Some xs"
  by (induction xs) auto

lemma read_all_ids: "[] \<notin> set xs \<Longrightarrow> read_all read_id (map PStr xs) = Some xs"
  by (rule read_all_map) (auto simp: decode_simps)

lemma PInt_ne [simp]: "PInt i \<noteq> PNull" "PNull \<noteq> PInt i"
  by (simp_all add: PInt_def)

end
