(* ===== verification/Configure.thy ===== *)
theory Configure
  imports Reads Decode
begin

text \<open>
  Generations of a session: the schemas of \<^verbatim>\<open>SessionGeneration\<close> in
  \<^verbatim>\<open>packages/protocol/src/ledger/l0.ts\<close> and \<^verbatim>\<open>journal/core/session-configure.ts\<close>, and
  \<^verbatim>\<open>packages/agent/src/core/store/configure.ts\<close>, which builds configure rows and reads
  the generation and the settings in force back from them.  \<open>cmp\<close> is
  \<^verbatim>\<open>localeCompare\<close>, \<open>sha\<close> the hash.
\<close>

section \<open>Records\<close>

datatype tool_category = QueryTool | MutationTool | AuthorityTool | ExecutionTool

record gen_tool =
  gt_name :: str
  gt_inputSchema :: plain
  gt_category :: tool_category
  gt_sequential :: bool
  gt_idempotent :: bool

record system_block =
  sb_id :: str
  sb_source :: str
  sb_content :: str

record gen_snapshot =
  gs_generation :: int
  gs_revertTo :: int
  gs_tools :: "gen_tool list"
  gs_toolsHash :: str
  gs_bundles :: "str list"
  gs_systemPreset :: str
  gs_systemBlocks :: "system_block list"
  gs_systemValue :: str
  gs_systemHash :: str
  gs_policyGeneration :: int
  gs_rowsVersion :: "int option"
  gs_manifestHash :: "str option"

datatype width = WidthAll | WidthOne

record checkpoint_policy =
  cp_everyActions :: int
  cp_maxTailBytes :: int

record settings =
  st_steering :: width
  st_followUp :: width
  st_forkCopyByteCap :: "int option"
  st_toolOutputBudgetBytes :: "int option"
  st_checkpoint :: "checkpoint_policy option"

record fork_ancestry =
  fa_session :: str
  fa_anchor :: str
  fa_parentSeq :: int
  fa_parentHead :: str
  fa_copied :: int

datatype configure_operation =
    OpCreate | OpToolsAdd | OpToolsRemove | OpBlocksSet | OpRevert | OpCompose | OpFork

fun operation_text :: "configure_operation \<Rightarrow> str" where
  "operation_text OpCreate = ''create''"
| "operation_text OpToolsAdd = ''tools.add''"
| "operation_text OpToolsRemove = ''tools.remove''"
| "operation_text OpBlocksSet = ''system.blocks.set''"
| "operation_text OpRevert = ''revert''"
| "operation_text OpCompose = ''compose''"
| "operation_text OpFork = ''fork''"

section \<open>Objects\<close>

fun category_text :: "tool_category \<Rightarrow> str" where
  "category_text QueryTool = ''query''"
| "category_text MutationTool = ''mutation''"
| "category_text AuthorityTool = ''authority''"
| "category_text ExecutionTool = ''execution''"

definition flag_entry :: "str \<Rightarrow> bool \<Rightarrow> (str \<times> plain) list" where
  "flag_entry k b = (if b then [(k, PBool True)] else [])"

definition tool_plain :: "gen_tool \<Rightarrow> plain" where
  "tool_plain t = PObj
     ([(''name'', PStr (gt_name t)), (''inputSchema'', gt_inputSchema t), (''category'', PStr (category_text (gt_category t)))] @
      flag_entry ''sequential'' (gt_sequential t) @ flag_entry ''idempotent'' (gt_idempotent t))"

definition block_plain :: "system_block \<Rightarrow> plain" where
  "block_plain b = PObj [(''id'', PStr (sb_id b)), (''source'', PStr (sb_source b)), (''content'', PStr (sb_content b))]"

definition snapshot_plain :: "gen_snapshot \<Rightarrow> plain" where
  "snapshot_plain s = PObj
     ([(''generation'', PInt (gs_generation s)), (''revertTo'', PInt (gs_revertTo s)),
       (''tools'', PArr (map tool_plain (gs_tools s))), (''toolsHash'', PStr (gs_toolsHash s)),
       (''bundles'', PArr (map PStr (gs_bundles s))), (''systemPreset'', PStr (gs_systemPreset s)),
       (''systemBlocks'', PArr (map block_plain (gs_systemBlocks s))), (''systemValue'', PStr (gs_systemValue s)),
       (''systemHash'', PStr (gs_systemHash s)), (''policyGeneration'', PInt (gs_policyGeneration s))] @
      opt_entry ''rowsVersion'' PInt (gs_rowsVersion s) @ opt_entry ''manifestHash'' PStr (gs_manifestHash s))"

fun consumption_text :: "width \<Rightarrow> str" where
  "consumption_text WidthAll = ''all''"
| "consumption_text WidthOne = ''one''"

definition checkpoint_plain :: "checkpoint_policy \<Rightarrow> plain" where
  "checkpoint_plain p = PObj [(''everyActions'', PInt (cp_everyActions p)), (''maxTailBytes'', PInt (cp_maxTailBytes p))]"

definition settings_plain :: "settings \<Rightarrow> plain" where
  "settings_plain s = PObj
     ([(''steering'', PStr (consumption_text (st_steering s))), (''followUp'', PStr (consumption_text (st_followUp s)))] @
      opt_entry ''forkCopyByteCap'' PInt (st_forkCopyByteCap s) @
      opt_entry ''toolOutputBudgetBytes'' PInt (st_toolOutputBudgetBytes s) @
      opt_entry ''checkpoint'' checkpoint_plain (st_checkpoint s))"

definition ancestry_plain :: "fork_ancestry \<Rightarrow> plain" where
  "ancestry_plain f = PObj
     [(''session'', PStr (fa_session f)), (''anchor'', PStr (fa_anchor f)), (''parentSeq'', PInt (fa_parentSeq f)),
      (''parentHead'', PStr (fa_parentHead f)), (''copied'', PInt (fa_copied f))]"

section \<open>Readers\<close>

definition category_table :: "(str \<times> tool_category) list" where
  "category_table = [(''query'', QueryTool), (''mutation'', MutationTool), (''authority'', AuthorityTool), (''execution'', ExecutionTool)]"

definition read_tool :: "plain \<Rightarrow> gen_tool option" where
  "read_tool v =
     Option.bind (object_value v) (\<lambda>ps.
     Option.bind (strict [''name'', ''inputSchema'', ''category'', ''sequential'', ''idempotent''] ps) (\<lambda>_.
     Option.bind (field ''name'' read_id ps) (\<lambda>name.
     Option.bind (field ''inputSchema'' Some ps) (\<lambda>schema.
     Option.bind (field ''category'' (read_enum category_table) ps) (\<lambda>category.
     Option.bind (optional ''sequential'' read_true ps) (\<lambda>sequential.
     map_option (\<lambda>idempotent. \<lparr>gt_name = name, gt_inputSchema = schema, gt_category = category,
         gt_sequential = sequential \<noteq> None, gt_idempotent = idempotent \<noteq> None\<rparr>)
       (optional ''idempotent'' read_true ps)))))))"

definition read_block :: "plain \<Rightarrow> system_block option" where
  "read_block v =
     Option.bind (object_value v) (\<lambda>ps.
     Option.bind (strict [''id'', ''source'', ''content''] ps) (\<lambda>_.
     Option.bind (field ''id'' read_id ps) (\<lambda>i.
     Option.bind (field ''source'' read_id ps) (\<lambda>source.
     map_option (\<lambda>content. \<lparr>sb_id = i, sb_source = source, sb_content = content\<rparr>)
       (field ''content'' read_str ps)))))"

text \<open>\<^verbatim>\<open>/^[a-z][a-z0-9-]*$/\<close>, and names that ascend strictly.\<close>

definition lower_letter :: "char \<Rightarrow> bool" where
  "lower_letter c \<longleftrightarrow> CHR ''a'' \<le> c \<and> c \<le> CHR ''z''"

definition bundle_name :: "str \<Rightarrow> bool" where
  "bundle_name s \<longleftrightarrow>
     (case s of [] \<Rightarrow> False
      | c # cs \<Rightarrow> lower_letter c \<and> list_all (\<lambda>d. lower_letter d \<or> is_digit d \<or> d = CHR ''-'') cs)"

definition read_bundles :: "plain \<Rightarrow> str list option" where
  "read_bundles v =
     Option.bind (read_list read_str v) (\<lambda>names.
       if list_all bundle_name names \<and> sorted_wrt (<) names then Some names else None)"

definition read_snapshot :: "plain \<Rightarrow> gen_snapshot option" where
  "read_snapshot v =
     Option.bind (object_value v) (\<lambda>ps.
     Option.bind (strict [''generation'', ''revertTo'', ''tools'', ''toolsHash'', ''bundles'', ''systemPreset'',
       ''systemBlocks'', ''systemValue'', ''systemHash'', ''policyGeneration'', ''rowsVersion'', ''manifestHash''] ps) (\<lambda>_.
     Option.bind (field ''generation'' read_positive ps) (\<lambda>generation.
     Option.bind (field ''revertTo'' read_natural ps) (\<lambda>revertTo.
     Option.bind (field ''tools'' (read_list read_tool) ps) (\<lambda>tools.
     Option.bind (field ''toolsHash'' read_id ps) (\<lambda>toolsHash.
     Option.bind (optional ''bundles'' read_bundles ps) (\<lambda>bundles.
     Option.bind (field ''systemPreset'' read_str ps) (\<lambda>preset.
     Option.bind (field ''systemBlocks'' (read_list read_block) ps) (\<lambda>blocks.
     Option.bind (field ''systemValue'' read_str ps) (\<lambda>val.
     Option.bind (field ''systemHash'' read_id ps) (\<lambda>systemHash.
     Option.bind (field ''policyGeneration'' read_natural ps) (\<lambda>policyGeneration.
     Option.bind (optional ''rowsVersion'' read_positive ps) (\<lambda>rowsVersion.
     map_option (\<lambda>manifestHash. \<lparr>gs_generation = generation, gs_revertTo = revertTo, gs_tools = tools,
         gs_toolsHash = toolsHash, gs_bundles = or_else bundles [], gs_systemPreset = preset, gs_systemBlocks = blocks,
         gs_systemValue = val, gs_systemHash = systemHash, gs_policyGeneration = policyGeneration,
         gs_rowsVersion = rowsVersion, gs_manifestHash = manifestHash\<rparr>)
       (optional ''manifestHash'' read_id ps))))))))))))))"

definition width_table :: "(str \<times> width) list" where
  "width_table = [(''all'', WidthAll), (''one'', WidthOne)]"

definition read_checkpoint :: "plain \<Rightarrow> checkpoint_policy option" where
  "read_checkpoint v =
     Option.bind (object_value v) (\<lambda>ps.
     Option.bind (strict [''everyActions'', ''maxTailBytes''] ps) (\<lambda>_.
     Option.bind (field ''everyActions'' read_positive ps) (\<lambda>every.
     map_option (\<lambda>tail. \<lparr>cp_everyActions = every, cp_maxTailBytes = tail\<rparr>) (field ''maxTailBytes'' read_positive ps))))"

definition read_output_budget :: "plain \<Rightarrow> int option" where
  "read_output_budget v = Option.bind (read_from 200 v) (\<lambda>n. if n \<le> 1048576 then Some n else None)"

definition read_settings :: "plain \<Rightarrow> settings option" where
  "read_settings v =
     Option.bind (object_value v) (\<lambda>ps.
     Option.bind (strict [''steering'', ''followUp'', ''forkCopyByteCap'', ''toolOutputBudgetBytes'', ''checkpoint''] ps) (\<lambda>_.
     Option.bind (field ''steering'' (read_enum width_table) ps) (\<lambda>steering.
     Option.bind (field ''followUp'' (read_enum width_table) ps) (\<lambda>followUp.
     Option.bind (optional ''forkCopyByteCap'' read_positive ps) (\<lambda>cap.
     Option.bind (optional ''toolOutputBudgetBytes'' read_output_budget ps) (\<lambda>budget.
     map_option (\<lambda>checkpoint. \<lparr>st_steering = steering, st_followUp = followUp, st_forkCopyByteCap = cap,
         st_toolOutputBudgetBytes = budget, st_checkpoint = checkpoint\<rparr>)
       (optional ''checkpoint'' read_checkpoint ps)))))))"

section \<open>Building a generation\<close>

datatype configure_error = DuplicateTool str | DuplicateBlock str | SnapshotRefused

fun first_duplicate :: "str list \<Rightarrow> str list \<Rightarrow> str option" where
  "first_duplicate seen [] = None"
| "first_duplicate seen (x # xs) = (if x \<in> set seen then Some x else first_duplicate (set_add x seen) xs)"

definition assertUniqueTools :: "gen_tool list \<Rightarrow> configure_error + unit" where
  "assertUniqueTools ts = (case first_duplicate [] (map gt_name ts) of Some n \<Rightarrow> Inl (DuplicateTool n) | None \<Rightarrow> Inr ())"

definition assertUniqueBlocks :: "system_block list \<Rightarrow> configure_error + unit" where
  "assertUniqueBlocks bs = (case first_duplicate [] (map sb_id bs) of Some n \<Rightarrow> Inl (DuplicateBlock n) | None \<Rightarrow> Inr ())"

record generation_seed =
  sd_tools :: "gen_tool list"
  sd_bundles :: "str list option"
  sd_preset :: str
  sd_blocks :: "system_block list"
  sd_policyGeneration :: int
  sd_manifestHash :: "str option"

definition GATE_ROW_WRITER_VERSION :: int where
  "GATE_ROW_WRITER_VERSION = 1"

fun join_with :: "str \<Rightarrow> str list \<Rightarrow> str" where
  "join_with sep [] = []"
| "join_with sep [x] = x"
| "join_with sep (x # y # zs) = x @ sep @ join_with sep (y # zs)"

definition blank_line :: str where
  "blank_line = [CHR 0x0A, CHR 0x0A]"

definition generationSnapshot ::
  "(str \<Rightarrow> str) \<Rightarrow> (str \<Rightarrow> str \<Rightarrow> int) \<Rightarrow> generation_seed \<Rightarrow> int \<Rightarrow> int \<Rightarrow> configure_error + gen_snapshot" where
  "generationSnapshot sha cmp seed generation revertTo =
     and_then (assertUniqueTools (sd_tools seed)) (\<lambda>_.
     and_then (assertUniqueBlocks (sd_blocks seed)) (\<lambda>_.
       let tools = sort_by (\<lambda>a b. cmp (gt_name a) (gt_name b)) (sd_tools seed);
           blocks = sd_blocks seed
       in case read_snapshot (snapshot_plain
           \<lparr>gs_generation = generation, gs_revertTo = revertTo, gs_tools = tools,
            gs_toolsHash = canonicalDigest sha (PArr (map tool_plain tools)),
            gs_bundles = sort (or_else (sd_bundles seed) []),
            gs_systemPreset = sd_preset seed, gs_systemBlocks = blocks,
            gs_systemValue = join_with blank_line (filter (\<lambda>v. v \<noteq> []) (sd_preset seed # map sb_content blocks)),
            gs_systemHash = canonicalDigest sha (PArr (map block_plain blocks)),
            gs_policyGeneration = sd_policyGeneration seed,
            gs_rowsVersion = Some GATE_ROW_WRITER_VERSION, gs_manifestHash = sd_manifestHash seed\<rparr>) of
         None \<Rightarrow> Inl SnapshotRefused
       | Some s \<Rightarrow> Inr s))"

section \<open>Configure rows\<close>

record configure_input =
  ci_id :: str
  ci_sessionId :: str
  ci_parentId :: "str option"
  ci_operation :: configure_operation
  ci_snapshot :: gen_snapshot
  ci_settings :: "settings option"
  ci_forkedFrom :: "fork_ancestry option"
  ci_disabled :: "(str \<times> str) list option"
  ci_at :: epoch_ms

definition disabled_plain :: "(str \<times> str) list \<Rightarrow> plain" where
  "disabled_plain ds = PArr (map (\<lambda>(n, b). PObj [(''name'', PStr n), (''because'', PStr b)]) ds)"

definition configureAction :: "configure_input \<Rightarrow> append_row" where
  "configureAction i =
     \<lparr>ap_id = ci_id i, ap_parentId = ci_parentId i, ap_sessionId = ci_sessionId i, ap_kind = KSessionConfigure,
      ap_intent = PObj ([(''operation'', PStr (operation_text (ci_operation i)))] @
        opt_entry ''settings'' settings_plain (ci_settings i) @
        opt_entry ''forkedFrom'' ancestry_plain (ci_forkedFrom i) @
        opt_entry ''disabled'' disabled_plain (ci_disabled i)),
      ap_effect = PObj [(''phase'', PStr ''configured''), (''snapshot'', snapshot_plain (ci_snapshot i))],
      ap_ts = ci_at i,
      ap_revert = Some (PObj [(''generation'', PInt (gs_revertTo (ci_snapshot i)))])\<rparr>"

definition configurationSnapshot :: "('a) append_row_scheme \<Rightarrow> gen_snapshot option" where
  "configurationSnapshot a =
     (if ap_kind a \<noteq> KSessionConfigure then None
      else Option.bind (object_value (ap_effect a)) (\<lambda>ps.
           Option.bind (strict [''phase'', ''snapshot''] ps) (\<lambda>_.
           Option.bind (field ''phase'' (read_enum [(''configured'', ())]) ps) (\<lambda>_.
           field ''snapshot'' read_snapshot ps))))"

record materialize_input =
  mi_id :: str
  mi_parentId :: "str option"
  mi_role :: role
  mi_actionId :: str
  mi_at :: epoch_ms
  mi_settings :: "settings option"

definition idle_row :: "str \<Rightarrow> str option \<Rightarrow> role \<Rightarrow> gen_snapshot \<Rightarrow> session_row" where
  "idle_row sid parent r s =
     \<lparr>ss_id = sid, ss_parentId = parent, ss_role = r, ss_fenceOwner = None, ss_fence = 0, ss_revision = 0,
      ss_state = Idle, ss_toolsGeneration = gs_generation s, ss_systemHash = gs_systemHash s,
      ss_policyGeneration = gs_policyGeneration s\<rparr>"

definition materializationSeed :: "materialize_input \<Rightarrow> gen_snapshot \<Rightarrow> materialize" where
  "materializationSeed i s =
     \<lparr>mt_row = idle_row (mi_id i) (mi_parentId i) (mi_role i) s,
      mt_initialAction = configureAction
        \<lparr>ci_id = mi_actionId i, ci_sessionId = mi_id i, ci_parentId = None, ci_operation = OpCreate, ci_snapshot = s,
         ci_settings = mi_settings i, ci_forkedFrom = None, ci_disabled = None, ci_at = mi_at i\<rparr>\<rparr>"

section \<open>Generations in force\<close>

lemma newest_Some: "newest p rows = Some n \<Longrightarrow> n \<in> set rows \<and> p n"
  unfolding newest_def find_Some_iff by (metis nth_mem set_rev)

definition below :: "session_file \<Rightarrow> str \<Rightarrow> int \<Rightarrow> nat" where
  "below db sid cursor = length (filter (\<lambda>n. nd_ordinal n < cursor) (rows_of sid db))"

lemma below_less:
  assumes "n \<in> set (rows_of sid db)" and "nd_ordinal n < cursor"
  shows "below db sid (nd_ordinal n) < below db sid cursor"
proof -
  let ?rows = "rows_of sid db"
  have "length (filter (\<lambda>m. nd_ordinal m < nd_ordinal n) ?rows) =
      length (filter (\<lambda>m. nd_ordinal m < nd_ordinal n) (filter (\<lambda>m. nd_ordinal m < cursor) ?rows))"
    using assms(2) by (auto intro!: arg_cong [where f = length] filter_cong)
  also have "\<dots> < length (filter (\<lambda>m. nd_ordinal m < cursor) ?rows)"
    using assms by (intro length_filter_less [of n]) auto
  finally show ?thesis by (simp add: below_def)
qed

lemma configurationActions_Cons:
  "configurationActions db sid cursor = n # ns \<Longrightarrow> n \<in> set (rows_of sid db) \<and> nd_ordinal n < cursor"
  by (auto simp: configurationActions_def split: option.splits dest: newest_Some)

text \<open>The loop over the configure rows, newest first.\<close>

function generation_loop :: "session_file \<Rightarrow> str \<Rightarrow> int \<Rightarrow> gen_snapshot option" where
  "generation_loop db sid cursor =
     (case configurationActions db sid cursor of
        [] \<Rightarrow> None
      | n # _ \<Rightarrow> (case configurationSnapshot n of Some s \<Rightarrow> Some s | None \<Rightarrow> generation_loop db sid (nd_ordinal n)))"
  by pat_completeness auto
termination
  by (relation "measure (\<lambda>(db, sid, cursor). below db sid cursor)")
    (auto dest!: configurationActions_Cons intro: below_less)

function settings_loop :: "session_file \<Rightarrow> str \<Rightarrow> int \<Rightarrow> settings option" where
  "settings_loop db sid cursor =
     (case configurationActions db sid cursor of
        [] \<Rightarrow> None
      | n # _ \<Rightarrow>
          (case Option.bind (plain_get (ap_intent n) ''settings'') read_settings of
             Some s \<Rightarrow> Some s
           | None \<Rightarrow> settings_loop db sid (nd_ordinal n)))"
  by pat_completeness auto
termination
  by (relation "measure (\<lambda>(db, sid, cursor). below db sid cursor)")
    (auto dest!: configurationActions_Cons intro: below_less)

declare generation_loop.simps [simp del] settings_loop.simps [simp del]

text \<open>\<^verbatim>\<open>latestGenerationForIn\<close> throws where no generation is configured.\<close>

definition latestGenerationForIn :: "session_file \<Rightarrow> str \<Rightarrow> store_error + gen_snapshot" where
  "latestGenerationForIn db sid = (case generation_loop db sid MAX_SAFE_INTEGER of Some s \<Rightarrow> Inr s | None \<Rightarrow> Inl Thrown)"

definition latestSettingsIn :: "session_file \<Rightarrow> str \<Rightarrow> settings option" where
  "latestSettingsIn db sid = settings_loop db sid MAX_SAFE_INTEGER"

definition latestGeneration :: "node list \<Rightarrow> store_error + gen_snapshot" where
  "latestGeneration actions =
     (case find (\<lambda>s. s \<noteq> None) (map configurationSnapshot (rev actions)) of Some (Some s) \<Rightarrow> Inr s | _ \<Rightarrow> Inl Thrown)"

definition generationByNumber :: "node list \<Rightarrow> int \<Rightarrow> gen_snapshot option" where
  "generationByNumber actions generation =
     find (\<lambda>s. gs_generation s = generation) (List.map_filter configurationSnapshot (rev actions))"

end
