(* ===== verification/Inbox.thy ===== *)
theory Inbox
  imports Configure Request_Transition
begin

text \<open>
  Inputs of a session.  There is no input table: an input is a row of the log, and what
  is pending is read back from it.  The rows are those of
  \<^verbatim>\<open>packages/agent/src/core/journal/delivery.ts\<close>, their reads those of
  \<^verbatim>\<open>core/store/session-reads.ts\<close>, and their admission that of
  \<^verbatim>\<open>core/session/entity-delivery.ts\<close>.
\<close>

section \<open>Delivery rows\<close>

datatype delivery_status = PendingInput | ConsumedInput

record delivery_row =
  dr_id :: str
  dr_sessionId :: str
  dr_kind :: input_kind
  dr_content :: str
  dr_origin :: plain
  dr_delivery :: "delivery_width option"
  dr_after :: "int option"
  dr_status :: delivery_status
  dr_createdAt :: epoch_ms
  dr_ordinal :: int

definition DEFAULT_DELIVERY :: delivery_width where
  "DEFAULT_DELIVERY = FollowUp"

datatype boundary = BeforeLlm | AfterLlm | AfterTools

datatype drain_point = AtBoundary boundary | TurnEnd

fun boundary_text :: "boundary \<Rightarrow> str" where
  "boundary_text BeforeLlm = ''before_llm''"
| "boundary_text AfterLlm = ''after_llm''"
| "boundary_text AfterTools = ''after_tools''"

fun kind_text :: "input_kind \<Rightarrow> str" where
  "kind_text Prompt = ''prompt''"
| "kind_text Interrupt = ''interrupt''"
| "kind_text Resume = ''resume''"
| "kind_text CancelInput = ''cancel''"
| "kind_text ActionInput = ''action''"

definition kind_table :: "(str \<times> input_kind) list" where
  "kind_table = map (\<lambda>k. (kind_text k, k)) [Prompt, Interrupt, Resume, CancelInput, ActionInput]"

definition delivery_table :: "(str \<times> delivery_width) list" where
  "delivery_table = map (\<lambda>w. (width_text w, w)) [Steer, FollowUp]"

fun inputRowKind :: "input_kind \<Rightarrow> action_kind" where
  "inputRowKind Prompt = KPrompt"
| "inputRowKind ActionInput = KAction"
| "inputRowKind _ = KSignal"

definition is_control :: "input_kind \<Rightarrow> bool" where
  "is_control k \<longleftrightarrow> k = Interrupt \<or> k = Resume \<or> k = CancelInput"

section \<open>Rows the journal writes\<close>

datatype delivery_target = ToTurn str | ToPending

definition deliveryAction :: "delivery_row \<Rightarrow> delivery_target \<Rightarrow> boundary \<Rightarrow> str option \<Rightarrow> append_row" where
  "deliveryAction item target b parent =
     \<lparr>ap_id = dr_id item @ '':delivery'', ap_parentId = parent, ap_sessionId = dr_sessionId item,
      ap_kind = inputRowKind (dr_kind item),
      ap_intent =
        (if is_control (dr_kind item)
         then PObj [(''deliveryId'', PStr (dr_id item)), (''control'', PStr (kind_text (dr_kind item)))]
         else PObj [(''deliveryId'', PStr (dr_id item)),
                    (''delivery'', PStr (width_text (or_else (dr_delivery item) DEFAULT_DELIVERY)))]),
      ap_effect = PObj
        [(''phase'', PStr ''delivery''),
         (''turnId'', PStr (case target of ToTurn t \<Rightarrow> t | ToPending \<Rightarrow> dr_id item)),
         (''deliveryId'', PStr (dr_id item)), (''kind'', PStr (kind_text (dr_kind item))),
         (''content'', PStr (dr_content item)),
         (''origin'', PObj [(''encodingVersion'', PInt 1), (''value'', dr_origin item)]),
         (''boundary'', PStr (boundary_text b))],
      ap_ts = dr_createdAt item, ap_revert = None\<rparr>"

text \<open>Each row is the child of the one before.\<close>

fun deliveryActions :: "delivery_row list \<Rightarrow> delivery_target \<Rightarrow> boundary \<Rightarrow> str option \<Rightarrow> append_row list" where
  "deliveryActions [] target b parent = []"
| "deliveryActions (item # items) target b parent =
     (let a = deliveryAction item target b parent in a # deliveryActions items target b (Some (ap_id a)))"

record received =
  rv_id :: str
  rv_sessionId :: str
  rv_kind :: input_kind
  rv_content :: str
  rv_origin :: plain
  rv_parentActionId :: "str option"
  rv_at :: epoch_ms
  rv_delivery :: "delivery_width option"

definition receivedMessageAction :: "received \<Rightarrow> append_row" where
  "receivedMessageAction i =
     \<lparr>ap_id = rv_id i, ap_parentId = rv_parentActionId i, ap_sessionId = rv_sessionId i,
      ap_kind = inputRowKind (rv_kind i), ap_intent = rv_origin i,
      ap_effect = PObj ([(''deliveryKind'', PStr (kind_text (rv_kind i))), (''content'', PStr (rv_content i))] @
        opt_entry ''delivery'' (\<lambda>w. PStr (width_text w)) (rv_delivery i)),
      ap_ts = rv_at i, ap_revert = None\<rparr>"

section \<open>What a boundary consumes\<close>

text \<open>The \<^verbatim>\<open>live\<close> rows and the stale ones.\<close>

definition is_stale :: "int \<Rightarrow> delivery_row \<Rightarrow> bool" where
  "is_stale compactionHead r \<longleftrightarrow>
     dr_kind r = ActionInput \<and> (case dr_after r of None \<Rightarrow> False | Some a \<Rightarrow> a < compactionHead)"

definition staleActionBacklog :: "delivery_row list \<Rightarrow> int \<Rightarrow> delivery_row list \<times> delivery_row list" where
  "staleActionBacklog backlog compactionHead =
     (filter (\<lambda>r. \<not> is_stale compactionHead r) backlog, filter (is_stale compactionHead) backlog)"

definition DEFAULT_CONSUMPTION :: settings where
  "DEFAULT_CONSUMPTION = \<lparr>st_steering = WidthAll, st_followUp = WidthAll, st_forkCopyByteCap = None,
     st_toolOutputBudgetBytes = None, st_checkpoint = None\<rparr>"

definition consumptionSettings :: "session_file \<Rightarrow> str \<Rightarrow> settings" where
  "consumptionSettings db sid = or_else (latestSettingsIn db sid) DEFAULT_CONSUMPTION"

definition take_width :: "width \<Rightarrow> 'a list \<Rightarrow> 'a list" where
  "take_width w rows = (if w = WidthOne then take 1 rows else rows)"

definition boundaryConsumption ::
  "delivery_row list \<Rightarrow> drain_point \<Rightarrow> settings \<Rightarrow> int \<Rightarrow> delivery_row list \<times> delivery_row list" where
  "boundaryConsumption backlog point s compactionHead =
     (let (live, stale) = staleActionBacklog backlog compactionHead;
          inputs = filter (\<lambda>r. dr_kind r = Prompt \<or> dr_kind r = ActionInput) live;
          steer = filter (\<lambda>r. or_else (dr_delivery r) DEFAULT_DELIVERY = Steer) inputs;
          followUp = filter (\<lambda>r. or_else (dr_delivery r) DEFAULT_DELIVERY = FollowUp) inputs;
          chosen = map dr_id
            (filter (\<lambda>r. is_control (dr_kind r)) live @
             (if point = AtBoundary AfterTools \<or> point = TurnEnd then take_width (st_steering s) steer else []) @
             (if point = TurnEnd then take_width (st_followUp s) followUp else []))
      in (filter (\<lambda>r. dr_id r \<in> set chosen) live, stale))"

section \<open>Reading inputs\<close>

definition received_effect :: "plain \<Rightarrow> (input_kind \<times> str \<times> delivery_width option) option" where
  "received_effect v =
     Option.bind (object_value v) (\<lambda>ps.
     Option.bind (field ''deliveryKind'' (read_enum kind_table) ps) (\<lambda>k.
     Option.bind (field ''content'' read_str ps) (\<lambda>content.
     map_option (\<lambda>d. (k, content, d)) (optional ''delivery'' (read_enum delivery_table) ps))))"

definition afterCursorOf :: "plain \<Rightarrow> int option" where
  "afterCursorOf v = or_else (Option.bind (object_value v) (\<lambda>ps. optional ''after'' read_natural ps)) None"

text \<open>The row of one input, as the \<open>index\<close>-th of a read.\<close>

definition openDeliveryRow ::
  "node \<Rightarrow> nat \<Rightarrow> delivery_status \<Rightarrow> int option \<Rightarrow> store_error + delivery_row" where
  "openDeliveryRow a index status after =
     (case received_effect (ap_effect a) of
        None \<Rightarrow> Inl Thrown
      | Some (k, content, d) \<Rightarrow> Inr
          \<lparr>dr_id = ap_id a, dr_sessionId = ap_sessionId a, dr_kind = k, dr_content = content, dr_origin = ap_intent a,
           dr_delivery = d, dr_after = after, dr_status = status, dr_createdAt = ap_ts a, dr_ordinal = int index + 1\<rparr>)"

fun open_all :: "(node \<Rightarrow> nat \<Rightarrow> store_error + delivery_row) \<Rightarrow> nat \<Rightarrow> node list \<Rightarrow> store_error + delivery_row list" where
  "open_all f i [] = Inr []"
| "open_all f i (a # as) = and_then (f a i) (\<lambda>r. and_then (open_all f (Suc i) as) (\<lambda>rs. Inr (r # rs)))"

definition open_pending :: "node list \<Rightarrow> store_error + delivery_row list" where
  "open_pending as = open_all (\<lambda>a i. openDeliveryRow a i PendingInput (afterCursorOf (ap_intent a))) 0 as"

definition inputMessagesIn :: "session_file \<Rightarrow> str \<Rightarrow> store_error + delivery_row list" where
  "inputMessagesIn db sid =
     (let pending = map ap_id (pendingMessages db sid) in
      open_all (\<lambda>a i. openDeliveryRow a i (if ap_id a \<in> set pending then PendingInput else ConsumedInput) None) 0
        (inputMessages db sid))"

definition pendingMessagesIn :: "session_file \<Rightarrow> str \<Rightarrow> store_error + delivery_row list" where
  "pendingMessagesIn db sid = open_pending (pendingMessages db sid)"

record pending_snapshot =
  ps_rows :: "delivery_row list"
  ps_ordinal :: int

subsection \<open>The incremental read\<close>

text \<open>What one row of the tail contributes.\<close>

definition tail_deliveryId :: "plain \<Rightarrow> str option" where
  "tail_deliveryId v = Option.bind (plain_get v ''deliveryId'') read_str"

definition tail_consumedStale :: "plain \<Rightarrow> str list" where
  "tail_consumedStale v =
     (case plain_get v ''consumedStale'' of Some (PArr xs) \<Rightarrow> List.map_filter read_str xs | _ \<Rightarrow> [])"

definition tail_arrival :: "plain \<Rightarrow> bool" where
  "tail_arrival v \<longleftrightarrow> (case plain_get v ''deliveryKind'' of None \<Rightarrow> False | Some w \<Rightarrow> w \<noteq> PNull)"

definition tailFact :: "node \<Rightarrow> bool \<times> str list" where
  "tailFact a =
     (if ap_kind a = KTurn then (False, tail_consumedStale (ap_intent a))
      else if \<not> input_row_kind (ap_kind a) then (False, [])
      else (tail_arrival (ap_effect a), case tail_deliveryId (ap_intent a) of None \<Rightarrow> [] | Some i \<Rightarrow> [i]))"

definition tail_page :: "node list \<Rightarrow> node list \<times> str list \<Rightarrow> node list \<times> str list" where
  "tail_page page acc =
     fold (\<lambda>a (arrived, consumed).
       (if fst (tailFact a) then arrived @ [a] else arrived, fold set_add (snd (tailFact a)) consumed)) page acc"

text \<open>\<^verbatim>\<open>tailSince\<close> reads pages of 256 rows until a short one.\<close>

definition page256 :: "session_file \<Rightarrow> str \<Rightarrow> int \<Rightarrow> node list" where
  "page256 db sid after = (case range_rows db sid after 256 of Inr page \<Rightarrow> page | Inl _ \<Rightarrow> [])"

lemma page256_eq: "page256 db sid after = take 256 (filter (\<lambda>n. nd_ordinal n > after) (rows_of sid db))"
  by (simp add: page256_def range_rows_def page_of_def pageSize_def)

definition last_ordinal :: "int \<Rightarrow> node list \<Rightarrow> int" where
  "last_ordinal d page = (if page = [] then d else nd_ordinal (last page))"

definition beyond :: "session_file \<Rightarrow> str \<Rightarrow> int \<Rightarrow> nat" where
  "beyond db sid after = length (filter (\<lambda>n. nd_ordinal n > after) (rows_of sid db))"

lemma beyond_page:
  assumes "page256 db sid after \<noteq> []"
  shows "beyond db sid (last_ordinal after (page256 db sid after)) < beyond db sid after"
proof -
  let ?rows = "rows_of sid db" and ?o = "nd_ordinal (last (page256 db sid after))"
  have m: "last (page256 db sid after) \<in> set (filter (\<lambda>n. nd_ordinal n > after) ?rows)"
    using last_in_set [OF assms] unfolding page256_eq by (rule in_set_takeD)
  have "length (filter (\<lambda>n. nd_ordinal n > ?o) ?rows) =
      length (filter (\<lambda>n. nd_ordinal n > ?o) (filter (\<lambda>n. nd_ordinal n > after) ?rows))"
    using m by (auto intro!: arg_cong [where f = length] filter_cong)
  also have "\<dots> < length (filter (\<lambda>n. nd_ordinal n > after) ?rows)"
    using m by (intro length_filter_less [of "last (page256 db sid after)"]) auto
  finally show ?thesis using assms by (simp add: beyond_def last_ordinal_def)
qed

function tailSince_loop ::
  "session_file \<Rightarrow> str \<Rightarrow> int \<Rightarrow> node list \<times> str list \<Rightarrow> (node list \<times> str list) \<times> int" where
  "tailSince_loop db sid ordinal acc =
     (let page = page256 db sid ordinal; acc' = tail_page page acc; ordinal' = last_ordinal ordinal page in
      if length page < 256 then (acc', ordinal') else tailSince_loop db sid ordinal' acc')"
  by pat_completeness auto
termination
proof (relation "measure (\<lambda>(db, sid, ordinal, acc). beyond db sid ordinal)", goal_cases)
  case (2 db sid ordinal acc page acc' ordinal')
  then have "page256 db sid ordinal \<noteq> []" by auto
  from beyond_page [OF this] 2 show ?case by simp
qed simp

declare tailSince_loop.simps [simp del]

definition tailSince :: "session_file \<Rightarrow> str \<Rightarrow> int \<Rightarrow> (node list \<times> str list) \<times> int" where
  "tailSince db sid after = tailSince_loop db sid after ([], [])"

fun renumber :: "nat \<Rightarrow> delivery_row list \<Rightarrow> delivery_row list" where
  "renumber i [] = []"
| "renumber i (r # rs) = r\<lparr>dr_ordinal := int i + 1\<rparr> # renumber (Suc i) rs"

definition pendingMessagesSinceIn ::
  "session_file \<Rightarrow> str \<Rightarrow> pending_snapshot option \<Rightarrow> store_error + pending_snapshot" where
  "pendingMessagesSinceIn db sid since =
     (case since of
        None \<Rightarrow> and_then (pendingMessagesIn db sid) (\<lambda>rows.
          Inr \<lparr>ps_rows = rows,
               ps_ordinal = (case latestAction db sid MAX_SAFE_INTEGER of None \<Rightarrow> 0 | Some a \<Rightarrow> nd_ordinal a)\<rparr>)
      | Some s \<Rightarrow>
          (let ((arrived, consumed), ordinal) = tailSince db sid (ps_ordinal s) in
           and_then (open_pending arrived) (\<lambda>opened.
             Inr \<lparr>ps_rows = renumber 0 (filter (\<lambda>r. dr_id r \<notin> set consumed) (ps_rows s @ opened)),
                  ps_ordinal = ordinal\<rparr>)))"

definition compactionHead :: "session_file \<Rightarrow> str \<Rightarrow> int" where
  "compactionHead db sid = (case latestCompaction db sid of None \<Rightarrow> 0 | Some a \<Rightarrow> nd_ordinal a)"

end
