(* ===== verification/Turn_Rows.thy ===== *)
theory Turn_Rows
  imports Inbox
begin

text \<open>
  Turn rows: the schemas of \<^verbatim>\<open>SessionTurn\<close> in \<^verbatim>\<open>packages/protocol/src/ledger/l0.ts\<close>, the
  constructors of \<^verbatim>\<open>packages/agent/src/core/journal/turn-rows.ts\<close> and their readers in
  \<^verbatim>\<open>core/store/session-reads.ts\<close>.  The message schema of an old context pin is the
  parameter \<open>message_ok\<close>.
\<close>

section \<open>Records\<close>

record turn_context =
  tc_snapshotActionId :: str
  tc_sourceRevision :: int
  tc_projectionHash :: str
  tc_messageIds :: "str list"
  tc_successorActionId :: "str option"
  tc_projection :: "plain list option"

record turn_intent =
  ti_resultId :: str
  ti_resumeCount :: int
  ti_boundaryActionId :: "str option"
  ti_toolsGeneration :: int
  ti_toolsHash :: str
  ti_systemHash :: str
  ti_policyGeneration :: int
  ti_deliveryIds :: "str list"
  ti_consumedStale :: "str list option"
  ti_context :: "turn_context option"

record turn_resume =
  tr_turnId :: str
  tr_resultId :: str
  tr_resumeCount :: int
  tr_boundaryActionId :: "str option"
  tr_toolsGeneration :: int
  tr_toolsHash :: str
  tr_systemHash :: str
  tr_policyGeneration :: int
  tr_context :: "turn_context option"

record turn_checkpoint =
  tk_turnId :: str
  tk_resultId :: str
  tk_resumeCount :: int
  tk_boundaryActionId :: "str option"
  tk_boundary :: boundary

datatype turn_end = EndResult | EndInterrupted | EndError | EndWaiting

record turn_terminal =
  tt_turnId :: str
  tt_kind :: turn_end
  tt_live_wait :: bool
  tt_alarmIds :: "str list option"
  tt_text :: str
  tt_boundaryActionId :: "str option"
  tt_resumeCount :: int

record turn_delivery =
  td_turnId :: str
  td_deliveryId :: str
  td_kind :: input_kind
  td_content :: str
  td_origin :: plain
  td_delivery :: "delivery_width option"
  td_boundary :: boundary

section \<open>Readers\<close>

definition literal :: "str \<Rightarrow> plain \<Rightarrow> unit option" where
  "literal s v = (if v = PStr s then Some () else None)"

definition boundary_table :: "(str \<times> boundary) list" where
  "boundary_table = map (\<lambda>b. (boundary_text b, b)) [BeforeLlm, AfterLlm, AfterTools]"

fun end_text :: "turn_end \<Rightarrow> str" where
  "end_text EndResult = ''result''"
| "end_text EndInterrupted = ''interrupted''"
| "end_text EndError = ''error''"
| "end_text EndWaiting = ''waiting''"

definition end_table :: "(str \<times> turn_end) list" where
  "end_table = map (\<lambda>k. (end_text k, k)) [EndResult, EndInterrupted, EndError, EndWaiting]"

fun all_of :: "('a \<Rightarrow> bool) \<Rightarrow> 'a list \<Rightarrow> 'a list option" where
  "all_of p xs = (if list_all p xs then Some xs else None)"

definition read_context :: "(plain \<Rightarrow> bool) \<Rightarrow> plain \<Rightarrow> turn_context option" where
  "read_context message_ok v =
     Option.bind (object_value v) (\<lambda>ps.
     Option.bind (strict [''snapshotActionId'', ''sourceRevision'', ''foldVersion'', ''projectionHash'', ''messageIds'',
       ''successorActionId'', ''projection''] ps) (\<lambda>_.
     Option.bind (field ''snapshotActionId'' read_id ps) (\<lambda>snapshotActionId.
     Option.bind (field ''sourceRevision'' read_natural ps) (\<lambda>sourceRevision.
     Option.bind (field ''foldVersion'' (\<lambda>v. if v = PInt 1 then Some () else None) ps) (\<lambda>_.
     Option.bind (field ''projectionHash'' read_id ps) (\<lambda>projectionHash.
     Option.bind (field ''messageIds'' (read_list read_id) ps) (\<lambda>messageIds.
     Option.bind (field ''successorActionId'' (read_nullable read_id) ps) (\<lambda>successorActionId.
     map_option (\<lambda>projection. \<lparr>tc_snapshotActionId = snapshotActionId, tc_sourceRevision = sourceRevision,
         tc_projectionHash = projectionHash, tc_messageIds = messageIds, tc_successorActionId = successorActionId,
         tc_projection = projection\<rparr>)
       (optional ''projection'' (\<lambda>v. Option.bind (read_list Some v) (all_of message_ok)) ps)))))))))"

text \<open>The fields of \<^verbatim>\<open>PinnedGeneration\<close>, with the result, resume count and boundary.\<close>

definition read_pins ::
  "(str \<times> plain) list \<Rightarrow> int \<Rightarrow> (str \<times> int \<times> str option \<times> int \<times> str \<times> str \<times> int) option" where
  "read_pins ps minResume =
     Option.bind (field ''resultId'' read_id ps) (\<lambda>resultId.
     Option.bind (field ''resumeCount'' (read_from minResume) ps) (\<lambda>resumeCount.
     Option.bind (field ''boundaryActionId'' (read_nullable read_id) ps) (\<lambda>b.
     Option.bind (field ''toolsGeneration'' read_positive ps) (\<lambda>tools.
     Option.bind (field ''toolsHash'' read_id ps) (\<lambda>toolsHash.
     Option.bind (field ''systemHash'' read_id ps) (\<lambda>systemHash.
     map_option (\<lambda>policy. (resultId, resumeCount, b, tools, toolsHash, systemHash, policy))
       (field ''policyGeneration'' read_natural ps)))))))"

definition pin_keys :: "str list" where
  "pin_keys = [''phase'', ''resultId'', ''resumeCount'', ''boundaryActionId'', ''toolsGeneration'', ''toolsHash'',
     ''systemHash'', ''policyGeneration'', ''context'']"

definition read_turn_intent :: "(plain \<Rightarrow> bool) \<Rightarrow> plain \<Rightarrow> turn_intent option" where
  "read_turn_intent message_ok v =
     Option.bind (object_value v) (\<lambda>ps.
     Option.bind (strict (pin_keys @ [''deliveryIds'', ''consumedStale'']) ps) (\<lambda>_.
     Option.bind (field ''phase'' (literal ''intent'') ps) (\<lambda>_.
     Option.bind (read_pins ps 0) (\<lambda>(resultId, resumeCount, b, tools, toolsHash, systemHash, policy).
     Option.bind (field ''deliveryIds'' (read_list read_id) ps) (\<lambda>deliveryIds.
     Option.bind (optional ''consumedStale'' (read_list read_id) ps) (\<lambda>stale.
     map_option (\<lambda>context. \<lparr>ti_resultId = resultId, ti_resumeCount = resumeCount, ti_boundaryActionId = b,
         ti_toolsGeneration = tools, ti_toolsHash = toolsHash, ti_systemHash = systemHash, ti_policyGeneration = policy,
         ti_deliveryIds = deliveryIds, ti_consumedStale = stale, ti_context = context\<rparr>)
       (optional ''context'' (read_context message_ok) ps)))))))"

definition read_turn_resume :: "(plain \<Rightarrow> bool) \<Rightarrow> plain \<Rightarrow> turn_resume option" where
  "read_turn_resume message_ok v =
     Option.bind (object_value v) (\<lambda>ps.
     Option.bind (strict (pin_keys @ [''turnId'']) ps) (\<lambda>_.
     Option.bind (field ''phase'' (literal ''resume'') ps) (\<lambda>_.
     Option.bind (field ''turnId'' read_id ps) (\<lambda>turnId.
     Option.bind (read_pins ps 1) (\<lambda>(resultId, resumeCount, b, tools, toolsHash, systemHash, policy).
     map_option (\<lambda>context. \<lparr>tr_turnId = turnId, tr_resultId = resultId, tr_resumeCount = resumeCount,
         tr_boundaryActionId = b, tr_toolsGeneration = tools, tr_toolsHash = toolsHash, tr_systemHash = systemHash,
         tr_policyGeneration = policy, tr_context = context\<rparr>)
       (optional ''context'' (read_context message_ok) ps))))))"

definition read_checkpoint_effect :: "plain \<Rightarrow> turn_checkpoint option" where
  "read_checkpoint_effect v =
     Option.bind (object_value v) (\<lambda>ps.
     Option.bind (strict [''phase'', ''turnId'', ''resultId'', ''resumeCount'', ''boundaryActionId'', ''boundary''] ps) (\<lambda>_.
     Option.bind (field ''phase'' (literal ''checkpoint'') ps) (\<lambda>_.
     Option.bind (field ''turnId'' read_id ps) (\<lambda>turnId.
     Option.bind (field ''resultId'' read_id ps) (\<lambda>resultId.
     Option.bind (field ''resumeCount'' read_natural ps) (\<lambda>resumeCount.
     Option.bind (field ''boundaryActionId'' (read_nullable read_id) ps) (\<lambda>b.
     map_option (\<lambda>point. \<lparr>tk_turnId = turnId, tk_resultId = resultId, tk_resumeCount = resumeCount,
         tk_boundaryActionId = b, tk_boundary = point\<rparr>)
       (field ''boundary'' (read_enum boundary_table) ps))))))))"

definition read_alarm_ids :: "plain \<Rightarrow> str list option" where
  "read_alarm_ids v = Option.bind (read_list read_id v) (\<lambda>ids. if ids = [] then None else Some ids)"

text \<open>Only a wait carries its alarms, and it must.\<close>

definition terminal_consistent :: "turn_terminal \<Rightarrow> bool" where
  "terminal_consistent t \<longleftrightarrow>
     (if tt_kind t = EndWaiting then tt_live_wait t \<and> tt_alarmIds t \<noteq> None
      else \<not> tt_live_wait t \<and> tt_alarmIds t = None)"

definition read_turn_terminal :: "plain \<Rightarrow> turn_terminal option" where
  "read_turn_terminal v =
     Option.bind (object_value v) (\<lambda>ps.
     Option.bind (strict [''phase'', ''turnId'', ''kind'', ''reason'', ''alarmIds'', ''text'', ''boundaryActionId'', ''resumeCount''] ps) (\<lambda>_.
     Option.bind (field ''phase'' (literal ''terminal'') ps) (\<lambda>_.
     Option.bind (field ''turnId'' read_id ps) (\<lambda>turnId.
     Option.bind (field ''kind'' (read_enum end_table) ps) (\<lambda>kind.
     Option.bind (optional ''reason'' (literal ''live_wait'') ps) (\<lambda>reason.
     Option.bind (optional ''alarmIds'' read_alarm_ids ps) (\<lambda>alarmIds.
     Option.bind (field ''text'' read_str ps) (\<lambda>txt.
     Option.bind (field ''boundaryActionId'' (read_nullable read_id) ps) (\<lambda>b.
     Option.bind (field ''resumeCount'' read_natural ps) (\<lambda>resumeCount.
       let t = \<lparr>tt_turnId = turnId, tt_kind = kind, tt_live_wait = (reason \<noteq> None), tt_alarmIds = alarmIds,
                tt_text = txt, tt_boundaryActionId = b, tt_resumeCount = resumeCount\<rparr>
       in if terminal_consistent t then Some t else None))))))))))"

definition read_encoded :: "plain \<Rightarrow> plain option" where
  "read_encoded v =
     Option.bind (object_value v) (\<lambda>ps.
     Option.bind (strict [''encodingVersion'', ''value''] ps) (\<lambda>_.
     Option.bind (field ''encodingVersion'' (\<lambda>v. if v = PInt 1 then Some () else None) ps) (\<lambda>_.
     field ''value'' Some ps)))"

definition read_turn_delivery :: "plain \<Rightarrow> turn_delivery option" where
  "read_turn_delivery v =
     Option.bind (object_value v) (\<lambda>ps.
     Option.bind (strict [''phase'', ''turnId'', ''deliveryId'', ''kind'', ''content'', ''origin'', ''delivery'', ''boundary''] ps) (\<lambda>_.
     Option.bind (field ''phase'' (literal ''delivery'') ps) (\<lambda>_.
     Option.bind (field ''turnId'' read_id ps) (\<lambda>turnId.
     Option.bind (field ''deliveryId'' read_id ps) (\<lambda>deliveryId.
     Option.bind (field ''kind'' (read_enum kind_table) ps) (\<lambda>kind.
     Option.bind (field ''content'' read_str ps) (\<lambda>content.
     Option.bind (field ''origin'' read_encoded ps) (\<lambda>origin.
     Option.bind (optional ''delivery'' (read_enum delivery_table) ps) (\<lambda>d.
     map_option (\<lambda>point. \<lparr>td_turnId = turnId, td_deliveryId = deliveryId, td_kind = kind, td_content = content,
         td_origin = origin, td_delivery = d, td_boundary = point\<rparr>)
       (field ''boundary'' (read_enum boundary_table) ps))))))))))"

text \<open>The readers of a row; a row of another kind is none of these.\<close>

definition turnIntent :: "(plain \<Rightarrow> bool) \<Rightarrow> ('a) append_row_scheme \<Rightarrow> turn_intent option" where
  "turnIntent message_ok a = (if ap_kind a = KTurn then read_turn_intent message_ok (ap_intent a) else None)"

definition turnResume :: "(plain \<Rightarrow> bool) \<Rightarrow> ('a) append_row_scheme \<Rightarrow> turn_resume option" where
  "turnResume message_ok a = (if ap_kind a = KTurn then read_turn_resume message_ok (ap_intent a) else None)"

definition turnCheckpoint :: "('a) append_row_scheme \<Rightarrow> turn_checkpoint option" where
  "turnCheckpoint a = (if ap_kind a = KTurn then read_checkpoint_effect (ap_effect a) else None)"

definition turnTerminal :: "('a) append_row_scheme \<Rightarrow> turn_terminal option" where
  "turnTerminal a = (if ap_kind a = KTurn then read_turn_terminal (ap_effect a) else None)"

definition delivery_of :: "('a) append_row_scheme \<Rightarrow> turn_delivery option" where
  "delivery_of a = (if input_row_kind (ap_kind a) then read_turn_delivery (ap_effect a) else None)"

section \<open>Constructors\<close>

definition null_or_str :: "str option \<Rightarrow> plain" where
  "null_or_str s = (case s of None \<Rightarrow> PNull | Some s \<Rightarrow> PStr s)"

record turn_pins =
  tp_generation :: gen_snapshot
  tp_resultId :: str
  tp_resumeCount :: int
  tp_boundaryActionId :: "str option"

definition pinnedTurn :: "turn_pins \<Rightarrow> (str \<times> plain) list" where
  "pinnedTurn p =
     [(''resultId'', PStr (tp_resultId p)),
      (''toolsGeneration'', PInt (gs_generation (tp_generation p))),
      (''toolsHash'', PStr (gs_toolsHash (tp_generation p))),
      (''systemHash'', PStr (gs_systemHash (tp_generation p))),
      (''policyGeneration'', PInt (gs_policyGeneration (tp_generation p))),
      (''resumeCount'', PInt (tp_resumeCount p)),
      (''boundaryActionId'', null_or_str (tp_boundaryActionId p))]"

definition turn_row :: "str \<Rightarrow> str option \<Rightarrow> str \<Rightarrow> plain \<Rightarrow> plain \<Rightarrow> epoch_ms \<Rightarrow> append_row" where
  "turn_row i parent sid intent effect ts =
     \<lparr>ap_id = i, ap_parentId = parent, ap_sessionId = sid, ap_kind = KTurn,
      ap_intent = intent, ap_effect = effect, ap_ts = ts, ap_revert = None\<rparr>"

definition turnEnvelopeAction :: "str \<Rightarrow> str option \<Rightarrow> str \<Rightarrow> epoch_ms \<Rightarrow> plain \<Rightarrow> append_row" where
  "turnEnvelopeAction i parent sid ts intent = turn_row i parent sid intent (PObj [(''phase'', PStr ''pending'')]) ts"

definition stale_entry :: "str list \<Rightarrow> (str \<times> plain) list" where
  "stale_entry ids = (if ids = [] then [] else [(''consumedStale'', PArr (map PStr ids))])"

text \<open>
  The intent is parsed by its schema before it is written, and a refusal throws; the keys
  of the written object are in the order given here.
\<close>

definition turnIntentAction ::
  "(plain \<Rightarrow> bool) \<Rightarrow> str \<Rightarrow> str option \<Rightarrow> str \<Rightarrow> str list \<Rightarrow> str list \<Rightarrow> turn_pins \<Rightarrow> epoch_ms \<Rightarrow> store_error + append_row" where
  "turnIntentAction message_ok i parent sid deliveryIds consumedStale p ts =
     (let intent = PObj ([(''phase'', PStr ''intent''), (''deliveryIds'', PArr (map PStr deliveryIds))] @
        stale_entry consumedStale @ pinnedTurn p)
      in if read_turn_intent message_ok intent = None then Inl Thrown
         else Inr (turnEnvelopeAction i parent sid ts intent))"

definition turnResumeAction ::
  "(plain \<Rightarrow> bool) \<Rightarrow> str \<Rightarrow> str \<Rightarrow> str \<Rightarrow> str \<Rightarrow> turn_pins \<Rightarrow> epoch_ms \<Rightarrow> store_error + append_row" where
  "turnResumeAction message_ok i parent sid turnId p ts =
     (let intent = PObj ([(''phase'', PStr ''resume''), (''turnId'', PStr turnId)] @ pinnedTurn p)
      in if read_turn_resume message_ok intent = None then Inl Thrown
         else Inr (turnEnvelopeAction i (Some parent) sid ts intent))"

record checkpoint_input =
  ki_id :: str
  ki_parentId :: str
  ki_sessionId :: str
  ki_turnId :: str
  ki_resultId :: str
  ki_resumeCount :: int
  ki_boundaryActionId :: str
  ki_boundary :: boundary
  ki_deliveryIds :: "str list"
  ki_consumedStale :: "str list"
  ki_at :: epoch_ms

definition turnCheckpointAction :: "checkpoint_input \<Rightarrow> append_row" where
  "turnCheckpointAction i = turn_row (ki_id i) (Some (ki_parentId i)) (ki_sessionId i)
     (PObj ([(''phase'', PStr ''checkpoint''), (''turnId'', PStr (ki_turnId i)),
             (''deliveryIds'', PArr (map PStr (ki_deliveryIds i)))] @ stale_entry (ki_consumedStale i)))
     (PObj [(''phase'', PStr ''checkpoint''), (''turnId'', PStr (ki_turnId i)), (''resultId'', PStr (ki_resultId i)),
            (''resumeCount'', PInt (ki_resumeCount i)), (''boundaryActionId'', PStr (ki_boundaryActionId i)),
            (''boundary'', PStr (boundary_text (ki_boundary i)))])
     (ki_at i)"

text \<open>What a terminal row reads of the runner's result.\<close>

datatype runner_result =
    RunnerText str
  | RunnerWaiting "str list" str
  | RunnerInterrupted "str option"
  | RunnerError str

fun result_end :: "runner_result \<Rightarrow> turn_end" where
  "result_end (RunnerText t) = EndResult"
| "result_end (RunnerWaiting ids t) = EndWaiting"
| "result_end (RunnerInterrupted t) = EndInterrupted"
| "result_end (RunnerError t) = EndError"

fun result_text :: "runner_result \<Rightarrow> str" where
  "result_text (RunnerText t) = t"
| "result_text (RunnerWaiting ids t) = t"
| "result_text (RunnerInterrupted t) = or_else t []"
| "result_text (RunnerError t) = t"

fun waiting_entry :: "runner_result \<Rightarrow> (str \<times> plain) list" where
  "waiting_entry (RunnerWaiting ids t) = [(''reason'', PStr ''live_wait''), (''alarmIds'', PArr (map PStr ids))]"
| "waiting_entry _ = []"

record terminal_input =
  te_id :: str
  te_parentId :: str
  te_sessionId :: str
  te_turnId :: str
  te_result :: runner_result
  te_resumeCount :: int
  te_boundaryActionId :: "str option"
  te_at :: epoch_ms

definition turnTerminalAction :: "terminal_input \<Rightarrow> append_row" where
  "turnTerminalAction i = turn_row (te_id i) (Some (te_parentId i)) (te_sessionId i)
     (PObj [(''phase'', PStr ''terminal''), (''turnId'', PStr (te_turnId i))])
     (PObj ([(''phase'', PStr ''terminal''), (''turnId'', PStr (te_turnId i)),
             (''kind'', PStr (end_text (result_end (te_result i))))] @
            waiting_entry (te_result i) @
            [(''text'', PStr (result_text (te_result i))), (''boundaryActionId'', null_or_str (te_boundaryActionId i)),
             (''resumeCount'', PInt (te_resumeCount i))]))
     (te_at i)"

end
