(* ===== verification/Turn_Reads.thy ===== *)
theory Turn_Reads
  imports Turn_Rows
begin

text \<open>
  Reads of turns and pages of \<^verbatim>\<open>packages/agent/src/core/store/session-reads.ts\<close>: the fold
  \<^verbatim>\<open>openTurns\<close> over rows, the indexed reads of open turns, history pages, and the
  snapshot of a session with the tails of its newest turns.
\<close>

section \<open>Open turns\<close>

record open_turn =
  ot_turnId :: str
  ot_resultId :: str
  ot_resumeCount :: int
  ot_boundaryActionId :: "str option"
  ot_toolsGeneration :: int
  ot_toolsHash :: str
  ot_systemHash :: str
  ot_policyGeneration :: int
  ot_action :: node

definition opened_turn :: "node \<Rightarrow> turn_intent \<Rightarrow> open_turn" where
  "opened_turn a i =
     \<lparr>ot_turnId = ap_id a, ot_resultId = ti_resultId i, ot_resumeCount = ti_resumeCount i,
      ot_boundaryActionId = ti_boundaryActionId i, ot_toolsGeneration = ti_toolsGeneration i,
      ot_toolsHash = ti_toolsHash i, ot_systemHash = ti_systemHash i, ot_policyGeneration = ti_policyGeneration i,
      ot_action = a\<rparr>"

definition resumed_turn :: "node \<Rightarrow> turn_resume \<Rightarrow> open_turn \<Rightarrow> open_turn" where
  "resumed_turn a r t =
     t\<lparr>ot_resultId := tr_resultId r, ot_resumeCount := tr_resumeCount r, ot_boundaryActionId := tr_boundaryActionId r,
       ot_toolsGeneration := tr_toolsGeneration r, ot_toolsHash := tr_toolsHash r, ot_systemHash := tr_systemHash r,
       ot_policyGeneration := tr_policyGeneration r, ot_action := a\<rparr>"

definition checkpointed_turn :: "node \<Rightarrow> turn_checkpoint \<Rightarrow> open_turn \<Rightarrow> open_turn" where
  "checkpointed_turn a c t =
     t\<lparr>ot_resultId := tk_resultId c, ot_resumeCount := tk_resumeCount c, ot_boundaryActionId := tk_boundaryActionId c,
       ot_action := a\<rparr>"

definition put_if_open :: "str \<Rightarrow> (open_turn \<Rightarrow> open_turn) \<Rightarrow> (str \<times> open_turn) list \<Rightarrow> (str \<times> open_turn) list" where
  "put_if_open i f m = (case map_of m i of None \<Rightarrow> m | Some t \<Rightarrow> put i (f t) m)"

definition open_step :: "(plain \<Rightarrow> bool) \<Rightarrow> node \<Rightarrow> (str \<times> open_turn) list \<Rightarrow> (str \<times> open_turn) list" where
  "open_step message_ok a m =
     (case turnIntent message_ok a of Some i \<Rightarrow> put (ap_id a) (opened_turn a i) m
      | None \<Rightarrow> (case turnResume message_ok a of Some r \<Rightarrow> put_if_open (tr_turnId r) (resumed_turn a r) m
        | None \<Rightarrow> (case turnCheckpoint a of Some c \<Rightarrow> put_if_open (tk_turnId c) (checkpointed_turn a c) m
          | None \<Rightarrow> (case turnTerminal a of Some t \<Rightarrow> del (tt_turnId t) m | None \<Rightarrow> m))))"

definition openTurns :: "(plain \<Rightarrow> bool) \<Rightarrow> node list \<Rightarrow> open_turn list" where
  "openTurns message_ok actions = map snd (fold (open_step message_ok) actions [])"

text \<open>The indexed read of a page: each open intent, with its latest update.\<close>

definition openTurnsPageIn :: "(plain \<Rightarrow> bool) \<Rightarrow> session_file \<Rightarrow> str \<Rightarrow> int \<Rightarrow> int \<Rightarrow> store_error + open_turn list" where
  "openTurnsPageIn message_ok db sid cursor limit =
     and_then (openTurnsPage db sid cursor limit) (\<lambda>intents.
       Inr (concat (map (\<lambda>a. openTurns message_ok
         (case latestTurnUpdate db sid (ap_id a) of None \<Rightarrow> [a] | Some u \<Rightarrow> [a, u])) intents)))"

text \<open>
  The loop of \<^verbatim>\<open>latestOpenTurnIn\<close> may run forever over a file whose pages do not move on,
  so its outcome is an option whose \<^const>\<open>None\<close> is not returning.
\<close>

partial_function (option) latestOpenTurn_loop ::
  "(plain \<Rightarrow> bool) \<Rightarrow> session_file \<Rightarrow> str \<Rightarrow> int \<Rightarrow> open_turn option \<Rightarrow> (store_error + open_turn option) option" where
  "latestOpenTurn_loop message_ok db sid cursor latest =
     (case openTurnsPageIn message_ok db sid cursor 256 of
        Inl e \<Rightarrow> Some (Inl e)
      | Inr page \<Rightarrow>
          (let latest' = (if page = [] then latest else Some (last page)) in
           case latest' of
             None \<Rightarrow> Some (Inr None)
           | Some t \<Rightarrow>
               if length page < 256 then Some (Inr (Some t))
               else (case actionById db (ot_turnId t) of
                   None \<Rightarrow> Some (Inl Thrown)
                 | Some intent \<Rightarrow> latestOpenTurn_loop message_ok db sid (nd_ordinal intent) (Some t))))"

definition latestOpenTurnIn :: "(plain \<Rightarrow> bool) \<Rightarrow> session_file \<Rightarrow> str \<Rightarrow> (store_error + open_turn option) option" where
  "latestOpenTurnIn message_ok db sid = latestOpenTurn_loop message_ok db sid 0 None"

section \<open>Rows and pages\<close>

definition rowIn :: "session_file \<Rightarrow> str \<Rightarrow> store_error + session_row" where
  "rowIn db sid = (case selectSession db sid of None \<Rightarrow> Inl (SessionNotFound sid) | Some s \<Rightarrow> Inr s)"

definition latestFoldCheckpointIn :: "session_file \<Rightarrow> str \<Rightarrow> int option \<Rightarrow> store_error + int \<times> node option" where
  "latestFoldCheckpointIn db sid throughRevision =
     and_then (rowIn db sid) (\<lambda>s.
       let revision = min (ss_revision s) (or_else throughRevision MAX_SAFE_INTEGER) in
       Inr (revision, latestFoldCheckpoint db sid revision))"

text \<open>The settled outcomes; a result row must name one, and agree with its parent.\<close>

definition settled_outcome :: "plain \<Rightarrow> bool" where
  "settled_outcome v \<longleftrightarrow> v \<in> set (map PStr
     [''executed'', ''failed'', ''blocked_pre'', ''blocked_post'', ''cancelled'', ''outcome_unknown''])"

definition resultForIn :: "session_file \<Rightarrow> str \<Rightarrow> str \<Rightarrow> store_error + node option" where
  "resultForIn db sid parentId =
     (case action_resultFor db sid parentId of
        None \<Rightarrow> Inr None
      | Some result \<Rightarrow>
          if (case actionById db parentId of None \<Rightarrow> False
              | Some parent \<Rightarrow> ap_sessionId parent = sid \<and> ap_kind parent = ap_kind result) \<and>
             plain_get (ap_intent result) ''phase'' = Some (PStr ''result'') \<and>
             (case plain_get (ap_effect result) ''terminal'' of None \<Rightarrow> False | Some v \<Rightarrow> settled_outcome v)
          then Inr (Some result) else Inl Thrown)"

record history_page =
  hp_afterRevision :: int
  hp_headRevision :: int
  hp_actions :: "node list"
  hp_nextRevision :: "int option"

text \<open>\<^verbatim>\<open>SessionHistory.Page\<close>: ascending strictly within the head.\<close>

definition ascending_within :: "int \<Rightarrow> int \<Rightarrow> node list \<Rightarrow> bool" where
  "ascending_within after head ns \<longleftrightarrow>
     sorted_wrt (<) (after # map nd_ordinal ns) \<and> list_all (\<lambda>n. nd_ordinal n \<le> head) ns"

definition historyPageIn :: "session_file \<Rightarrow> str \<Rightarrow> int \<Rightarrow> int \<Rightarrow> store_error + history_page" where
  "historyPageIn db sid afterRevision limit =
     (if afterRevision < 0 then Inl Thrown
      else and_then (pageSize limit) (\<lambda>_.
        and_then (rowIn db sid) (\<lambda>s.
        and_then (range_rows db sid afterRevision limit) (\<lambda>actions.
          let last' = last_ordinal afterRevision actions; headRevision = ss_revision s in
          if ascending_within afterRevision headRevision actions
          then Inr \<lparr>hp_afterRevision = afterRevision, hp_headRevision = headRevision, hp_actions = actions,
                    hp_nextRevision = (if last' < headRevision then Some last' else None)\<rparr>
          else Inl Thrown))))"

definition stateEffect :: "node \<Rightarrow> store_error + (str \<times> plain) list" where
  "stateEffect a = (case object_value (ap_effect a) of None \<Rightarrow> Inl Thrown | Some ps \<Rightarrow> Inr ps)"

section \<open>Turn tails\<close>

datatype message_role = UserText | AssistantText

record turn_tail =
  tl_turnId :: str
  tl_state :: session_state
  tl_startedAt :: epoch_ms
  tl_terminal :: "(turn_end \<times> str \<times> epoch_ms) option"
  tl_messages :: "(message_role \<times> str) list"

record tail_fold =
  tf_intent :: node
  tf_messages :: "(message_role \<times> str) list"
  tf_terminal :: "(node \<times> turn_terminal) option"

record tail_window =
  tw_tails :: "(str \<times> tail_fold) list"
  tw_pending :: "(str \<times> (message_role \<times> str) list) list"

text \<open>\<^verbatim>\<open>PlainObjectSchema.parse\<close> throws where the intent is not an object.\<close>

definition foldTailAction :: "node \<Rightarrow> tail_window \<Rightarrow> store_error + tail_window" where
  "foldTailAction a w =
     (case delivery_of a of
        Some d \<Rightarrow>
          if td_kind d \<noteq> Prompt then Inr w
          else let message = (UserText, td_content d) in
            (case map_of (tw_tails w) (td_turnId d) of
               Some f \<Rightarrow> Inr (w\<lparr>tw_tails := put (td_turnId d) (f\<lparr>tf_messages := tf_messages f @ [message]\<rparr>) (tw_tails w)\<rparr>)
             | None \<Rightarrow> Inr (w\<lparr>tw_pending :=
                 put (td_turnId d) (or_else (map_of (tw_pending w) (td_turnId d)) [] @ [message]) (tw_pending w)\<rparr>))
      | None \<Rightarrow>
          if ap_kind a \<noteq> KTurn then Inr w
          else if object_value (ap_intent a) = None then Inl Thrown
          else if plain_get (ap_intent a) ''phase'' = Some (PStr ''intent'')
          then Inr (w\<lparr>tw_tails := put (ap_id a) \<lparr>tf_intent = a, tf_messages = or_else (map_of (tw_pending w) (ap_id a)) [],
                       tf_terminal = None\<rparr> (tw_tails w),
                     tw_pending := del (ap_id a) (tw_pending w)\<rparr>)
          else if plain_get (ap_intent a) ''phase'' \<noteq> Some (PStr ''terminal'') then Inr w
          else (case turnTerminal a of
              None \<Rightarrow> Inr w
            | Some t \<Rightarrow>
                (case map_of (tw_tails w) (tt_turnId t) of
                   None \<Rightarrow> Inr w
                 | Some f \<Rightarrow> Inr (w\<lparr>tw_tails := put (tt_turnId t) (f\<lparr>tf_terminal := Some (a, t)\<rparr>) (tw_tails w)\<rparr>))))"

definition tail_turn :: "tail_fold \<Rightarrow> turn_tail" where
  "tail_turn f =
     \<lparr>tl_turnId = ap_id (tf_intent f),
      tl_state = (case tf_terminal f of None \<Rightarrow> Running
                  | Some (_, t) \<Rightarrow> if tt_kind t = EndInterrupted then Interrupted else Idle),
      tl_startedAt = ap_ts (tf_intent f),
      tl_terminal = map_option (\<lambda>(a, t). (tt_kind t, ap_id a, ap_ts a)) (tf_terminal f),
      tl_messages = tf_messages f @
        (case tf_terminal f of None \<Rightarrow> [] | Some (_, t) \<Rightarrow> if tt_text t = [] then [] else [(AssistantText, tt_text t)])\<rparr>"

definition page_tails :: "session_file \<Rightarrow> str \<Rightarrow> int \<Rightarrow> node list" where
  "page_tails db sid cursor = (case turnTailPage db sid cursor 256 of Inr page \<Rightarrow> page | Inl _ \<Rightarrow> [])"

definition beyond_tail :: "session_file \<Rightarrow> str \<Rightarrow> int \<Rightarrow> nat" where
  "beyond_tail db sid cursor =
     length (filter (\<lambda>n. (ap_kind n = KTurn \<or> input_row_kind (ap_kind n)) \<and> nd_ordinal n > cursor) (rows_of sid db))"

lemma beyond_tail_page:
  assumes "page_tails db sid cursor \<noteq> []"
  shows "beyond_tail db sid (nd_ordinal (last (page_tails db sid cursor))) < beyond_tail db sid cursor"
proof -
  let ?p = "\<lambda>c n. (ap_kind n = KTurn \<or> input_row_kind (ap_kind n)) \<and> nd_ordinal n > c"
  let ?rows = "rows_of sid db" and ?o = "nd_ordinal (last (page_tails db sid cursor))"
  have page: "page_tails db sid cursor = take 256 (filter (?p cursor) ?rows)"
    by (simp add: page_tails_def turnTailPage_def page_of_def pageSize_def)
  have m: "last (page_tails db sid cursor) \<in> set (filter (?p cursor) ?rows)"
    using last_in_set [OF assms] unfolding page by (rule in_set_takeD)
  have "length (filter (?p ?o) ?rows) = length (filter (?p ?o) (filter (?p cursor) ?rows))"
    using m by (auto intro!: arg_cong [where f = length] filter_cong)
  also have "\<dots> < length (filter (?p cursor) ?rows)"
    using m by (intro length_filter_less [of "last (page_tails db sid cursor)"]) auto
  finally show ?thesis by (simp add: beyond_tail_def)
qed

text \<open>The rows of a page up to the revision of the snapshot, and whether a later row ended it.\<close>

definition within_revision :: "int \<Rightarrow> node list \<Rightarrow> node list" where
  "within_revision revision page = takeWhile (\<lambda>n. nd_ordinal n \<le> revision) page"

function turnTails_loop :: "session_file \<Rightarrow> str \<Rightarrow> int \<Rightarrow> int \<Rightarrow> tail_window \<Rightarrow> store_error + turn_tail list" where
  "turnTails_loop db sid revision cursor w =
     (let page = page_tails db sid cursor; rows = within_revision revision page in
      case fold_fail foldTailAction rows w of
        Inl e \<Rightarrow> Inl e
      | Inr w' \<Rightarrow>
          if length rows < length page \<or> length page < 256 then Inr (map (tail_turn \<circ> snd) (tw_tails w'))
          else turnTails_loop db sid revision (nd_ordinal (last page)) w')"
  by pat_completeness auto
termination
proof (relation "measure (\<lambda>(db, sid, revision, cursor, w). beyond_tail db sid cursor)", goal_cases)
  case (2 db sid revision cursor w page rows w')
  then have "page_tails db sid cursor \<noteq> []" by auto
  from beyond_tail_page [OF this] 2 show ?case by simp
qed simp

declare turnTails_loop.simps [simp del]

definition turnTails :: "session_file \<Rightarrow> str \<Rightarrow> int \<Rightarrow> int \<Rightarrow> store_error + turn_tail list" where
  "turnTails db sid revision count =
     (if count = 0 then Inr []
      else and_then (turnWindowStart db sid (revision + 1) count) (\<lambda>start.
        turnTails_loop db sid revision start \<lparr>tw_tails = [], tw_pending = []\<rparr>))"

record session_snapshot =
  sp_row :: session_row
  sp_openTurnId :: "str option"
  sp_turns :: "turn_tail list"

definition getSnapshotIn ::
  "(plain \<Rightarrow> bool) \<Rightarrow> session_file \<Rightarrow> str \<Rightarrow> int \<Rightarrow> (store_error + session_snapshot) option" where
  "getSnapshotIn message_ok db sid turns =
     (if turns < 0 then Some (Inl Thrown)
      else case and_then (rowIn db sid) (\<lambda>s. and_then (latestGenerationForIn db sid) (\<lambda>_. Inr s)) of
        Inl e \<Rightarrow> Some (Inl e)
      | Inr s \<Rightarrow>
          (case latestOpenTurnIn message_ok db sid of
             None \<Rightarrow> None
           | Some (Inl e) \<Rightarrow> Some (Inl e)
           | Some (Inr t) \<Rightarrow>
               Some (and_then (turnTails db sid (ss_revision s) turns) (\<lambda>tails.
                 Inr \<lparr>sp_row = s, sp_openTurnId = map_option ot_turnId t, sp_turns = tails\<rparr>))))"

end
