(* ===== verification/Admission.thy ===== *)
theory Admission
  imports Turn_Reads
begin

text \<open>
  Admission of inputs: the routing of \<^verbatim>\<open>packages/agent/src/core/session/admission.ts\<close>, the
  door, the replay test and the drain of \<^verbatim>\<open>core/session/entity-delivery.ts\<close>, and the
  revision retry of \<^verbatim>\<open>core/session/entity-activation.ts\<close>.  \<open>parse\<close> is \<^verbatim>\<open>parsePlainJson\<close>,
  the runtime's \<^verbatim>\<open>JSON.parse\<close> and a schema, with \<^const>\<open>None\<close> a throw.  Forwarding of
  armed occurrences after a commit is not modelled.
\<close>

section \<open>Kinds\<close>

fun kind_name :: "action_kind \<Rightarrow> str" where
  "kind_name KPrompt = ''prompt''"
| "kind_name KSignal = ''signal''"
| "kind_name KTurn = ''turn''"
| "kind_name KLlm = ''llm''"
| "kind_name KMessage = ''message''"
| "kind_name KRequest = ''request''"
| "kind_name KAlarm = ''alarm''"
| "kind_name KSessionConfigure = ''session.configure''"
| "kind_name KPolicyDecision = ''policy.decision''"
| "kind_name KTool = ''tool''"
| "kind_name KCompaction = ''compaction''"
| "kind_name KAction = ''action''"
| "kind_name KFoldCheckpoint = ''fold.checkpoint''"

definition isCapabilityKind :: "action_kind \<Rightarrow> bool" where
  "isCapabilityKind k \<longleftrightarrow> k = KTool \<or> k = KCompaction \<or> k = KAction"

text \<open>True is \<^verbatim>\<open>"ok"\<close>.  Every kind but the store's own checkpoint is declared.\<close>

definition admitInputKind :: "str list \<Rightarrow> action_kind \<Rightarrow> bool" where
  "admitInputKind registered k =
     (if \<not> isCapabilityKind k then k \<noteq> KFoldCheckpoint else kind_name k \<in> set registered)"

section \<open>Routing\<close>

record admission_snapshot =
  as_row :: session_row
  as_pending :: "delivery_row list"
  as_open :: "open_turn option"
  as_terminal :: "(node \<times> turn_terminal) option"
  as_capabilityKinds :: "str list option"

datatype admission_refusal = UnknownInputKind | MissingCapabilityKinds | Inconsistent

datatype admission_decision =
    AdmitStop
  | AdmitStart
  | AdmitRefused admission_refusal
  | AdmitRecover open_turn
  | AdmitResume delivery_row
  | AdmitConsume "delivery_row list"

definition heads_turn :: "delivery_row \<Rightarrow> bool" where
  "heads_turn r \<longleftrightarrow> dr_kind r = Prompt \<or> dr_kind r = ActionInput"

fun first_index :: "('a \<Rightarrow> bool) \<Rightarrow> 'a list \<Rightarrow> nat option" where
  "first_index p [] = None"
| "first_index p (x # xs) = (if p x then Some 0 else map_option Suc (first_index p xs))"

definition decideIdleDeliveries :: "delivery_row list \<Rightarrow> admission_decision" where
  "decideIdleDeliveries pending =
     (if pending = [] then AdmitStop
      else case first_index heads_turn pending of
        None \<Rightarrow> AdmitConsume pending
      | Some n \<Rightarrow> if n = 0 then AdmitStart else AdmitConsume (take n pending))"

definition decideSessionAdmission :: "admission_snapshot \<Rightarrow> admission_decision" where
  "decideSessionAdmission s =
     (let row = as_row s; pending = as_pending s in
      case as_capabilityKinds s of
        None \<Rightarrow> AdmitRefused MissingCapabilityKinds
      | Some registered \<Rightarrow>
          if list_ex (\<lambda>r. \<not> admitInputKind registered (inputRowKind (dr_kind r))) pending then AdmitRefused UnknownInputKind
          else if list_ex (\<lambda>r. dr_sessionId r \<noteq> ss_id row \<or> dr_status r \<noteq> PendingInput) pending then AdmitRefused Inconsistent
          else if (case as_open s of None \<Rightarrow> False | Some t \<Rightarrow> ap_sessionId (ot_action t) \<noteq> ss_id row) then AdmitRefused Inconsistent
          else if (case as_terminal s of None \<Rightarrow> False | Some (a, _) \<Rightarrow> ap_sessionId a \<noteq> ss_id row) then AdmitRefused Inconsistent
          else (case ss_state row of
              Running \<Rightarrow> (case as_open s of None \<Rightarrow> AdmitRefused Inconsistent | Some t \<Rightarrow> AdmitRecover t)
            | Interrupted \<Rightarrow>
                (case as_open s of
                   Some t \<Rightarrow> AdmitRecover t
                 | None \<Rightarrow>
                     (case find (\<lambda>r. dr_kind r = Resume) pending of
                        None \<Rightarrow> AdmitStop
                      | Some item \<Rightarrow>
                          if (case as_terminal s of None \<Rightarrow> False | Some (_, t) \<Rightarrow> tt_kind t = EndInterrupted)
                          then AdmitResume item else AdmitConsume [item]))
            | Idle \<Rightarrow> (case as_open s of None \<Rightarrow> decideIdleDeliveries pending | Some _ \<Rightarrow> AdmitRefused Inconsistent)))"

section \<open>The snapshot\<close>

definition latestTurnTerminalIn :: "session_file \<Rightarrow> str \<Rightarrow> (node \<times> turn_terminal) option" where
  "latestTurnTerminalIn db sid =
     (case latestTurnTerminal db sid of None \<Rightarrow> None | Some a \<Rightarrow> map_option (\<lambda>t. (a, t)) (turnTerminal a))"

text \<open>\<^const>\<open>None\<close> is a read of the open turn that does not return.\<close>

definition admissionSnapshot ::
  "(plain \<Rightarrow> bool) \<Rightarrow> str list option \<Rightarrow> session_file \<Rightarrow> str \<Rightarrow> (store_error + admission_snapshot) option" where
  "admissionSnapshot message_ok capabilityKinds db sid =
     (case and_then (rowIn db sid) (\<lambda>row. and_then (pendingMessagesIn db sid) (\<lambda>pending. Inr (row, pending))) of
        Inl e \<Rightarrow> Some (Inl e)
      | Inr (row, pending) \<Rightarrow>
          map_option (\<lambda>r. and_then r (\<lambda>t.
            Inr \<lparr>as_row = row, as_pending = pending, as_open = t, as_terminal = latestTurnTerminalIn db sid,
                 as_capabilityKinds = capabilityKinds\<rparr>))
            (latestOpenTurnIn message_ok db sid))"

section \<open>Receiving\<close>

record received_envelope =
  re_messageId :: str
  re_content :: str
  re_origin :: str

record entity_authority =
  au_sessionId :: str
  au_owner :: str
  au_fence :: int

definition receivedActionFor ::
  "(str \<Rightarrow> plain option) \<Rightarrow> str \<Rightarrow> input_kind \<Rightarrow> received_envelope \<Rightarrow> epoch_ms \<Rightarrow> delivery_width option \<Rightarrow> fnum option
    \<Rightarrow> store_error + append_row" where
  "receivedActionFor parse sid kind message ts delivery after =
     (case parse (re_origin message) of
        None \<Rightarrow> Inl Thrown
      | Some source \<Rightarrow>
          (let origin = (case (after, source) of (Some n, PObj ps) \<Rightarrow> PObj (put ''after'' (PNum n) ps) | _ \<Rightarrow> source) in
           Inr (receivedMessageAction
             \<lparr>rv_id = re_messageId message, rv_sessionId = sid, rv_kind = kind, rv_content = re_content message,
              rv_origin = origin, rv_parentActionId = None, rv_at = ts, rv_delivery = delivery\<rparr>)))"

datatype deliver_code =
    UnknownKindCode | MissingKey | ClosedCode | DeniedCode | IdempotencyConflict | SeamMissing | MalformedBody

text \<open>\<^verbatim>\<open>AdmissionFailure("revision")\<close>, a refused delivery, a ledger error, and an unchecked throw.\<close>

datatype deliver_error =
    RevisionFailure
  | DeliverRefused deliver_code
  | LedgerFailed store_error
  | Died store_error

text \<open>The row as \<^verbatim>\<open>storedActionRow\<close> writes it, each payload as its text.\<close>

definition row_texts :: "('a) append_row_scheme \<Rightarrow> str \<times> str option \<times> str \<times> action_kind \<times> str \<times> str \<times> str option \<times> epoch_ms" where
  "row_texts a = (ap_id a, ap_parentId a, ap_sessionId a, ap_kind a, stringify (ap_intent a), stringify (ap_effect a),
     map_option stringify (ap_revert a), ap_ts a)"

definition replayedReceived ::
  "(str \<Rightarrow> plain option) \<Rightarrow> session_file \<Rightarrow> str \<Rightarrow> input_kind \<Rightarrow> received_envelope \<Rightarrow> delivery_width option \<Rightarrow> fnum option
    \<Rightarrow> deliver_error + int option" where
  "replayedReceived parse db sid kind message delivery after =
     (case actionById db (re_messageId message) of
        None \<Rightarrow> Inr None
      | Some existing \<Rightarrow>
          (case receivedActionFor parse sid kind message (ap_ts existing) delivery after of
             Inl e \<Rightarrow> Inl (Died e)
           | Inr candidate \<Rightarrow>
               if row_texts candidate = row_texts existing then Inr (Some (nd_ordinal existing))
               else Inl (DeliverRefused IdempotencyConflict)))"

definition commit_of :: "entity_authority \<Rightarrow> epoch_ms \<Rightarrow> int \<Rightarrow> append_row list \<Rightarrow> session_state \<Rightarrow> session_commit" where
  "commit_of auth now revision as state =
     \<lparr>cm_sessionId = au_sessionId auth, cm_owner = au_owner auth, cm_fence = au_fence auth, cm_now = now,
      cm_expectedRevision = revision, cm_actions = as, cm_state = state, cm_generation = None, cm_requestCount = None\<rparr>"

text \<open>
  One attempt: what it read is \<open>db\<close>, what it commits to is \<open>db'\<close>, the file after whatever
  ran in between.  The result carries the ordinal and whether it was a replay.
\<close>

record reception =
  rp_kind :: input_kind
  rp_message :: received_envelope
  rp_delivery :: "delivery_width option"
  rp_after :: "fnum option"

definition received_state :: "input_kind \<Rightarrow> session_state \<Rightarrow> session_state" where
  "received_state kind s = (if kind = Interrupt \<and> s = Running then Interrupted else s)"

definition receive_attempt ::
  "store_env \<Rightarrow> (str \<Rightarrow> plain option) \<Rightarrow> entity_authority \<Rightarrow> epoch_ms \<Rightarrow> reception \<Rightarrow> session_file \<Rightarrow> session_file
    \<Rightarrow> (deliver_error + int \<times> bool) \<times> session_file" where
  "receive_attempt env parse auth now m db db' =
     (let sid = au_sessionId auth in
      case replayedReceived parse db sid (rp_kind m) (rp_message m) (rp_delivery m) (rp_after m) of
        Inl e \<Rightarrow> (Inl e, db')
      | Inr (Some ordinal) \<Rightarrow> (Inr (ordinal, True), db')
      | Inr None \<Rightarrow>
          (case rowIn db sid of
             Inl e \<Rightarrow> (Inl (Died e), db')
           | Inr row \<Rightarrow>
               (case receivedActionFor parse sid (rp_kind m) (rp_message m) now (rp_delivery m) (rp_after m) of
                  Inl e \<Rightarrow> (Inl (Died e), db')
                | Inr a \<Rightarrow>
                    (case sessions_commit env (commit_of auth now (ss_revision row) [a] (received_state (rp_kind m) (ss_state row))) db' of
                       (Inl e, db2) \<Rightarrow> (Inl (LedgerFailed e), db2)
                     | (Inr (_, rc # _), db2) \<Rightarrow> (Inr (nd_ordinal (rc_action rc), False), db2)
                     | (Inr (_, []), db2) \<Rightarrow> (Inl (Died Thrown), db2)))))"

text \<open>
  \<^verbatim>\<open>retryRevision\<close>: a revision refusal is tried again twice.  \<open>runs i\<close> is what other
  writers do between the read and the commit of attempt \<open>i\<close>.
\<close>

definition revision_refused :: "deliver_error + 'a \<Rightarrow> bool" where
  "revision_refused r = (case r of Inl (LedgerFailed (CommitRefused _ reason _ _ _ _)) \<Rightarrow> reason = CRevision | _ \<Rightarrow> False)"

fun retryRevision ::
  "nat \<Rightarrow> (nat \<Rightarrow> session_file \<Rightarrow> (deliver_error + 'a) \<times> session_file) \<Rightarrow> session_file \<Rightarrow> (deliver_error + 'a) \<times> session_file" where
  "retryRevision n attempt db =
     (let (r, db') = attempt n db in
      if \<not> revision_refused r then (r, db')
      else case n of 0 \<Rightarrow> (Inl RevisionFailure, db') | Suc n' \<Rightarrow> retryRevision n' attempt db')"

definition appendReceived ::
  "store_env \<Rightarrow> (str \<Rightarrow> plain option) \<Rightarrow> entity_authority \<Rightarrow> (nat \<Rightarrow> epoch_ms) \<Rightarrow> (nat \<Rightarrow> session_file \<Rightarrow> session_file) \<Rightarrow> reception
    \<Rightarrow> session_file \<Rightarrow> (deliver_error + int \<times> bool) \<times> session_file" where
  "appendReceived env parse auth clock runs m db =
     retryRevision 2 (\<lambda>i db. receive_attempt env parse auth (clock i) m db (runs i db)) db"

end
