(* ===== verification/Drain.thy ===== *)
theory Drain
  imports Admission
begin

text \<open>
  What admission commits: the door and the drain of
  \<^verbatim>\<open>packages/agent/src/core/session/entity-delivery.ts\<close>, and the batches by which
  \<^verbatim>\<open>admission.ts\<close>, \<^verbatim>\<open>run.ts\<close> and \<^verbatim>\<open>recovery.ts\<close> consume inputs.  The bodies a prompt
  policy rewrote are the parameter \<open>contents\<close>, minted ids and clock readings are
  arguments, and running a turn is the port \<open>run_turn\<close>.
\<close>

definition latest_id :: "session_file \<Rightarrow> str \<Rightarrow> str option" where
  "latest_id db sid = map_option ap_id (latestAction db sid MAX_SAFE_INTEGER)"

definition last_id :: "append_row list \<Rightarrow> str option \<Rightarrow> str option" where
  "last_id as d = (if as = [] then d else Some (ap_id (last as)))"

section \<open>Batches\<close>

definition consume_batch :: "delivery_row list \<Rightarrow> str option \<Rightarrow> append_row list" where
  "consume_batch items parent = deliveryActions items ToPending BeforeLlm parent"

definition rewritten :: "(str \<Rightarrow> str option) \<Rightarrow> delivery_row \<Rightarrow> delivery_row" where
  "rewritten contents r = (case contents (dr_id r) of None \<Rightarrow> r | Some body \<Rightarrow> r\<lparr>dr_content := body\<rparr>)"

record turn_ids =
  tu_turnId :: str
  tu_resultId :: str

text \<open>The commit that starts a turn: the deliveries, then the turn's intent.\<close>

definition start_batch ::
  "(plain \<Rightarrow> bool) \<Rightarrow> str \<Rightarrow> turn_ids \<Rightarrow> (str \<Rightarrow> str option) \<Rightarrow> delivery_row list \<times> delivery_row list \<Rightarrow> gen_snapshot
    \<Rightarrow> str option \<Rightarrow> epoch_ms \<Rightarrow> store_error + append_row list" where
  "start_batch message_ok sid ids contents split generation parent now =
     (let (pending, stale) = split;
          deliveries = deliveryActions (map (rewritten contents) pending) (ToTurn (tu_turnId ids)) BeforeLlm parent in
      and_then (turnIntentAction message_ok (tu_turnId ids) (last_id deliveries parent) sid (map dr_id pending) (map dr_id stale)
          \<lparr>tp_generation = generation, tp_resultId = tu_resultId ids, tp_resumeCount = 0, tp_boundaryActionId = parent\<rparr> now)
        (\<lambda>envelope. Inr (deliveries @ [envelope])))"

text \<open>The commit of a boundary inside a turn: its checkpoint, then the deliveries.\<close>

record boundary_input =
  bi_ids :: turn_ids
  bi_checkpointId :: str
  bi_parentId :: str
  bi_resumeCount :: int
  bi_boundary :: boundary
  bi_at :: epoch_ms

definition boundary_batch ::
  "str \<Rightarrow> boundary_input \<Rightarrow> (str \<Rightarrow> str option) \<Rightarrow> delivery_row list \<times> delivery_row list \<Rightarrow> append_row list" where
  "boundary_batch sid i contents split =
     (let (pending, stale) = split in
      turnCheckpointAction
        \<lparr>ki_id = bi_checkpointId i, ki_parentId = bi_parentId i, ki_sessionId = sid, ki_turnId = tu_turnId (bi_ids i),
         ki_resultId = tu_resultId (bi_ids i), ki_resumeCount = bi_resumeCount i, ki_boundaryActionId = bi_checkpointId i,
         ki_boundary = bi_boundary i, ki_deliveryIds = map dr_id pending, ki_consumedStale = map dr_id stale, ki_at = bi_at i\<rparr> #
      deliveryActions (map (rewritten contents) pending) (ToTurn (tu_turnId (bi_ids i))) (bi_boundary i)
        (Some (bi_checkpointId i)))"

text \<open>What a seal consumes: an interrupted turn closes its interrupts and cancellations.\<close>

definition is_stop :: "delivery_row \<Rightarrow> bool" where
  "is_stop r \<longleftrightarrow> dr_kind r = Interrupt \<or> dr_kind r = CancelInput"

fun is_interrupted :: "runner_result \<Rightarrow> bool" where
  "is_interrupted (RunnerInterrupted _) = True"
| "is_interrupted _ = False"

definition seal_items :: "runner_result \<Rightarrow> delivery_row list \<Rightarrow> delivery_row list" where
  "seal_items result pending = (if is_interrupted result then filter is_stop pending else [])"

text \<open>The commit that seals a turn; \<open>reply\<close> is a child's settlement toward its parent.\<close>

definition seal_batch ::
  "str \<Rightarrow> open_turn \<Rightarrow> runner_result \<Rightarrow> delivery_row list \<Rightarrow> str option \<Rightarrow> append_row option \<Rightarrow> epoch_ms \<Rightarrow> append_row list" where
  "seal_batch sid open_turn result pending latest reply now =
     (let anchor = or_else latest (ap_id (ot_action open_turn));
          deliveries = deliveryActions (seal_items result pending) (ToTurn (ot_turnId open_turn)) BeforeLlm (Some anchor);
          terminal = turnTerminalAction
            \<lparr>te_id = ot_resultId open_turn, te_parentId = or_else (last_id deliveries None) anchor, te_sessionId = sid,
             te_turnId = ot_turnId open_turn, te_result = result, te_resumeCount = ot_resumeCount open_turn,
             te_boundaryActionId = ot_boundaryActionId open_turn, te_at = now\<rparr>
      in deliveries @ [terminal] @ (case reply of None \<Rightarrow> [] | Some r \<Rightarrow> [r]))"

text \<open>The commit that resumes an interrupted turn from its terminal row.\<close>

definition resume_batch ::
  "(plain \<Rightarrow> bool) \<Rightarrow> str \<Rightarrow> turn_ids \<Rightarrow> delivery_row \<Rightarrow> node \<times> turn_terminal \<Rightarrow> gen_snapshot \<Rightarrow> epoch_ms \<Rightarrow> store_error + append_row list" where
  "resume_batch message_ok sid ids item terminal generation now =
     (let (a, t) = terminal;
          deliveries = deliveryActions [item] (ToTurn (tu_turnId ids)) BeforeLlm (Some (ap_id a)) in
      and_then (turnIntentAction message_ok (tu_turnId ids) (last_id deliveries (Some (ap_id a))) sid [dr_id item] []
          \<lparr>tp_generation = generation, tp_resultId = tu_resultId ids, tp_resumeCount = tt_resumeCount t + 1,
           tp_boundaryActionId = tt_boundaryActionId t\<rparr> now)
        (\<lambda>envelope. Inr (deliveries @ [envelope])))"

section \<open>The drain\<close>

definition consumePending ::
  "store_env \<Rightarrow> entity_authority \<Rightarrow> epoch_ms \<Rightarrow> delivery_row list \<Rightarrow> session_file \<Rightarrow> (store_error + unit) \<times> session_file" where
  "consumePending env auth now items db =
     (case rowIn db (au_sessionId auth) of
        Inl e \<Rightarrow> (Inl e, db)
      | Inr row \<Rightarrow>
          (let (r, db') = sessions_commit env
             (commit_of auth now (ss_revision row) (consume_batch items (latest_id db (au_sessionId auth))) (ss_state row)) db
           in (and_then r (\<lambda>_. Inr ()), db')))"

datatype drain_outcome = DrainStop | DrainRefused | DrainTurn

text \<open>
  One round of the loop of \<^verbatim>\<open>drain\<close>, which holds the gate: \<open>live\<close> is whether a turn is
  detached and \<open>n\<close> counts the clock readings.  \<open>run_turn\<close> answers whether the turn it ran is
  still live.  A round ends the drain or goes on.
\<close>

record drain_state =
  dn_n :: nat
  dn_live :: bool
  dn_ranTurn :: bool
  dn_file :: session_file

record drain_ports =
  pt_messages :: "plain \<Rightarrow> bool"
  pt_capabilityKinds :: "str list option"
  pt_clock :: "nat \<Rightarrow> epoch_ms"
  pt_run_turn :: "admission_decision \<Rightarrow> session_file \<Rightarrow> (store_error + bool) \<times> session_file"

type_synonym drain_result = "(store_error + drain_outcome) \<times> session_file"

definition drain_round ::
  "store_env \<Rightarrow> drain_ports \<Rightarrow> entity_authority \<Rightarrow> drain_state \<Rightarrow> (drain_result + drain_state) option" where
  "drain_round env ports auth d =
     (let db = dn_file d in
      if dn_live d then Some (Inl (Inr DrainTurn, db))
      else case admissionSnapshot (pt_messages ports) (pt_capabilityKinds ports) db (au_sessionId auth) of
        None \<Rightarrow> None
      | Some (Inl e) \<Rightarrow> Some (Inl (Inl e, db))
      | Some (Inr s) \<Rightarrow>
          Some (case decideSessionAdmission s of
             AdmitStop \<Rightarrow> Inl (Inr (if dn_ranTurn d then DrainTurn else DrainStop), db)
           | AdmitRefused r \<Rightarrow> Inl (Inr DrainRefused, db)
           | AdmitConsume items \<Rightarrow>
               (case consumePending env auth (pt_clock ports (dn_n d)) items db of
                  (Inl e, db') \<Rightarrow> Inl (Inl e, db')
                | (Inr _, db') \<Rightarrow> Inr (d\<lparr>dn_n := Suc (dn_n d), dn_file := db'\<rparr>))
           | t \<Rightarrow>
               (case pt_run_turn ports t db of
                  (Inl e, db') \<Rightarrow> Inl (Inl e, db')
                | (Inr live, db') \<Rightarrow> Inr (d\<lparr>dn_live := live, dn_ranTurn := True, dn_file := db'\<rparr>))))"

text \<open>\<^const>\<open>None\<close> is not returning.\<close>

partial_function (option) drain_loop :: "store_env \<Rightarrow> drain_ports \<Rightarrow> entity_authority \<Rightarrow> drain_state \<Rightarrow> drain_result option" where
  "drain_loop env ports auth d =
     (case drain_round env ports auth d of
        None \<Rightarrow> None
      | Some (Inl r) \<Rightarrow> Some r
      | Some (Inr d') \<Rightarrow> drain_loop env ports auth d')"

definition drain :: "store_env \<Rightarrow> drain_ports \<Rightarrow> entity_authority \<Rightarrow> bool \<Rightarrow> session_file \<Rightarrow> drain_result option" where
  "drain env ports auth live db =
     drain_loop env ports auth \<lparr>dn_n = 0, dn_live = live, dn_ranTurn = False, dn_file = db\<rparr>"

section \<open>The door\<close>

record deliver_payload =
  dp_kind :: str
  dp_body :: str
  dp_source :: str
  dp_idempotencyKey :: str

record deliver_body =
  db_content :: str
  db_control :: "input_kind option"
  db_delivery :: "delivery_width option"
  db_after :: "fnum option"

fun read_number :: "plain \<Rightarrow> fnum option" where
  "read_number (PNum n) = Some n"
| "read_number _ = None"

definition control_table :: "(str \<times> input_kind) list" where
  "control_table = map (\<lambda>k. (kind_text k, k)) [Interrupt, Resume, CancelInput]"

definition decodeDeliverBody :: "plain \<Rightarrow> deliver_body option" where
  "decodeDeliverBody v =
     Option.bind (object_value v) (\<lambda>ps.
     Option.bind (field ''content'' read_str ps) (\<lambda>content.
     Option.bind (optional ''control'' (read_enum control_table) ps) (\<lambda>control.
     Option.bind (optional ''delivery'' (read_enum delivery_table) ps) (\<lambda>delivery.
     map_option (\<lambda>after. \<lparr>db_content = content, db_control = control, db_delivery = delivery, db_after = after\<rparr>)
       (optional ''after'' read_number ps)))))"

text \<open>\<^verbatim>\<open>Delivery.Row.parse\<close> of the candidate: its id is not empty and \<open>after\<close> is a natural number.\<close>

definition deliverCandidate ::
  "(str \<Rightarrow> plain option) \<Rightarrow> session_file \<Rightarrow> str \<Rightarrow> epoch_ms \<Rightarrow> deliver_payload \<Rightarrow> deliver_body \<Rightarrow> input_kind
    \<Rightarrow> store_error + delivery_row" where
  "deliverCandidate parse db sid now p b kind =
     and_then (pendingMessagesIn db sid) (\<lambda>pending.
       case (parse (dp_source p), case db_after b of None \<Rightarrow> Some None | Some n \<Rightarrow> map_option Some (read_natural (PNum n))) of
         (Some source, Some after) \<Rightarrow>
           if dp_idempotencyKey p = [] \<or> sid = [] \<or> now < 0 then Inl Thrown
           else Inr \<lparr>dr_id = dp_idempotencyKey p, dr_sessionId = sid, dr_kind = kind, dr_content = db_content b,
                     dr_origin = source, dr_delivery = db_delivery b, dr_after = after, dr_status = PendingInput,
                     dr_createdAt = now, dr_ordinal = int (length pending) + 1\<rparr>
       | _ \<Rightarrow> Inl Thrown)"

definition delivered_kind :: "deliver_payload \<Rightarrow> deliver_body \<Rightarrow> input_kind option" where
  "delivered_kind p b =
     (if dp_kind p = ''prompt'' then Some Prompt
      else if dp_kind p = ''action'' then Some ActionInput
      else db_control b)"

record door =
  do_registrations :: "str list option"
  do_capabilityKinds :: "str list option"

text \<open>
  \<^verbatim>\<open>deliver\<close> up to its append: the ordinal of a replay, or the reception to append.
\<close>

definition deliver_checks ::
  "(str \<Rightarrow> plain option) \<Rightarrow> (plain \<Rightarrow> bool) \<Rightarrow> door \<Rightarrow> entity_authority \<Rightarrow> epoch_ms \<Rightarrow> deliver_payload \<Rightarrow> session_file
    \<Rightarrow> (deliver_error + (int + reception)) option" where
  "deliver_checks parse message_ok d auth now p db =
     (let sid = au_sessionId auth in
      if trim (dp_idempotencyKey p) = [] then Some (Inl (DeliverRefused MissingKey))
      else case do_registrations d of
        None \<Rightarrow> Some (Inl (DeliverRefused SeamMissing))
      | Some registered \<Rightarrow>
          if dp_kind p \<notin> set registered then Some (Inl (DeliverRefused UnknownKindCode))
          else case rowIn db sid of
            Inl e \<Rightarrow> Some (Inl (Died e))
          | Inr row \<Rightarrow>
              (case (parse (dp_source p), Option.bind (parse (dp_body p)) decodeDeliverBody) of
                 (Some _, Some b) \<Rightarrow>
                   (case delivered_kind p b of
                      None \<Rightarrow> Some (Inl (DeliverRefused MalformedBody))
                    | Some kind \<Rightarrow>
                        (let message = \<lparr>re_messageId = dp_idempotencyKey p, re_content = db_content b, re_origin = dp_source p\<rparr> in
                         case replayedReceived parse db sid kind message (db_delivery b) (db_after b) of
                           Inl e \<Rightarrow> Some (Inl e)
                         | Inr (Some ordinal) \<Rightarrow> Some (Inr (Inl ordinal))
                         | Inr None \<Rightarrow>
                             (case deliverCandidate parse db sid now p b kind of
                                Inl e \<Rightarrow> Some (Inl (Died e))
                              | Inr candidate \<Rightarrow>
                                  (case admissionSnapshot message_ok (do_capabilityKinds d) db sid of
                                     None \<Rightarrow> None
                                   | Some (Inl e) \<Rightarrow> Some (Inl (Died e))
                                   | Some (Inr s) \<Rightarrow>
                                       (case decideSessionAdmission (s\<lparr>as_pending := as_pending s @ [candidate], as_row := row\<rparr>) of
                                          AdmitRefused r \<Rightarrow> Some (Inl (DeliverRefused
                                            (if r = UnknownInputKind then UnknownKindCode else DeniedCode)))
                                        | _ \<Rightarrow> Some (Inr (Inr \<lparr>rp_kind = kind, rp_message = message,
                                            rp_delivery = db_delivery b, rp_after = db_after b\<rparr>)))))))
               | _ \<Rightarrow> Some (Inl (DeliverRefused MalformedBody))))"

fun or_die :: "deliver_error + 'a \<Rightarrow> deliver_error + 'a" where
  "or_die (Inl (LedgerFailed e)) = Inl (Died e)"
| "or_die r = r"

text \<open>\<open>drained\<close> is the drain that follows an append; a failure of it is a defect.\<close>

definition deliver ::
  "store_env \<Rightarrow> (str \<Rightarrow> plain option) \<Rightarrow> (plain \<Rightarrow> bool) \<Rightarrow> door \<Rightarrow> entity_authority \<Rightarrow> (nat \<Rightarrow> epoch_ms) \<Rightarrow>
    (nat \<Rightarrow> session_file \<Rightarrow> session_file) \<Rightarrow> (session_file \<Rightarrow> drain_result option) \<Rightarrow>
    deliver_payload \<Rightarrow> session_file \<Rightarrow> ((deliver_error + int \<times> bool) \<times> session_file) option" where
  "deliver env parse message_ok d auth clock runs drained p db =
     (case deliver_checks parse message_ok d auth (clock 0) p db of
        None \<Rightarrow> None
      | Some (Inl e) \<Rightarrow> Some (Inl e, db)
      | Some (Inr (Inl ordinal)) \<Rightarrow> Some (Inr (ordinal, True), db)
      | Some (Inr (Inr m)) \<Rightarrow>
          (case appendReceived env parse auth (clock \<circ> Suc) runs m db of
             (Inl e, db') \<Rightarrow> Some (or_die (Inl e), db')
           | (Inr x, db') \<Rightarrow>
               (case drained db' of
                  None \<Rightarrow> None
                | Some (Inl e, db2) \<Rightarrow> Some (Inl (Died e), db2)
                | Some (Inr _, db2) \<Rightarrow> Some (Inr x, db2))))"

end
