(* ===== verification/Fork.thy ===== *)
theory Fork
  imports Drain
begin

text \<open>
  Forking a session (\<^verbatim>\<open>agent/src/core/session/fork.ts\<close>, \<^verbatim>\<open>session-id.ts\<close>): the child file gets
  a configure row that pins the ancestry, then a copy of the parent's rows up to the
  anchor.  Parent and child are two session files.
\<close>

section \<open>Session ids\<close>

definition sessionIdProblem :: "str \<Rightarrow> str option" where
  "sessionIdProblem i =
     (if i = [] then Some ''session id is empty''
      else if i = ''.'' \<or> i = ''..'' then Some (''session id '' @ quote i @ '' is a dot segment'')
      else if list_ex (\<lambda>c. c = CHR ''/'' \<or> c = CHR 0x5C \<or> c = CHR 0x00) i
      then Some (''session id '' @ quote i @ '' holds a path separator or NUL'')
      else None)"

section \<open>Refusals\<close>

datatype fork_reason =
    ParentNotFound | SchemaVersion | AnchorNotFound | AnchorNotBoundary | ByteCap | ChildExists | ChildIdInvalid | OutputMissing

text \<open>A refusal with its reason and detail, or an error of the ledger.\<close>

datatype fork_error = ForkRefused fork_reason str | ForkLedger store_error

definition DEFAULT_FORK_COPY_BYTE_CAP :: int where
  "DEFAULT_FORK_COPY_BYTE_CAP = 4 * 1024 * 1024"

definition SESSION_FILE_SCHEMA_VERSION :: int where
  "SESSION_FILE_SCHEMA_VERSION = 3"

record fork_input =
  fi_from :: str
  fi_anchor :: str
  fi_childId :: str
  fi_genesisActionId :: str
  fi_now :: epoch_ms

section \<open>Rows of the parent\<close>

definition isForkBoundary :: "node \<Rightarrow> bool" where
  "isForkBoundary a \<longleftrightarrow>
     ap_kind a = KPrompt \<or> ap_kind a = KCompaction \<or>
     ap_kind a = KTurn \<and> plain_get (ap_effect a) ''phase'' = Some (PStr ''terminal'')"

definition isInputRow :: "node \<Rightarrow> bool" where
  "isInputRow a \<longleftrightarrow>
     input_row_kind (ap_kind a) \<and> (case plain_get (ap_effect a) ''deliveryKind'' of Some (PStr _) \<Rightarrow> True | _ \<Rightarrow> False)"

definition isDeliveryRow :: "node \<Rightarrow> bool" where
  "isDeliveryRow a \<longleftrightarrow> input_row_kind (ap_kind a) \<and> plain_get (ap_effect a) ''phase'' = Some (PStr ''delivery'')"

definition isArmRow :: "node \<Rightarrow> bool" where
  "isArmRow a \<longleftrightarrow> ap_kind a = KAlarm \<and> plain_get (ap_intent a) ''op'' = Some (PStr ''arm'')"

text \<open>\<^verbatim>\<open>/^sha256:[0-9a-f]{64}$/\<close>.\<close>

definition lower_hex :: "char \<Rightarrow> bool" where
  "lower_hex c \<longleftrightarrow> is_digit c \<or> (97 \<le> (of_char c :: nat) \<and> (of_char c :: nat) \<le> 102)"

definition stored_output :: "str \<Rightarrow> bool" where
  "stored_output i \<longleftrightarrow> take 7 i = ''sha256:'' \<and> length i = 71 \<and> list_all lower_hex (drop 7 i)"

fun collectOutputIds :: "plain \<Rightarrow> str list \<Rightarrow> str list" where
  "collectOutputIds (PArr xs) into = fold collectOutputIds xs into"
| "collectOutputIds (PObj ps) into =
     fold (\<lambda>p. collectOutputIds (snd p)) ps
       (case map_of ps ''outputId'' of Some (PStr i) \<Rightarrow> if stored_output i then set_add i into else into | _ \<Rightarrow> into)"
| "collectOutputIds _ into = into"

section \<open>Copies\<close>

definition remap_field :: "(str \<times> str) list \<Rightarrow> (str \<times> plain) list \<Rightarrow> str \<Rightarrow> (str \<times> plain) list \<Rightarrow> (str \<times> plain) list" where
  "remap_field renames value k next =
     (case map_of value k of
        Some (PStr r) \<Rightarrow> (case map_of renames r of None \<Rightarrow> next | Some r' \<Rightarrow> put k (PStr r') next)
      | _ \<Rightarrow> next)"

definition remapPayload :: "(str \<times> str) list \<Rightarrow> plain \<Rightarrow> plain" where
  "remapPayload renames payload =
     (case object_value payload of
        None \<Rightarrow> payload
      | Some value \<Rightarrow> PObj (remap_field renames value ''turnId'' (remap_field renames value ''deliveryId'' value)))"

definition copyAction :: "str \<Rightarrow> (str \<times> str) list \<Rightarrow> (str \<times> str) list \<Rightarrow> node \<Rightarrow> append_row" where
  "copyAction childId ids renames n =
     \<lparr>ap_id = or_else (map_of ids (ap_id n)) (ap_id n),
      ap_parentId = Option.bind (ap_parentId n) (map_of ids),
      ap_sessionId = childId, ap_kind = ap_kind n,
      ap_intent = remapPayload renames (ap_intent n), ap_effect = remapPayload renames (ap_effect n),
      ap_ts = ap_ts n, ap_revert = ap_revert n\<rparr>"

section \<open>The prefix of the parent\<close>

fun read_until :: "str \<Rightarrow> node list \<Rightarrow> node list \<Rightarrow> node option \<times> node list" where
  "read_until anchorId [] prefix = (None, prefix)"
| "read_until anchorId (a # as) prefix =
     (if ap_id a = anchorId then (Some a, prefix @ [a]) else read_until anchorId as (prefix @ [a]))"

text \<open>The loop over pages; its outcome \<^const>\<open>None\<close> would be a loop that never ends.\<close>

partial_function (option) readParentPrefix_loop ::
  "session_file \<Rightarrow> str \<Rightarrow> str \<Rightarrow> int \<Rightarrow> node list \<Rightarrow> (store_error + node option \<times> node list) option" where
  "readParentPrefix_loop db sid anchorId afterRevision prefix =
     (case historyPageIn db sid afterRevision 256 of
        Inl e \<Rightarrow> Some (Inl e)
      | Inr page \<Rightarrow>
          (let r = read_until anchorId (hp_actions page) prefix in
           if fst r \<noteq> None then Some (Inr r)
           else (case hp_nextRevision page of
                   None \<Rightarrow> Some (Inr (None, snd r))
                 | Some revision \<Rightarrow> readParentPrefix_loop db sid anchorId revision (snd r))))"

declare readParentPrefix_loop.simps [code]

definition readParentPrefix :: "session_file \<Rightarrow> str \<Rightarrow> str \<Rightarrow> (store_error + node option \<times> node list) option" where
  "readParentPrefix db sid anchorId = readParentPrefix_loop db sid anchorId 0 []"

section \<open>The plan\<close>

record fork_plan =
  fp_parentRow :: session_row
  fp_copies :: "append_row list"
  fp_outputs :: "tool_output list"
  fp_forkedFrom :: fork_ancestry
  fp_snapshot :: gen_snapshot

definition eligible :: "node list \<Rightarrow> node list" where
  "eligible prefix = filter (\<lambda>n. ap_kind n \<noteq> KFoldCheckpoint \<and> \<not> isArmRow n) prefix"

definition fork_cap :: "session_file \<Rightarrow> str \<Rightarrow> int" where
  "fork_cap db sid = or_else (st_forkCopyByteCap (consumptionSettings db sid)) DEFAULT_FORK_COPY_BYTE_CAP"

definition output_ids :: "node list \<Rightarrow> str list" where
  "output_ids rows = fold (\<lambda>n. collectOutputIds (ap_effect n)) rows []"

fun stored_outputs :: "session_file \<Rightarrow> str list \<Rightarrow> fork_error + tool_output list" where
  "stored_outputs db [] = Inr []"
| "stored_outputs db (i # is) =
     (case toolOutputs_get db i of
        None \<Rightarrow> Inl (ForkRefused OutputMissing (''parent holds no tool output '' @ i))
      | Some w \<Rightarrow> and_then (stored_outputs db is) (\<lambda>ws. Inr (w # ws)))"

definition copied_bytes :: "node list \<Rightarrow> tool_output list \<Rightarrow> int" where
  "copied_bytes rows outputs =
     sum_list (map actionPayloadBytes rows) + sum_list (map (\<lambda>w. int (length (to_bytes w))) outputs)"

definition fork_name :: "str \<Rightarrow> str \<Rightarrow> str" where
  "fork_name from i = ''fork:'' @ from @ '':'' @ i"

definition fork_renames :: "str \<Rightarrow> node list \<Rightarrow> (str \<times> str) list" where
  "fork_renames from rows =
     fold (\<lambda>n m. if isInputRow n \<or> isDeliveryRow n then put (ap_id n) (fork_name from (ap_id n)) m else m) rows []"

definition fork_ids :: "(str \<times> str) list \<Rightarrow> node list \<Rightarrow> (str \<times> str) list" where
  "fork_ids renames rows = fold (\<lambda>n m. put (ap_id n) (or_else (map_of renames (ap_id n)) (ap_id n)) m) rows []"

text \<open>The checks after the anchor is known, and the plan.\<close>

definition plan_copies ::
  "session_file \<Rightarrow> fork_input \<Rightarrow> session_row \<Rightarrow> node \<Rightarrow> node list \<Rightarrow> fork_error + fork_plan" where
  "plan_copies db i parentRow anchor prefix =
     (let from = fi_from i; rows = eligible prefix; cap = fork_cap db from in
      and_then (stored_outputs db (output_ids rows)) (\<lambda>outputs.
        case List.map_filter configurationSnapshot rows of
          [] \<Rightarrow> Inl (ForkRefused AnchorNotFound ''no configured generation precedes the anchor'')
        | s # ss \<Rightarrow>
            (let bytes = copied_bytes rows outputs; renames = fork_renames from rows; ids = fork_ids renames rows in
             if bytes > cap
             then Inl (ForkRefused ByteCap (''copied bytes '' @ int_text bytes @ '' exceed the cap '' @ int_text cap))
             else Inr \<lparr>fp_parentRow = parentRow, fp_copies = map (copyAction (fi_childId i) ids renames) rows,
                       fp_outputs = outputs,
                       fp_forkedFrom = \<lparr>fa_session = from, fa_anchor = ap_id anchor, fa_parentSeq = nd_ordinal anchor,
                         fa_parentHead = or_else (latest_id db from) (ap_id anchor), fa_copied = int (length rows)\<rparr>,
                       fp_snapshot = last (s # ss)\<rparr>)))"

definition planFork :: "session_file \<Rightarrow> int \<Rightarrow> fork_input \<Rightarrow> (fork_error + fork_plan) option" where
  "planFork db schemaVersion i =
     (case sessionIdProblem (fi_childId i) of
        Some problem \<Rightarrow> Some (Inl (ForkRefused ChildIdInvalid problem))
      | None \<Rightarrow>
          if schemaVersion \<noteq> SESSION_FILE_SCHEMA_VERSION
          then Some (Inl (ForkRefused SchemaVersion (''parent file schemaVersion '' @ int_text schemaVersion @ '' is not '' @
                 int_text SESSION_FILE_SCHEMA_VERSION)))
          else (case rowIn db (fi_from i) of
            Inl _ \<Rightarrow> Some (Inl (ForkRefused ParentNotFound ''parent session row is missing''))
          | Inr parentRow \<Rightarrow>
              map_option (\<lambda>r. case r of
                  Inl e \<Rightarrow> Inl (ForkLedger e)
                | Inr (None, prefix) \<Rightarrow> Inl (ForkRefused AnchorNotFound (''no parent action has id '' @ fi_anchor i))
                | Inr (Some anchor, prefix) \<Rightarrow>
                    if \<not> isForkBoundary anchor
                    then Inl (ForkRefused AnchorNotBoundary (''anchor '' @ ap_id anchor @ '' is a mid-turn '' @ kind_name (ap_kind anchor) @
                           '' row, not a turn{terminal}, prompt or compaction boundary''))
                    else plan_copies db i parentRow anchor prefix)
                (readParentPrefix db (fi_from i) (fi_anchor i))))"

section \<open>The fork\<close>

record fork_result =
  fo_childId :: str
  fo_parentId :: str
  fo_forkedFrom :: fork_ancestry
  fo_head :: str
  fo_row :: session_row

definition fork_materialize :: "fork_input \<Rightarrow> fork_plan \<Rightarrow> materialize" where
  "fork_materialize i p =
     \<lparr>mt_row = idle_row (fi_childId i) (Some (fi_from i)) (ss_role (fp_parentRow p)) (fp_snapshot p),
      mt_initialAction = configureAction
        \<lparr>ci_id = fi_genesisActionId i, ci_sessionId = fi_childId i, ci_parentId = None, ci_operation = OpFork,
         ci_snapshot = fp_snapshot p, ci_settings = None, ci_forkedFrom = Some (fp_forkedFrom p), ci_disabled = None,
         ci_at = fi_now i\<rparr>\<rparr>"

text \<open>
  The parent's file is only read.  \<open>index\<close> is the answer of the catalog, as in the store.
\<close>

definition forkSession ::
  "store_env \<Rightarrow> session_file \<Rightarrow> int \<Rightarrow> bool option \<Rightarrow> fork_input \<Rightarrow> session_file
    \<Rightarrow> ((fork_error + fork_result) \<times> session_file) option" where
  "forkSession env parent schemaVersion index i child =
     map_option (\<lambda>p. case p of
         Inl e \<Rightarrow> (Inl e, child)
       | Inr plan \<Rightarrow>
           if selectSession child (fi_childId i) \<noteq> None
           then (Inl (ForkRefused ChildExists (''child session '' @ fi_childId i @ '' already exists'')), child)
           else (case session_fork env (fork_materialize i plan) (fp_copies plan) (fp_outputs plan) index child of
                   (Inl e, child') \<Rightarrow> (Inl (ForkLedger e), child')
                 | (Inr receipt, child') \<Rightarrow>
                     (Inr \<lparr>fo_childId = fi_childId i, fo_parentId = fi_from i, fo_forkedFrom = fp_forkedFrom plan,
                           fo_head = fr_head receipt, fo_row = fr_row receipt\<rparr>, child')))
       (planFork parent schemaVersion i)"

end
