(* ===== verification/Log_Queue.thy ===== *)
theory Log_Queue
  imports Main
begin

text \<open>
  A queue kept in a log: rows arrive under a key, later rows name the keys they consume,
  and what waits is read back from the whole log.  The laws below are what a reader that
  only looks at the tail of the log needs, and what makes every row be consumed at most
  once; they rest on one promise of the rows, that an inert row neither arrives nor
  consumes.
\<close>

locale log_queue =
  fixes key :: "'r \<Rightarrow> 'k"
    and arrives :: "'r \<Rightarrow> bool"
    and consumes :: "'r \<Rightarrow> 'k list"
    and inert :: "'r \<Rightarrow> bool"
  assumes inert_arrives: "inert r \<Longrightarrow> \<not> arrives r"
    and inert_consumes: "inert r \<Longrightarrow> consumes r = []"
begin

definition taken :: "'r list \<Rightarrow> 'k list" where
  "taken rs = concat (map consumes rs)"

definition waiting :: "'r list \<Rightarrow> 'r list" where
  "waiting rs = filter (\<lambda>r. arrives r \<and> key r \<notin> set (taken rs)) rs"

text \<open>No row consumes a key that arrives after it.\<close>

fun causal :: "'r list \<Rightarrow> bool" where
  "causal [] \<longleftrightarrow> True"
| "causal (r # rs) \<longleftrightarrow> (\<forall>x\<in>set rs. arrives x \<longrightarrow> key x \<notin> set (consumes r)) \<and> causal rs"

text \<open>Every row consumes keys that arrived before it; and no key is consumed twice.\<close>

fun grounded :: "'k list \<Rightarrow> 'r list \<Rightarrow> bool" where
  "grounded seen [] \<longleftrightarrow> True"
| "grounded seen (r # rs) \<longleftrightarrow>
     set (consumes r) \<subseteq> set seen \<and> grounded (if arrives r then key r # seen else seen) rs"

definition orderly :: "'r list \<Rightarrow> bool" where
  "orderly rs \<longleftrightarrow> grounded [] rs \<and> distinct (taken rs)"

lemma taken_simps [simp]:
  "taken [] = []" "taken (r # rs) = consumes r @ taken rs" "taken (rs @ ts) = taken rs @ taken ts"
  by (simp_all add: taken_def)

lemma taken_inert: "(\<And>r. r \<in> set rs \<Longrightarrow> inert r) \<Longrightarrow> taken rs = []"
  by (induction rs) (simp_all add: inert_consumes)

lemma causal_append:
  "causal (rs @ ts) \<longleftrightarrow> causal rs \<and> causal ts \<and> (\<forall>x\<in>set ts. arrives x \<longrightarrow> key x \<notin> set (taken rs))"
  by (induction rs) auto

text \<open>The tail of a log tells how the queue moved.\<close>

lemma waiting_append:
  assumes "causal (rs @ ts)"
  shows "waiting (rs @ ts) = filter (\<lambda>r. key r \<notin> set (taken ts)) (waiting rs @ filter arrives ts)"
proof -
  have "\<forall>x\<in>set ts. arrives x \<longrightarrow> key x \<notin> set (taken rs)" using assms by (simp add: causal_append)
  then have "filter (\<lambda>r. arrives r \<and> key r \<notin> set (taken rs) \<and> key r \<notin> set (taken ts)) ts =
      filter (\<lambda>r. key r \<notin> set (taken ts) \<and> arrives r) ts"
    by (intro filter_cong) auto
  then show ?thesis by (simp add: waiting_def conj_ac)
qed

lemma waiting_inert:
  assumes "causal (rs @ ts)" and "\<And>r. r \<in> set ts \<Longrightarrow> inert r"
  shows "waiting (rs @ ts) = waiting rs"
  using assms by (simp add: waiting_append taken_inert inert_arrives)

lemma grounded_mono: "grounded seen rs \<Longrightarrow> set seen \<subseteq> set seen' \<Longrightarrow> grounded seen' rs"
proof (induction rs arbitrary: seen seen')
  case (Cons r rs)
  from Cons.prems have "grounded (if arrives r then key r # seen else seen) rs" by simp
  then have "grounded (if arrives r then key r # seen' else seen') rs"
    by (rule Cons.IH) (use Cons.prems(2) in auto)
  with Cons.prems show ?case by auto
qed simp

lemma grounded_append:
  "grounded seen (rs @ ts) \<longleftrightarrow> grounded seen rs \<and> grounded (rev (map key (filter arrives rs)) @ seen) ts"
  by (induction rs arbitrary: seen) auto

lemma grounded_within: "set (taken rs) \<subseteq> set seen \<Longrightarrow> grounded seen rs"
proof (induction rs arbitrary: seen)
  case (Cons r rs)
  have "set (taken rs) \<subseteq> set (if arrives r then key r # seen else seen)" using Cons.prems by auto
  from Cons.IH [OF this] Cons.prems show ?case by simp
qed simp

lemma grounded_causal:
  "grounded seen rs \<Longrightarrow> distinct (map key rs) \<Longrightarrow> key ` set rs \<inter> set seen = {} \<Longrightarrow> causal rs"
proof (induction rs arbitrary: seen)
  case (Cons r rs)
  have "grounded (if arrives r then key r # seen else seen) rs" using Cons.prems(1) by simp
  then have "causal rs" by (rule Cons.IH) (use Cons.prems in auto)
  moreover have "key x \<notin> set (consumes r)" if "x \<in> set rs" for x
    using that Cons.prems by auto
  ultimately show ?case by simp
qed simp

lemma orderly_causal: "orderly rs \<Longrightarrow> distinct (map key rs) \<Longrightarrow> causal rs"
  using grounded_causal [of "[]"] by (simp add: orderly_def)

lemma orderly_Nil [simp]: "orderly []"
  by (simp add: orderly_def)

text \<open>A batch that consumes only what waits keeps the order.\<close>

lemma orderly_batch:
  assumes "orderly rs" and "distinct (taken ts)" and "set (taken ts) \<subseteq> key ` set (waiting rs)"
  shows "orderly (rs @ ts)"
proof -
  have "set (taken ts) \<subseteq> set (rev (map key (filter arrives rs)) @ [])"
    using assms(3) by (auto simp: waiting_def)
  from grounded_within [OF this] have "grounded [] (rs @ ts)"
    using assms(1) by (simp add: grounded_append orderly_def)
  moreover have "set (taken rs) \<inter> set (taken ts) = {}"
    using assms(3) by (auto simp: waiting_def)
  ultimately show ?thesis using assms(1,2) by (simp add: orderly_def)
qed

lemma orderly_inert:
  assumes "orderly rs" and "\<And>r. r \<in> set ts \<Longrightarrow> inert r"
  shows "orderly (rs @ ts)"
  using assms by (intro orderly_batch) (simp_all add: taken_inert)

lemma orderly_once: "orderly rs \<Longrightarrow> distinct (taken rs)"
  by (simp add: orderly_def)

lemma grounded_earlier:
  "grounded seen (rs @ r # ts) \<Longrightarrow> k \<in> set (consumes r) \<Longrightarrow> k \<in> set seen \<union> key ` {x \<in> set rs. arrives x}"
  by (auto simp: grounded_append)

lemma orderly_earlier:
  "orderly (rs @ r # ts) \<Longrightarrow> k \<in> set (consumes r) \<Longrightarrow> \<exists>x\<in>set rs. arrives x \<and> key x = k"
  using grounded_earlier [of "[]"] by (fastforce simp: orderly_def)

lemma orderly_prefix: "orderly (rs @ ts) \<Longrightarrow> orderly rs"
  by (simp add: orderly_def grounded_append)

end

end
