(* ===== verification/Inbox_Laws.thy ===== *)
theory Inbox_Laws
  imports Inbox Log_Queue Store_Properties
begin

text \<open>
  Laws of the input queue: the rows of a session as a \<open>log_queue\<close>, the pages of the tail
  as one tail of the log, and the incremental read as the full one.
\<close>

section \<open>Rows in log order\<close>

lemma log_of_absent:
  assumes "file_inv db" and "selectSession db sid = None"
  shows "log_of sid db = []"
proof -
  have "sid \<notin> ss_id ` set (fl_sessions db)" using assms(2) by (simp add: selectSession_None)
  then show ?thesis using file_invD(5) [OF assms(1)] by (fastforce simp: log_of_def filter_empty_conv)
qed

lemma rows_of_log:
  assumes "file_inv db"
  shows "rows_of sid db = log_of sid db"
proof (cases "selectSession db sid")
  case None
  then have "log_of sid db = []" by (rule log_of_absent [OF assms])
  then show ?thesis by (simp add: rows_of_def log_of_def)
next
  case (Some s)
  then have "sorted (map nd_ordinal (log_of sid db))"
    using file_invD(4) [OF assms] selectSession_Some [OF Some] by auto
  then show ?thesis by (simp add: rows_of_def log_of_def sort_key_id_if_sorted)
qed

definition numbered :: "int \<Rightarrow> node list \<Rightarrow> bool" where
  "numbered s rows \<longleftrightarrow> map nd_ordinal rows = [s + 1..s + int (length rows)]"

lemma numbered_Cons: "numbered s (n # rows) \<longleftrightarrow> nd_ordinal n = s + 1 \<and> numbered (s + 1) rows"
  by (simp add: numbered_def upto_rec1 algebra_simps)

lemma numbered_log:
  assumes "file_inv db"
  shows "numbered 0 (log_of sid db)"
proof (cases "selectSession db sid")
  case None
  then have "log_of sid db = []" by (rule log_of_absent [OF assms])
  then show ?thesis by (simp add: numbered_def)
next
  case (Some s)
  with file_invD(4) [OF assms, of s] selectSession_Some [OF Some] length_log [OF assms Some] show ?thesis
    by (simp add: numbered_def)
qed

lemma numbered_ge: "numbered s rows \<Longrightarrow> n \<in> set rows \<Longrightarrow> s < nd_ordinal n"
  by (induction rows arbitrary: s) (fastforce simp: numbered_Cons)+

lemma numbered_drop: "numbered s rows \<Longrightarrow> filter (\<lambda>n. nd_ordinal n > s + int k) rows = drop k rows"
proof (induction rows arbitrary: s k)
  case (Cons n rows)
  note c = Cons.prems [unfolded numbered_Cons]
  show ?case
  proof (cases k)
    case 0
    have "s < nd_ordinal x" if "x \<in> set rows" for x
      using numbered_ge [of "s + 1" rows x] c that by simp
    with 0 c show ?thesis by (simp add: filter_id_conv)
  next
    case (Suc j)
    with c Cons.IH [of "s + 1" j] show ?thesis by (simp add: algebra_simps)
  qed
qed simp

lemma numbered_last:
  assumes "numbered s rows" "rows \<noteq> []"
  shows "nd_ordinal (last rows) = s + int (length rows)"
proof -
  have "last (map nd_ordinal rows) = last [s + 1..s + int (length rows)]" using assms by (simp add: numbered_def)
  moreover have "s + 1 \<le> s + int (length rows)" using assms(2) by (cases rows) auto
  ultimately show ?thesis using assms(2) by (simp add: last_map upto_rec2 [of "s + 1"])
qed

lemma numbered_take: "numbered s rows \<Longrightarrow> numbered s (take k rows)"
proof (induction rows arbitrary: s k)
  case (Cons n rows)
  then show ?case by (cases k) (simp_all add: numbered_Cons numbered_def [of _ "[]"])
qed simp

lemma numbered_drops: "numbered s rows \<Longrightarrow> k \<le> length rows \<Longrightarrow> numbered (s + int k) (drop k rows)"
proof (induction rows arbitrary: s k)
  case (Cons n rows)
  then show ?case using Cons.IH [of "s + 1" "k - 1"] by (cases k) (simp_all add: numbered_Cons add.assoc)
qed simp

section \<open>Rows as a queue\<close>

definition consumed_by :: "node \<Rightarrow> str list" where
  "consumed_by n =
     (if ap_kind n = KTurn
      then List.map_filter (\<lambda>v. text_key (sql_of_json v)) (json_each (ap_intent n) [''consumedStale''])
      else if input_row_kind (ap_kind n)
      then (case text_key (intent_at n [''deliveryId'']) of None \<Rightarrow> [] | Some k \<Rightarrow> [k])
      else [])"

definition inert_row :: "node \<Rightarrow> bool" where
  "inert_row n \<longleftrightarrow> ap_kind n \<noteq> KTurn \<and> \<not> input_row_kind (ap_kind n)"

interpretation inputs: log_queue ap_id is_input_row consumed_by inert_row
  by unfold_locales (auto simp: inert_row_def is_input_row_def consumed_by_def)

lemma in_map_filter: "y \<in> set (List.map_filter f xs) \<longleftrightarrow> (\<exists>x\<in>set xs. f x = Some y)"
  by (induction xs) (auto simp: List.map_filter_simps split: option.splits)

lemma consumed_by_iff:
  "i \<in> set (consumed_by n) \<longleftrightarrow>
      (input_row_kind (ap_kind n) \<and> text_key (intent_at n [''deliveryId'']) = Some i) \<or>
      (ap_kind n = KTurn \<and> (\<exists>v\<in>set (json_each (ap_intent n) [''consumedStale'']). text_key (sql_of_json v) = Some i))"
proof (cases "ap_kind n = KTurn")
  case False
  have "i \<in> set (case t of None \<Rightarrow> [] | Some k \<Rightarrow> [k]) \<longleftrightarrow> t = Some i" for t by (cases t) auto
  with False show ?thesis by (simp only: consumed_by_def if_False simp_thms split: if_split) simp
qed (simp add: consumed_by_def in_map_filter input_row_kind_def)

lemma delivered_keys_iff:
  "Some i \<in> set (delivered_keys rows) \<or> Some i \<in> set (stale_keys rows) \<longleftrightarrow> i \<in> set (inputs.taken rows)"
proof -
  have "Some i \<in> set (delivered_keys rows) \<longleftrightarrow>
      (\<exists>n\<in>set rows. input_row_kind (ap_kind n) \<and> text_key (intent_at n [''deliveryId'']) = Some i)"
    by (auto simp: delivered_keys_def intro: rev_image_eqI)
  moreover have "Some i \<in> set (stale_keys rows) \<longleftrightarrow>
      (\<exists>n\<in>set rows. ap_kind n = KTurn \<and> (\<exists>v\<in>set (json_each (ap_intent n) [''consumedStale'']). text_key (sql_of_json v) = Some i))"
    by (induction rows) (simp_all add: stale_keys_def image_iff eq_commute [of "Some i"])
  ultimately show ?thesis by (auto simp: inputs.taken_def consumed_by_iff)
qed

lemma pendingMessages_waiting: "file_inv db \<Longrightarrow> pendingMessages db sid = inputs.waiting (log_of sid db)"
  by (simp add: pendingMessages_def Let_def rows_of_log inputs.waiting_def delivered_keys_iff [symmetric])

text \<open>Rows whose consumption is named by texts, as both reads see it.\<close>

fun text_or_null :: "plain \<Rightarrow> bool" where
  "text_or_null (PStr s) = True"
| "text_or_null PNull = True"
| "text_or_null _ = False"

definition plainly_named :: "node \<Rightarrow> bool" where
  "plainly_named n \<longleftrightarrow>
     (input_row_kind (ap_kind n) \<longrightarrow>
       (case plain_get (ap_intent n) ''deliveryId'' of None \<Rightarrow> True | Some v \<Rightarrow> text_or_null v)) \<and>
     (ap_kind n = KTurn \<longrightarrow>
       (case plain_get (ap_intent n) ''consumedStale'' of None \<Rightarrow> True | Some (PArr vs) \<Rightarrow> list_all text_or_null vs | Some v \<Rightarrow> v = PNull))"

lemma text_or_null_key: "text_or_null v \<Longrightarrow> text_key (sql_of_json v) = read_str v"
  by (cases v) auto

lemma stale_named:
  "(case v of PArr vs \<Rightarrow> list_all text_or_null vs | v \<Rightarrow> v = PNull) \<Longrightarrow>
   List.map_filter (\<lambda>v. text_key (sql_of_json v)) (json_members v) = (case v of PArr vs \<Rightarrow> List.map_filter read_str vs | _ \<Rightarrow> [])"
proof (cases v)
  case (PArr vs)
  assume "case v of PArr vs \<Rightarrow> list_all text_or_null vs | v \<Rightarrow> v = PNull"
  then have "list_all text_or_null vs" by (simp add: PArr)
  then have "List.map_filter (\<lambda>v. text_key (sql_of_json v)) vs = List.map_filter read_str vs"
    by (induction vs) (simp_all add: List.map_filter_simps text_or_null_key split: option.split)
  then show ?thesis by (simp add: PArr)
qed (auto simp: List.map_filter_simps)

lemma tailFact_consumes: "plainly_named n \<Longrightarrow> snd (tailFact n) = consumed_by n"
proof -
  assume p: "plainly_named n"
  have "text_key (intent_at n [''deliveryId'']) = tail_deliveryId (ap_intent n)" if "input_row_kind (ap_kind n)"
  proof (cases "plain_get (ap_intent n) ''deliveryId''")
    case (Some v)
    with p that have "text_or_null v" by (simp add: plainly_named_def)
    with Some show ?thesis by (simp add: json_extract_def tail_deliveryId_def text_or_null_key)
  qed (simp add: json_extract_def tail_deliveryId_def)
  moreover have "List.map_filter (\<lambda>v. text_key (sql_of_json v)) (json_each (ap_intent n) [''consumedStale'']) =
      tail_consumedStale (ap_intent n)" if "ap_kind n = KTurn"
  proof (cases "plain_get (ap_intent n) ''consumedStale''")
    case (Some v)
    then have "case v of PArr vs \<Rightarrow> list_all text_or_null vs | v \<Rightarrow> v = PNull"
      using p that by (cases v) (simp_all add: plainly_named_def)
    from stale_named [OF this] Some show ?thesis
      by (cases v) (simp_all add: json_each_def tail_consumedStale_def)
  qed (simp add: json_each_def tail_consumedStale_def List.map_filter_simps)
  ultimately show ?thesis by (cases "tail_deliveryId (ap_intent n)") (simp_all add: tailFact_def consumed_by_def)
qed

lemma tailFact_arrives: "fst (tailFact n) = is_input_row n"
proof -
  have "sql_of_json w = SNull \<longleftrightarrow> w = PNull" for w by (cases w rule: sql_of_json.cases) auto
  then have "tail_arrival v \<longleftrightarrow> json_extract v [''deliveryKind''] \<noteq> SNull" for v
    by (simp add: tail_arrival_def json_extract_def split: option.split)
  then show ?thesis by (simp add: tailFact_def is_input_row_def input_row_kind_def)
qed

section \<open>The tail\<close>

definition tail_of :: "node list \<Rightarrow> node list \<times> str list" where
  "tail_of rows = tail_page rows ([], [])"

lemma tail_page_append: "tail_page (xs @ ys) acc = tail_page ys (tail_page xs acc)"
  by (simp add: tail_page_def)

lemma tail_page_arrived: "fst (tail_page rows acc) = fst acc @ filter is_input_row rows"
proof (induction rows arbitrary: acc)
  case (Cons n rows)
  obtain a c where "acc = (a, c)" by (cases acc)
  with Cons.IH show ?case by (simp add: tail_page_def tailFact_arrives)
qed (simp add: tail_page_def)

lemma tail_page_consumed:
  "list_all plainly_named rows \<Longrightarrow> set (snd (tail_page rows acc)) = set (snd acc) \<union> set (inputs.taken rows)"
proof (induction rows arbitrary: acc)
  case (Cons n rows)
  obtain a c where acc: "acc = (a, c)" by (cases acc)
  let ?acc = "(if fst (tailFact n) then a @ [n] else a, fold set_add (snd (tailFact n)) c)"
  have "tail_page (n # rows) acc = tail_page rows ?acc" by (simp add: tail_page_def acc)
  with Cons.IH [of ?acc] Cons.prems show ?case
    by (auto simp: acc tailFact_consumes set_fold_set_add)
qed (simp add: tail_page_def)

lemma page256_drop:
  assumes "file_inv db"
  shows "page256 db sid (int k) = take 256 (drop k (log_of sid db))"
  using numbered_drop [OF numbered_log [OF assms, of sid], of k] by (simp add: page256_eq rows_of_log [OF assms])

lemma tailSince_loop_log:
  assumes "file_inv db" and "k \<le> length (log_of sid db)"
  shows "tailSince_loop db sid (int k) acc = (tail_page (drop k (log_of sid db)) acc, int (length (log_of sid db)))"
  using assms(2)
proof (induction "length (log_of sid db) - k" arbitrary: k acc rule: less_induct)
  case less
  let ?log = "log_of sid db"
  define page where "page = take 256 (drop k ?log)"
  have page: "page256 db sid (int k) = page" by (simp add: page_def page256_drop [OF assms(1)])
  have split: "drop k ?log = page @ drop (k + length page) ?log"
  proof -
    have "drop (length page) (drop k ?log) = drop 256 (drop k ?log)" by (simp add: page_def min_def)
    then show ?thesis unfolding page_def by (metis append_take_drop_id drop_drop add.commute)
  qed
  have ord: "last_ordinal (int k) page = int (k + length page)"
  proof (cases "page = []")
    case False
    have "numbered (0 + int k) page"
      unfolding page_def by (intro numbered_take numbered_drops numbered_log assms(1) less.prems)
    from numbered_last [OF this False] False show ?thesis by (simp add: last_ordinal_def)
  qed (simp add: last_ordinal_def)
  show ?case
  proof (cases "length page < 256")
    case True
    then have p: "page = drop k ?log" and "k + length page = length ?log"
      using less.prems by (auto simp: page_def min_def split: if_splits)
    with ord have o: "last_ordinal (int k) page = int (length ?log)" by simp
    from True show ?thesis by (simp add: tailSince_loop.simps [of db sid "int k"] page o Let_def flip: p)
  next
    case False
    have le: "k + length page \<le> length ?log" using less.prems by (auto simp: page_def)
    have "tailSince_loop db sid (int (k + length page)) (tail_page page acc) =
        (tail_page (drop (k + length page) ?log) (tail_page page acc), int (length ?log))"
      by (rule less.hyps) (use False le in auto)
    moreover have "tail_page (drop k ?log) acc = tail_page (drop (k + length page) ?log) (tail_page page acc)"
      by (subst split) (rule tail_page_append)
    ultimately show ?thesis
      using False by (simp add: tailSince_loop.simps [of db sid "int k"] page ord Let_def)
  qed
qed

lemma tailSince_log:
  assumes "file_inv db" and "k \<le> length (log_of sid db)"
  shows "tailSince db sid (int k) = (tail_of (drop k (log_of sid db)), int (length (log_of sid db)))"
  by (simp add: tailSince_def tail_of_def tailSince_loop_log [OF assms])

section \<open>Decoding and numbering\<close>

definition input_view :: "node \<Rightarrow> delivery_row option" where
  "input_view n = (case openDeliveryRow n 0 PendingInput (afterCursorOf (ap_intent n)) of Inl _ \<Rightarrow> None | Inr r \<Rightarrow> Some r)"

definition view :: "node \<Rightarrow> delivery_row" where
  "view n = the (input_view n)"

lemma view_id [simp]: "input_view n \<noteq> None \<Longrightarrow> dr_id (view n) = ap_id n"
  by (auto simp: view_def input_view_def openDeliveryRow_def split: option.splits)

lemma open_view:
  "openDeliveryRow n i PendingInput (afterCursorOf (ap_intent n)) =
    (if input_view n = None then Inl Thrown else Inr ((view n)\<lparr>dr_ordinal := int i + 1\<rparr>))"
  by (auto simp: view_def input_view_def openDeliveryRow_def split: option.splits)

lemma open_all_view:
  "open_all (\<lambda>a i. openDeliveryRow a i PendingInput (afterCursorOf (ap_intent a))) i rows =
    (if list_all (\<lambda>n. input_view n \<noteq> None) rows then Inr (renumber i (map view rows)) else Inl Thrown)"
  by (induction rows arbitrary: i) (auto simp: open_view)

lemma open_pending_view:
  "open_pending rows = (if list_all (\<lambda>n. input_view n \<noteq> None) rows then Inr (renumber 0 (map view rows)) else Inl Thrown)"
  by (simp add: open_pending_def open_all_view)

definition unnumbered :: "delivery_row list \<Rightarrow> delivery_row list" where
  "unnumbered = map (dr_ordinal_update (\<lambda>_. 0))"

lemma renumber_unnumbered: "renumber i (unnumbered rs) = renumber i rs"
  by (induction rs arbitrary: i) (simp_all add: unnumbered_def)

lemma unnumbered_renumber [simp]: "unnumbered (renumber i rs) = unnumbered rs"
  by (induction rs arbitrary: i) (simp_all add: unnumbered_def)

lemma unnumbered_filter: "unnumbered (filter (\<lambda>r. P (dr_id r)) rs) = filter (\<lambda>r. P (dr_id r)) (unnumbered rs)"
  by (induction rs) (simp_all add: unnumbered_def)

lemma renumber_cong: "unnumbered rs = unnumbered rs' \<Longrightarrow> renumber i rs = renumber i rs'"
  by (metis renumber_unnumbered)

lemma renumber_filter:
  "renumber i (filter (\<lambda>r. P (dr_id r)) (renumber j rs @ renumber k rs')) = renumber i (filter (\<lambda>r. P (dr_id r)) (rs @ rs'))"
proof (rule renumber_cong)
  have "unnumbered (xs @ ys) = unnumbered xs @ unnumbered ys" for xs ys by (simp add: unnumbered_def)
  then show "unnumbered (filter (\<lambda>r. P (dr_id r)) (renumber j rs @ renumber k rs')) =
      unnumbered (filter (\<lambda>r. P (dr_id r)) (rs @ rs'))"
    by (simp only: unnumbered_filter unnumbered_renumber)
qed

lemma map_view_filter:
  "list_all (\<lambda>n. input_view n \<noteq> None) rows \<Longrightarrow>
   filter (\<lambda>r. P (dr_id r)) (map view rows) = map view (filter (\<lambda>n. P (ap_id n)) rows)"
  by (induction rows) simp_all

section \<open>The incremental read is the full one\<close>

text \<open>
  A log both reads agree on: its length is a safe integer, consumed inputs are named by
  texts, every input decodes, and no input is consumed before it arrives.
\<close>

definition readable :: "node list \<Rightarrow> bool" where
  "readable rows \<longleftrightarrow>
     int (length rows) \<le> MAX_SAFE_INTEGER \<and>
     list_all plainly_named rows \<and>
     list_all (\<lambda>n. is_input_row n \<longrightarrow> received_effect (ap_effect n) \<noteq> None) rows \<and>
     inputs.causal rows"

lemma readable_view: "list_all (\<lambda>n. is_input_row n \<longrightarrow> received_effect (ap_effect n) \<noteq> None) rows \<Longrightarrow>
    n \<in> set rows \<Longrightarrow> is_input_row n \<Longrightarrow> input_view n \<noteq> None"
  by (auto simp: list_all_iff input_view_def openDeliveryRow_def split: option.splits prod.splits)

lemma readable_prefix: "readable (rows @ ts) \<Longrightarrow> readable rows"
  by (auto simp: readable_def inputs.causal_append)

lemma full_read:
  assumes "file_inv db" and "readable (log_of sid db)"
  shows "pendingMessagesSinceIn db sid None =
    Inr \<lparr>ps_rows = renumber 0 (map view (inputs.waiting (log_of sid db))), ps_ordinal = int (length (log_of sid db))\<rparr>"
proof -
  let ?log = "log_of sid db"
  have num: "numbered 0 ?log" by (rule numbered_log [OF assms(1)])
  have all: "list_all (\<lambda>n. input_view n \<noteq> None) (inputs.waiting ?log)"
    using assms(2) readable_view [of ?log] by (auto simp: list_all_iff inputs.waiting_def readable_def)
  have "(case latestAction db sid MAX_SAFE_INTEGER of None \<Rightarrow> 0 | Some a \<Rightarrow> nd_ordinal a) = int (length ?log)"
  proof (cases ?log rule: rev_cases)
    case (snoc xs n)
    then have "nd_ordinal n = int (length ?log)" using numbered_last [OF num] by simp
    with snoc assms(2) show ?thesis by (simp add: latestAction_def newest_def rows_of_log [OF assms(1)] readable_def)
  qed (simp add: latestAction_def newest_def rows_of_log [OF assms(1)])
  with all show ?thesis
    by (simp add: pendingMessagesSinceIn_def pendingMessagesIn_def pendingMessages_waiting [OF assms(1)] open_pending_view)
qed

lemma tail_read:
  assumes "file_inv db" and "log_of sid db = rows @ ts" and "readable (rows @ ts)"
    and "ps_rows s = renumber 0 (map view (inputs.waiting rows))" and "ps_ordinal s = int (length rows)"
  shows "pendingMessagesSinceIn db sid (Some s) = pendingMessagesSinceIn db sid None"
proof -
  note [simp] = assms(2)
  have r: "list_all plainly_named ts" "inputs.causal (rows @ ts)" using assms(3) by (auto simp: readable_def)
  have dec: "input_view n \<noteq> None" if "n \<in> set (rows @ ts)" "is_input_row n" for n
    using readable_view [of "rows @ ts" n] that assms(3) by (auto simp: readable_def)
  have tail: "tailSince db sid (int (length rows)) = (tail_of ts, int (length rows + length ts))"
    using tailSince_log [OF assms(1), of "length rows" sid] by simp
  have arr: "fst (tail_of ts) = filter is_input_row ts" by (simp add: tail_of_def tail_page_arrived)
  have con: "set (snd (tail_of ts)) = set (inputs.taken ts)"
    using tail_page_consumed [OF r(1), of "([], [])"] by (simp add: tail_of_def)
  have all: "list_all (\<lambda>n. input_view n \<noteq> None) (filter is_input_row ts)"
    "list_all (\<lambda>n. input_view n \<noteq> None) (inputs.waiting rows @ filter is_input_row ts)"
    using dec by (auto simp: list_all_iff inputs.waiting_def)
  let ?P = "\<lambda>i. i \<notin> set (inputs.taken ts)"
  have "renumber 0 (filter (\<lambda>r. ?P (dr_id r)) (ps_rows s @ renumber 0 (map view (filter is_input_row ts)))) =
      renumber 0 (filter (\<lambda>r. ?P (dr_id r)) (map view (inputs.waiting rows @ filter is_input_row ts)))"
    by (simp only: assms(4) map_append renumber_filter [where P = "\<lambda>i. i \<notin> set (inputs.taken ts)"])
  also have "\<dots> = renumber 0 (map view (inputs.waiting (rows @ ts)))"
    by (simp only: map_view_filter [OF all(2), of ?P] inputs.waiting_append [OF r(2)])
  finally have "renumber 0 (filter (\<lambda>r. ?P (dr_id r)) (ps_rows s @ renumber 0 (map view (filter is_input_row ts)))) =
      renumber 0 (map view (inputs.waiting (rows @ ts)))" .
  moreover obtain c where "tail_of ts = (filter is_input_row ts, c)" and "set c = set (inputs.taken ts)"
    using arr con by (cases "tail_of ts") auto
  ultimately show ?thesis using full_read [OF assms(1), of sid] assms(3,5) all(1) tail
    by (simp add: pendingMessagesSinceIn_def [of db sid "Some s"] open_pending_view)
qed

end
