(* ===== verification/Fork_Laws.thy ===== *)
theory Fork_Laws
  imports Fork Inbox_Laws
begin

text \<open>
  Laws of a fork: the paged search for the anchor as a prefix of the log, what renaming
  does to a payload, and the log a successful fork leaves in the child.
\<close>

section \<open>The prefix\<close>

definition upto_row :: "str \<Rightarrow> node list \<Rightarrow> node list" where
  "upto_row i rows =
     takeWhile (\<lambda>n. ap_id n \<noteq> i) rows @ (case find (\<lambda>n. ap_id n = i) rows of None \<Rightarrow> [] | Some a \<Rightarrow> [a])"

lemma read_until_eq: "read_until i rows acc = (find (\<lambda>n. ap_id n = i) rows, acc @ upto_row i rows)"
  by (induction rows arbitrary: acc) (simp_all add: upto_row_def)

lemma upto_row_prefix: "\<exists>post. rows = upto_row i rows @ post"
  by (induction rows) (auto simp: upto_row_def)

lemma upto_row_found:
  "find (\<lambda>n. ap_id n = i) rows = Some a \<Longrightarrow> ap_id a = i \<and> (\<exists>pre. upto_row i rows = pre @ [a])"
  by (auto simp: upto_row_def dest: find_Some_mem)

lemma upto_row_append:
  "find (\<lambda>n. ap_id n = i) (xs @ ys) = (case find (\<lambda>n. ap_id n = i) xs of None \<Rightarrow> find (\<lambda>n. ap_id n = i) ys | Some a \<Rightarrow> Some a)"
  "upto_row i (xs @ ys) = (case find (\<lambda>n. ap_id n = i) xs of None \<Rightarrow> xs @ upto_row i ys | Some a \<Rightarrow> upto_row i xs)"
  by (induction xs) (auto simp: upto_row_def split: option.splits)

lemma upto_row_missing: "find (\<lambda>n. ap_id n = i) rows = None \<Longrightarrow> upto_row i rows = rows"
  by (induction rows) (auto simp: upto_row_def split: if_splits)

lemma numbered_ascending:
  assumes "numbered s rows" and "s + int (length rows) \<le> head"
  shows "ascending_within s head rows"
  using assms
proof (induction rows arbitrary: s)
  case (Cons n rows)
  note c = Cons.prems(1) [unfolded numbered_Cons]
  have "ascending_within (s + 1) head rows" using Cons.IH [of "s + 1"] c Cons.prems(2) by simp
  moreover have "\<forall>x\<in>set rows. s < nd_ordinal x" using numbered_ge [of "s + 1" rows] c by fastforce
  ultimately show ?case using c Cons.prems(2) by (auto simp: ascending_within_def list_all_iff)
qed (simp add: ascending_within_def)

lemma history_page_log:
  assumes "file_inv db" and "selectSession db sid = Some s" and "k \<le> length (log_of sid db)"
  shows "historyPageIn db sid (int k) 256 = Inr
    \<lparr>hp_afterRevision = int k, hp_headRevision = int (length (log_of sid db)), hp_actions = take 256 (drop k (log_of sid db)),
     hp_nextRevision = (if k + 256 < length (log_of sid db) then Some (int (k + 256)) else None)\<rparr>"
proof -
  let ?log = "log_of sid db" and ?page = "take 256 (drop k (log_of sid db))"
  have range: "range_rows db sid (int k) 256 = Inr ?page"
    using numbered_drop [OF numbered_log [OF assms(1), of sid], of k]
    by (simp add: range_rows_def page_of_def pageSize_def rows_of_log [OF assms(1)])
  have head: "ss_revision s = int (length ?log)" using length_log [OF assms(1,2)] by simp
  have num: "numbered (int k) ?page"
    using numbered_take [OF numbered_drops [OF numbered_log [OF assms(1), of sid] assms(3)]] by simp
  have asc: "ascending_within (int k) (int (length ?log)) ?page"
    using assms(3) by (intro numbered_ascending [OF num]) auto
  have "last_ordinal (int k) ?page = min (int (k + 256)) (int (length ?log))"
  proof (cases "?page = []")
    case False
    from numbered_last [OF num False] False show ?thesis by (simp add: last_ordinal_def)
  qed (use assms(3) in \<open>simp add: last_ordinal_def\<close>)
  with range head asc assms(2) show ?thesis
    by (simp add: historyPageIn_def pageSize_def rowIn_def Let_def)
qed

lemma prefix_loop_log:
  assumes "file_inv db" and "selectSession db sid = Some s" and "k \<le> length (log_of sid db)"
  shows "readParentPrefix_loop db sid i (int k) acc = Some (Inr (read_until i (drop k (log_of sid db)) acc))"
  using assms(3)
proof (induction "length (log_of sid db) - k" arbitrary: k acc rule: less_induct)
  case less
  define rest front later where "rest = drop k (log_of sid db)" and "front = take 256 rest" and "later = drop (k + 256) (log_of sid db)"
  note page = history_page_log [OF assms(1,2) less.prems, folded rest_def, folded front_def]
  have split: "rest = front @ later" unfolding front_def later_def rest_def by (metis append_take_drop_id drop_drop add.commute)
  have found: "find (\<lambda>n. ap_id n = i) rest = (case find (\<lambda>n. ap_id n = i) front of None \<Rightarrow> find (\<lambda>n. ap_id n = i) later | Some a \<Rightarrow> Some a)"
    and upto: "upto_row i rest = (case find (\<lambda>n. ap_id n = i) front of None \<Rightarrow> front @ upto_row i later | Some a \<Rightarrow> upto_row i front)"
    unfolding split by (rule upto_row_append)+
  note step = readParentPrefix_loop.simps [of db sid i "int k" acc] page Let_def
  have "readParentPrefix_loop db sid i (int k) acc = Some (Inr (read_until i rest acc))"
  proof (cases "find (\<lambda>n. ap_id n = i) front")
    case (Some a)
    with found upto show ?thesis by (simp add: step read_until_eq)
  next
    case None
    note m = upto_row_missing [OF None]
    show ?thesis
    proof (cases "k + 256 < length (log_of sid db)")
      case True
      have "readParentPrefix_loop db sid i (int (k + 256)) (acc @ front) = Some (Inr (read_until i later (acc @ front)))"
        unfolding later_def by (rule less.hyps) (use True in auto)
      with None True found upto m show ?thesis by (simp add: step read_until_eq)
    next
      case False
      then have "later = []" by (simp add: later_def)
      with None False found upto m show ?thesis by (simp add: step read_until_eq upto_row_def)
    qed
  qed
  then show ?case by (simp add: rest_def)
qed

lemma readParentPrefix_log:
  assumes "file_inv db" and "selectSession db sid = Some s"
  shows "readParentPrefix db sid i = Some (Inr (find (\<lambda>n. ap_id n = i) (log_of sid db), upto_row i (log_of sid db)))"
  using prefix_loop_log [OF assms, of 0 i "[]"] by (simp add: readParentPrefix_def read_until_eq)

section \<open>Renaming\<close>

fun rename_text :: "(str \<times> str) list \<Rightarrow> plain \<Rightarrow> plain" where
  "rename_text renames (PStr r) = PStr (or_else (map_of renames r) r)"
| "rename_text renames v = v"

lemma map_of_remap_field:
  "map_of (remap_field renames value k next) =
     (case map_of value k of
        Some (PStr r) \<Rightarrow> (case map_of renames r of None \<Rightarrow> map_of next | Some r' \<Rightarrow> (map_of next)(k \<mapsto> PStr r'))
      | _ \<Rightarrow> map_of next)"
  by (simp add: remap_field_def split: option.split plain.split)

lemma get_remapPayload:
  "plain_get (remapPayload renames v) k =
     (if k = ''deliveryId'' \<or> k = ''turnId'' then map_option (rename_text renames) (plain_get v k) else plain_get v k)"
proof (cases "object_value v")
  case (Some ps)
  have "v = PObj ps" using Some by (cases v) auto
  then show ?thesis
    by (auto simp: remapPayload_def map_of_remap_field split: option.split plain.split)
qed (simp add: remapPayload_def plain_get_def)

lemma extract_field: "json_extract v [k] = (case plain_get v k of None \<Rightarrow> SNull | Some w \<Rightarrow> sql_of_json w)"
  by (simp add: json_extract_def split: option.split)

lemma map_of_fork_renames:
  "map_of (fork_renames from rows) i =
     (if \<exists>n\<in>set rows. ap_id n = i \<and> (isInputRow n \<or> isDeliveryRow n) then Some (fork_name from i) else None)"
proof -
  have "map_of (fold (\<lambda>n m. if isInputRow n \<or> isDeliveryRow n then put (ap_id n) (fork_name from (ap_id n)) m else m) rows m) i =
     (if \<exists>n\<in>set rows. ap_id n = i \<and> (isInputRow n \<or> isDeliveryRow n) then Some (fork_name from i) else map_of m i)" for m
    by (induction rows arbitrary: m) auto
  then show ?thesis by (simp add: fork_renames_def)
qed

definition child_name :: "(str \<times> str) list \<Rightarrow> str \<Rightarrow> str" where
  "child_name renames i = or_else (map_of renames i) i"

lemma map_of_fork_ids:
  "map_of (fork_ids renames rows) i = (if i \<in> ap_id ` set rows then Some (child_name renames i) else None)"
proof -
  have "map_of (fold (\<lambda>n m. put (ap_id n) (or_else (map_of renames (ap_id n)) (ap_id n)) m) rows m) i =
     (if i \<in> ap_id ` set rows then Some (child_name renames i) else map_of m i)" for m
    by (induction rows arbitrary: m) (auto simp: child_name_def)
  then show ?thesis by (simp add: fork_ids_def)
qed

lemma copyAction_sel:
  "ap_sessionId (copyAction child ids renames n) = child" "ap_kind (copyAction child ids renames n) = ap_kind n"
  "ap_ts (copyAction child ids renames n) = ap_ts n" "ap_revert (copyAction child ids renames n) = ap_revert n"
  "ap_intent (copyAction child ids renames n) = remapPayload renames (ap_intent n)"
  "ap_effect (copyAction child ids renames n) = remapPayload renames (ap_effect n)"
  "n \<in> set rows \<Longrightarrow> ap_id (copyAction child (fork_ids renames rows) renames n) = child_name renames (ap_id n)"
  by (simp_all add: copyAction_def map_of_fork_ids)

section \<open>The copies in the child\<close>

lemma stored_from_append: "stored_from r (as @ bs) = stored_from r as @ stored_from (r + int (length as)) bs"
  by (induction as arbitrary: r) (simp_all add: algebra_simps)

lemma log_of_extended:
  assumes "\<forall>a\<in>set as. ap_sessionId a = sid"
  shows "log_of sid (appended sid r as armed db) = log_of sid db @ stored_from r as"
proof -
  have "\<forall>n\<in>set (stored_from r as). ap_sessionId n = sid" using assms by (induction as arbitrary: r) auto
  then show ?thesis by (simp add: log_of_appended filter_id_conv)
qed

lemma forkCopies_log:
  assumes "file_inv db" and "\<forall>a\<in>set copies. ap_sessionId a = sid" and "selectSession db sid \<noteq> None"
    and "forkCopies env copies rc db = Inr (rc', db')"
  shows "log_of sid db' = log_of sid db @ stored_from (rc_revision rc) copies \<and> fl_outputs db' = fl_outputs db \<and>
    selectSession db' sid \<noteq> None"
  using assms
proof (induction copies arbitrary: rc db)
  case (Cons c cs)
  from Cons.prems(4) obtain rc1 db1 where c: "appendAction env c (rc_revision rc) db = Inr (Some rc1, db1)"
    and rest: "forkCopies env cs rc1 db1 = Inr (rc', db')"
    by (auto simp: and_then_eq_Inr split: if_splits option.splits)
  note i1 = appendAction_inv [OF Cons.prems(1) c]
  from appendAction_Inr [OF Cons.prems(1) c] Cons.prems(2) obtain s armed where s: "selectSession db sid = Some s"
    and rc1: "rc1 = \<lparr>rc_action = storedActionRow c (rc_revision rc + 1), rc_revision = rc_revision rc + 1\<rparr>"
    and db1: "db1 = appended sid (rc_revision rc) [c] armed db" by auto
  have l1: "log_of sid db1 = log_of sid db @ stored_from (rc_revision rc) [c]"
    unfolding db1 by (rule log_of_extended) (use Cons.prems(2) in simp)
  have o1: "fl_outputs db1 = fl_outputs db" by (simp add: db1)
  have "selectSession db1 sid \<noteq> None" using selectSession_appended [OF s] by (simp add: db1)
  from Cons.IH [OF i1 _ this rest] Cons.prems(2) l1 o1 show ?case by (simp add: rc1)
qed simp

lemma outputs_put_cong:
  "fl_outputs d = fl_outputs d' \<Longrightarrow> fl_outputs (fold toolOutputs_put ws d) = fl_outputs (fold toolOutputs_put ws d')"
proof (induction ws arbitrary: d d')
  case (Cons w ws)
  have "fl_outputs (toolOutputs_put w d) = fl_outputs (toolOutputs_put w d')" by (simp add: toolOutputs_put_def Cons.prems)
  from Cons.IH [OF this] show ?case by simp
qed simp

lemma session_fork_Inr:
  assumes "file_inv db" and "session_fork env m copies outputs index db = (Inr receipt, db')"
    and "\<forall>a\<in>set copies. ap_sessionId a = ss_id (mt_row m)"
  shows "file_inv db'" "log_of (ss_id (mt_row m)) db' = stored_from 0 (mt_initialAction m # copies)"
    "fl_outputs db' = fl_outputs (fold toolOutputs_put outputs db)"
proof -
  let ?sid = "ss_id (mt_row m)"
  have f: "forkUnit env m copies outputs db = Inr (receipt, db')"
    using assms(2) by (auto simp: session_fork_def indexed_def transaction_def Let_def
        split: if_splits sum.splits option.splits bool.splits elim!: writeEffect.elims)
  note g = fork_genesis [OF f]
  show "file_inv db'" by (rule genesis_inv(1) [OF assms(1) g])
  from f obtain row rc db1 rc' db2 where mat: "materializeSession env m db = Inr (Created row rc, db1)"
    and cp: "forkCopies env copies rc db1 = Inr (rc', db2)" and db': "db' = fold toolOutputs_put outputs db2"
  proof (cases "materializeSession env m db")
    case (Inr y)
    obtain res db1 where y: "y = (res, db1)" by (cases y)
    with f Inr obtain row rc where res: "res = Created row rc" by (cases res) (auto simp: forkUnit_def)
    with f Inr y obtain rc' db2 where "forkCopies env copies rc db1 = Inr (rc', db2)" "db' = fold toolOutputs_put outputs db2"
      by (auto simp: forkUnit_def and_then_eq_Inr Let_def split: option.splits)
    with Inr y res that show ?thesis by blast
  qed (use f in \<open>simp add: forkUnit_def\<close>)
  from materializeSession_Inr [OF assms(1) mat] obtain armed where n: "selectSession db ?sid = None"
    and i1: "file_inv db1" and r: "rc_revision rc = 1" and sid: "ap_sessionId (mt_initialAction m) = ?sid"
    and db1: "db1 = appended ?sid 0 [mt_initialAction m] armed (db\<lparr>fl_sessions := fl_sessions db @ [mt_row m]\<rparr>)"
    by auto
  have "log_of ?sid db = []" by (rule log_of_absent [OF assms(1) n])
  then have l1: "log_of ?sid db1 = stored_from 0 [mt_initialAction m]"
    unfolding db1 by (subst log_of_extended) (simp_all add: sid log_of_def)
  have "ss_id ` set (fl_sessions db1) = ss_id ` set (fl_sessions db @ [mt_row m])" by (simp add: db1)
  then have "selectSession db1 ?sid \<noteq> None" by (simp add: selectSession_None)
  note c = forkCopies_log [OF i1 assms(3) this cp]
  have "log_of ?sid db' = log_of ?sid db2" by (simp add: db' log_of_def)
  with c l1 r show "log_of ?sid db' = stored_from 0 (mt_initialAction m # copies)" by simp
  show "fl_outputs db' = fl_outputs (fold toolOutputs_put outputs db)"
    using c by (simp add: db' outputs_put_cong [of db2 db] db1)
qed

lemma session_fork_Inl:
  assumes "file_inv db" and "session_fork env m copies outputs index db = (Inl e, db')"
    and "\<forall>a\<in>set copies. ap_sessionId a = ss_id (mt_row m)"
  shows "fl_sessions db' = fl_sessions db \<and> fl_actions db' = fl_actions db"
proof (cases "index = Some True")
  case True
  with assms(2) have "db' = db"
    by (auto simp: session_fork_def indexed_def transaction_def Let_def split: if_splits sum.splits elim!: writeEffect.elims)
  then show ?thesis by simp
next
  case False
  with unindexed_creation_is_undone [OF assms(1), of index m copies env outputs] assms(2,3) show ?thesis
    by (simp add: list_all_iff)
qed

section \<open>Plans\<close>

definition kept_rows :: "session_file \<Rightarrow> fork_input \<Rightarrow> node list" where
  "kept_rows db i = eligible (upto_row (fi_anchor i) (log_of (fi_from i) db))"

abbreviation kept_renames :: "session_file \<Rightarrow> fork_input \<Rightarrow> (str \<times> str) list" where
  "kept_renames db i \<equiv> fork_renames (fi_from i) (kept_rows db i)"

definition kept_copies :: "session_file \<Rightarrow> fork_input \<Rightarrow> append_row list" where
  "kept_copies db i =
     map (copyAction (fi_childId i) (fork_ids (kept_renames db i) (kept_rows db i)) (kept_renames db i)) (kept_rows db i)"

lemma stored_outputs_Inr:
  "stored_outputs db is = Inr ws \<Longrightarrow> map to_outputId ws = is \<and> (\<forall>w\<in>set ws. toolOutputs_get db (to_outputId w) = Some w)"
proof (induction "is" arbitrary: ws)
  case (Cons i "is")
  then obtain w ws' where w: "toolOutputs_get db i = Some w" "stored_outputs db is = Inr ws'" "ws = w # ws'"
    by (auto simp: and_then_eq_Inr split: option.splits)
  from w(1) have "to_outputId w = i" by (auto simp: toolOutputs_get_def dest: find_Some_mem)
  with Cons.IH [OF w(2)] w show ?case by simp
qed simp

lemma plan_copies_Inr:
  assumes "plan_copies db i row anchor rows = Inr p"
  shows "stored_outputs db (output_ids (eligible rows)) = Inr (fp_outputs p)"
    "copied_bytes (eligible rows) (fp_outputs p) \<le> fork_cap db (fi_from i)"
    "fp_copies p = map (copyAction (fi_childId i) (fork_ids (fork_renames (fi_from i) (eligible rows)) (eligible rows))
       (fork_renames (fi_from i) (eligible rows))) (eligible rows)"
proof -
  from assms obtain outputs where o: "stored_outputs db (output_ids (eligible rows)) = Inr outputs"
    by (cases "stored_outputs db (output_ids (eligible rows))") (auto simp: plan_copies_def)
  moreover from assms o obtain s ss where "List.map_filter configurationSnapshot (eligible rows) = s # ss"
    by (cases "List.map_filter configurationSnapshot (eligible rows)") (auto simp: plan_copies_def)
  ultimately show "stored_outputs db (output_ids (eligible rows)) = Inr (fp_outputs p)"
    "copied_bytes (eligible rows) (fp_outputs p) \<le> fork_cap db (fi_from i)"
    "fp_copies p = map (copyAction (fi_childId i) (fork_ids (fork_renames (fi_from i) (eligible rows)) (eligible rows))
       (fork_renames (fi_from i) (eligible rows))) (eligible rows)"
    using assms by (auto simp: plan_copies_def Let_def split: if_splits)
qed

lemma planFork_returns:
  assumes "file_inv db"
  shows "planFork db version i \<noteq> None"
proof (cases "selectSession db (fi_from i)")
  case (Some s)
  with readParentPrefix_log [OF assms Some, of "fi_anchor i"] show ?thesis
    by (simp add: planFork_def split: option.split sum.split)
qed (simp add: planFork_def rowIn_def split: option.split)

lemma planFork_Inr:
  assumes "file_inv db" and "planFork db version i = Some (Inr p)"
  shows "\<exists>a. find (\<lambda>n. ap_id n = fi_anchor i) (log_of (fi_from i) db) = Some a \<and> isForkBoundary a"
    "stored_outputs db (output_ids (kept_rows db i)) = Inr (fp_outputs p)"
    "copied_bytes (kept_rows db i) (fp_outputs p) \<le> fork_cap db (fi_from i)" "fp_copies p = kept_copies db i"
proof -
  from assms(2) obtain s where s: "selectSession db (fi_from i) = Some s"
    by (auto simp: planFork_def rowIn_def split: option.splits if_splits)
  note r = readParentPrefix_log [OF assms(1) s, of "fi_anchor i"]
  from assms(2) s r obtain a where a: "find (\<lambda>n. ap_id n = fi_anchor i) (log_of (fi_from i) db) = Some a" "isForkBoundary a"
    and p: "plan_copies db i s a (upto_row (fi_anchor i) (log_of (fi_from i) db)) = Inr p"
    by (auto simp: planFork_def rowIn_def split: option.splits if_splits)
  show "\<exists>a. find (\<lambda>n. ap_id n = fi_anchor i) (log_of (fi_from i) db) = Some a \<and> isForkBoundary a" using a by blast
  show "stored_outputs db (output_ids (kept_rows db i)) = Inr (fp_outputs p)"
    "copied_bytes (kept_rows db i) (fp_outputs p) \<le> fork_cap db (fi_from i)" "fp_copies p = kept_copies db i"
    using plan_copies_Inr [OF p] by (simp_all add: kept_rows_def kept_copies_def)
qed

lemma forkSession_returns: "file_inv parent \<Longrightarrow> \<exists>r. forkSession env parent version index i child = Some r"
  using planFork_returns [of parent version i] by (auto simp: forkSession_def)

lemma forkSession_refused:
  assumes "file_inv parent" and "file_inv child" and "forkSession env parent version index i child = Some (Inl e, child')"
  shows "fl_sessions child' = fl_sessions child \<and> fl_actions child' = fl_actions child"
proof -
  from assms(3) obtain p where p: "planFork parent version i = Some p" by (auto simp: forkSession_def)
  show ?thesis
  proof (cases p)
    case (Inr plan)
    have m: "ss_id (mt_row (fork_materialize i plan)) = fi_childId i" by (simp add: fork_materialize_def idle_row_def)
    have c: "\<forall>a\<in>set (fp_copies plan). ap_sessionId a = ss_id (mt_row (fork_materialize i plan))"
      using planFork_Inr(4) [OF assms(1) p [unfolded Inr]] by (auto simp: kept_copies_def copyAction_sel m)
    from assms(3) p Inr show ?thesis
      using session_fork_Inl [OF assms(2) _ c] by (auto simp: forkSession_def split: if_splits prod.splits sum.splits)
  qed (use assms(3) p in \<open>simp add: forkSession_def\<close>)
qed

lemma forkSession_Inr:
  assumes "file_inv parent" and "file_inv child" and "forkSession env parent version index i child = Some (Inr r, child')"
  obtains p where "planFork parent version i = Some (Inr p)" "file_inv child'"
    "log_of (fi_childId i) child' = stored_from 0 (mt_initialAction (fork_materialize i p) # kept_copies parent i)"
    "fl_outputs child' = fl_outputs (fold toolOutputs_put (fp_outputs p) child)"
proof -
  from assms(3) obtain z where z: "planFork parent version i = Some z" by (auto simp: forkSession_def)
  with assms(3) obtain p where p: "planFork parent version i = Some (Inr p)" by (cases z) (auto simp: forkSession_def)
  obtain x db' where x: "session_fork env (fork_materialize i p) (fp_copies p) (fp_outputs p) index child = (x, db')" by force
  with assms(3) p obtain receipt where s: "session_fork env (fork_materialize i p) (fp_copies p) (fp_outputs p) index child = (Inr receipt, child')"
    by (cases x) (auto simp: forkSession_def split: if_splits)
  have m: "ss_id (mt_row (fork_materialize i p)) = fi_childId i" by (simp add: fork_materialize_def idle_row_def)
  note k = planFork_Inr(4) [OF assms(1) p]
  have c: "\<forall>a\<in>set (fp_copies p). ap_sessionId a = ss_id (mt_row (fork_materialize i p))"
    by (auto simp: k kept_copies_def copyAction_sel m)
  from session_fork_Inr [OF assms(2) s c] m k that [OF p] show ?thesis by simp
qed

end
