(* ===== verification/Inbox_Machine.thy ===== *)
theory Inbox_Machine
  imports Inbox_Laws Drain
begin

text \<open>
  The life of a session's inputs: what every batch of the drain consumes, and the
  histories in which inputs arrive, are read and are consumed while other rows of the
  session are written in between.
\<close>

section \<open>Rows and what they take\<close>

text \<open>What the rows of a batch consume, whatever ordinals they get.\<close>

definition takes :: "append_row list \<Rightarrow> str list" where
  "takes as = inputs.taken (stored_from 0 as)"

lemma consumed_by_stored: "consumed_by (storedActionRow a r) = consumed_by (storedActionRow a q)"
  by (simp add: consumed_by_def)

lemma stored_takes: "inputs.taken (stored_from r as) = takes as"
proof (induction as arbitrary: r)
  case (Cons a as)
  have "inputs.taken (stored_from (r + 1) as) = inputs.taken (stored_from 1 as)"
    using Cons.IH [of "r + 1"] Cons.IH [of 1] by simp
  then show ?case by (simp add: takes_def consumed_by_stored [of a "r + 1" 1])
qed (simp add: takes_def)

lemma takes_simps [simp]:
  "takes [] = []" "takes (a # as) = consumed_by (storedActionRow a 1) @ takes as" "takes (as @ bs) = takes as @ takes bs"
proof -
  show c: "takes (a # as) = consumed_by (storedActionRow a 1) @ takes as" for a as
    using stored_takes [of 1 as] by (simp add: takes_def)
  show "takes [] = []" by (simp add: takes_def)
  then show "takes (as @ bs) = takes as @ takes bs" by (induction as) (simp_all add: c)
qed

text \<open>A row that is no input, and names what it consumes plainly; a quiet one consumes nothing.\<close>

definition no_input :: "node \<Rightarrow> bool" where
  "no_input n \<longleftrightarrow> \<not> is_input_row n \<and> plainly_named n"

definition quiet_row :: "node \<Rightarrow> bool" where
  "quiet_row n \<longleftrightarrow> no_input n \<and> consumed_by n = []"

abbreviation quiet :: "append_row \<Rightarrow> bool" where
  "quiet a \<equiv> quiet_row (storedActionRow a 1)"

lemma row_classes_stored:
  "no_input (storedActionRow a r) = no_input (storedActionRow a q)"
  "quiet_row (storedActionRow a r) = quiet_row (storedActionRow a q)"
  by (auto simp: no_input_def quiet_row_def plainly_named_def is_input_row_def consumed_by_def)

lemma inert_quiet: "inert_row n \<Longrightarrow> quiet_row n"
  by (auto simp: inert_row_def quiet_row_def no_input_def is_input_row_def plainly_named_def consumed_by_def)

lemma set_stored_from: "n \<in> set (stored_from r as) \<Longrightarrow> \<exists>a q. a \<in> set as \<and> n = storedActionRow a q"
proof (induction as arbitrary: r)
  case (Cons a as)
  then consider "n = storedActionRow a (r + 1)" | "n \<in> set (stored_from (r + 1) as)" by auto
  then show ?case by cases (use Cons.IH [of "r + 1"] in force)+
qed simp

subsection \<open>What a batch writer adds\<close>

text \<open>
  \<^verbatim>\<open>commitFoldBatch\<close> adds checkpoint rows to a batch and pins the context of its turn and
  compaction rows; inputs and their consumption it leaves alone.
\<close>

definition keeps_inputs :: "append_row \<Rightarrow> append_row \<Rightarrow> bool" where
  "keeps_inputs a b \<longleftrightarrow> ap_kind b = ap_kind a \<and> (input_row_kind (ap_kind a) \<longrightarrow> b = a) \<and>
     (ap_kind a = KTurn \<longrightarrow> plain_get (ap_intent b) ''consumedStale'' = plain_get (ap_intent a) ''consumedStale'')"

definition decorated :: "append_row list \<Rightarrow> append_row list \<Rightarrow> bool" where
  "decorated batch rows \<longleftrightarrow> list_all2 keeps_inputs batch (filter (\<lambda>a. ap_kind a \<noteq> KFoldCheckpoint) rows)"

lemma turn_row_facts:
  assumes "ap_kind n = KTurn"
  shows "consumed_by n = List.map_filter (\<lambda>v. text_key (sql_of_json v))
      (case plain_get (ap_intent n) ''consumedStale'' of None \<Rightarrow> [] | Some w \<Rightarrow> json_members w)"
    "no_input n \<longleftrightarrow> (case plain_get (ap_intent n) ''consumedStale'' of None \<Rightarrow> True
      | Some (PArr vs) \<Rightarrow> list_all text_or_null vs | Some v \<Rightarrow> v = PNull)"
  using assms by (simp_all add: consumed_by_def json_each_def no_input_def is_input_row_def input_row_kind_def plainly_named_def
      split: option.split)

lemma keeps_inputs_same:
  assumes "keeps_inputs a b"
  shows "consumed_by (storedActionRow b 1) = consumed_by (storedActionRow a 1)"
    "no_input (storedActionRow a 1) \<Longrightarrow> no_input (storedActionRow b 1)"
proof -
  consider "ap_kind a = KTurn" | "input_row_kind (ap_kind a)" | "inert_row (storedActionRow a 1)"
    by (auto simp: inert_row_def)
  then have "consumed_by (storedActionRow b 1) = consumed_by (storedActionRow a 1) \<and>
      (no_input (storedActionRow a 1) \<longrightarrow> no_input (storedActionRow b 1))"
  proof cases
    case 1
    with assms show ?thesis by (simp add: turn_row_facts keeps_inputs_def)
  next
    case 2
    with assms have "b = a" by (simp add: keeps_inputs_def)
    then show ?thesis by simp
  next
    case 3
    with assms have "inert_row (storedActionRow b 1)" by (simp add: inert_row_def keeps_inputs_def)
    from inert_quiet [OF this] inert_quiet [OF 3] show ?thesis by (simp add: quiet_row_def)
  qed
  then show "consumed_by (storedActionRow b 1) = consumed_by (storedActionRow a 1)"
    "no_input (storedActionRow a 1) \<Longrightarrow> no_input (storedActionRow b 1)" by simp_all
qed

lemma checkpoint_quiet: "ap_kind a = KFoldCheckpoint \<Longrightarrow> quiet a"
  by (rule inert_quiet) (simp add: inert_row_def input_row_kind_def)

lemma decorated_takes: "decorated batch rows \<Longrightarrow> takes rows = takes batch"
proof (induction rows arbitrary: batch)
  case (Cons b rows)
  show ?case
  proof (cases "ap_kind b = KFoldCheckpoint")
    case True
    with Cons checkpoint_quiet [OF True] show ?thesis by (simp add: decorated_def quiet_row_def)
  next
    case False
    with Cons.prems obtain a batch' where "batch = a # batch'" "keeps_inputs a b" "decorated batch' rows"
      by (auto simp: decorated_def list_all2_Cons2)
    with Cons.IH show ?thesis by (simp add: keeps_inputs_same)
  qed
qed (simp add: decorated_def)

lemma decorated_no_input:
  "decorated batch rows \<Longrightarrow> \<forall>a\<in>set batch. no_input (storedActionRow a 1) \<Longrightarrow> \<forall>b\<in>set rows. no_input (storedActionRow b 1)"
proof (induction rows arbitrary: batch)
  case (Cons b rows)
  show ?case
  proof (cases "ap_kind b = KFoldCheckpoint")
    case True
    with Cons checkpoint_quiet [OF True] show ?thesis by (simp add: decorated_def quiet_row_def)
  next
    case False
    with Cons.prems(1) obtain a batch' where "batch = a # batch'" "keeps_inputs a b" "decorated batch' rows"
      by (auto simp: decorated_def list_all2_Cons2)
    with Cons show ?thesis by (auto intro: keeps_inputs_same(2))
  qed
qed simp

section \<open>What the batches of the drain consume\<close>

lemma deliveryAction_row [simp]:
  "consumed_by (storedActionRow (deliveryAction r target b parent) 1) = [dr_id r]"
  "no_input (storedActionRow (deliveryAction r target b parent) 1)"
proof -
  let ?a = "deliveryAction r target b parent"
  have k: "ap_kind ?a = inputRowKind (dr_kind r)" by (simp add: deliveryAction_def)
  then have ik: "input_row_kind (ap_kind ?a)" "ap_kind ?a \<noteq> KTurn"
    by (cases "dr_kind r"; simp add: input_row_kind_def)+
  have i: "plain_get (ap_intent ?a) ''deliveryId'' = Some (PStr (dr_id r))"
    and e: "plain_get (ap_effect ?a) ''deliveryKind'' = None" by (simp_all add: deliveryAction_def)
  show "consumed_by (storedActionRow ?a 1) = [dr_id r]" using ik i by (simp add: consumed_by_def json_extract_def)
  show "no_input (storedActionRow ?a 1)"
    using ik i e by (simp add: no_input_def is_input_row_def plainly_named_def json_extract_def)
qed

lemma deliveryActions_rows:
  "takes (deliveryActions items target b parent) = map dr_id items"
  "\<forall>a\<in>set (deliveryActions items target b parent). no_input (storedActionRow a 1)"
  by (induction items arbitrary: parent) (simp_all add: Let_def)

lemma json_members_ids: "List.map_filter (\<lambda>v. text_key (sql_of_json v)) (map PStr ids) = ids"
  by (induction ids) (simp_all add: List.map_filter_simps)

lemma stale_row:
  assumes "ap_kind a = KTurn" "ap_intent a = PObj ps" "map_of ps ''consumedStale'' = map_of (stale_entry ids) ''consumedStale''"
  shows "consumed_by (storedActionRow a 1) = ids" "no_input (storedActionRow a 1)"
proof -
  have g: "plain_get (ap_intent a) ''consumedStale'' = (if ids = [] then None else Some (PArr (map PStr ids)))"
    using assms by (simp add: stale_entry_def)
  show "consumed_by (storedActionRow a 1) = ids"
    using assms(1) g json_members_ids [of ids] by (simp add: consumed_by_def json_each_def List.map_filter_simps)
  show "no_input (storedActionRow a 1)"
    using assms(1) g by (auto simp: no_input_def is_input_row_def input_row_kind_def plainly_named_def list_all_iff)
qed

lemma turnIntentAction_row:
  assumes "turnIntentAction mok i parent sid ids stale p ts = Inr a"
  shows "consumed_by (storedActionRow a 1) = stale" "no_input (storedActionRow a 1)"
proof -
  let ?ps = "[(''phase'', PStr ''intent''), (''deliveryIds'', PArr (map PStr ids))] @ stale_entry stale @ pinnedTurn p"
  have "a = turnEnvelopeAction i parent sid ts (PObj ?ps)"
    using assms by (simp add: turnIntentAction_def Let_def split: if_splits)
  then have a: "ap_kind a = KTurn" "ap_intent a = PObj ?ps" by (simp_all add: turnEnvelopeAction_def turn_row_def)
  have s: "map_of ?ps ''consumedStale'' = map_of (stale_entry stale) ''consumedStale''"
    by (simp add: stale_entry_def pinnedTurn_def)
  from stale_row [OF a s] show "consumed_by (storedActionRow a 1) = stale" "no_input (storedActionRow a 1)" .
qed

lemma turnCheckpointAction_row:
  "consumed_by (storedActionRow (turnCheckpointAction k) 1) = ki_consumedStale k"
  "no_input (storedActionRow (turnCheckpointAction k) 1)"
proof -
  let ?ps = "[(''phase'', PStr ''checkpoint''), (''turnId'', PStr (ki_turnId k)),
      (''deliveryIds'', PArr (map PStr (ki_deliveryIds k)))] @ stale_entry (ki_consumedStale k)"
  have "ap_kind (turnCheckpointAction k) = KTurn" "ap_intent (turnCheckpointAction k) = PObj ?ps"
    "map_of ?ps ''consumedStale'' = map_of (stale_entry (ki_consumedStale k)) ''consumedStale''"
    by (simp_all add: turnCheckpointAction_def turn_row_def)
  from stale_row [OF this] show "consumed_by (storedActionRow (turnCheckpointAction k) 1) = ki_consumedStale k"
    "no_input (storedActionRow (turnCheckpointAction k) 1)" .
qed

lemma turnTerminalAction_quiet: "quiet (turnTerminalAction i)"
proof -
  have "ap_kind (turnTerminalAction i) = KTurn"
    "ap_intent (turnTerminalAction i) = PObj [(''phase'', PStr ''terminal''), (''turnId'', PStr (te_turnId i))]"
    by (simp_all add: turnTerminalAction_def turn_row_def)
  from stale_row [OF this, of "[]"] show ?thesis by (simp add: quiet_row_def stale_entry_def)
qed

lemma rewritten_id [simp]: "dr_id (rewritten c r) = dr_id r"
  by (simp add: rewritten_def split: option.split)

lemma map_rewritten_id [simp]: "map (dr_id \<circ> rewritten c) rs = map dr_id rs"
  by simp

text \<open>Every batch of the drain, from the inputs it was computed from.\<close>

inductive drain_batch :: "str \<Rightarrow> delivery_row list \<Rightarrow> append_row list \<Rightarrow> bool" for sid rows where
  admitted: "decideSessionAdmission s = AdmitConsume items \<Longrightarrow> as_pending s = rows
    \<Longrightarrow> drain_batch sid rows (consume_batch items parent)"
| blocked: "drain_batch sid rows (consume_batch (fst (boundaryConsumption rows point settings head)) parent)"
| started: "start_batch mok sid ids contents (boundaryConsumption rows TurnEnd settings head) generation parent now = Inr batch
    \<Longrightarrow> drain_batch sid rows batch"
| bounded: "drain_batch sid rows
    (boundary_batch sid i contents (boundaryConsumption rows (AtBoundary (bi_boundary i)) settings head))"
| sealed: "(case reply of None \<Rightarrow> True | Some r \<Rightarrow> quiet r)
    \<Longrightarrow> drain_batch sid rows (seal_batch sid open_turn result rows latest reply now)"
| resumed: "decideSessionAdmission s = AdmitResume item \<Longrightarrow> as_pending s = rows
    \<Longrightarrow> resume_batch mok sid ids item terminal generation now = Inr batch \<Longrightarrow> drain_batch sid rows batch"
| skipped: "decideSessionAdmission s = AdmitResume item \<Longrightarrow> as_pending s = rows
    \<Longrightarrow> drain_batch sid rows (consume_batch [item] parent)"

lemma boundary_parts:
  assumes "boundaryConsumption rows point settings head = (pending, stale)" and "distinct (map dr_id rows)"
  shows "set pending \<subseteq> set rows" "set stale \<subseteq> set rows" "distinct (map dr_id pending @ map dr_id stale)"
proof -
  obtain P where p: "pending = filter P (filter (\<lambda>r. \<not> is_stale head r) rows)" and s: "stale = filter (is_stale head) rows"
    using assms(1) by (auto simp: boundaryConsumption_def staleActionBacklog_def Let_def)
  show "set pending \<subseteq> set rows" "set stale \<subseteq> set rows" by (auto simp: p s)
  have "dr_id r \<noteq> dr_id r'" if "r \<in> set pending" "r' \<in> set stale" for r r'
    using that keyed_eq [OF assms(2), of r r'] by (auto simp: p s)
  then show "distinct (map dr_id pending @ map dr_id stale)"
    using assms(2) by (auto simp: p s distinct_map inj_on_def)
qed

lemma distinct_sub:
  "distinct (map dr_id rows) \<Longrightarrow> distinct (map dr_id (filter P rows))"
  "distinct (map dr_id rows) \<Longrightarrow> distinct (map dr_id (take k rows))"
  by (auto simp: distinct_map inj_on_def dest: in_set_takeD)

lemma decided_consume:
  assumes "decideSessionAdmission s = AdmitConsume items" and "distinct (map dr_id (as_pending s))"
  shows "set items \<subseteq> set (as_pending s)" "distinct (map dr_id items)"
proof -
  let ?rows = "as_pending s"
  have "(\<exists>k. items = take k ?rows) \<or> (\<exists>r\<in>set ?rows. items = [r])"
    using assms(1) by (auto simp: decideSessionAdmission_def decideIdleDeliveries_def Let_def find_Some_iff
        split: option.splits if_splits session_state.splits intro: exI [of _ "length ?rows"])
  then show "set items \<subseteq> set ?rows" "distinct (map dr_id items)"
    using distinct_sub(2) [OF assms(2)] by (auto dest: in_set_takeD)
qed

lemma decided_resume:
  assumes "decideSessionAdmission s = AdmitResume item"
  shows "item \<in> set (as_pending s)" "dr_kind item = Resume"
  using assms by (auto simp: decideSessionAdmission_def decideIdleDeliveries_def Let_def find_Some_iff
      split: option.splits if_splits session_state.splits)

lemma consume_batch_rows:
  "takes (consume_batch items parent) = map dr_id items"
  "\<forall>a\<in>set (consume_batch items parent). no_input (storedActionRow a 1)"
  unfolding consume_batch_def by (rule deliveryActions_rows)+

lemma drain_batch_rows:
  assumes "drain_batch sid rows batch" and d: "distinct (map dr_id rows)"
  shows "distinct (takes batch) \<and> set (takes batch) \<subseteq> dr_id ` set rows \<and> (\<forall>a\<in>set batch. no_input (storedActionRow a 1))"
  using assms(1)
proof cases
  case (admitted s items parent)
  with decided_consume [of s items] d show ?thesis by (auto simp: consume_batch_rows)
next
  case (blocked point settings head parent)
  obtain pending stale where b: "boundaryConsumption rows point settings head = (pending, stale)" by force
  with boundary_parts [OF b d] blocked show ?thesis by (auto simp: consume_batch_rows)
next
  case (started mok ids contents settings head generation parent now)
  obtain pending stale where b: "boundaryConsumption rows TurnEnd settings head = (pending, stale)" by force
  let ?ds = "deliveryActions (map (rewritten contents) pending) (ToTurn (tu_turnId ids)) BeforeLlm parent"
  from started b obtain e where e: "batch = ?ds @ [e]"
    "turnIntentAction mok (tu_turnId ids) (last_id ?ds parent) sid (map dr_id pending) (map dr_id stale)
      \<lparr>tp_generation = generation, tp_resultId = tu_resultId ids, tp_resumeCount = 0, tp_boundaryActionId = parent\<rparr> now = Inr e"
    by (auto simp: start_batch_def Let_def and_then_eq_Inr)
  from turnIntentAction_row [OF e(2)] boundary_parts [OF b d] deliveryActions_rows(2) show ?thesis
    by (auto simp: e(1) deliveryActions_rows(1))
next
  case (bounded i contents settings head)
  obtain pending stale where b: "boundaryConsumption rows (AtBoundary (bi_boundary i)) settings head = (pending, stale)" by force
  from boundary_parts [OF b d] deliveryActions_rows(2) show ?thesis
    by (auto simp: bounded b boundary_batch_def turnCheckpointAction_row deliveryActions_rows(1))
next
  case (sealed reply open_turn result latest now)
  have r: "consumed_by (storedActionRow r 1) = []" "no_input (storedActionRow r 1)" if "reply = Some r" for r
    using sealed that by (simp_all add: quiet_row_def)
  have t: "consumed_by (storedActionRow (turnTerminalAction i) 1) = []" "no_input (storedActionRow (turnTerminalAction i) 1)" for i
    using turnTerminalAction_quiet [of i] by (simp_all add: quiet_row_def)
  have i: "set (seal_items result rows) \<subseteq> set rows" "distinct (map dr_id (seal_items result rows))"
    using distinct_sub(1) [OF d] by (auto simp: seal_items_def)
  show ?thesis
    using i r t deliveryActions_rows(2)
    by (cases reply) (auto simp: sealed seal_batch_def Let_def deliveryActions_rows(1))
next
  case (resumed s item mok ids terminal generation now)
  obtain a t where [simp]: "terminal = (a, t)" by force
  let ?ds = "deliveryActions [item] (ToTurn (tu_turnId ids)) BeforeLlm (Some (ap_id a))"
  from resumed obtain e where e: "batch = ?ds @ [e]"
    "turnIntentAction mok (tu_turnId ids) (last_id ?ds (Some (ap_id a))) sid [dr_id item] []
      \<lparr>tp_generation = generation, tp_resultId = tu_resultId ids, tp_resumeCount = tt_resumeCount t + 1,
       tp_boundaryActionId = tt_boundaryActionId t\<rparr> now = Inr e"
    by (auto simp: resume_batch_def Let_def and_then_eq_Inr)
  from turnIntentAction_row [OF e(2)] decided_resume [OF resumed(1)] resumed(2) deliveryActions_rows(2) show ?thesis
    by (auto simp: e(1) deliveryActions_rows(1) simp del: deliveryActions.simps)
next
  case (skipped s item parent)
  with decided_resume [of s item] show ?thesis by (auto simp: consume_batch_rows)
qed

end
