(* ===== verification/Inbox_Properties.thy ===== *)
theory Inbox_Properties
  imports Inbox_Machine
begin

text \<open>
  Histories of a session's inputs and what they guarantee: the incremental read of the
  pending inputs agrees with the full one, and every input is consumed at most once,
  after it arrived.
\<close>

section \<open>Histories\<close>

text \<open>
  The file, the pending inputs the one consumer of the session has read and not yet
  acted on, and the snapshot the next read may start from.
\<close>

record inbox =
  ib_file :: session_file
  ib_read :: "delivery_row list option"
  ib_memo :: "pending_snapshot option"

text \<open>A row that receives an input whose origin names no delivery.\<close>

definition receives :: "append_row \<Rightarrow> bool" where
  "receives a \<longleftrightarrow> (\<exists>m. a = receivedMessageAction m \<and> plain_get (rv_origin m) ''deliveryId'' = None)"

text \<open>
  A session starts without inputs.  Rows that neither arrive nor consume may be written
  at any time, also between the read of the consumer and its commit, and so may inputs
  be received.  One consumer at a time, by the gate and the live turn of the activation,
  reads the pending inputs and commits a batch computed from what it read.
\<close>

inductive input_history :: "store_env \<Rightarrow> str \<Rightarrow> inbox \<Rightarrow> bool" for env sid where
  start: "file_inv db \<Longrightarrow> \<forall>n\<in>set (log_of sid db). quiet_row n
    \<Longrightarrow> input_history env sid \<lparr>ib_file = db, ib_read = None, ib_memo = None\<rparr>"
| quietly: "input_history env sid s \<Longrightarrow> log_of sid (run_op env op (ib_file s)) = log_of sid (ib_file s) @ ts
    \<Longrightarrow> \<forall>n\<in>set ts. quiet_row n \<Longrightarrow> input_history env sid (s\<lparr>ib_file := run_op env op (ib_file s)\<rparr>)"
| receive: "input_history env sid s \<Longrightarrow> cm_sessionId req = sid \<Longrightarrow> \<forall>a\<in>set (cm_actions req). quiet a \<or> receives a
    \<Longrightarrow> sessions_commit env req (ib_file s) = (Inr r, db') \<Longrightarrow> input_history env sid (s\<lparr>ib_file := db'\<rparr>)"
| read: "input_history env sid s \<Longrightarrow> int (length (log_of sid (ib_file s))) \<le> MAX_SAFE_INTEGER
    \<Longrightarrow> since = None \<or> since = ib_memo s \<Longrightarrow> pendingMessagesSinceIn (ib_file s) sid since = Inr snap
    \<Longrightarrow> input_history env sid (s\<lparr>ib_read := Some (ps_rows snap), ib_memo := Some snap\<rparr>)"
| consume: "input_history env sid s \<Longrightarrow> ib_read s = Some rows \<Longrightarrow> drain_batch sid rows batch
    \<Longrightarrow> decorated batch (cm_actions req) \<Longrightarrow> cm_sessionId req = sid
    \<Longrightarrow> sessions_commit env req (ib_file s) = (Inr r, db') \<Longrightarrow> input_history env sid (s\<lparr>ib_file := db', ib_read := None\<rparr>)"

section \<open>The invariant\<close>

definition plain_row :: "node \<Rightarrow> bool" where
  "plain_row n \<longleftrightarrow> plainly_named n \<and> (is_input_row n \<longrightarrow> received_effect (ap_effect n) \<noteq> None)"

definition snapshot_of :: "node list \<Rightarrow> pending_snapshot" where
  "snapshot_of rows = \<lparr>ps_rows = renumber 0 (map view (inputs.waiting rows)), ps_ordinal = int (length rows)\<rparr>"

definition inbox_inv :: "str \<Rightarrow> inbox \<Rightarrow> bool" where
  "inbox_inv sid s \<longleftrightarrow>
     (let log = log_of sid (ib_file s) in
      file_inv (ib_file s) \<and> inputs.orderly log \<and> list_all plain_row log \<and>
      (case ib_read s of None \<Rightarrow> True
       | Some rows \<Rightarrow> distinct (map dr_id rows) \<and> dr_id ` set rows \<subseteq> ap_id ` set (inputs.waiting log)) \<and>
      (case ib_memo s of None \<Rightarrow> True | Some m \<Rightarrow> \<exists>rows ts. log = rows @ ts \<and> m = snapshot_of rows))"

lemma inbox_invD:
  assumes "inbox_inv sid s"
  shows "file_inv (ib_file s)" "inputs.orderly (log_of sid (ib_file s))" "list_all plain_row (log_of sid (ib_file s))"
    "ib_read s = Some rows \<Longrightarrow> distinct (map dr_id rows) \<and> dr_id ` set rows \<subseteq> ap_id ` set (inputs.waiting (log_of sid (ib_file s)))"
    "ib_memo s = Some m \<Longrightarrow> \<exists>rows ts. log_of sid (ib_file s) = rows @ ts \<and> m = snapshot_of rows"
  using assms by (simp_all add: inbox_inv_def Let_def)

lemma inbox_invI:
  assumes "file_inv (ib_file s)" "inputs.orderly (log_of sid (ib_file s))" "list_all plain_row (log_of sid (ib_file s))"
    "\<And>rows. ib_read s = Some rows \<Longrightarrow> distinct (map dr_id rows) \<and> dr_id ` set rows \<subseteq> ap_id ` set (inputs.waiting (log_of sid (ib_file s)))"
    "\<And>m. ib_memo s = Some m \<Longrightarrow> \<exists>rows ts. log_of sid (ib_file s) = rows @ ts \<and> m = snapshot_of rows"
  shows "inbox_inv sid s"
  using assms by (simp add: inbox_inv_def Let_def split: option.split)

lemma log_ids: "file_inv db \<Longrightarrow> distinct (map ap_id (log_of sid db))"
  unfolding log_of_def using file_invD(2) [of db] by (simp add: distinct_map_filter)

lemma no_input_plain: "no_input n \<Longrightarrow> plain_row n"
  by (simp add: no_input_def plain_row_def)

lemma received_row:
  assumes "receives a"
  shows "is_input_row (storedActionRow a r)" "consumed_by (storedActionRow a r) = []" "plain_row (storedActionRow a r)"
proof -
  from assms obtain m where a: "a = receivedMessageAction m" and o: "plain_get (rv_origin m) ''deliveryId'' = None"
    by (auto simp: receives_def)
  have k: "input_row_kind (ap_kind a)" "ap_kind a \<noteq> KTurn"
    unfolding a by (cases "rv_kind m"; simp add: receivedMessageAction_def input_row_kind_def)+
  have e: "ap_effect a = PObj ([(''deliveryKind'', PStr (kind_text (rv_kind m))), (''content'', PStr (rv_content m))] @
      opt_entry ''delivery'' (\<lambda>w. PStr (width_text w)) (rv_delivery m))" and i: "ap_intent a = rv_origin m"
    by (simp_all add: a receivedMessageAction_def)
  have t: "map_of kind_table (kind_text (rv_kind m)) = Some (rv_kind m)"
    by (cases "rv_kind m") (simp_all add: kind_table_def)
  have d: "map_of delivery_table (width_text w) = Some w" for w by (cases w) (simp_all add: delivery_table_def)
  have "received_effect (ap_effect a) \<noteq> None"
    by (cases "rv_delivery m") (simp_all add: received_effect_def e t d field_def optional_def read_enum_def)
  then show "plain_row (storedActionRow a r)" using k o by (simp add: plain_row_def plainly_named_def i)
  show "is_input_row (storedActionRow a r)" using k by (simp add: is_input_row_def e json_extract_def)
  show "consumed_by (storedActionRow a r) = []" using k o by (simp add: consumed_by_def i json_extract_def)
qed

lemma renumber_ids [simp]: "map dr_id (renumber i rs) = map dr_id rs"
  by (induction rs arbitrary: i) simp_all

lemma plain_readable:
  assumes "list_all plain_row log" "inputs.orderly log" "distinct (map ap_id log)" "int (length log) \<le> MAX_SAFE_INTEGER"
  shows "readable log"
  using assms inputs.orderly_causal by (auto simp: readable_def plain_row_def list_all_iff)

text \<open>Appending rows that consume nothing keeps the invariant.\<close>

lemma inbox_grows:
  assumes inv: "inbox_inv sid s" and "file_inv db'" and log: "log_of sid db' = log_of sid (ib_file s) @ ts"
    and ts: "list_all plain_row ts" and "distinct (inputs.taken ts)"
      "set (inputs.taken ts) \<subseteq> ap_id ` set (inputs.waiting (log_of sid (ib_file s)))"
    and keep: "inputs.taken ts = [] \<or> ib_read s' = None"
    and s': "ib_file s' = db'" "ib_read s' = None \<or> ib_read s' = ib_read s" "ib_memo s' = ib_memo s"
  shows "inbox_inv sid s'"
proof -
  let ?log = "log_of sid (ib_file s)"
  note d = inbox_invD [OF inv]
  have o: "inputs.orderly (?log @ ts)" using d(2) assms(5,6) by (rule inputs.orderly_batch)
  have "distinct (map ap_id (?log @ ts))" using log_ids [OF assms(2), of sid] log by simp
  then have w: "inputs.waiting (?log @ ts) =
      filter (\<lambda>n. ap_id n \<notin> set (inputs.taken ts)) (inputs.waiting ?log @ filter is_input_row ts)"
    by (intro inputs.waiting_append inputs.orderly_causal [OF o])
  show ?thesis
  proof (rule inbox_invI)
    show "file_inv (ib_file s')" "inputs.orderly (log_of sid (ib_file s'))" "list_all plain_row (log_of sid (ib_file s'))"
      using assms(2) o ts s'(1) log d(3) by simp_all
  next
    fix rows assume r: "ib_read s' = Some rows"
    then have "inputs.taken ts = []" "ib_read s = Some rows" using keep s'(2) by auto
    with d(4) [of rows] w have "distinct (map dr_id rows) \<and> dr_id ` set rows \<subseteq> ap_id ` set (inputs.waiting (?log @ ts))"
      by auto
    then show "distinct (map dr_id rows) \<and> dr_id ` set rows \<subseteq> ap_id ` set (inputs.waiting (log_of sid (ib_file s')))"
      by (simp add: s'(1) log)
  next
    fix m assume "ib_memo s' = Some m"
    with d(5) [of m] s'(3) obtain rows us where "?log = rows @ us" "m = snapshot_of rows" by auto
    then have "log_of sid (ib_file s') = rows @ (us @ ts) \<and> m = snapshot_of rows" using s'(1) log by simp
    then show "\<exists>rows ts. log_of sid (ib_file s') = rows @ ts \<and> m = snapshot_of rows" by blast
  qed
qed

lemma snapshot_read:
  assumes inv: "inbox_inv sid s" and "int (length (log_of sid (ib_file s))) \<le> MAX_SAFE_INTEGER"
    and since: "since = None \<or> since = ib_memo s"
  shows "pendingMessagesSinceIn (ib_file s) sid since = Inr (snapshot_of (log_of sid (ib_file s)))"
proof -
  let ?log = "log_of sid (ib_file s)"
  have f: "file_inv (ib_file s)" using inv by (simp add: inbox_inv_def Let_def)
  have r: "readable ?log" using inv log_ids [OF f] assms(2) by (intro plain_readable) (simp_all add: inbox_inv_def Let_def)
  note full = full_read [OF f r]
  show ?thesis
  proof (cases since)
    case None
    with full show ?thesis by (simp add: snapshot_of_def)
  next
    case (Some m)
    with since have "ib_memo s = Some m" by simp
    from inbox_invD(5) [OF inv this] obtain rows ts where l: "?log = rows @ ts" and m: "m = snapshot_of rows" by blast
    from tail_read [OF f l r [unfolded l], of m] full Some show ?thesis by (simp add: m snapshot_of_def)
  qed
qed

lemma view_ids:
  assumes "list_all plain_row log"
  shows "map dr_id (ps_rows (snapshot_of log)) = map ap_id (inputs.waiting log)"
proof -
  have "dr_id (view n) = ap_id n" if "n \<in> set (inputs.waiting log)" for n
    using that assms readable_view [of log n] by (auto simp: inputs.waiting_def plain_row_def list_all_iff)
  then show ?thesis by (simp add: snapshot_of_def)
qed

lemma committed_rows:
  assumes "file_inv db" "sessions_commit env req db = (Inr r, db')"
  shows "file_inv db'" "\<exists>q. log_of (cm_sessionId req) db' = log_of (cm_sessionId req) db @ stored_from q (cm_actions req)"
proof -
  obtain row rcs where "r = (row, rcs)" by force
  with assms sessions_commit_Inr [OF assms(1)] obtain cur armed where
    acc: "commit_accepts env req db cur armed" and db': "db' = committed_file req cur armed db" by blast
  from committed_inv [OF assms(1) acc] show "file_inv db'" by (simp add: db')
  from log_committed(1) [OF acc] show "\<exists>q. log_of (cm_sessionId req) db' = log_of (cm_sessionId req) db @ stored_from q (cm_actions req)"
    by (auto simp: db')
qed

lemma stored_plain: "\<forall>a\<in>set as. plain_row (storedActionRow a 1) \<Longrightarrow> list_all plain_row (stored_from q as)"
proof (induction as arbitrary: q)
  case (Cons a as)
  have "plain_row (storedActionRow a (q + 1)) = plain_row (storedActionRow a 1)"
    by (simp add: plain_row_def plainly_named_def is_input_row_def)
  with Cons show ?case by simp
qed simp

lemma history_inbox_inv: "input_history env sid s \<Longrightarrow> inbox_inv sid s"
proof (induction rule: input_history.induct)
  case (start db)
  have "inputs.taken (log_of sid db) = []" using start(2) by (simp add: inputs.taken_def quiet_row_def)
  then have "inputs.orderly (log_of sid db)" using inputs.orderly_batch [of "[]" "log_of sid db"] by simp
  with start show ?case by (auto simp: inbox_inv_def Let_def list_all_iff quiet_row_def no_input_plain)
next
  case (quietly s op ts)
  have "inputs.taken ts = []" using quietly.hyps(3) by (simp add: inputs.taken_def quiet_row_def)
  moreover have "list_all plain_row ts" using quietly.hyps(3) by (auto simp: list_all_iff quiet_row_def no_input_plain)
  moreover have "file_inv (run_op env op (ib_file s))" using quietly.IH run_op_inv by (simp add: inbox_inv_def Let_def)
  ultimately show ?case by (intro inbox_grows [OF quietly.IH _ quietly.hyps(2)]) simp_all
next
  case (receive s req r db')
  have f: "file_inv (ib_file s)" using receive.IH by (simp add: inbox_inv_def Let_def)
  from committed_rows [OF f receive.hyps(4)] receive.hyps(2) obtain q where
    db': "file_inv db'" and log: "log_of sid db' = log_of sid (ib_file s) @ stored_from q (cm_actions req)" by auto
  have t: "takes as = []" if "\<forall>a\<in>set as. quiet a \<or> receives a" for as
    using that by (induction as) (auto simp: quiet_row_def received_row)
  have "\<forall>a\<in>set (cm_actions req). plain_row (storedActionRow a 1)"
    using receive.hyps(3) by (auto simp: quiet_row_def no_input_plain received_row)
  with stored_plain t [OF receive.hyps(3)] show ?case
    by (intro inbox_grows [OF receive.IH db' log]) (simp_all add: stored_takes)
next
  case (read s since snap)
  note sn = snapshot_read [OF read.IH read.hyps(2,3)]
  have i: "list_all plain_row (log_of sid (ib_file s))" "file_inv (ib_file s)"
    using read.IH by (simp_all add: inbox_inv_def Let_def)
  have snap: "snap = snapshot_of (log_of sid (ib_file s))" using sn read.hyps(4) by simp
  have "distinct (map ap_id (inputs.waiting (log_of sid (ib_file s))))"
    using log_ids [OF i(2)] by (simp add: inputs.waiting_def distinct_map_filter)
  moreover have "dr_id ` set (ps_rows snap) = ap_id ` set (inputs.waiting (log_of sid (ib_file s)))"
    using arg_cong [OF view_ids [OF i(1)], of set] by (simp add: snap)
  ultimately show ?case using read.IH view_ids [OF i(1)]
    by (auto simp: inbox_inv_def Let_def snap intro: exI [of _ "[]"])
next
  case (consume s rows batch req r db')
  have f: "file_inv (ib_file s)" using consume.IH by (simp add: inbox_inv_def Let_def)
  from committed_rows [OF f consume.hyps(6)] consume.hyps(5) obtain q where
    db': "file_inv db'" and log: "log_of sid db' = log_of sid (ib_file s) @ stored_from q (cm_actions req)" by auto
  have rows: "distinct (map dr_id rows)" "dr_id ` set rows \<subseteq> ap_id ` set (inputs.waiting (log_of sid (ib_file s)))"
    using consume.IH consume.hyps(2) by (simp_all add: inbox_inv_def Let_def)
  note b = drain_batch_rows [OF consume.hyps(3) rows(1)]
  have "\<forall>a\<in>set (cm_actions req). plain_row (storedActionRow a 1)"
    using decorated_no_input [OF consume.hyps(4)] b no_input_plain by blast
  with stored_plain b rows(2) decorated_takes [OF consume.hyps(4)] show ?case
    by (intro inbox_grows [OF consume.IH db' log]) (auto simp: stored_takes)
qed

section \<open>A history for the witnesses\<close>

text \<open>A prompt arrives, is read and starts a turn; a second one arrives and is read from the tail.\<close>

definition demo_input :: "str \<Rightarrow> append_row" where
  "demo_input i = receivedMessageAction \<lparr>rv_id = i, rv_sessionId = ''s'', rv_kind = Prompt, rv_content = ''hi'',
     rv_origin = PObj [(''kind'', PStr ''external'')], rv_parentActionId = None, rv_at = 5, rv_delivery = None\<rparr>"

definition demo_generation :: gen_snapshot where
  "demo_generation = \<lparr>gs_generation = 1, gs_revertTo = 0, gs_tools = [], gs_toolsHash = ''h'', gs_bundles = [],
     gs_systemPreset = [], gs_systemBlocks = [], gs_systemValue = [], gs_systemHash = ''y'', gs_policyGeneration = 1,
     gs_rowsVersion = None, gs_manifestHash = None\<rparr>"

text \<open>The file of a running session whose log holds the given rows.\<close>

definition demo_holds :: "append_row list \<Rightarrow> session_file" where
  "demo_holds rows = \<lparr>fl_sessions = [demo_session\<lparr>ss_fenceOwner := Some ''o'', ss_fence := 1, ss_revision := int (length rows), ss_state := Running\<rparr>],
     fl_actions = stored_from 0 rows, fl_armed = [], fl_outputs = [], fl_facts = []\<rparr>"

definition demo_born :: session_file where
  "demo_born = fold (run_op demo_env) (take 2 demo_ops) empty_file"

definition demo_arrived :: session_file where
  "demo_arrived = demo_holds [demo_append ''c'' KSessionConfigure None, demo_input ''m'']"

definition demo_snap :: pending_snapshot where
  "demo_snap = \<lparr>ps_rows = [\<lparr>dr_id = ''m'', dr_sessionId = ''s'', dr_kind = Prompt, dr_content = ''hi'',
     dr_origin = PObj [(''kind'', PStr ''external'')], dr_delivery = None, dr_after = None, dr_status = PendingInput,
     dr_createdAt = 5, dr_ordinal = 1\<rparr>], ps_ordinal = 2\<rparr>"

definition demo_batch :: "append_row list" where
  "demo_batch =
    [\<lparr>ap_id = ''m:delivery'', ap_parentId = Some ''c'', ap_sessionId = ''s'', ap_kind = KPrompt,
      ap_intent = PObj [(''deliveryId'', PStr ''m''), (''delivery'', PStr ''followUp'')],
      ap_effect = PObj [(''phase'', PStr ''delivery''), (''turnId'', PStr ''t''), (''deliveryId'', PStr ''m''),
        (''kind'', PStr ''prompt''), (''content'', PStr ''hi''),
        (''origin'', PObj [(''encodingVersion'', PNum (NInt 1)), (''value'', PObj [(''kind'', PStr ''external'')])]),
        (''boundary'', PStr ''before_llm'')],
      ap_ts = 5, ap_revert = None\<rparr>,
     \<lparr>ap_id = ''t'', ap_parentId = Some ''m:delivery'', ap_sessionId = ''s'', ap_kind = KTurn,
      ap_intent = PObj [(''phase'', PStr ''intent''), (''deliveryIds'', PArr [PStr ''m'']), (''resultId'', PStr ''r''),
        (''toolsGeneration'', PNum (NInt 1)), (''toolsHash'', PStr ''h''), (''systemHash'', PStr ''y''),
        (''policyGeneration'', PNum (NInt 1)), (''resumeCount'', PNum (NInt 0)), (''boundaryActionId'', PStr ''c'')],
      ap_effect = PObj [(''phase'', PStr ''pending'')], ap_ts = 6, ap_revert = None\<rparr>]"

definition demo_rows :: "append_row list" where
  "demo_rows = demo_append ''c'' KSessionConfigure None # demo_input ''m'' # demo_batch"

definition demo_started :: session_file where
  "demo_started = demo_holds demo_rows"

definition demo_second :: session_file where
  "demo_second = demo_holds (demo_rows @ [demo_input ''n''])"

definition demo_inbox :: inbox where
  "demo_inbox = \<lparr>ib_file = demo_second, ib_read = None, ib_memo = Some demo_snap\<rparr>"

lemma receive_step:
  assumes "input_history env sid s" "cm_sessionId req = sid" "\<forall>a\<in>set (cm_actions req). quiet a \<or> receives a"
    and "is_ok (fst (sessions_commit env req (ib_file s)))" "snd (sessions_commit env req (ib_file s)) = db"
  shows "input_history env sid (s\<lparr>ib_file := db\<rparr>)"
  using assms(4,5) input_history.receive [OF assms(1-3)] by (cases "sessions_commit env req (ib_file s)") (auto simp: is_ok_iff)

lemma consume_step:
  assumes "input_history env sid s" "ib_read s = Some rows" "drain_batch sid rows batch" "decorated batch (cm_actions req)"
    "cm_sessionId req = sid" and "is_ok (fst (sessions_commit env req (ib_file s)))" "snd (sessions_commit env req (ib_file s)) = db"
  shows "input_history env sid (s\<lparr>ib_file := db, ib_read := None\<rparr>)"
  using assms(6,7) input_history.consume [OF assms(1-5)] by (cases "sessions_commit env req (ib_file s)") (auto simp: is_ok_iff)

lemma demo_inbox_history: "input_history demo_env ''s'' demo_inbox"
proof -
  have born: "file_inv demo_born" unfolding demo_born_def by (rule history_inv) simp
  have "list_all (\<lambda>n. ap_kind n = KSessionConfigure) (log_of ''s'' demo_born)" by code_simp
  then have "\<forall>n\<in>set (log_of ''s'' demo_born). quiet_row n"
    by (auto simp: list_all_iff inert_row_def input_row_kind_def intro: inert_quiet)
  note h0 = input_history.start [OF born this, of demo_env]
  have rec: "receives (demo_input i)" for i by (auto simp: receives_def demo_input_def)
  let ?c1 = "demo_commit 1 1 [demo_input ''m'']" and ?c2 = "demo_commit 1 2 demo_batch" and ?c3 = "demo_commit 1 4 [demo_input ''n'']"
  have c1: "is_ok (fst (sessions_commit demo_env ?c1 demo_born)) \<and> snd (sessions_commit demo_env ?c1 demo_born) = demo_arrived" by code_simp
  have h1: "input_history demo_env ''s'' \<lparr>ib_file = demo_arrived, ib_read = None, ib_memo = None\<rparr>"
    using receive_step [OF h0, of ?c1] rec c1 by (simp add: demo_commit_def)
  have snap: "pendingMessagesSinceIn demo_arrived ''s'' None = Inr demo_snap" by code_simp
  have "int (length (log_of ''s'' demo_arrived)) \<le> MAX_SAFE_INTEGER" by code_simp
  with input_history.read [OF h1, of None demo_snap] snap
  have h2: "input_history demo_env ''s'' \<lparr>ib_file = demo_arrived, ib_read = Some (ps_rows demo_snap), ib_memo = Some demo_snap\<rparr>"
    by simp
  have b: "start_batch (\<lambda>_. True) ''s'' \<lparr>tu_turnId = ''t'', tu_resultId = ''r''\<rparr> (\<lambda>_. None)
     (boundaryConsumption (ps_rows demo_snap) TurnEnd DEFAULT_CONSUMPTION 0) demo_generation (Some ''c'') 6 = Inr demo_batch"
    by code_simp
  have c2: "is_ok (fst (sessions_commit demo_env ?c2 demo_arrived)) \<and> snd (sessions_commit demo_env ?c2 demo_arrived) = demo_started" by code_simp
  have d: "decorated demo_batch demo_batch" by code_simp
  have h3: "input_history demo_env ''s'' \<lparr>ib_file = demo_started, ib_read = None, ib_memo = Some demo_snap\<rparr>"
    using consume_step [OF h2 _ drain_batch.started [OF b], of ?c2] c2 d by (simp add: demo_commit_def)
  have c3: "is_ok (fst (sessions_commit demo_env ?c3 demo_started)) \<and> snd (sessions_commit demo_env ?c3 demo_started) = demo_second" by code_simp
  show ?thesis
    using receive_step [OF h3, of ?c3] rec c3 by (simp add: demo_commit_def demo_inbox_def)
qed

section \<open>Properties\<close>

text \<open>
  C36. Reading the pending inputs from a snapshot and the rows written since gives exactly
  what reading the whole log gives, numbering included, whatever was received, consumed
  or written between the two reads.
\<close>

theorem pending_reads_agree:
  assumes "input_history env sid s" and "ib_memo s = Some snap"
    and "int (length (log_of sid (ib_file s))) \<le> MAX_SAFE_INTEGER"
  shows "is_ok (pendingMessagesSinceIn (ib_file s) sid None) \<and>
    pendingMessagesSinceIn (ib_file s) sid (Some snap) = pendingMessagesSinceIn (ib_file s) sid None"
  using snapshot_read [OF history_inbox_inv [OF assms(1)] assms(3), of None]
    snapshot_read [OF history_inbox_inv [OF assms(1)] assms(3), of "Some snap"] assms(2) by simp

theorem pending_reads_agree_witness:
  "pendingMessagesSinceIn demo_second ''s'' (Some demo_snap) = pendingMessagesSinceIn demo_second ''s'' None \<and>
   map_option (\<lambda>p. (map dr_id (ps_rows p), ps_ordinal p))
     (case pendingMessagesSinceIn demo_second ''s'' (Some demo_snap) of Inr p \<Rightarrow> Some p | Inl _ \<Rightarrow> None) = Some ([''n''], 5)"
proof -
  have l: "int (length (log_of ''s'' (ib_file demo_inbox))) \<le> MAX_SAFE_INTEGER" by code_simp
  have v: "map_option (\<lambda>p. (map dr_id (ps_rows p), ps_ordinal p))
     (case pendingMessagesSinceIn demo_second ''s'' None of Inr p \<Rightarrow> Some p | Inl _ \<Rightarrow> None) = Some ([''n''], 5)" by code_simp
  from pending_reads_agree [OF demo_inbox_history _ l, of demo_snap] v show ?thesis by (simp add: demo_inbox_def)
qed

text \<open>
  C37. Every input is consumed at most once and only after it arrived, whether it was
  delivered, skipped or closed as stale; and what the file reports as pending is exactly
  the inputs that arrived and no row has consumed, in the order of arrival.
\<close>

theorem inputs_consumed_once:
  assumes "input_history env sid s"
  shows "distinct (concat (map consumed_by (log_of sid (ib_file s)))) \<and>
    (\<forall>pre r post. log_of sid (ib_file s) = pre @ r # post \<longrightarrow>
      (\<forall>i\<in>set (consumed_by r). \<exists>n\<in>set pre. is_input_row n \<and> ap_id n = i)) \<and>
    pendingMessages (ib_file s) sid =
      filter (\<lambda>n. is_input_row n \<and> ap_id n \<notin> set (concat (map consumed_by (log_of sid (ib_file s))))) (log_of sid (ib_file s))"
proof -
  note d = inbox_invD [OF history_inbox_inv [OF assms]]
  have "\<exists>n\<in>set pre. is_input_row n \<and> ap_id n = i"
    if "log_of sid (ib_file s) = pre @ r # post" "i \<in> set (consumed_by r)" for pre r post i
    using inputs.orderly_earlier [of pre r post i] d(2) that by simp
  with inputs.orderly_once [OF d(2)] pendingMessages_waiting [OF d(1), of sid] show ?thesis
    by (auto simp: inputs.taken_def inputs.waiting_def)
qed

theorem inputs_consumed_once_witness:
  "concat (map consumed_by (log_of ''s'' demo_second)) = [''m''] \<and> map ap_id (pendingMessages demo_second ''s'') = [''n'']"
proof -
  have v: "concat (map consumed_by (log_of ''s'' demo_second)) = [''m'']"
    "map ap_id (filter (\<lambda>n. is_input_row n \<and> ap_id n \<notin> set [''m'']) (log_of ''s'' demo_second)) = [''n'']" by code_simp+
  from inputs_consumed_once [OF demo_inbox_history] have "pendingMessages demo_second ''s'' =
      filter (\<lambda>n. is_input_row n \<and> ap_id n \<notin> set (concat (map consumed_by (log_of ''s'' demo_second)))) (log_of ''s'' demo_second)"
    by (simp add: demo_inbox_def)
  with v show ?thesis by (simp only: v simp_thms)
qed

end
