(* ===== verification/Fork_Properties.thy ===== *)
theory Fork_Properties
  imports Fork_Laws Inbox_Properties
begin

text \<open>
  What a fork guarantees: the child holds the parent's rows up to the anchor under new
  names and within the byte cap, and the inputs that wait in it are those that waited at
  the anchor, as long as no turn up to there closed an input as stale.
\<close>

section \<open>Copied rows\<close>




lemma map_stored: "(\<And>a r. f (storedActionRow a r) = g a) \<Longrightarrow> map f (stored_from r as) = map g as"
  by (induction as arbitrary: r) simp_all




section \<open>Inputs of the child\<close>

lemma copied_input: "is_input_row (storedActionRow (copyAction child ids renames n) r) = is_input_row n"
  by (simp add: is_input_row_def copyAction_sel extract_field get_remapPayload)

lemma copied_consumption:
  assumes "plain_row n" and "ap_kind n = KTurn \<Longrightarrow> consumed_by n = []"
  shows "consumed_by (storedActionRow (copyAction child ids renames n) r) = map (child_name renames) (consumed_by n)"
proof (cases "ap_kind n = KTurn")
  case True
  then have "consumed_by (storedActionRow (copyAction child ids renames n) r) = consumed_by n"
    by (simp add: consumed_by_def copyAction_sel json_each_def get_remapPayload cong: option.case_cong)
  with assms(2) [OF True] show ?thesis by simp
next
  case False
  show ?thesis
  proof (cases "input_row_kind (ap_kind n)")
    case True
    with assms(1) have "case plain_get (ap_intent n) ''deliveryId'' of None \<Rightarrow> True | Some v \<Rightarrow> text_or_null v"
      by (simp add: plain_row_def plainly_named_def)
    with True False show ?thesis
      by (cases "plain_get (ap_intent n) ''deliveryId''")
        (auto simp: consumed_by_def copyAction_sel extract_field get_remapPayload child_name_def elim!: text_or_null.elims)
  qed (use False in \<open>simp add: consumed_by_def copyAction_sel\<close>)
qed

lemma waiting_copies:
  assumes "\<forall>n\<in>set rows. ap_id (cp n) = f (ap_id n) \<and> (\<forall>r. is_input_row (storedActionRow (cp n) r) = is_input_row n)"
  shows "map ap_id (filter (\<lambda>n. is_input_row n \<and> ap_id n \<notin> X) (stored_from r (map cp rows))) =
    map f (map ap_id (filter (\<lambda>n. is_input_row n \<and> f (ap_id n) \<notin> X) rows))"
  using assms by (induction rows arbitrary: r) auto

lemma taken_copies:
  assumes "\<forall>n\<in>set rows. \<forall>r. consumed_by (storedActionRow (cp n) r) = map f (consumed_by n)"
  shows "inputs.taken (stored_from r (map cp rows)) = map f (inputs.taken rows)"
  using assms by (induction rows arbitrary: r) auto

text \<open>Rows that are dropped neither arrive nor consume.\<close>

lemma eligible_inputs:
  "set (inputs.taken (eligible rows)) = set (inputs.taken rows)"
  "inputs.waiting (eligible rows) = inputs.waiting rows"
proof -
  have e: "ap_kind n \<noteq> KFoldCheckpoint \<and> \<not> isArmRow n" if "consumed_by n \<noteq> [] \<or> is_input_row n" for n
    using that by (auto simp: consumed_by_def is_input_row_def isArmRow_def input_row_kind_def split: if_splits)
  show t: "set (inputs.taken (eligible rows)) = set (inputs.taken rows)"
  proof (induction rows)
    case (Cons n rows)
    with e [of n] show ?case by (cases "consumed_by n = []") (auto simp: eligible_def)
  qed (simp add: eligible_def)
  show "inputs.waiting (eligible rows) = inputs.waiting rows"
    unfolding inputs.waiting_def t unfolding eligible_def filter_filter using e by (intro filter_cong) auto
qed

section \<open>A parent for the witnesses\<close>

definition demo_configure :: append_row where
  "demo_configure = configureAction \<lparr>ci_id = ''c'', ci_sessionId = ''s'', ci_parentId = None, ci_operation = configure_operation.OpCreate,
     ci_snapshot = demo_generation, ci_settings = None, ci_forkedFrom = None, ci_disabled = None, ci_at = 5\<rparr>"

definition demo_root :: session_file where
  "demo_root = fold (run_op demo_env) [OpMaterialize \<lparr>mt_row = demo_session, mt_initialAction = demo_configure\<rparr>,
     OpAdopt \<lparr>af_sessionId = ''s'', af_owner = ''o'', af_fence = 1\<rparr>] empty_file"

definition demo_parent :: session_file where
  "demo_parent = demo_holds [demo_configure, demo_input ''m'']"

definition demo_fork :: fork_input where
  "demo_fork = \<lparr>fi_from = ''s'', fi_anchor = ''m'', fi_childId = ''k'', fi_genesisActionId = ''g'', fi_now = 9\<rparr>"

lemma demo_parent_history: "input_history demo_env ''s'' \<lparr>ib_file = demo_parent, ib_read = None, ib_memo = None\<rparr>"
proof -
  have root: "file_inv demo_root" unfolding demo_root_def by (rule history_inv) simp
  have "list_all (\<lambda>n. ap_kind n = KSessionConfigure) (log_of ''s'' demo_root)" by code_simp
  then have "\<forall>n\<in>set (log_of ''s'' demo_root). quiet_row n"
    by (auto simp: list_all_iff inert_row_def input_row_kind_def intro: inert_quiet)
  note h0 = input_history.start [OF root this, of demo_env]
  have rec: "receives (demo_input i)" for i by (auto simp: receives_def demo_input_def)
  let ?c1 = "demo_commit 1 1 [demo_input ''m'']"
  have "is_ok (fst (sessions_commit demo_env ?c1 demo_root)) \<and> snd (sessions_commit demo_env ?c1 demo_root) = demo_parent" by code_simp
  then show ?thesis using receive_step [OF h0, of ?c1] rec by (simp add: demo_commit_def)
qed

lemma success_caseE:
  assumes "case x of Some (Inr r, c) \<Rightarrow> P r c | _ \<Rightarrow> False"
  shows "\<exists>r c. x = Some (Inr r, c) \<and> P r c"
proof (cases x)
  case (Some y)
  obtain a c where "y = (a, c)" by (cases y)
  with assms Some show ?thesis by (cases a) simp_all
qed (use assms in simp)

lemma demo_forked:
  "\<exists>r child. forkSession demo_env demo_parent 3 (Some True) demo_fork empty_file = Some (Inr r, child) \<and>
    map ap_id (log_of ''k'' child) = [''g'', ''c'', ''fork:s:m'']"
  by (rule success_caseE) code_simp

section \<open>Properties\<close>

lemma inj_on_names:
  assumes "distinct (map g xs)" and "\<And>x. x \<in> set xs \<Longrightarrow> g x = f (k x)"
  shows "inj_on f (k ` set xs)"
proof (rule inj_onI)
  fix a b assume "a \<in> k ` set xs" "b \<in> k ` set xs" "f a = f b"
  then obtain x y where "x \<in> set xs" "y \<in> set xs" "a = k x" "b = k y" "g x = g y" using assms(2) by auto
  with assms(1) show "a = b" by (auto simp: distinct_map dest: inj_onD)
qed

text \<open>What is consumed arrived before, so it was kept.\<close>

lemma taken_arrived:
  assumes "inputs.orderly rows" and "k \<in> set (inputs.taken rows)"
  shows "k \<in> ap_id ` set (eligible rows)"
proof -
  from assms(2) obtain r where r: "r \<in> set rows" "k \<in> set (consumed_by r)" by (auto simp: inputs.taken_def)
  then obtain pre post where "rows = pre @ r # post" by (auto dest: split_list)
  with inputs.orderly_earlier [of pre r post k] assms(1) r obtain x where "x \<in> set rows" "is_input_row x" "ap_id x = k" by auto
  moreover have "x \<in> set (eligible rows)"
    using calculation by (auto simp: eligible_def is_input_row_def isArmRow_def input_row_kind_def)
  ultimately show ?thesis by blast
qed

lemma input_named:
  assumes "n \<in> set rows" and "is_input_row n" and "plain_row n"
  shows "child_name (fork_renames from (eligible rows)) (ap_id n) = fork_name from (ap_id n)"
proof -
  from assms(2,3) have "received_effect (ap_effect n) \<noteq> None" by (simp add: plain_row_def)
  then have "isInputRow n"
    using assms(2) by (auto simp: received_effect_def isInputRow_def is_input_row_def plain_get_def field_def read_enum_def
        Option.bind_eq_Some_conv split: plain.splits)
  moreover have "n \<in> set (eligible rows)"
    using assms(1,2) by (auto simp: eligible_def is_input_row_def isArmRow_def input_row_kind_def)
  ultimately show ?thesis by (auto simp: child_name_def map_of_fork_renames)
qed



section \<open>Properties\<close>



text \<open>
  C40. Forking keeps what waits: over any history of the parent's inputs, if no turn up to
  the anchor closed an input as stale, the pending inputs of the child are exactly those
  that had arrived in the parent up to the anchor and were not consumed there, in order,
  under their new names.
\<close>

theorem fork_keeps_pending:
  assumes "input_history env (fi_from i) s" and "file_inv child"
    and "forkSession env' (ib_file s) version index i child = Some (Inr r, child')"
    and "rows = upto_row (fi_anchor i) (log_of (fi_from i) (ib_file s))"
    and "\<forall>n\<in>set rows. ap_kind n = KTurn \<longrightarrow> consumed_by n = []"
  shows "map ap_id (pendingMessages child' (fi_childId i)) =
    map (fork_name (fi_from i)) (map ap_id (filter (\<lambda>n. is_input_row n \<and> ap_id n \<notin> set (concat (map consumed_by rows))) rows))"
proof -
  let ?parent = "ib_file s" and ?from = "fi_from i"
  note d = inbox_invD [OF history_inbox_inv [OF assms(1)]]
  let ?kept = "kept_rows ?parent i" and ?f = "child_name (kept_renames ?parent i)"
  obtain post where post: "log_of ?from ?parent = rows @ post" using upto_row_prefix assms(4) by blast
  have o: "inputs.orderly rows" and plain: "list_all plain_row rows"
    using d(2,3) inputs.orderly_prefix [of rows post] by (simp_all add: post)
  have kept: "?kept = eligible rows" by (simp add: kept_rows_def assms(4))
  have inside: "n \<in> set rows" if "n \<in> set ?kept" for n using that by (simp add: kept eligible_def)
  obtain p where "file_inv child'"
    and log: "log_of (fi_childId i) child' = stored_from 0 (mt_initialAction (fork_materialize i p) # kept_copies ?parent i)"
    by (rule forkSession_Inr [OF d(1) assms(2,3)])
  note pend = pendingMessages_waiting [OF \<open>file_inv child'\<close>, of "fi_childId i"]
  have g: "\<not> is_input_row (storedActionRow (mt_initialAction (fork_materialize i p)) q)"
    "consumed_by (storedActionRow (mt_initialAction (fork_materialize i p)) q) = []" for q
    by (simp_all add: fork_materialize_def configureAction_def is_input_row_def consumed_by_def input_row_kind_def)
  define cp where "cp = copyAction (fi_childId i) (fork_ids (kept_renames ?parent i) ?kept) (kept_renames ?parent i)"
  have copies: "kept_copies ?parent i = map cp ?kept" by (simp add: kept_copies_def cp_def)
  have ids: "\<forall>n\<in>set ?kept. ap_id (cp n) = ?f (ap_id n) \<and> (\<forall>r. is_input_row (storedActionRow (cp n) r) = is_input_row n)"
    by (simp add: cp_def copyAction_sel copied_input)
  have cons: "\<forall>n\<in>set ?kept. \<forall>r. consumed_by (storedActionRow (cp n) r) = map ?f (consumed_by n)"
    using inside plain assms(5) by (simp add: cp_def copied_consumption list_all_iff)
  have taken: "inputs.taken (log_of (fi_childId i) child') = map ?f (inputs.taken ?kept)"
    by (simp add: log copies g(2) taken_copies [OF cons])
  have "distinct (map (\<lambda>n. ap_id (cp n)) ?kept)"
    using log_ids [OF \<open>file_inv child'\<close>, of "fi_childId i"] by (simp add: log copies map_stored comp_def)
  then have inj: "inj_on ?f (ap_id ` set ?kept)" by (rule inj_on_names) (use ids in simp)
  have fresh: "?f (ap_id n) \<in> ?f ` set (inputs.taken ?kept) \<longleftrightarrow> ap_id n \<in> set (inputs.taken ?kept)" if "n \<in> set ?kept" for n
    using inj_on_image_mem_iff [OF inj, of "ap_id n" "set (inputs.taken ?kept)"] that taken_arrived [OF o]
    by (auto simp: kept eligible_inputs)
  have "inputs.waiting (log_of (fi_childId i) child') =
      filter (\<lambda>n. is_input_row n \<and> ap_id n \<notin> ?f ` set (inputs.taken ?kept)) (stored_from 1 (map cp ?kept))"
    unfolding inputs.waiting_def taken by (simp add: g(1) log copies)
  then have "map ap_id (inputs.waiting (log_of (fi_childId i) child')) =
      map ?f (map ap_id (filter (\<lambda>n. is_input_row n \<and> ?f (ap_id n) \<notin> ?f ` set (inputs.taken ?kept)) ?kept))"
    by (simp only: waiting_copies [OF ids])
  also have "filter (\<lambda>n. is_input_row n \<and> ?f (ap_id n) \<notin> ?f ` set (inputs.taken ?kept)) ?kept = inputs.waiting ?kept"
    unfolding inputs.waiting_def using fresh by (intro filter_cong) auto
  also have "\<dots> = inputs.waiting rows" by (simp add: kept eligible_inputs(2))
  also have "map ?f (map ap_id (inputs.waiting rows)) = map (fork_name ?from) (map ap_id (inputs.waiting rows))"
    using plain by (simp add: kept inputs.waiting_def input_named list_all_iff)
  finally show ?thesis by (simp add: pend inputs.waiting_def inputs.taken_def)
qed

theorem fork_keeps_pending_witness:
  "\<exists>r child. forkSession demo_env demo_parent 3 (Some True) demo_fork empty_file = Some (Inr r, child) \<and>
    map ap_id (pendingMessages child ''k'') = [''fork:s:m'']"
proof -
  obtain r child where f: "forkSession demo_env demo_parent 3 (Some True) demo_fork empty_file = Some (Inr r, child)"
    using demo_forked by blast
  let ?rows = "upto_row ''m'' (log_of ''s'' demo_parent)"
  have q: "list_all (\<lambda>n. ap_kind n \<noteq> KTurn) ?rows"
    "map ap_id (filter (\<lambda>n. is_input_row n \<and> ap_id n \<notin> set (concat (map consumed_by ?rows))) ?rows) = [''m'']"
    by code_simp+
  have d: "fi_from demo_fork = ''s''" "fi_anchor demo_fork = ''m''" "fi_childId demo_fork = ''k''" by (simp_all add: demo_fork_def)
  have "map ap_id (pendingMessages child (fi_childId demo_fork)) =
      map (fork_name (fi_from demo_fork)) (map ap_id (filter (\<lambda>n. is_input_row n \<and> ap_id n \<notin> set (concat (map consumed_by ?rows))) ?rows))"
    by (rule fork_keeps_pending [where env = demo_env and s = "\<lparr>ib_file = demo_parent, ib_read = None, ib_memo = None\<rparr>", OF _ file_inv_empty])
      (use demo_parent_history f q(1) in \<open>simp_all add: d list_all_iff\<close>)
  then have "map ap_id (pendingMessages child ''k'') = map (fork_name ''s'') [''m'']" by (simp only: d q(2))
  with f show ?thesis by (simp add: fork_name_def)
qed

section \<open>Closed inputs come back\<close>

text \<open>
  The condition on stale inputs is needed: a fork renames the inputs but not the lists of
  stale inputs in the turn rows, so an input the parent closed as stale waits again in
  the child.
\<close>

definition demo_closed :: session_file where
  "demo_closed = demo_holds [demo_configure,
     receivedMessageAction \<lparr>rv_id = ''m'', rv_sessionId = ''s'', rv_kind = ActionInput, rv_content = ''{}'', rv_origin = PObj [],
       rv_parentActionId = None, rv_at = 5, rv_delivery = None\<rparr>,
     turn_row ''t'' (Some ''m'') ''s'' (PObj ([(''phase'', PStr ''intent''), (''deliveryIds'', PArr [])] @ stale_entry [''m'']))
       (PObj [(''phase'', PStr ''pending'')]) 6,
     turnTerminalAction \<lparr>te_id = ''e'', te_parentId = ''t'', te_sessionId = ''s'', te_turnId = ''t'', te_result = RunnerText [],
       te_resumeCount = 0, te_boundaryActionId = None, te_at = 7\<rparr>]"

lemma fork_reopens_closed_input:
  "pendingMessages demo_closed ''s'' = [] \<and>
   (case forkSession demo_env demo_closed 3 (Some True) (demo_fork\<lparr>fi_anchor := ''e''\<rparr>) empty_file of
      Some (Inr r, child) \<Rightarrow> map ap_id (pendingMessages child ''k'') = [''fork:s:m'']
    | _ \<Rightarrow> False)"
  by code_simp

end
