(* ===== verification/Turn_Laws.thy ===== *)
theory Turn_Laws
  imports Turn_Reads Inbox_Laws
begin

text \<open>
  The indexed reads of open turns against the fold over the whole log, for logs whose
  turn rows are those the turn constructors write.
\<close>

section \<open>Turn rows as written\<close>

text \<open>What a turn row says: it opens a turn, updates one, or is about none.\<close>

datatype turn_fact =
    Opens turn_intent
  | Resumes turn_resume
  | Checkpoints turn_checkpoint
  | Ends turn_terminal
  | NoTurn

definition turn_fact :: "(plain \<Rightarrow> bool) \<Rightarrow> node \<Rightarrow> turn_fact" where
  "turn_fact mok a =
     (case turnIntent mok a of Some i \<Rightarrow> Opens i
      | None \<Rightarrow> (case turnResume mok a of Some r \<Rightarrow> Resumes r
        | None \<Rightarrow> (case turnCheckpoint a of Some c \<Rightarrow> Checkpoints c
          | None \<Rightarrow> (case turnTerminal a of Some t \<Rightarrow> Ends t | None \<Rightarrow> NoTurn))))"

fun fact_turn :: "turn_fact \<Rightarrow> str option" where
  "fact_turn (Resumes r) = Some (tr_turnId r)"
| "fact_turn (Checkpoints c) = Some (tk_turnId c)"
| "fact_turn (Ends t) = Some (tt_turnId t)"
| "fact_turn _ = None"

abbreviation updates :: "(plain \<Rightarrow> bool) \<Rightarrow> node \<Rightarrow> str option" where
  "updates mok n \<equiv> fact_turn (turn_fact mok n)"

definition opens :: "(plain \<Rightarrow> bool) \<Rightarrow> node \<Rightarrow> bool" where
  "opens mok n \<longleftrightarrow> turnIntent mok n \<noteq> None"

definition ends_turn :: "(plain \<Rightarrow> bool) \<Rightarrow> str \<Rightarrow> node \<Rightarrow> bool" where
  "ends_turn mok i n \<longleftrightarrow> (case turn_fact mok n of Ends t \<Rightarrow> tt_turnId t = i | _ \<Rightarrow> False)"

lemma open_step_fact:
  "open_step mok a m =
    (case turn_fact mok a of
       Opens i \<Rightarrow> put (ap_id a) (opened_turn a i) m
     | Resumes r \<Rightarrow> put_if_open (tr_turnId r) (resumed_turn a r) m
     | Checkpoints c \<Rightarrow> put_if_open (tk_turnId c) (checkpointed_turn a c) m
     | Ends t \<Rightarrow> del (tt_turnId t) m
     | NoTurn \<Rightarrow> m)"
  by (simp add: open_step_def turn_fact_def split: option.split)

lemma opens_fact: "opens mok n \<longleftrightarrow> (\<exists>i. turn_fact mok n = Opens i)"
  by (auto simp: opens_def turn_fact_def split: option.splits)

text \<open>
  How the columns the statements read agree with the decoded row: the row kinds and turn
  ids in the JSON columns are those of the fact.
\<close>

definition columns_agree :: "(plain \<Rightarrow> bool) \<Rightarrow> node \<Rightarrow> bool" where
  "columns_agree mok n \<longleftrightarrow>
     is_turn_intent n = opens mok n \<and>
     is_turn_terminal n = (case turn_fact mok n of Ends _ \<Rightarrow> True | _ \<Rightarrow> False) \<and>
     (ap_kind n = KTurn \<longrightarrow>
       {intent_at n [''turnId''], effect_at n [''turnId'']} - {SNull} =
         (case updates mok n of None \<Rightarrow> {} | Some i \<Rightarrow> {SText i})) \<and>
     (is_turn_terminal n \<longrightarrow> effect_at n [''turnId''] \<noteq> SNull)"

text \<open>A resume repeats the generation its turn was opened under.\<close>

definition same_pins :: "turn_resume \<Rightarrow> turn_intent \<Rightarrow> bool" where
  "same_pins r i \<longleftrightarrow> tr_toolsGeneration r = ti_toolsGeneration i \<and> tr_toolsHash r = ti_toolsHash i \<and>
     tr_systemHash r = ti_systemHash i \<and> tr_policyGeneration r = ti_policyGeneration i"

definition resumes_same :: "(plain \<Rightarrow> bool) \<Rightarrow> node \<Rightarrow> node \<Rightarrow> bool" where
  "resumes_same mok a n \<longleftrightarrow>
     (case (turn_fact mok a, turn_fact mok n) of (Opens i, Resumes r) \<Rightarrow> tr_turnId r = ap_id a \<longrightarrow> same_pins r i | _ \<Rightarrow> True)"

text \<open>No row updates a turn before the turn is opened.\<close>

fun opened_first :: "(plain \<Rightarrow> bool) \<Rightarrow> node list \<Rightarrow> bool" where
  "opened_first mok [] \<longleftrightarrow> True"
| "opened_first mok (n # rows) \<longleftrightarrow>
     list_all (\<lambda>a. opens mok a \<longrightarrow> updates mok n \<noteq> Some (ap_id a)) rows \<and> opened_first mok rows"

definition turns_ok :: "(plain \<Rightarrow> bool) \<Rightarrow> node list \<Rightarrow> bool" where
  "turns_ok mok rows \<longleftrightarrow>
     list_all (columns_agree mok) rows \<and>
     list_all (\<lambda>a. list_all (resumes_same mok a) rows) rows \<and>
     opened_first mok rows"

lemma opened_first_append:
  "opened_first mok (xs @ ys) \<longleftrightarrow> opened_first mok xs \<and> opened_first mok ys \<and>
     (\<forall>n\<in>set xs. \<forall>a\<in>set ys. opens mok a \<longrightarrow> updates mok n \<noteq> Some (ap_id a))"
  by (induction xs) (auto simp: list_all_iff)

lemma turns_ok_prefix: "turns_ok mok (xs @ ys) \<Longrightarrow> turns_ok mok xs"
  by (auto simp: turns_ok_def opened_first_append list_all_iff)

section \<open>The fold in closed form\<close>

text \<open>The state of one turn: its intent, changed by the last row that updates it.\<close>

definition update_turn :: "(plain \<Rightarrow> bool) \<Rightarrow> node \<Rightarrow> open_turn \<Rightarrow> open_turn" where
  "update_turn mok n t =
     (case turn_fact mok n of Resumes r \<Rightarrow> resumed_turn n r t | Checkpoints c \<Rightarrow> checkpointed_turn n c t | _ \<Rightarrow> t)"

definition last_update :: "(plain \<Rightarrow> bool) \<Rightarrow> str \<Rightarrow> node list \<Rightarrow> node option" where
  "last_update mok i rows = find (\<lambda>n. updates mok n = Some i) (rev rows)"

definition turn_state :: "(plain \<Rightarrow> bool) \<Rightarrow> node list \<Rightarrow> node \<Rightarrow> open_turn" where
  "turn_state mok rows a =
     (let t = opened_turn a (the (turnIntent mok a)) in
      case last_update mok (ap_id a) rows of None \<Rightarrow> t | Some n \<Rightarrow> update_turn mok n t)"

definition still_open :: "(plain \<Rightarrow> bool) \<Rightarrow> node list \<Rightarrow> node \<Rightarrow> bool" where
  "still_open mok rows a \<longleftrightarrow> opens mok a \<and> \<not> list_ex (ends_turn mok (ap_id a)) rows"

lemma last_update_snoc:
  "last_update mok i (rows @ [n]) = (if updates mok n = Some i then Some n else last_update mok i rows)"
  by (simp add: last_update_def)

lemma last_update_Some: "last_update mok i rows = Some n \<Longrightarrow> n \<in> set rows \<and> updates mok n = Some i"
  unfolding last_update_def find_Some_iff by (metis nth_mem set_rev)

lemma turn_state_snoc:
  "updates mok n \<noteq> Some (ap_id a) \<Longrightarrow> turn_state mok (rows @ [n]) a = turn_state mok rows a"
  by (simp add: turn_state_def last_update_snoc)

lemma turn_state_pins:
  assumes "turns_ok mok rows" and "a \<in> set rows" and "turnIntent mok a = Some i"
  shows "ot_turnId (turn_state mok rows a) = ap_id a"
    "ot_toolsGeneration (turn_state mok rows a) = ti_toolsGeneration i"
    "ot_toolsHash (turn_state mok rows a) = ti_toolsHash i"
    "ot_systemHash (turn_state mok rows a) = ti_systemHash i"
    "ot_policyGeneration (turn_state mok rows a) = ti_policyGeneration i"
proof -
  have "turn_fact mok a = Opens i" using assms(3) by (simp add: turn_fact_def)
  have "ot_turnId (turn_state mok rows a) = ap_id a \<and> ot_toolsGeneration (turn_state mok rows a) = ti_toolsGeneration i \<and>
    ot_toolsHash (turn_state mok rows a) = ti_toolsHash i \<and> ot_systemHash (turn_state mok rows a) = ti_systemHash i \<and>
    ot_policyGeneration (turn_state mok rows a) = ti_policyGeneration i"
  proof (cases "last_update mok (ap_id a) rows")
    case (Some n)
    from last_update_Some [OF Some] have n: "n \<in> set rows" "updates mok n = Some (ap_id a)" by auto
    with assms(1,2) have "resumes_same mok a n" by (auto simp: turns_ok_def list_all_iff)
    with n \<open>turn_fact mok a = Opens i\<close> show ?thesis
      by (cases "turn_fact mok n") (simp_all add: turn_state_def Some assms(3) update_turn_def resumes_same_def same_pins_def
        resumed_turn_def checkpointed_turn_def opened_turn_def)
  qed (simp add: turn_state_def assms(3) opened_turn_def)
  then show "ot_turnId (turn_state mok rows a) = ap_id a"
    "ot_toolsGeneration (turn_state mok rows a) = ti_toolsGeneration i"
    "ot_toolsHash (turn_state mok rows a) = ti_toolsHash i"
    "ot_systemHash (turn_state mok rows a) = ti_systemHash i"
    "ot_policyGeneration (turn_state mok rows a) = ti_policyGeneration i" by auto
qed

text \<open>An update overwrites what the updates before it wrote.\<close>

lemma update_absorbs:
  assumes "turns_ok mok rows" and "a \<in> set rows" and "opens mok a" and "updates mok n = Some (ap_id a)" and "\<not> ends_turn mok (ap_id a) n"
  shows "update_turn mok n (turn_state mok rows a) = turn_state mok (rows @ [n]) a"
proof -
  from assms(3) obtain i where i: "turnIntent mok a = Some i" by (auto simp: opens_def)
  note p = turn_state_pins [OF assms(1,2) i]
  have s: "turn_state mok (rows @ [n]) a = update_turn mok n (opened_turn a i)"
    by (simp add: turn_state_def last_update_snoc assms(4) i)
  show ?thesis
  proof (cases "turn_fact mok n")
    case (Ends t)
    with assms(4,5) show ?thesis by (simp add: ends_turn_def)
  qed (use assms(4) p in \<open>simp_all add: s update_turn_def resumed_turn_def checkpointed_turn_def opened_turn_def\<close>)
qed

definition open_entries :: "(plain \<Rightarrow> bool) \<Rightarrow> node list \<Rightarrow> (str \<times> open_turn) list" where
  "open_entries mok rows = map (\<lambda>a. (ap_id a, turn_state mok rows a)) (filter (still_open mok rows) rows)"

lemma map_put:
  assumes "distinct (map k as)" and "a \<in> set as"
  shows "put (k a) v (map (\<lambda>x. (k x, f x)) as) = map (\<lambda>x. (k x, if k x = k a then v else f x)) as"
  using assms
proof (induction as)
  case (Cons x as)
  show ?case
  proof (cases "k x = k a")
    case True
    with Cons.prems(1) have "y \<in> set as \<Longrightarrow> k y \<noteq> k a" for y by (metis distinct.simps(2) image_eqI list.simps(9) list.set_map)
    then have "map (\<lambda>x. (k x, if k x = k a then v else f x)) as = map (\<lambda>x. (k x, f x)) as" by simp
    with True show ?thesis by simp
  next
    case False
    with Cons show ?thesis by auto
  qed
qed simp

lemma map_of_entries: "map_of (map (\<lambda>x. (k x, f x)) as) i = None \<longleftrightarrow> i \<notin> k ` set as"
  by (induction as) auto

lemma put_unlisted: "k \<notin> fst ` set m \<Longrightarrow> put k v m = m @ [(k, v)]"
  by (induction m) auto

lemma still_open_snoc:
  "still_open mok (rows @ [n]) = (\<lambda>a. still_open mok rows a \<and> \<not> ends_turn mok (ap_id a) n)"
  by (auto simp: still_open_def)

lemma ends_updates: "ends_turn mok i n \<Longrightarrow> updates mok n = Some i"
  by (cases "turn_fact mok n") (simp_all add: ends_turn_def)

lemma entries_distinct: "distinct (map ap_id rows) \<Longrightarrow> distinct (map ap_id (filter P rows))"
  by (induction rows) auto

lemma fold_open:
  assumes "turns_ok mok rows" and "distinct (map ap_id rows)"
  shows "fold (open_step mok) rows [] = open_entries mok rows"
  using assms
proof (induction rows rule: rev_induct)
  case (snoc n rows)
  let ?open = "filter (still_open mok rows) rows"
  have ok: "turns_ok mok rows" by (rule turns_ok_prefix [OF snoc.prems(1)])
  have dist: "distinct (map ap_id rows)" "ap_id n \<notin> ap_id ` set rows" using snoc.prems(2) by auto
  have IH: "fold (open_step mok) rows [] = open_entries mok rows" by (rule snoc.IH [OF ok dist(1)])
  have step: "fold (open_step mok) (rows @ [n]) [] = open_step mok n (open_entries mok rows)" by (simp add: IH)
  have ids: "distinct (map ap_id ?open)" by (rule entries_distinct [OF dist(1)])
  have rest: "open_entries mok (rows @ [n]) =
      map (\<lambda>a. (ap_id a, turn_state mok (rows @ [n]) a)) (filter (\<lambda>a. \<not> ends_turn mok (ap_id a) n) ?open) @
      (if still_open mok rows n \<and> \<not> ends_turn mok (ap_id n) n then [(ap_id n, turn_state mok (rows @ [n]) n)] else [])"
    by (simp add: open_entries_def still_open_snoc)
  have closed_n: "\<not> still_open mok rows n" if "\<not> opens mok n" using that by (simp add: still_open_def)
  have change: "put_if_open i f (open_entries mok rows) = open_entries mok (rows @ [n])"
    if "updates mok n = Some i" and "\<And>t. f t = update_turn mok n t" and "\<And>j. \<not> ends_turn mok j n" and "\<not> opens mok n" for i f
  proof -
    have st: "turn_state mok (rows @ [n]) a = (if ap_id a = i then f (turn_state mok rows a) else turn_state mok rows a)"
      if "a \<in> set ?open" for a
    proof (cases "ap_id a = i")
      case True
      with that have "a \<in> set rows" "opens mok a" by (auto simp: still_open_def)
      with True show ?thesis
        using update_absorbs [OF ok _ _ _, of a n] \<open>updates mok n = Some i\<close> \<open>\<And>t. f t = _\<close> \<open>\<And>j. \<not> ends_turn mok j n\<close> by simp
    qed (use \<open>updates mok n = Some i\<close> in \<open>simp add: turn_state_snoc\<close>)
    have new: "open_entries mok (rows @ [n]) =
        map (\<lambda>a. (ap_id a, if ap_id a = i then f (turn_state mok rows a) else turn_state mok rows a)) ?open"
      using st closed_n [OF that(4)] that(3) by (simp add: rest)
    show ?thesis
    proof (cases "i \<in> ap_id ` set ?open")
      case False
      then have "map_of (open_entries mok rows) i = None" by (simp add: open_entries_def map_of_entries)
      moreover have "open_entries mok (rows @ [n]) = open_entries mok rows"
        unfolding new unfolding open_entries_def using False by (intro map_cong) auto
      ultimately show ?thesis by (simp add: put_if_open_def)
    next
      case True
      then obtain a where a: "a \<in> set ?open" "ap_id a = i" by auto
      then have "map_of (open_entries mok rows) i = Some (turn_state mok rows a)"
        using ids by (simp add: open_entries_def map_of_eq_Some_iff comp_def) force
      then have "put_if_open i f (open_entries mok rows) = put (ap_id a) (f (turn_state mok rows a)) (open_entries mok rows)"
        by (simp add: put_if_open_def a(2))
      also have "\<dots> = map (\<lambda>x. (ap_id x, if ap_id x = ap_id a then f (turn_state mok rows a) else turn_state mok rows x)) ?open"
        unfolding open_entries_def by (rule map_put [OF ids a(1)])
      also have "\<dots> = open_entries mok (rows @ [n])"
        unfolding new using a keyed_eq [OF ids _ a(1)] by (intro map_cong refl) fastforce
      finally show ?thesis .
    qed
  qed
  show ?case
  proof (cases "turn_fact mok n")
    case (Opens i)
    then have o: "opens mok n" "turnIntent mok n = Some i" "updates mok n = None" "\<And>j. \<not> ends_turn mok j n"
      by (auto simp: opens_fact ends_turn_def turn_fact_def split: option.splits)
    have early: "updates mok m \<noteq> Some (ap_id n)" if "m \<in> set rows" for m
      using snoc.prems(1) that o(1) by (auto simp: turns_ok_def opened_first_append)
    then have "still_open mok rows n" using o(1) ends_updates by (auto simp: still_open_def list_ex_iff)
    moreover have "turn_state mok (rows @ [n]) n = opened_turn n i"
      using early last_update_Some [of mok "ap_id n" rows] o
      by (cases "last_update mok (ap_id n) rows") (auto simp: turn_state_def last_update_snoc)
    ultimately have "open_entries mok (rows @ [n]) = open_entries mok rows @ [(ap_id n, opened_turn n i)]"
      unfolding rest using o by (simp add: turn_state_snoc open_entries_def)
    moreover have "ap_id n \<notin> fst ` set (open_entries mok rows)" using dist(2) by (force simp: open_entries_def)
    ultimately show ?thesis unfolding step by (simp add: open_step_fact Opens put_unlisted)
  next
    case (Resumes r)
    then show ?thesis using change [of "tr_turnId r" "resumed_turn n r"]
      unfolding step by (simp add: open_step_fact update_turn_def ends_turn_def opens_fact)
  next
    case (Checkpoints c)
    then show ?thesis using change [of "tk_turnId c" "checkpointed_turn n c"]
      unfolding step by (simp add: open_step_fact update_turn_def ends_turn_def opens_fact)
  next
    case (Ends t)
    have e: "ends_turn mok j n \<longleftrightarrow> j = tt_turnId t" for j using Ends by (auto simp: ends_turn_def)
    have "open_entries mok (rows @ [n]) =
        map (\<lambda>a. (ap_id a, turn_state mok rows a)) (filter (\<lambda>a. ap_id a \<noteq> tt_turnId t) ?open)"
      using Ends closed_n by (auto simp: rest e opens_fact turn_state_snoc)
    also have "\<dots> = del (tt_turnId t) (open_entries mok rows)"
      by (simp add: del_def open_entries_def filter_map comp_def)
    finally show ?thesis unfolding step by (simp add: open_step_fact Ends)
  next
    case NoTurn
    then show ?thesis using closed_n unfolding step rest by (simp add: open_step_fact opens_fact ends_turn_def open_entries_def turn_state_snoc)
  qed
qed (simp add: open_entries_def)

lemma openTurns_closed:
  assumes "turns_ok mok rows" and "distinct (map ap_id rows)"
  shows "openTurns mok rows = map (turn_state mok rows) (filter (still_open mok rows) rows)"
  by (simp add: openTurns_def fold_open [OF assms] open_entries_def comp_def)

section \<open>The indexed reads\<close>

lemma columns_update:
  assumes "columns_agree mok n" and "ap_kind n = KTurn"
  shows "intent_at n [''turnId''] = SText i \<or> effect_at n [''turnId''] = SText i \<longleftrightarrow> updates mok n = Some i"
proof -
  have s: "{intent_at n [''turnId''], effect_at n [''turnId'']} - {SNull} =
      (case updates mok n of None \<Rightarrow> {} | Some i \<Rightarrow> {SText i})"
    using assms by (simp add: columns_agree_def)
  have "SText i \<in> {intent_at n [''turnId''], effect_at n [''turnId'']} - {SNull} \<longleftrightarrow> updates mok n = Some i"
    unfolding s by (auto split: option.splits)
  then show ?thesis by auto
qed

lemma updates_turn: "updates mok n = Some i \<Longrightarrow> ap_kind n = KTurn"
  by (cases "ap_kind n = KTurn") (simp_all add: turn_fact_def turnIntent_def turnResume_def turnCheckpoint_def turnTerminal_def)

lemma latestTurnUpdate_last:
  assumes "file_inv db" and "turns_ok mok (log_of sid db)"
  shows "latestTurnUpdate db sid i = last_update mok i (log_of sid db)"
proof -
  have "(ap_kind n = KTurn \<and> (intent_at n [''turnId''] = SText i \<or> effect_at n [''turnId''] = SText i)) = (updates mok n = Some i)"
    if "n \<in> set (log_of sid db)" for n
    using columns_update [of mok n i] updates_turn [of mok n i] assms(2) that by (auto simp: turns_ok_def list_all_iff)
  then show ?thesis
    unfolding latestTurnUpdate_def newest_def last_update_def rows_of_log [OF assms(1)] by (intro find_cong) auto
qed

lemma ends_column:
  assumes "columns_agree mok n"
  shows "is_turn_terminal n \<and> text_key (effect_at n [''turnId'']) = Some i \<longleftrightarrow> ends_turn mok i n"
proof (cases "turn_fact mok n")
  case (Ends t)
  then have u: "updates mok n = Some (tt_turnId t)" by simp
  have column: "is_turn_terminal n" "effect_at n [''turnId''] \<noteq> SNull" using assms Ends by (auto simp: columns_agree_def)
  have "{intent_at n [''turnId''], effect_at n [''turnId'']} - {SNull} = {SText (tt_turnId t)}"
    using assms updates_turn [OF u] u by (simp add: columns_agree_def)
  then have "effect_at n [''turnId''] = SText (tt_turnId t)" using column(2) by blast
  with column Ends show ?thesis by (simp add: ends_turn_def)
qed (use assms in \<open>simp_all add: columns_agree_def ends_turn_def\<close>)

definition open_intents :: "(plain \<Rightarrow> bool) \<Rightarrow> node list \<Rightarrow> node list" where
  "open_intents mok rows = filter (still_open mok rows) rows"

lemma openTurnsPage_log:
  assumes "file_inv db" and "turns_ok mok (log_of sid db)"
  shows "openTurnsPage db sid cursor 256 =
    Inr (take 256 (filter (\<lambda>n. nd_ordinal n > cursor) (open_intents mok (log_of sid db))))"
proof -
  let ?log = "log_of sid db"
  have c: "columns_agree mok n" if "n \<in> set ?log" for n using assms(2) that by (auto simp: turns_ok_def list_all_iff)
  have "is_turn_intent n \<and> nd_ordinal n > cursor \<and>
      Some (ap_id n) \<notin> set (map (\<lambda>n. text_key (effect_at n [''turnId''])) (filter is_turn_terminal ?log)) \<longleftrightarrow>
    still_open mok ?log n \<and> nd_ordinal n > cursor" if "n \<in> set ?log" for n
  proof -
    have "Some (ap_id n) \<in> set (map (\<lambda>n. text_key (effect_at n [''turnId''])) (filter is_turn_terminal ?log)) \<longleftrightarrow>
        (\<exists>m\<in>set ?log. is_turn_terminal m \<and> text_key (effect_at m [''turnId'']) = Some (ap_id n))"
      by (auto simp: image_iff eq_commute)
    also have "\<dots> \<longleftrightarrow> list_ex (ends_turn mok (ap_id n)) ?log" using ends_column [OF c] by (auto simp: list_ex_iff)
    finally show ?thesis using c [OF that] by (auto simp: still_open_def columns_agree_def)
  qed
  then have "filter (\<lambda>n. is_turn_intent n \<and> nd_ordinal n > cursor \<and>
      Some (ap_id n) \<notin> set (map (\<lambda>n. text_key (effect_at n [''turnId''])) (filter is_turn_terminal ?log))) ?log =
    filter (\<lambda>n. nd_ordinal n > cursor) (open_intents mok ?log)"
    unfolding open_intents_def filter_filter by (intro filter_cong refl) auto
  then show ?thesis by (simp add: openTurnsPage_def Let_def rows_of_log [OF assms(1)] page_of_def pageSize_def)
qed

lemma openTurns_pair:
  assumes "turns_ok mok rows" and "distinct (map ap_id rows)" and "a \<in> set (open_intents mok rows)"
  shows "openTurns mok (case last_update mok (ap_id a) rows of None \<Rightarrow> [a] | Some u \<Rightarrow> [a, u]) = [turn_state mok rows a]"
proof -
  from assms(3) obtain i where i: "turnIntent mok a = Some i" and a: "a \<in> set rows" "\<not> list_ex (ends_turn mok (ap_id a)) rows"
    by (auto simp: open_intents_def still_open_def opens_def)
  have f: "turn_fact mok a = Opens i" using i by (simp add: turn_fact_def)
  show ?thesis
  proof (cases "last_update mok (ap_id a) rows")
    case None
    then show ?thesis by (simp add: openTurns_def open_step_fact f turn_state_def i)
  next
    case (Some u)
    from last_update_Some [OF Some] have u: "u \<in> set rows" "updates mok u = Some (ap_id a)" by auto
    with a(2) have "\<not> ends_turn mok (ap_id a) u" by (auto simp: list_ex_iff)
    with u show ?thesis
      by (cases "turn_fact mok u")
        (simp_all add: openTurns_def open_step_fact f turn_state_def i Some put_if_open_def update_turn_def ends_turn_def)
  qed
qed

lemma openTurnsPageIn_log:
  assumes "file_inv db" and "turns_ok mok (log_of sid db)"
  shows "openTurnsPageIn mok db sid cursor 256 =
    Inr (map (turn_state mok (log_of sid db)) (take 256 (filter (\<lambda>n. nd_ordinal n > cursor) (open_intents mok (log_of sid db)))))"
proof -
  have dist: "distinct (map ap_id (log_of sid db))"
    unfolding log_of_def by (rule entries_distinct [OF file_invD(2) [OF assms(1)]])
  have "concat (map (\<lambda>a. openTurns mok (case latestTurnUpdate db sid (ap_id a) of None \<Rightarrow> [a] | Some u \<Rightarrow> [a, u])) as) =
      map (turn_state mok (log_of sid db)) as" if "set as \<subseteq> set (open_intents mok (log_of sid db))" for as
    using that by (induction as) (simp_all add: latestTurnUpdate_last [OF assms] openTurns_pair [OF assms(2) dist])
  moreover have "set (take 256 (filter (\<lambda>n. nd_ordinal n > cursor) (open_intents mok (log_of sid db)))) \<subseteq>
      set (open_intents mok (log_of sid db))" by (auto dest: in_set_takeD)
  ultimately show ?thesis by (simp add: openTurnsPageIn_def openTurnsPage_log [OF assms])
qed

definition last_opt :: "'a list \<Rightarrow> 'a option" where
  "last_opt xs = (if xs = [] then None else Some (last xs))"

text \<open>A strictly ascending list beyond its \<open>k\<close>-th element is its rest.\<close>

lemma ascending_beyond:
  fixes f :: "'a \<Rightarrow> int"
  assumes "sorted_wrt (<) (map f xs)" and "k < length xs"
  shows "filter (\<lambda>x. f x > f (xs ! k)) xs = drop (Suc k) xs"
  using assms
proof (induction xs arbitrary: k)
  case (Cons x xs)
  show ?case
  proof (cases k)
    case 0
    with Cons.prems(1) show ?thesis by (auto simp: filter_id_conv)
  next
    case (Suc j)
    with Cons.prems have j: "j < length xs" by simp
    with Cons.prems(1) have "f x < f (xs ! j)" by auto
    with Suc Cons.IH [OF _ j] Cons.prems(1) show ?thesis by simp
  qed
qed simp

lemma numbered_sorted: "numbered s rows \<Longrightarrow> sorted_wrt (<) (map nd_ordinal rows)"
proof (induction rows arbitrary: s)
  case (Cons n rows)
  note c = Cons.prems [unfolded numbered_Cons]
  then have "s + 1 < nd_ordinal x" if "x \<in> set rows" for x using numbered_ge [of "s + 1" rows x] that by simp
  with c Cons.IH [of "s + 1"] show ?case by simp
qed simp

lemma latestOpenTurn_loop_log:
  assumes "file_inv db" and "turns_ok mok (log_of sid db)" and "k \<le> length (open_intents mok (log_of sid db))"
    and "k = 0 \<longrightarrow> cursor = 0 \<and> latest = None"
    and "0 < k \<longrightarrow> cursor = nd_ordinal (open_intents mok (log_of sid db) ! (k - 1)) \<and>
      latest = Some (turn_state mok (log_of sid db) (open_intents mok (log_of sid db) ! (k - 1)))"
  shows "latestOpenTurn_loop mok db sid cursor latest =
    Some (Inr (last_opt (map (turn_state mok (log_of sid db)) (open_intents mok (log_of sid db)))))"
  using assms(3-5)
proof (induction "length (open_intents mok (log_of sid db)) - k" arbitrary: k cursor latest rule: less_induct)
  case less
  let ?log = "log_of sid db"
  define as where "as = open_intents mok ?log"
  define page where "page = take 256 (drop k as)"
  have num: "numbered 0 ?log" by (rule numbered_log [OF assms(1)])
  have sorted: "sorted_wrt (<) (map nd_ordinal as)"
    unfolding as_def open_intents_def using numbered_sorted [OF num] by (simp add: sorted_wrt_map sorted_wrt_filter)
  have sub: "set as \<subseteq> set ?log" by (auto simp: as_def open_intents_def)
  have "filter (\<lambda>n. nd_ordinal n > cursor) as = drop k as"
  proof (cases "k = 0")
    case True
    with less.prems numbered_ge [OF num] sub show ?thesis by (force simp: filter_id_conv)
  next
    case False
    with less.prems ascending_beyond [OF sorted, of "k - 1"] show ?thesis by (simp add: as_def)
  qed
  then have page: "openTurnsPageIn mok db sid cursor 256 = Inr (map (turn_state mok ?log) page)"
    using openTurnsPageIn_log [OF assms(1,2), of cursor] by (simp add: as_def page_def)
  show ?case
  proof (cases "page = []")
    case True
    then have "k = length as" using less.prems by (auto simp: page_def as_def)
    then have "latest = last_opt (map (turn_state mok ?log) as)"
      using less.prems by (auto simp: as_def last_opt_def last_map last_conv_nth)
    then show ?thesis
      by (simp add: latestOpenTurn_loop.simps [of mok db sid cursor] page True flip: as_def split: option.split)
  next
    case False
    let ?k = "k + length page"
    have k: "k < ?k" "?k \<le> length as" using False less.prems by (auto simp: page_def as_def)
    have l: "last page = as ! (?k - 1)"
      using False k by (simp add: last_conv_nth page_def nth_append)
    show ?thesis
    proof (cases "length page < 256")
      case True
      then have "?k = length as" using k by (auto simp: page_def)
      moreover from k have "as \<noteq> []" by auto
      ultimately have "last as = last page" "as \<noteq> []" using l by (simp_all add: last_conv_nth)
      with True False show ?thesis
        by (simp add: latestOpenTurn_loop.simps [of mok db sid cursor] page last_map last_opt_def flip: as_def)
    next
      case long: False
      have "as ! (?k - 1) \<in> set as" using k by (intro nth_mem) linarith
      then have m: "as ! (?k - 1) \<in> set ?log" "opens mok (as ! (?k - 1))" using sub by (auto simp: as_def open_intents_def still_open_def)
      then obtain i where "turnIntent mok (as ! (?k - 1)) = Some i" by (auto simp: opens_def)
      from turn_state_pins(1) [OF assms(2) m(1) this]
      have id: "ot_turnId (turn_state mok ?log (as ! (?k - 1))) = ap_id (as ! (?k - 1))" .
      have "actionById db (ap_id (as ! (?k - 1))) = Some (as ! (?k - 1))"
        unfolding actionById_def using m(1) by (intro find_keyed [OF file_invD(2) [OF assms(1)]]) (simp add: log_of_def)
      moreover have "latestOpenTurn_loop mok db sid (nd_ordinal (as ! (?k - 1))) (Some (turn_state mok ?log (as ! (?k - 1)))) =
          Some (Inr (last_opt (map (turn_state mok ?log) as)))"
      proof (rule less.hyps [of ?k, folded as_def])
        show "length as - ?k < length as - k" using k by linarith
      qed (use k in simp_all)
      ultimately show ?thesis using False long l id
        by (simp add: latestOpenTurn_loop.simps [of mok db sid cursor] page last_map flip: as_def)
    qed
  qed
qed

lemma latestOpenTurnIn_log:
  assumes "file_inv db" and "turns_ok mok (log_of sid db)"
  shows "latestOpenTurnIn mok db sid = Some (Inr (last_opt (openTurns mok (log_of sid db))))"
proof -
  have "distinct (map ap_id (log_of sid db))"
    unfolding log_of_def by (rule entries_distinct [OF file_invD(2) [OF assms(1)]])
  with openTurns_closed [OF assms(2)] latestOpenTurn_loop_log [OF assms, of 0 0 None] show ?thesis
    by (simp add: latestOpenTurnIn_def open_intents_def)
qed

end
