(* ===== verification/Turn_Properties.thy ===== *)
theory Turn_Properties
  imports Turn_Laws Inbox_Properties
begin

text \<open>
  The open turn of a session: the paged, indexed read against the fold over the log, for
  the rows the turn constructors write.
\<close>

section \<open>Rows of the constructors\<close>

lemma terminal_roundtrip:
  assumes "te_turnId i \<noteq> []" "te_resumeCount i \<ge> 0" "te_resumeCount i \<le> MAX_SAFE_INTEGER" "te_boundaryActionId i \<noteq> Some []"
    and "case te_result i of RunnerWaiting ids t \<Rightarrow> ids \<noteq> [] \<and> [] \<notin> set ids | _ \<Rightarrow> True"
  shows "turnTerminal (turnTerminalAction i) = Some
    \<lparr>tt_turnId = te_turnId i, tt_kind = result_end (te_result i),
     tt_live_wait = (case te_result i of RunnerWaiting ids t \<Rightarrow> True | _ \<Rightarrow> False),
     tt_alarmIds = (case te_result i of RunnerWaiting ids t \<Rightarrow> Some ids | _ \<Rightarrow> None),
     tt_text = result_text (te_result i), tt_boundaryActionId = te_boundaryActionId i, tt_resumeCount = te_resumeCount i\<rparr>"
proof -
  have e: "map_of end_table (end_text (result_end (te_result i))) = Some (result_end (te_result i))"
    by (cases "te_result i") (simp_all add: end_table_def)
  have n: "read_nullable read_id (null_or_str b) = Some b" if "b \<noteq> Some []" for b
    using that by (cases b) (simp_all add: null_or_str_def read_nullable_def read_id_def)
  show ?thesis
    using assms n [OF assms(4)] e
    by (cases "te_result i")
      (simp_all add: turnTerminalAction_def turn_row_def turnTerminal_def read_turn_terminal_def strict_def field_def optional_def
        literal_def decode_simps read_alarm_ids_def read_all_ids terminal_consistent_def Let_def)
qed

section \<open>Property\<close>

text \<open>
  C38. On any sound file whose turn rows agree with their decoded facts, the paged read of
  the open turn returns, and returns the last turn that a fold over the whole log leaves
  open, with the result, resume count, boundary and row of its latest update.
\<close>

theorem open_turn_is_the_folded_one:
  assumes "file_inv db" and "turns_ok message_ok (log_of sid db)"
  shows "latestOpenTurnIn message_ok db sid = Some (Inr (last_opt (openTurns message_ok (log_of sid db))))"
  using assms by (rule latestOpenTurnIn_log)

theorem open_turn_is_the_folded_one_witness:
  "map_option (\<lambda>r. case r of Inr (Some t) \<Rightarrow> (ot_turnId t, ot_resultId t, nd_ordinal (ot_action t)) | _ \<Rightarrow> ([], [], 0))
     (latestOpenTurnIn (\<lambda>_. True) demo_second ''s'') = Some (''t'', ''r'', 4)"
proof -
  have i: "file_inv demo_second" using inbox_invD(1) [OF history_inbox_inv [OF demo_inbox_history]] by (simp add: demo_inbox_def)
  have "turns_ok (\<lambda>_. True) (log_of ''s'' demo_second)" by code_simp
  from open_turn_is_the_folded_one [OF i this] have l: "latestOpenTurnIn (\<lambda>_. True) demo_second ''s'' =
      Some (Inr (last_opt (openTurns (\<lambda>_. True) (log_of ''s'' demo_second))))" .
  have "map_option (\<lambda>t. (ot_turnId t, ot_resultId t, nd_ordinal (ot_action t))) (last_opt (openTurns (\<lambda>_. True) (log_of ''s'' demo_second))) =
      Some (''t'', ''r'', 4)" by code_simp
  with l show ?thesis by (auto split: option.splits)
qed

end
