(* ===== verification/Gate_Types.thy ===== *)
theory Gate_Types
  imports Ledger
begin

text \<open>
  The vocabulary of the policy gate: the fixed hook points of
  \<^verbatim>\<open>packages/protocol/src/policy/point.ts\<close>, the row and decision contracts of
  \<^verbatim>\<open>policy/row.ts\<close> and \<^verbatim>\<open>policy/row-verdict.ts\<close>, the message rules of
  \<^verbatim>\<open>gateway/message.ts\<close>, and the records of \<^verbatim>\<open>packages/agent/src/core/gate/types.ts\<close>.  Point
  and handler names are the strings of the source.
\<close>

section \<open>Points\<close>

datatype point_do = DoGate | DoRewrite | DoEmit | DoObserve

datatype point_owner = OwnCore | OwnTool | OwnCompaction | OwnAlarm | OwnAction

record point_record =
  pt_id :: str
  pt_owner :: point_owner
  pt_allowedDo :: "point_do list"
  pt_rewritableFields :: "str list"
  pt_whenFields :: "str list"
  pt_end :: bool
  pt_rewriteOpen :: bool

definition CONTEXT_WHEN_FIELDS :: "str list" where
  "CONTEXT_WHEN_FIELDS = [''op'', ''operation'', ''role'', ''sessionId'']"

definition point :: "str \<Rightarrow> point_owner \<Rightarrow> point_do list \<Rightarrow> str list \<Rightarrow> str list \<Rightarrow> bool \<Rightarrow> bool \<Rightarrow> point_record" where
  "point i owner allowed rewritable whens atEnd opened =
     \<lparr>pt_id = i, pt_owner = owner, pt_allowedDo = allowed, pt_rewritableFields = rewritable,
      pt_whenFields = CONTEXT_WHEN_FIELDS @ filter (\<lambda>f. f \<notin> set CONTEXT_WHEN_FIELDS) whens,
      pt_end = atEnd, pt_rewriteOpen = opened\<rparr>"

definition POINT_IDS :: "str list" where
  "POINT_IDS = [''ingress.pre'', ''session.open'', ''prompt.pre'', ''turn.pre'', ''turn.post'', ''llm.pre'', ''llm.post'',
     ''message.pre'', ''tool.pre'', ''tool.post'', ''compaction.pre'', ''compaction.post'', ''alarm.fired'', ''action.pre'']"

definition CORE_POINT_RECORDS :: "point_record list" where
  "CORE_POINT_RECORDS =
     [point ''ingress.pre'' OwnCore [DoGate, DoRewrite, DoObserve] [''visibility''] [''kind'', ''channel'', ''actor'', ''grant''] False False,
      point ''session.open'' OwnCore [DoGate, DoEmit, DoObserve] [] [''generation''] False False,
      point ''prompt.pre'' OwnCore [DoGate, DoRewrite, DoEmit, DoObserve] [''body'', ''visibility''] [''kind'', ''origin'', ''delivery''] False False,
      point ''turn.pre'' OwnCore [DoGate, DoRewrite, DoEmit, DoObserve] [''budget''] [''kind''] False False,
      point ''turn.post'' OwnCore [DoGate, DoRewrite, DoObserve] [''budget'', ''stop'', ''result''] [''kind'', ''stopReason'', ''metric''] True False,
      point ''llm.pre'' OwnCore [DoGate, DoRewrite, DoEmit, DoObserve] [''messages'', ''model'', ''tools''] [''model''] False False,
      point ''llm.post'' OwnCore [DoGate, DoRewrite, DoEmit, DoObserve] [''finishReason'', ''classify''] [''finishReason'', ''classify''] False False,
      point ''message.pre'' OwnCore [DoGate, DoRewrite, DoObserve] [''body'', ''to''] [''to'', ''kind''] False False]"

definition CAPABILITY_POINT_RECORDS :: "point_record list" where
  "CAPABILITY_POINT_RECORDS =
     [point ''tool.pre'' OwnTool [DoGate, DoRewrite, DoEmit, DoObserve] [''input''] [''op'', ''argsPattern'', ''annotations''] False True,
      point ''tool.post'' OwnTool [DoGate, DoRewrite, DoEmit, DoObserve] [''output''] [''op'', ''status''] False True,
      point ''compaction.pre'' OwnCompaction [DoGate, DoRewrite, DoEmit, DoObserve] [''summary''] [''reason''] False False,
      point ''compaction.post'' OwnCompaction [DoEmit, DoObserve] [] [] False False,
      point ''alarm.fired'' OwnAlarm [DoEmit, DoObserve] [] [''tag'', ''payloadPath''] False False,
      point ''action.pre'' OwnAction [DoGate, DoRewrite, DoObserve] [''body'', ''delivery''] [''handlerRef'', ''source''] False False]"

datatype emit_kind = EmitMessage | EmitAlarm | EmitCompaction

definition EMIT_KINDS :: "(str \<times> emit_kind) list" where
  "EMIT_KINDS = [(''message'', EmitMessage), (''alarm'', EmitAlarm), (''compaction'', EmitCompaction)]"

section \<open>Rows and decisions\<close>

datatype gate_verdict = Allow | Deny | RequireApproval

record gate_how =
  hw_ref :: "str option"
  hw_requires :: "str list option"
  hw_verdict :: "gate_verdict option"
  hw_emit :: "str option"
  hw_intent :: "plain option"
  hw_fields :: "str list option"
  hw_metric :: "str option"
  hw_limit :: "int option"
  hw_params :: "plain option"

definition no_how :: gate_how where
  "no_how = \<lparr>hw_ref = None, hw_requires = None, hw_verdict = None, hw_emit = None, hw_intent = None,
     hw_fields = None, hw_metric = None, hw_limit = None, hw_params = None\<rparr>"

type_synonym conditions = "(str \<times> plain) list"

record gate_row =
  gr_id :: str
  gr_on :: str
  gr_when :: conditions
  gr_do :: point_do
  gr_how :: gate_how
  gr_order :: int
  gr_generation :: int

record gate_consulted =
  gc_ref :: str
  gc_digest :: str
  gc_payload :: plain

record gate_annotation =
  ga_rowId :: str
  ga_ref :: str
  ga_payload :: plain

record gate_fact =
  gf_rowId :: str
  gf_ref :: str
  gf_code :: str

record gate_decision =
  gd_point :: str
  gd_verdict :: gate_verdict
  gd_rowIds :: "str list"
  gd_obligations :: "(str \<times> int) list"
  gd_consulted :: "gate_consulted list"
  gd_annotations :: "gate_annotation list"
  gd_facts :: "gate_fact list"
  gd_output :: plain
  gd_inputHash :: str
  gd_generation :: int

definition emittedRowKey :: "(str \<Rightarrow> str) \<Rightarrow> str \<Rightarrow> str \<Rightarrow> nat \<Rightarrow> str" where
  "emittedRowKey sha inputHash rowId index =
     canonicalDigest sha (PArr [PStr inputHash, PStr rowId, PNum (NInt (int index))])"

section \<open>Stored policy rows\<close>

datatype row_verdict =
    VAllow "str option" "str list option" "plain list option"
  | VDeny "str option"
  | VRequireApproval str
  | VTransform str "plain option"
  | VObligation str str int
  | VConsult str "plain option" bool bool

datatype phase = Pre | Post

fun phase_text :: "phase \<Rightarrow> str" where
  "phase_text Pre = ''pre''"
| "phase_text Post = ''post''"

record policy_row =
  pl_name :: str
  pl_kind :: str
  pl_phase :: phase
  pl_match :: plain
  pl_verdict :: plain
  pl_priority :: int
  pl_generation :: int

section \<open>Message rules\<close>

datatype addressee = ToBot | ToOwner | Ambient
datatype target_kind = TSession | TNewSession | TActor | TOrigin
datatype message_type = MMessage | MInterrupt | MResume
datatype trust_tier = TierOwner | TierCoOwner | TierManager | TierCollaborator | TierObserver | TierAssignedWorker

datatype table_a_check = CheckIdentity | CheckGrantTier | CheckEgressBudget | CheckEventIdDedupe | CheckReplyCorrelation

datatype table_b_check =
    BParentChild | BFanout int | BDepth int | BDeadline | BType | BActorSend | BIdentity | BConsent | BReplyAuto

record rule_table_a =
  ra_id :: str
  ra_allows :: bool
  ra_senderTier :: "trust_tier option"
  ra_addressee :: "addressee option"
  ra_check :: table_a_check

record rule_table_b =
  rb_id :: str
  rb_allows :: bool
  rb_senderRole :: role
  rb_targetKind :: "target_kind option"
  rb_targetRole :: "role option"
  rb_type :: "message_type option"
  rb_check :: table_b_check

datatype message_rule = TableA rule_table_a | TableB rule_table_b

record external_context =
  xc_senderTier :: "trust_tier option"
  xc_addressee :: addressee
  xc_identity :: bool
  xc_grantTier :: bool
  xc_egressBudget :: bool
  xc_eventIdUnique :: bool
  xc_replyCorrelation :: bool

record session_context =
  sc_senderRole :: role
  sc_targetKind :: target_kind
  sc_targetRole :: "role option"
  sc_type :: message_type
  sc_parentChild :: bool
  sc_fanout :: int
  sc_depth :: int
  sc_withinParentDeadline :: bool
  sc_actorSendAllowed :: "bool option"
  sc_identityGranted :: "bool option"
  sc_replyAutoAllowed :: "bool option"
  sc_consentGranted :: "bool option"

datatype message_context = External external_context | FromSession session_context

record row_match =
  mx_op :: "str option"
  mx_operation :: "str option"
  mx_role :: "role option"
  mx_sessionId :: "str option"
  mx_message :: "message_rule option"

record compiled_row =
  cr_name :: str
  cr_kind :: str
  cr_phase :: phase
  cr_priority :: int
  cr_match :: row_match
  cr_verdict :: row_verdict

section \<open>Handlers\<close>

record handler_result =
  hr_verdict :: "gate_verdict option"
  hr_value :: "plain option"
  hr_payload :: "plain option"

text \<open>What a call of a handler comes to: a result, an undeclared service, or another throw.\<close>

datatype handler_outcome = Answered handler_result | Escaped str | HandlerThrew

text \<open>
  A transformer is a function of the value and its parameters that may throw; a guard is
  foreign code \<^typ>\<open>'g\<close>, called through the parameter \<open>call\<close> of the definitions below
  with the value, the row's parameters, the conditions and the services it may resolve.
\<close>

datatype 'g gate_handler = Transformer str "plain \<Rightarrow> plain \<Rightarrow> plain option" | Guard 'g

type_synonym 'g caller =
  "'g \<Rightarrow> plain \<Rightarrow> plain \<Rightarrow> conditions \<Rightarrow> (str \<Rightarrow> 'g gate_handler option) \<Rightarrow> handler_outcome"

record ('g, 'c) handler_table =
  ht_transformers :: "(str \<times> (plain \<Rightarrow> plain \<Rightarrow> plain option)) list"
  ht_obligations :: "str list"
  ht_consultants :: "(str \<times> 'c) list"
  ht_guards :: "(str \<times> 'g) list"

record 'x compiled_entry =
  ce_row :: gate_row
  ce_emit :: "emit_kind option"
  ce_matcher :: "('x option \<Rightarrow> bool) option"
  ce_policy :: "compiled_row option"

type_synonym point_table = "(str \<times> point_record) list"

record ('g, 'c, 'x) snapshot =
  sp_generation :: int
  sp_contentHash :: str
  sp_pointTable :: point_table
  sp_byPoint :: "(str \<times> 'x compiled_entry list) list"
  sp_rowById :: "(str \<times> compiled_row) list"
  sp_handlers :: "(str \<times> 'g gate_handler) list"
  sp_consultants :: "(str \<times> 'c) list"

record 'x point_input =
  pi_point :: str
  pi_when :: conditions
  pi_value :: plain
  pi_context :: "'x option"
  pi_message :: "message_context option"

record gate_emission =
  em_key :: str
  em_kind :: emit_kind
  em_rowId :: str
  em_intent :: plain

record pending_consult =
  pc_point :: str
  pc_rowId :: str
  pc_ref :: str
  pc_params :: plain
  pc_value :: plain

record gate_outcome =
  go_decision :: gate_decision
  go_value :: plain
  go_emissions :: "gate_emission list"
  go_replayed :: bool
  go_pending :: "pending_consult option"

record 'g evaluation_options =
  eo_handlers :: "(str \<Rightarrow> 'g gate_handler option) option"
  eo_recorded :: "gate_decision option"
  eo_prepared :: "(str \<times> handler_result) list"
  eo_pendingAsync :: "str list option"
  eo_inputHash :: "str option"

definition no_options :: "'g evaluation_options" where
  "no_options = \<lparr>eo_handlers = None, eo_recorded = None, eo_prepared = [], eo_pendingAsync = None, eo_inputHash = None\<rparr>"

record fold_state =
  fs_verdict :: gate_verdict
  fs_rowIds :: "str list"
  fs_obligations :: "(str \<times> int) list"
  fs_consulted :: "gate_consulted list"
  fs_annotations :: "gate_annotation list"
  fs_facts :: "gate_fact list"
  fs_value :: plain
  fs_emissions :: "gate_emission list"

record policy_input =
  in_kind :: str
  in_phase :: phase
  in_op :: "str option"
  in_role :: "role option"
  in_sessionId :: "str option"
  in_message :: "message_context option"
  in_value :: plain
  in_recorded :: "gate_decision option"

datatype effective_verdict = EAllow | EDeny | ERequireApproval | ETransform | EObligation

record policy_evaluation =
  ev_generation :: int
  ev_snapshotHash :: str
  ev_inputHash :: str
  ev_matchedRuleIds :: "str list"
  ev_transforms :: "(str \<times> str) list"
  ev_ref :: "str option"
  ev_verdict :: effective_verdict
  ev_reason :: "str option"
  ev_value :: plain
  ev_effects :: "plain list"
  ev_obligations :: "(str \<times> str \<times> int) list"
  ev_gate :: "gate_decision option"
  ev_replayed :: "bool option"
  ev_pending :: "pending_consult option"

end
