(* ===== verification/Gate.thy ===== *)
theory Gate
  imports Gate_Types
begin

text \<open>
  Evaluation of a compiled policy snapshot: \<^verbatim>\<open>packages/agent/src/core/gate/evaluate.ts\<close>.
  A handler's throw out of a gate row propagates, as the value \<open>Inl\<close>; the
  folded state is threaded through the rows.
\<close>

section \<open>Message rules\<close>

fun table_a_fact :: "table_a_check \<Rightarrow> external_context \<Rightarrow> bool" where
  "table_a_fact CheckIdentity c = xc_identity c"
| "table_a_fact CheckGrantTier c = xc_grantTier c"
| "table_a_fact CheckEgressBudget c = xc_egressBudget c"
| "table_a_fact CheckEventIdDedupe c = xc_eventIdUnique c"
| "table_a_fact CheckReplyCorrelation c = xc_replyCorrelation c"

fun matchesExternal :: "rule_table_a \<Rightarrow> message_context \<Rightarrow> bool" where
  "matchesExternal r (FromSession c) = False"
| "matchesExternal r (External c) =
     (if ra_senderTier r \<noteq> None \<and> ra_senderTier r \<noteq> xc_senderTier c then False
      else if ra_addressee r \<noteq> None \<and> ra_addressee r \<noteq> Some (xc_addressee c) then False
      else table_a_fact (ra_check r) c = ra_allows r)"

fun sessionCheck :: "table_b_check \<Rightarrow> session_context \<Rightarrow> bool" where
  "sessionCheck BParentChild c = sc_parentChild c"
| "sessionCheck (BFanout mx) c = (sc_fanout c < mx)"
| "sessionCheck (BDepth mx) c = (sc_depth c \<le> mx)"
| "sessionCheck BDeadline c = sc_withinParentDeadline c"
| "sessionCheck BActorSend c = (sc_actorSendAllowed c = Some True)"
| "sessionCheck BIdentity c = (sc_identityGranted c = Some True)"
| "sessionCheck BReplyAuto c = (sc_replyAutoAllowed c = Some True)"
| "sessionCheck BConsent c = (sc_consentGranted c = Some True)"
| "sessionCheck BType c = True"

fun matchesSession :: "rule_table_b \<Rightarrow> message_context \<Rightarrow> bool" where
  "matchesSession r (External c) = False"
| "matchesSession r (FromSession c) =
     (if rb_senderRole r \<noteq> sc_senderRole c then False
      else if rb_targetKind r \<noteq> None \<and> rb_targetKind r \<noteq> Some (sc_targetKind c) then False
      else if rb_targetRole r \<noteq> None \<and> rb_targetRole r \<noteq> sc_targetRole c then False
      else if rb_type r \<noteq> None \<and> rb_type r \<noteq> Some (sc_type c) then False
      else if rb_check r = BType then True
      else sessionCheck (rb_check r) c = rb_allows r)"

fun matchesMessage :: "message_rule \<Rightarrow> message_context option \<Rightarrow> bool" where
  "matchesMessage r None = False"
| "matchesMessage (TableA r) (Some c) = matchesExternal r c"
| "matchesMessage (TableB r) (Some c) = matchesSession r c"

section \<open>Folding rows\<close>

definition foldVerdict :: "gate_verdict \<Rightarrow> gate_verdict \<Rightarrow> gate_verdict" where
  "foldVerdict folded next =
     (if folded = Deny \<or> next = Deny then Deny
      else if folded = RequireApproval \<or> next = RequireApproval then RequireApproval
      else Allow)"

definition rewrite_field :: "(str \<times> plain) list \<Rightarrow> str \<Rightarrow> (str \<times> plain) list \<Rightarrow> (str \<times> plain) list" where
  "rewrite_field source f out = (case map_of source f of None \<Rightarrow> del f out | Some v \<Rightarrow> put f v out)"

definition applyRewrite :: "plain \<Rightarrow> str list \<Rightarrow> plain \<Rightarrow> plain" where
  "applyRewrite prior fs output =
     (case object_value prior of
        None \<Rightarrow> prior
      | Some base \<Rightarrow> PObj (fold (rewrite_field (or_else (object_value output) [])) fs base))"

definition initialFoldState :: "plain \<Rightarrow> fold_state" where
  "initialFoldState v =
     \<lparr>fs_verdict = Allow, fs_rowIds = [], fs_obligations = [], fs_consulted = [], fs_annotations = [],
      fs_facts = [], fs_value = v, fs_emissions = []\<rparr>"

definition push_fact :: "str \<Rightarrow> str \<Rightarrow> str \<Rightarrow> fold_state \<Rightarrow> fold_state" where
  "push_fact rowId ref code s = s\<lparr>fs_facts := fs_facts s @ [\<lparr>gf_rowId = rowId, gf_ref = ref, gf_code = code\<rparr>]\<rparr>"

definition fold_in :: "gate_verdict \<Rightarrow> fold_state \<Rightarrow> fold_state" where
  "fold_in v s = s\<lparr>fs_verdict := foldVerdict (fs_verdict s) v\<rparr>"

fun call_handler ::
  "(str \<Rightarrow> str) \<Rightarrow> 'g caller \<Rightarrow> 'g gate_handler \<Rightarrow> plain \<Rightarrow> plain \<Rightarrow> conditions \<Rightarrow> (str \<Rightarrow> 'g gate_handler option)
    \<Rightarrow> handler_outcome" where
  "call_handler sha call (Transformer name app) v params whens service =
     (case app v params of
        None \<Rightarrow> HandlerThrew
      | Some out \<Rightarrow> Answered \<lparr>hr_verdict = None, hr_value = Some out,
          hr_payload = Some (PObj [(''ref'', PStr name), (''output'', PStr (canonicalDigest sha out))])\<rparr>)"
| "call_handler sha call (Guard g) v params whens service = call g v params whens service"

definition invokeGuarded ::
  "(str \<Rightarrow> str) \<Rightarrow> 'g caller \<Rightarrow> gate_row \<Rightarrow> 'g gate_handler \<Rightarrow> plain \<Rightarrow> (str \<Rightarrow> 'g gate_handler option) \<Rightarrow> conditions
    \<Rightarrow> handler_outcome" where
  "invokeGuarded sha call row h v handlers whens =
     call_handler sha call h v (or_else (hw_params (gr_how row)) PNull) whens
       (\<lambda>requested.
          if hw_ref (gr_how row) = Some requested \<or> requested \<in> set (or_else (hw_requires (gr_how row)) [])
          then handlers requested else None)"

definition record_observation :: "str \<Rightarrow> str \<Rightarrow> plain option \<Rightarrow> fold_state \<Rightarrow> fold_state" where
  "record_observation rowId ref payload s =
     (case payload of
        None \<Rightarrow> push_fact rowId ref ''unrecorded_response'' s
      | Some p \<Rightarrow> s\<lparr>fs_annotations := fs_annotations s @ [\<lparr>ga_rowId = rowId, ga_ref = ref, ga_payload = p\<rparr>]\<rparr>)"

definition observeRow ::
  "(str \<Rightarrow> str) \<Rightarrow> 'g caller \<Rightarrow> gate_row \<Rightarrow> (str \<Rightarrow> 'g gate_handler option) \<Rightarrow> conditions \<Rightarrow> (str \<times> handler_result) list
    \<Rightarrow> fold_state \<Rightarrow> fold_state" where
  "observeRow sha call row handlers whens prepared s =
     (case hw_ref (gr_how row) of
        None \<Rightarrow> s
      | Some ref \<Rightarrow>
          (case map_of prepared (gr_id row) of
             Some r \<Rightarrow> record_observation (gr_id row) ref (hr_payload r) s
           | None \<Rightarrow>
               (case handlers ref of
                  None \<Rightarrow> push_fact (gr_id row) ref ''handler_unavailable'' s
                | Some h \<Rightarrow>
                    (case invokeGuarded sha call row h (fs_value s) handlers whens of
                       Escaped e \<Rightarrow> push_fact (gr_id row) e ''requirement_escape'' s
                     | HandlerThrew \<Rightarrow> push_fact (gr_id row) ref ''observer_failed'' s
                     | Answered r \<Rightarrow> record_observation (gr_id row) ref (hr_payload r) s))))"

text \<open>The part of \<^verbatim>\<open>consultRow\<close> after a response: \<open>consulted\<close> when it was prepared.\<close>

definition consultAnswer ::
  "(str \<Rightarrow> str) \<Rightarrow> gate_row \<Rightarrow> str \<Rightarrow> bool \<Rightarrow> handler_result \<Rightarrow> fold_state \<Rightarrow> fold_state" where
  "consultAnswer sha row ref consulted r s =
     (case hr_payload r of
        None \<Rightarrow> push_fact (gr_id row) ref ''unrecorded_response'' s
      | Some p \<Rightarrow>
          let s1 = s\<lparr>fs_consulted := fs_consulted s @ [\<lparr>gc_ref = ref, gc_digest = canonicalDigest sha p, gc_payload = p\<rparr>]\<rparr> in
          if gr_do row = DoRewrite then
            let fs = or_else (hw_fields (gr_how row)) [];
                output = object_value (or_else (hr_value r) PNull) in
            if consulted \<and> (case output of None \<Rightarrow> True | Some o' \<Rightarrow> \<exists>k\<in>set (map fst o'). k \<notin> set fs)
            then fold_in Deny (push_fact (gr_id row) ref ''incompatible_response'' s1)
            else s1\<lparr>fs_value := applyRewrite (fs_value s1) fs (or_else (hr_value r) PNull)\<rparr>
          else (case hr_verdict r of
              None \<Rightarrow> fold_in Deny (push_fact (gr_id row) ref ''incompatible_response'' s1)
            | Some v \<Rightarrow> fold_in v s1))"

definition consultRow ::
  "(str \<Rightarrow> str) \<Rightarrow> 'g caller \<Rightarrow> gate_row \<Rightarrow> str \<Rightarrow> (str \<Rightarrow> 'g gate_handler option) \<Rightarrow> conditions
    \<Rightarrow> (str \<times> handler_result) list \<Rightarrow> fold_state \<Rightarrow> unit + fold_state" where
  "consultRow sha call row ref handlers whens prepared s =
     (case map_of prepared (gr_id row) of
        Some r \<Rightarrow> Inr (consultAnswer sha row ref True r s)
      | None \<Rightarrow>
          (case handlers ref of
             None \<Rightarrow> Inr (fold_in Deny (push_fact (gr_id row) ref ''handler_unavailable'' s))
           | Some h \<Rightarrow>
               (case invokeGuarded sha call row h (fs_value s) handlers whens of
                  HandlerThrew \<Rightarrow> Inl ()
                | Escaped e \<Rightarrow> Inr (fold_in Deny (push_fact (gr_id row) e ''requirement_escape'' s))
                | Answered r \<Rightarrow> Inr (consultAnswer sha row ref False r s))))"

definition push_obligation :: "gate_how \<Rightarrow> fold_state \<Rightarrow> fold_state" where
  "push_obligation how s =
     (case (hw_metric how, hw_limit how) of
        (Some metric, Some limit) \<Rightarrow> s\<lparr>fs_obligations := fs_obligations s @ [(metric, limit)]\<rparr>
      | _ \<Rightarrow> s)"

definition applyRow ::
  "(str \<Rightarrow> str) \<Rightarrow> 'g caller \<Rightarrow> gate_row \<Rightarrow> emit_kind option \<Rightarrow> str \<Rightarrow> (str \<Rightarrow> 'g gate_handler option) \<Rightarrow> conditions
    \<Rightarrow> (str \<times> handler_result) list \<Rightarrow> fold_state \<Rightarrow> unit + fold_state" where
  "applyRow sha call row emit inputHash handlers whens prepared s0 =
     (let s = s0\<lparr>fs_rowIds := fs_rowIds s0 @ [gr_id row]\<rparr>; how = gr_how row in
      if gr_do row = DoObserve then Inr (observeRow sha call row handlers whens prepared s)
      else
        let s1 = push_obligation how s in
        case emit of
          Some k \<Rightarrow>
            Inr (s1\<lparr>fs_emissions := fs_emissions s1 @
              [\<lparr>em_key = emittedRowKey sha inputHash (gr_id row) (length (fs_emissions s1)), em_kind = k,
                em_rowId = gr_id row, em_intent = or_else (hw_intent how) PNull\<rparr>]\<rparr>)
        | None \<Rightarrow>
            (case hw_verdict how of
               Some v \<Rightarrow> Inr (fold_in v s1)
             | None \<Rightarrow>
                 (case hw_ref how of
                    None \<Rightarrow> Inr s1
                  | Some ref \<Rightarrow> consultRow sha call row ref handlers whens prepared s1)))"

section \<open>Deciding a point\<close>

definition entry_matches :: "(str \<Rightarrow> str) \<Rightarrow> 'x compiled_entry \<Rightarrow> 'x point_input \<Rightarrow> bool" where
  "entry_matches sha e i \<longleftrightarrow>
     list_all (\<lambda>(field, expected).
       canonicalDigest sha (or_else (map_of (pi_when i) field) PNull) = canonicalDigest sha expected) (gr_when (ce_row e)) \<and>
     (case ce_policy e of
        None \<Rightarrow> True
      | Some p \<Rightarrow> (case mx_message (cr_match p) of None \<Rightarrow> True | Some r \<Rightarrow> matchesMessage r (pi_message i))) \<and>
     (case ce_matcher e of None \<Rightarrow> True | Some m \<Rightarrow> m (pi_context i))"

definition context_free :: "'x compiled_entry \<Rightarrow> bool" where
  "context_free e \<longleftrightarrow> ce_matcher e = None \<and>
     (case ce_policy e of None \<Rightarrow> True | Some p \<Rightarrow> mx_message (cr_match p) = None)"

definition replays ::
  "(str \<Rightarrow> str) \<Rightarrow> int \<Rightarrow> 'x point_input \<Rightarrow> 'x compiled_entry list \<Rightarrow> str \<Rightarrow> gate_decision \<Rightarrow> bool" where
  "replays sha generation i entries inputHash recorded \<longleftrightarrow>
     gd_generation recorded = generation \<and> gd_point recorded = pi_point i \<and> gd_inputHash recorded = inputHash \<and>
     list_all (\<lambda>e. context_free e \<or> entry_matches sha e i = (gr_id (ce_row e) \<in> set (gd_rowIds recorded))) entries"

definition awaitedConsultRef :: "'x compiled_entry \<Rightarrow> str list option \<Rightarrow> (str \<times> handler_result) list \<Rightarrow> str option" where
  "awaitedConsultRef e pendingAsync prepared =
     (case (pendingAsync, hw_ref (gr_how (ce_row e))) of
        (Some pend, Some ref) \<Rightarrow>
          if ce_emit e = None \<and> hw_verdict (gr_how (ce_row e)) = None \<and> ref \<in> set pend \<and>
             map_of prepared (gr_id (ce_row e)) = None
          then Some ref else None
      | _ \<Rightarrow> None)"

definition decisionOf :: "str \<Rightarrow> str \<Rightarrow> int \<Rightarrow> fold_state \<Rightarrow> gate_decision" where
  "decisionOf p inputHash generation s =
     \<lparr>gd_point = p, gd_verdict = fs_verdict s, gd_rowIds = fs_rowIds s, gd_obligations = fs_obligations s,
      gd_consulted = fs_consulted s, gd_annotations = fs_annotations s, gd_facts = fs_facts s,
      gd_output = fs_value s, gd_inputHash = inputHash, gd_generation = generation\<rparr>"

text \<open>The loop over the entries: the final state, and the consultation it stopped for.\<close>

fun foldEntries ::
  "(str \<Rightarrow> str) \<Rightarrow> 'g caller \<Rightarrow> 'x point_input \<Rightarrow> str \<Rightarrow> (str \<Rightarrow> 'g gate_handler option) \<Rightarrow> 'g evaluation_options
    \<Rightarrow> 'x compiled_entry list \<Rightarrow> fold_state \<Rightarrow> unit + fold_state \<times> pending_consult option" where
  "foldEntries sha call i inputHash handlers opts [] s = Inr (s, None)"
| "foldEntries sha call i inputHash handlers opts (e # es) s =
     (if \<not> entry_matches sha e i then foldEntries sha call i inputHash handlers opts es s
      else case awaitedConsultRef e (eo_pendingAsync opts) (eo_prepared opts) of
        Some ref \<Rightarrow>
          Inr (s, Some \<lparr>pc_point = pi_point i, pc_rowId = gr_id (ce_row e), pc_ref = ref,
                        pc_params = or_else (hw_params (gr_how (ce_row e))) PNull, pc_value = fs_value s\<rparr>)
      | None \<Rightarrow>
          and_then (applyRow sha call (ce_row e) (ce_emit e) inputHash handlers (pi_when i) (eo_prepared opts) s)
            (foldEntries sha call i inputHash handlers opts es))"

definition point_identity :: "str \<Rightarrow> conditions \<Rightarrow> plain \<Rightarrow> plain" where
  "point_identity p whens v = PObj [(''point'', PStr p), (''when'', PObj whens), (''value'', v)]"

definition decide ::
  "(str \<Rightarrow> str) \<Rightarrow> 'g caller \<Rightarrow> ('g, 'c, 'x) snapshot \<Rightarrow> 'x point_input \<Rightarrow> 'g evaluation_options \<Rightarrow> unit + gate_outcome" where
  "decide sha call sp i opts =
     (let inputHash = or_else (eo_inputHash opts) (canonicalDigest sha (point_identity (pi_point i) (pi_when i) (pi_value i)));
          entries = or_else (map_of (sp_byPoint sp) (pi_point i)) [];
          handlers = or_else (eo_handlers opts) (map_of (sp_handlers sp)) in
      case eo_recorded opts of
        Some recorded \<Rightarrow>
          if replays sha (sp_generation sp) i entries inputHash recorded
          then Inr \<lparr>go_decision = recorded, go_value = gd_output recorded, go_emissions = [], go_replayed = True, go_pending = None\<rparr>
          else and_then (foldEntries sha call i inputHash handlers opts entries (initialFoldState (pi_value i))) (\<lambda>(s, pending).
            Inr \<lparr>go_decision = decisionOf (pi_point i) inputHash (sp_generation sp) s, go_value = fs_value s,
                 go_emissions = fs_emissions s, go_replayed = False, go_pending = pending\<rparr>)
      | None \<Rightarrow>
          and_then (foldEntries sha call i inputHash handlers opts entries (initialFoldState (pi_value i))) (\<lambda>(s, pending).
            Inr \<lparr>go_decision = decisionOf (pi_point i) inputHash (sp_generation sp) s, go_value = fs_value s,
                 go_emissions = fs_emissions s, go_replayed = False, go_pending = pending\<rparr>))"

section \<open>Evaluating policy input\<close>

definition policyPoint :: "str \<Rightarrow> phase \<Rightarrow> str option" where
  "policyPoint kind ph =
     (let i = (if kind = ''session.configure'' \<and> ph = Pre then ''session.open''
               else if kind = ''alarm.fired'' \<and> ph = Post then ''alarm.fired''
               else kind @ ''.'' @ phase_text ph)
      in if i \<in> set POINT_IDS then Some i else None)"

definition innerOperation :: "plain \<Rightarrow> str option" where
  "innerOperation v =
     (case plain_get v ''operation'' of
        None \<Rightarrow> None
      | Some operation \<Rightarrow> (case plain_get operation ''op'' of Some (PStr s) \<Rightarrow> Some s | _ \<Rightarrow> None))"

fun role_text :: "role \<Rightarrow> str" where
  "role_text Resident = ''resident''"
| "role_text Child = ''child''"

text \<open>\<^verbatim>\<open>if (v !== undefined) when.k = f(v)\<close>.\<close>

definition given :: "str \<Rightarrow> ('a \<Rightarrow> plain) \<Rightarrow> 'a option \<Rightarrow> conditions" where
  "given k f v = (case v of None \<Rightarrow> [] | Some x \<Rightarrow> [(k, f x)])"

definition projectedWhenOf :: "policy_input \<Rightarrow> conditions" where
  "projectedWhenOf i =
     given ''op'' PStr (in_op i) @ given ''operation'' PStr (innerOperation (in_value i)) @
     given ''role'' (PStr \<circ> role_text) (in_role i) @ given ''sessionId'' PStr (in_sessionId i)"

definition projectedReason :: "gate_verdict \<Rightarrow> compiled_row list \<Rightarrow> str option" where
  "projectedReason v matched =
     (case filter (\<lambda>r. r \<noteq> None) (map (\<lambda>row.
          case (cr_verdict row, v) of
            (VDeny reason, Deny) \<Rightarrow> Some (or_else reason ''denied'')
          | (VRequireApproval reason, RequireApproval) \<Rightarrow> Some reason
          | (VAllow reason codes effects, Allow) \<Rightarrow>
              (case reason of Some r \<Rightarrow> Some r
               | None \<Rightarrow> (case codes of Some (c # cs) \<Rightarrow> Some c | _ \<Rightarrow> None))
          | _ \<Rightarrow> None) matched) of
        [] \<Rightarrow> None
      | r # _ \<Rightarrow> r)"

fun consulted_reason_of :: "gate_consulted list \<Rightarrow> str option" where
  "consulted_reason_of [] = None"
| "consulted_reason_of (c # cs) =
     (case plain_get (gc_payload c) ''reason'' of
        Some (PStr r) \<Rightarrow> if r \<noteq> [] then Some r else consulted_reason_of cs
      | _ \<Rightarrow> consulted_reason_of cs)"

definition consultedReason :: "gate_decision \<Rightarrow> str option" where
  "consultedReason d =
     (case consulted_reason_of (gd_consulted d) of
        Some r \<Rightarrow> Some r
      | None \<Rightarrow>
          if gd_verdict d = Deny then (case gd_facts d of [] \<Rightarrow> None | f # _ \<Rightarrow> Some (gf_code f)) else None)"

definition matched_rows :: "('g, 'c, 'x) snapshot \<Rightarrow> gate_decision \<Rightarrow> compiled_row list" where
  "matched_rows sp d = List.map_filter (map_of (sp_rowById sp)) (gd_rowIds d)"

definition refused_evaluation :: "('g, 'c, 'x) snapshot \<Rightarrow> str \<Rightarrow> plain \<Rightarrow> str \<Rightarrow> policy_evaluation" where
  "refused_evaluation sp inputHash v reason =
     \<lparr>ev_generation = sp_generation sp, ev_snapshotHash = sp_contentHash sp, ev_inputHash = inputHash,
      ev_matchedRuleIds = [], ev_transforms = [], ev_ref = None, ev_verdict = EDeny, ev_reason = Some reason,
      ev_value = v, ev_effects = [], ev_obligations = [], ev_gate = None, ev_replayed = None, ev_pending = None\<rparr>"

fun effective :: "gate_verdict \<Rightarrow> (str \<times> str) list \<Rightarrow> (str \<times> str \<times> int) list \<Rightarrow> effective_verdict" where
  "effective Deny ts os = EDeny"
| "effective RequireApproval ts os = ERequireApproval"
| "effective Allow ts os = (if ts \<noteq> [] then ETransform else if os \<noteq> [] then EObligation else EAllow)"

definition row_transforms :: "compiled_row list \<Rightarrow> (str \<times> str) list" where
  "row_transforms rows = List.map_filter (\<lambda>r. case cr_verdict r of VTransform ref _ \<Rightarrow> Some (cr_name r, ref) | _ \<Rightarrow> None) rows"

definition row_obligations :: "compiled_row list \<Rightarrow> (str \<times> str \<times> int) list" where
  "row_obligations rows =
     List.map_filter (\<lambda>r. case cr_verdict r of VObligation ref metric limit \<Rightarrow> Some (ref, metric, limit) | _ \<Rightarrow> None) rows"

definition row_effects :: "compiled_row list \<Rightarrow> plain list" where
  "row_effects rows =
     concat (map (\<lambda>r. case cr_verdict r of VAllow _ _ effects \<Rightarrow> or_else effects [] | _ \<Rightarrow> []) rows)"

text \<open>The input without its recorded decision, as the plain value that is hashed.\<close>

fun tier_text :: "trust_tier \<Rightarrow> str" where
  "tier_text TierOwner = ''owner''"
| "tier_text TierCoOwner = ''co_owner''"
| "tier_text TierManager = ''manager''"
| "tier_text TierCollaborator = ''collaborator''"
| "tier_text TierObserver = ''observer''"
| "tier_text TierAssignedWorker = ''assigned_worker''"

fun addressee_text :: "addressee \<Rightarrow> str" where
  "addressee_text ToBot = ''bot''"
| "addressee_text ToOwner = ''owner''"
| "addressee_text Ambient = ''ambient''"

fun target_text :: "target_kind \<Rightarrow> str" where
  "target_text TSession = ''session''"
| "target_text TNewSession = ''new_session''"
| "target_text TActor = ''actor''"
| "target_text TOrigin = ''origin''"

fun message_type_text :: "message_type \<Rightarrow> str" where
  "message_type_text MMessage = ''message''"
| "message_type_text MInterrupt = ''interrupt''"
| "message_type_text MResume = ''resume''"

fun message_plain :: "message_context \<Rightarrow> plain" where
  "message_plain (External c) = PObj ([(''sender'', PStr ''external'')] @
     given ''senderTier'' (PStr \<circ> tier_text) (xc_senderTier c) @
     [(''addressee'', PStr (addressee_text (xc_addressee c))), (''identity'', PBool (xc_identity c)),
      (''grantTier'', PBool (xc_grantTier c)), (''egressBudget'', PBool (xc_egressBudget c)),
      (''eventIdUnique'', PBool (xc_eventIdUnique c)), (''replyCorrelation'', PBool (xc_replyCorrelation c))])"
| "message_plain (FromSession c) = PObj ([(''sender'', PStr ''session''), (''senderRole'', PStr (role_text (sc_senderRole c))),
      (''targetKind'', PStr (target_text (sc_targetKind c)))] @
     given ''targetRole'' (PStr \<circ> role_text) (sc_targetRole c) @
     [(''type'', PStr (message_type_text (sc_type c))), (''parentChild'', PBool (sc_parentChild c)),
      (''fanout'', PNum (NInt (sc_fanout c))), (''depth'', PNum (NInt (sc_depth c))),
      (''withinParentDeadline'', PBool (sc_withinParentDeadline c))] @
     given ''actorSendAllowed'' PBool (sc_actorSendAllowed c) @ given ''identityGranted'' PBool (sc_identityGranted c) @
     given ''replyAutoAllowed'' PBool (sc_replyAutoAllowed c) @ given ''consentGranted'' PBool (sc_consentGranted c))"

definition policy_identity :: "policy_input \<Rightarrow> plain" where
  "policy_identity i =
     PObj ([(''kind'', PStr (in_kind i)), (''phase'', PStr (phase_text (in_phase i)))] @ given ''op'' PStr (in_op i) @
       given ''role'' (PStr \<circ> role_text) (in_role i) @ given ''sessionId'' PStr (in_sessionId i) @
       given ''message'' message_plain (in_message i) @ [(''value'', in_value i)])"

definition evaluate ::
  "(str \<Rightarrow> str) \<Rightarrow> 'g caller \<Rightarrow> ('g, 'c, 'x) snapshot \<Rightarrow> policy_input \<Rightarrow> 'g evaluation_options \<Rightarrow> unit + policy_evaluation" where
  "evaluate sha call sp i opts =
     (let inputHash = canonicalDigest sha (policy_identity i) in
      case policyPoint (in_kind i) (in_phase i) of
        None \<Rightarrow> Inr (refused_evaluation sp inputHash (in_value i) ''unknown_point'')
      | Some p \<Rightarrow>
          if map_of (sp_pointTable sp) p = None then Inr (refused_evaluation sp inputHash (in_value i) ''unknown_point'')
          else if in_kind i = ''message'' \<and> in_op i = Some ''send_message'' \<and> in_message i = None
          then Inr (refused_evaluation sp inputHash (in_value i) ''message_context_missing'')
          else and_then
            (decide sha call sp
               \<lparr>pi_point = p, pi_when = projectedWhenOf i, pi_value = in_value i, pi_context = None, pi_message = in_message i\<rparr>
               (opts\<lparr>eo_recorded := (case in_recorded i of None \<Rightarrow> eo_recorded opts | Some r \<Rightarrow> Some r),
                     eo_inputHash := Some inputHash\<rparr>))
            (\<lambda>outcome.
               let d = go_decision outcome; matched = matched_rows sp d;
                   ts = row_transforms matched; os = row_obligations matched in
               Inr \<lparr>ev_generation = sp_generation sp, ev_snapshotHash = sp_contentHash sp, ev_inputHash = inputHash,
                    ev_matchedRuleIds = map cr_name matched, ev_transforms = ts,
                    ev_ref = (case ts of [t] \<Rightarrow> Some (snd t) | _ \<Rightarrow> None),
                    ev_verdict = effective (gd_verdict d) ts os,
                    ev_reason = (case projectedReason (gd_verdict d) matched of
                                   Some r \<Rightarrow> Some r | None \<Rightarrow> consultedReason d),
                    ev_value = go_value outcome, ev_effects = row_effects matched, ev_obligations = os,
                    ev_gate = Some d, ev_replayed = Some (go_replayed outcome), ev_pending = go_pending outcome\<rparr>))"

end
