(* ===== verification/Gate_Compile.thy ===== *)
theory Gate_Compile
  imports Gate
begin

text \<open>
  Composition of hook points and compilation of policy rows into a snapshot:
  \<^verbatim>\<open>packages/agent/src/core/gate/compile.ts\<close> and \<^verbatim>\<open>core/ports/gate-rows.ts\<close>.  Throws are
  values.  \<^verbatim>\<open>localeCompare\<close> is the parameter \<open>cmp\<close>; the schemas that read the stored match
  and verdict of a row are the parameters \<open>match_of\<close> and \<open>verdict_of\<close>.
\<close>

section \<open>Errors\<close>

datatype compose_code = UnknownPoint | UnknownHandler | Duplicate | BadAction | BadField | PostEndEmit | BuiltinRemoved

record compose_error =
  xe_code :: compose_code
  xe_point :: "str option"
  xe_ref :: "str option"
  xe_rowId :: "str option"
  xe_bundle :: "str option"

datatype compile_code =
    GenerationMismatch | MandatoryRuleMissing | UnknownKind | InvalidMatch | InvalidVerdict | UnknownRef
  | ComposeRejected compose_code | RowMigrationRequired nat

record compile_error =
  ce_code :: compile_code
  ce_generation :: int
  ce_ruleName :: "str option"
  ce_kind :: "str option"
  ce_phase :: "phase option"
  ce_ref :: "str option"

datatype gate_error =
    InvalidRef str
  | DuplicateRef str
  | GateComposeError compose_error
  | PolicyCompileError compile_error

definition compose_fail :: "compose_code \<Rightarrow> str option \<Rightarrow> str option \<Rightarrow> str option \<Rightarrow> str option \<Rightarrow> gate_error" where
  "compose_fail code p ref rowId bundle =
     GateComposeError \<lparr>xe_code = code, xe_point = p, xe_ref = ref, xe_rowId = rowId, xe_bundle = bundle\<rparr>"

section \<open>Handler tables\<close>

definition lower_alpha :: "char \<Rightarrow> bool" where
  "lower_alpha c \<longleftrightarrow> 97 \<le> (of_char c :: nat) \<and> (of_char c :: nat) \<le> 122"

definition ref_part :: "str \<Rightarrow> bool" where
  "ref_part s \<longleftrightarrow> s \<noteq> [] \<and> lower_alpha (hd s) \<and> list_all (\<lambda>c. lower_alpha c \<or> is_digit c \<or> c = CHR ''-'') s"

text \<open>\<^verbatim>\<open>PolicyRef\<close>: two such parts around one slash.\<close>

definition policy_ref_ok :: "str \<Rightarrow> bool" where
  "policy_ref_ok s \<longleftrightarrow>
     (let a = takeWhile (\<lambda>c. c \<noteq> CHR ''/'') s; b = dropWhile (\<lambda>c. c \<noteq> CHR ''/'') s in
      b \<noteq> [] \<and> ref_part a \<and> ref_part (tl b))"

fun unique_refs :: "str list \<Rightarrow> str list \<Rightarrow> gate_error + unit" where
  "unique_refs seen [] = Inr ()"
| "unique_refs seen (n # ns) =
     (if \<not> policy_ref_ok n then Inl (InvalidRef n)
      else if n \<in> set seen then Inl (DuplicateRef n)
      else unique_refs (set_add n seen) ns)"

definition table_names :: "('g, 'c) handler_table \<Rightarrow> str list" where
  "table_names t = map fst (ht_transformers t) @ ht_obligations t @ map fst (ht_consultants t) @ map fst (ht_guards t)"

definition createHandlerTable :: "('g, 'c) handler_table \<Rightarrow> gate_error + ('g, 'c) handler_table" where
  "createHandlerTable t = and_then (unique_refs [] (table_names t)) (\<lambda>_. Inr t)"

section \<open>The redact transformer\<close>

fun split_dots :: "str \<Rightarrow> str list" where
  "split_dots [] = [[]]"
| "split_dots (c # cs) =
     (if c = CHR ''.'' then [] # split_dots cs
      else (case split_dots cs of [] \<Rightarrow> [[c]] | s # ss \<Rightarrow> (c # s) # ss))"

definition plain_strings :: "plain list \<Rightarrow> str list option" where
  "plain_strings xs =
     (if list_all (\<lambda>x. case x of PStr s \<Rightarrow> s \<noteq> [] | _ \<Rightarrow> False) xs
      then Some (map (\<lambda>x. case x of PStr s \<Rightarrow> s | _ \<Rightarrow> []) xs) else None)"

text \<open>\<^verbatim>\<open>RedactConfig.parse(config ?? {})\<close>: the paths and the replacement.\<close>

definition redact_config :: "plain \<Rightarrow> (str list \<times> plain option) option" where
  "redact_config config =
     (case object_value (if config = PNull then PObj [] else config) of
        None \<Rightarrow> None
      | Some ps \<Rightarrow>
          if \<not> list_all (\<lambda>(k, v). k = ''paths'' \<or> k = ''replacement'') ps then None
          else case map_of ps ''paths'' of
            None \<Rightarrow> Some ([], map_of ps ''replacement'')
          | Some (PArr xs) \<Rightarrow> map_option (\<lambda>paths. (paths, map_of ps ''replacement'')) (plain_strings xs)
          | Some _ \<Rightarrow> None)"

text \<open>Walks the parent fields, then deletes or replaces the leaf.\<close>

fun redact_at :: "str list \<Rightarrow> str \<Rightarrow> plain option \<Rightarrow> plain \<Rightarrow> plain" where
  "redact_at [] leaf replacement v =
     (case object_value v of
        None \<Rightarrow> v
      | Some ps \<Rightarrow> PObj (case replacement of None \<Rightarrow> del leaf ps | Some r \<Rightarrow> put leaf r ps))"
| "redact_at (f # fs) leaf replacement v =
     (case object_value v of
        None \<Rightarrow> v
      | Some ps \<Rightarrow>
          (case map_of ps f of
             None \<Rightarrow> v
           | Some child \<Rightarrow> PObj (put f (redact_at fs leaf replacement child) ps)))"

definition redact_path :: "plain option \<Rightarrow> str \<Rightarrow> plain \<Rightarrow> plain" where
  "redact_path replacement path v =
     (let fs = split_dots path; leaf = last fs in
      if leaf = [] then v else redact_at (butlast fs) leaf replacement v)"

definition redact :: "plain \<Rightarrow> plain \<Rightarrow> plain option" where
  "redact v config =
     map_option (\<lambda>(paths, replacement). fold (redact_path replacement) paths v) (redact_config config)"

definition KERNEL_POLICY_REGISTRY :: "('g, 'c) handler_table" where
  "KERNEL_POLICY_REGISTRY =
     \<lparr>ht_transformers = [(''kernel/redact'', redact)], ht_obligations = [''kernel/budget-clamp''],
      ht_consultants = [], ht_guards = []\<rparr>"

section \<open>Composing points\<close>

record capability_registration =
  cp_bundle :: str
  cp_points :: "str list"

fun registerCore :: "point_record list \<Rightarrow> point_table \<Rightarrow> gate_error + point_table" where
  "registerCore [] table = Inr table"
| "registerCore (r # rs) table =
     (if map_of table (pt_id r) \<noteq> None then Inl (compose_fail Duplicate (Some (pt_id r)) None None None)
      else registerCore rs (put (pt_id r) r table))"

fun registerPoints :: "str \<Rightarrow> str list \<Rightarrow> point_table \<Rightarrow> gate_error + point_table" where
  "registerPoints bundle [] table = Inr table"
| "registerPoints bundle (i # is) table =
     (case find (\<lambda>r. pt_id r = i) CAPABILITY_POINT_RECORDS of
        None \<Rightarrow> Inl (compose_fail UnknownPoint (Some i) None None (Some bundle))
      | Some r \<Rightarrow>
          if map_of table i \<noteq> None then Inl (compose_fail Duplicate (Some i) None None (Some bundle))
          else registerPoints bundle is (put i r table))"

definition composePointTable ::
  "capability_registration list \<Rightarrow> point_record list option \<Rightarrow> gate_error + point_table" where
  "composePointTable capabilities core =
     (let records = or_else core CORE_POINT_RECORDS in
      case find (\<lambda>s. \<not> list_ex (\<lambda>r. pt_id r = pt_id s) records) CORE_POINT_RECORDS of
        Some missing \<Rightarrow> Inl (compose_fail BuiltinRemoved (Some (pt_id missing)) None None None)
      | None \<Rightarrow>
          and_then (registerCore records []) (\<lambda>table.
            fold_fail (\<lambda>c. registerPoints (cp_bundle c) (cp_points c)) capabilities table))"

definition KERNEL_CAPABILITY_POINTS :: "capability_registration list" where
  "KERNEL_CAPABILITY_POINTS =
     [\<lparr>cp_bundle = ''tool'', cp_points = [''tool.pre'', ''tool.post'']\<rparr>,
      \<lparr>cp_bundle = ''compaction'', cp_points = [''compaction.pre'', ''compaction.post'']\<rparr>,
      \<lparr>cp_bundle = ''alarm'', cp_points = [''alarm.fired'']\<rparr>,
      \<lparr>cp_bundle = ''action'', cp_points = [''action.pre'']\<rparr>]"

section \<open>Admitting rows\<close>

definition reject :: "compose_code \<Rightarrow> gate_row \<Rightarrow> str option \<Rightarrow> gate_error + 'a" where
  "reject code row detail = Inl (compose_fail code (Some (gr_on row)) detail (Some (gr_id row)) None)"

fun do_text :: "point_do \<Rightarrow> str" where
  "do_text DoGate = ''gate''"
| "do_text DoRewrite = ''rewrite''"
| "do_text DoEmit = ''emit''"
| "do_text DoObserve = ''observe''"

definition validateAction :: "gate_row \<Rightarrow> point_record \<Rightarrow> gate_error + unit" where
  "validateAction row r =
     (if gr_do row \<in> set (pt_allowedDo r) then Inr ()
      else if gr_do row = DoEmit \<and> pt_end r then reject PostEndEmit row None
      else reject BadAction row (Some (do_text (gr_do row))))"

definition validateFields :: "gate_row \<Rightarrow> point_record \<Rightarrow> gate_error + unit" where
  "validateFields row r =
     (case find (\<lambda>f. f \<notin> set (pt_whenFields r)) (map fst (gr_when row)) of
        Some f \<Rightarrow> reject BadField row (Some f)
      | None \<Rightarrow>
          if gr_do row \<noteq> DoRewrite then Inr ()
          else let fs = or_else (hw_fields (gr_how row)) [] in
            if fs = [] then reject BadField row (Some ''fields'')
            else if pt_rewriteOpen r then Inr ()
            else case find (\<lambda>f. f \<notin> set (pt_rewritableFields r)) fs of
              Some f \<Rightarrow> reject BadField row (Some f)
            | None \<Rightarrow> Inr ())"

definition validateEmit :: "gate_row \<Rightarrow> point_record \<Rightarrow> gate_error + emit_kind option" where
  "validateEmit row r =
     (if gr_do row \<noteq> DoEmit then Inr None
      else if pt_end r then reject PostEndEmit row None
      else case (case hw_emit (gr_how row) of None \<Rightarrow> None | Some e \<Rightarrow> map_of EMIT_KINDS e) of
        None \<Rightarrow> reject BadAction row (Some (or_else (hw_emit (gr_how row)) ''emit''))
      | Some k \<Rightarrow> Inr (Some k))"

definition validateObserve :: "gate_row \<Rightarrow> gate_error + unit" where
  "validateObserve row =
     (let h = gr_how row in
      if hw_ref h = None \<or> hw_verdict h \<noteq> None \<or> hw_metric h \<noteq> None \<or> hw_limit h \<noteq> None \<or>
         hw_fields h \<noteq> None \<or> hw_emit h \<noteq> None
      then reject BadAction row (Some ''how'') else Inr ())"

definition validateGate :: "gate_row \<Rightarrow> gate_error + unit" where
  "validateGate row =
     (let h = gr_how row in
      if hw_metric h \<noteq> None then (if hw_verdict h \<noteq> Some Allow then reject BadAction row (Some ''how'') else Inr ())
      else if (hw_verdict h \<noteq> None) = (hw_ref h \<noteq> None) then reject BadAction row (Some ''how'')
      else Inr ())"

definition validateRewriteHow :: "gate_row \<Rightarrow> gate_error + unit" where
  "validateRewriteHow row =
     (let h = gr_how row in
      if hw_ref h = None \<or> hw_verdict h \<noteq> None \<or> hw_metric h \<noteq> None
      then reject BadAction row (Some ''how'') else Inr ())"

definition validateEmitHow :: "gate_row \<Rightarrow> gate_error + unit" where
  "validateEmitHow row =
     (let h = gr_how row in
      if hw_ref h \<noteq> None \<or> hw_verdict h \<noteq> None \<or> hw_metric h \<noteq> None \<or> hw_fields h \<noteq> None
      then reject BadAction row (Some ''how'') else Inr ())"

definition how_refs :: "gate_how \<Rightarrow> str list" where
  "how_refs h = (case hw_ref h of None \<Rightarrow> [] | Some r \<Rightarrow> [r]) @ or_else (hw_requires h) []"

definition validateHow :: "gate_row \<Rightarrow> str list \<Rightarrow> gate_error + unit" where
  "validateHow row handlers =
     (let h = gr_how row in
      if (hw_metric h = None) \<noteq> (hw_limit h = None) then reject BadField row (Some ''limit'')
      else and_then
        (case gr_do row of
           DoObserve \<Rightarrow> validateObserve row
         | DoGate \<Rightarrow> validateGate row
         | DoRewrite \<Rightarrow> validateRewriteHow row
         | DoEmit \<Rightarrow> validateEmitHow row)
        (\<lambda>_. case find (\<lambda>r. r \<notin> set handlers) (how_refs h) of
           Some r \<Rightarrow> reject UnknownHandler row (Some r)
         | None \<Rightarrow> Inr ()))"

definition admitRow :: "gate_row \<Rightarrow> point_table \<Rightarrow> str list \<Rightarrow> gate_error + emit_kind option" where
  "admitRow row table handlers =
     (case map_of table (gr_on row) of
        None \<Rightarrow> reject UnknownPoint row None
      | Some r \<Rightarrow>
          and_then (validateAction row r) (\<lambda>_.
          and_then (validateFields row r) (\<lambda>_.
          and_then (validateEmit row r) (\<lambda>emit.
          and_then (validateHow row handlers) (\<lambda>_. Inr emit)))))"

section \<open>Row identities\<close>

definition ascii_lower :: "char \<Rightarrow> char" where
  "ascii_lower c = (let n = of_char c :: nat in if 65 \<le> n \<and> n \<le> 90 then char_of (n + 32) else c)"

text \<open>\<^verbatim>\<open>replace(/[^a-z0-9]+/g, "-")\<close>.\<close>

fun dash_runs :: "str \<Rightarrow> str" where
  "dash_runs [] = []"
| "dash_runs (c # cs) =
     (if lower_alpha c \<or> is_digit c then c # dash_runs cs
      else case dash_runs cs of
        d # ds \<Rightarrow> if d = CHR ''-'' then d # ds else CHR ''-'' # d # ds
      | [] \<Rightarrow> [CHR ''-''])"

definition trim_dashes :: "str \<Rightarrow> str" where
  "trim_dashes s = rev (dropWhile (\<lambda>c. c = CHR ''-'') (rev (dropWhile (\<lambda>c. c = CHR ''-'') s)))"

definition rowNameToken :: "str \<Rightarrow> str" where
  "rowNameToken name =
     (let token = trim_dashes (dash_runs (map ascii_lower name)) in
      if token = [] then ''row'' else if lower_alpha (hd token) then token else ''row-'' @ token)"

definition gateRowId :: "str \<Rightarrow> str \<Rightarrow> nat \<Rightarrow> str" where
  "gateRowId name p ordinal = rowNameToken name @ ''/'' @ p @ ''#'' @ nat_text ordinal"

section \<open>Reading stored rows\<close>

record row_schemas =
  match_of :: "plain \<Rightarrow> row_match option"
  verdict_of :: "plain \<Rightarrow> row_verdict option"

definition DEFAULT_COMPILE_KINDS :: "str list" where
  "DEFAULT_COMPILE_KINDS = [''prompt'', ''turn'', ''llm'', ''tool'', ''message'', ''compaction'', ''session.configure'']"

definition compile_fail :: "compile_code \<Rightarrow> int \<Rightarrow> policy_row \<Rightarrow> str option \<Rightarrow> gate_error" where
  "compile_fail code generation row ref =
     PolicyCompileError \<lparr>ce_code = code, ce_generation = generation, ce_ruleName = Some (pl_name row),
       ce_kind = Some (pl_kind row), ce_phase = Some (pl_phase row), ce_ref = ref\<rparr>"

definition resolveVerdict ::
  "row_verdict \<Rightarrow> policy_row \<Rightarrow> int \<Rightarrow> ('g, 'c) handler_table \<Rightarrow> gate_error + row_verdict" where
  "resolveVerdict v row generation registry =
     (case v of
        VTransform ref config \<Rightarrow>
          if ref \<in> set (map fst (ht_transformers registry)) then Inr v else Inl (compile_fail UnknownRef generation row (Some ref))
      | VObligation ref metric limit \<Rightarrow>
          if ref \<in> set (ht_obligations registry) then Inr v else Inl (compile_fail UnknownRef generation row (Some ref))
      | VConsult ref config observe rewrite \<Rightarrow>
          if ref \<in> set (map fst (ht_consultants registry)) \<or> ref \<in> set (map fst (ht_guards registry)) then Inr v
          else Inl (compile_fail UnknownRef generation row (Some ref))
      | _ \<Rightarrow> Inr v)"

fun allow_or_obligation :: "row_verdict \<Rightarrow> bool" where
  "allow_or_obligation (VAllow _ _ _) = True"
| "allow_or_obligation (VObligation _ _ _) = True"
| "allow_or_obligation _ = False"

definition parseRow ::
  "row_schemas \<Rightarrow> policy_row \<Rightarrow> int \<Rightarrow> str list \<Rightarrow> ('g, 'c) handler_table \<Rightarrow> gate_error + compiled_row" where
  "parseRow schemas row generation kinds registry =
     (if pl_generation row \<noteq> generation then Inl (compile_fail GenerationMismatch generation row None)
      else if pl_kind row \<notin> set kinds then Inl (compile_fail UnknownKind generation row None)
      else case match_of schemas (pl_match row) of
        None \<Rightarrow> Inl (compile_fail InvalidMatch generation row None)
      | Some mx \<Rightarrow>
          (case verdict_of schemas (pl_verdict row) of
             None \<Rightarrow> Inl (compile_fail InvalidVerdict (pl_generation row) row None)
           | Some v \<Rightarrow>
               if pl_kind row = ''message'' \<and> mx_op mx \<noteq> Some ''assistant'' \<and> pl_phase row = Post \<and> \<not> allow_or_obligation v
               then Inl (compile_fail InvalidVerdict generation row None)
               else and_then (resolveVerdict v row generation registry) (\<lambda>v'.
                 Inr \<lparr>cr_name = pl_name row, cr_kind = pl_kind row, cr_phase = pl_phase row,
                      cr_priority = pl_priority row, cr_match = mx, cr_verdict = v'\<rparr>)))"

definition refuseLegacyRow :: "policy_row \<Rightarrow> int \<Rightarrow> nat \<Rightarrow> gate_error + unit" where
  "refuseLegacyRow row generation rowIndex =
     (if pl_kind row = ''turn'' \<and> pl_phase row = Post \<and>
         (plain_get (pl_match row) ''op'' = Some (PStr ''compaction'') \<or>
          plain_get (pl_match row) ''op'' = Some (PStr ''restore_context_projection''))
      then Inl (PolicyCompileError \<lparr>ce_code = RowMigrationRequired rowIndex, ce_generation = generation,
        ce_ruleName = Some (pl_name row), ce_kind = None, ce_phase = None, ce_ref = None\<rparr>)
      else Inr ())"

section \<open>Projecting rows onto points\<close>

definition string_entries :: "plain list \<Rightarrow> str list" where
  "string_entries xs = List.map_filter (\<lambda>x. case x of PStr s \<Rightarrow> Some s | _ \<Rightarrow> None) xs"

definition array_field :: "(str \<times> plain) list \<Rightarrow> str \<Rightarrow> plain list option" where
  "array_field ps k = (case map_of ps k of Some (PArr xs) \<Rightarrow> Some xs | _ \<Rightarrow> None)"

definition transformFields :: "plain option \<Rightarrow> str list" where
  "transformFields config =
     (case config of
        None \<Rightarrow> []
      | Some v \<Rightarrow>
          (case object_value v of
             None \<Rightarrow> []
           | Some ps \<Rightarrow>
               (case array_field ps ''fields'' of
                  Some xs \<Rightarrow> new_set (string_entries xs)
                | None \<Rightarrow> new_set (map (\<lambda>s. hd (split_dots s)) (string_entries (or_else (array_field ps ''paths'') []))))))"

definition rewriteDoHow :: "str \<Rightarrow> plain option \<Rightarrow> point_do \<times> gate_how" where
  "rewriteDoHow ref config =
     (DoRewrite, no_how\<lparr>hw_ref := Some ref, hw_fields := Some (transformFields config), hw_params := config\<rparr>)"

definition projectedDoHow :: "compiled_row \<Rightarrow> gate_error + point_do \<times> gate_how" where
  "projectedDoHow row =
     (case cr_verdict row of
        VConsult ref config observe rewrite \<Rightarrow>
          if rewrite then
            if observe
            then Inl (compose_fail BadAction (Some (cr_kind row @ ''.'' @ phase_text (cr_phase row))) (Some ref) None None)
            else Inr (rewriteDoHow ref config)
          else Inr (if observe then DoObserve else DoGate, no_how\<lparr>hw_ref := Some ref, hw_params := config\<rparr>)
      | VTransform ref config \<Rightarrow> Inr (rewriteDoHow ref config)
      | VObligation ref metric limit \<Rightarrow>
          Inr (DoGate, no_how\<lparr>hw_verdict := Some Allow, hw_ref := Some ref, hw_metric := Some metric, hw_limit := Some limit\<rparr>)
      | VAllow _ _ _ \<Rightarrow> Inr (DoGate, no_how\<lparr>hw_verdict := Some Allow\<rparr>)
      | VDeny _ \<Rightarrow> Inr (DoGate, no_how\<lparr>hw_verdict := Some Deny\<rparr>)
      | VRequireApproval _ \<Rightarrow> Inr (DoGate, no_how\<lparr>hw_verdict := Some RequireApproval\<rparr>))"

definition match_conditions :: "row_match \<Rightarrow> conditions" where
  "match_conditions mx =
     given ''op'' PStr (mx_op mx) @ given ''operation'' PStr (mx_operation mx) @
     given ''role'' (PStr \<circ> role_text) (mx_role mx) @ given ''sessionId'' PStr (mx_sessionId mx)"

section \<open>Compiling\<close>

record 'x build_state =
  bs_byPoint :: "(str \<times> 'x compiled_entry list) list"
  bs_rowById :: "(str \<times> compiled_row) list"
  bs_seen :: "str list"

definition insertRow ::
  "point_table \<Rightarrow> str list \<Rightarrow> ('x option \<Rightarrow> bool) option \<Rightarrow> gate_row \<Rightarrow> compiled_row option \<Rightarrow> 'x build_state
    \<Rightarrow> gate_error + 'x build_state" where
  "insertRow table names matcher row policy st =
     (if gr_id row \<in> set (bs_seen st) then Inl (compose_fail Duplicate (Some (gr_on row)) None (Some (gr_id row)) None)
      else and_then (admitRow row table names) (\<lambda>emit.
        Inr \<lparr>bs_byPoint = put (gr_on row) (or_else (map_of (bs_byPoint st) (gr_on row)) [] @
               [\<lparr>ce_row = row, ce_emit = emit, ce_matcher = matcher, ce_policy = policy\<rparr>]) (bs_byPoint st),
             bs_rowById = (case policy of None \<Rightarrow> bs_rowById st | Some p \<Rightarrow> put (gr_id row) p (bs_rowById st)),
             bs_seen = set_add (gr_id row) (bs_seen st)\<rparr>))"

definition compare_rows :: "(str \<Rightarrow> str \<Rightarrow> int) \<Rightarrow> policy_row \<times> nat \<Rightarrow> policy_row \<times> nat \<Rightarrow> int" where
  "compare_rows cmp a b =
     (if pl_priority (fst b) - pl_priority (fst a) \<noteq> 0 then pl_priority (fst b) - pl_priority (fst a)
      else cmp (pl_name (fst a)) (pl_name (fst b)))"

definition row_points :: "point_table \<Rightarrow> compiled_row \<Rightarrow> str \<Rightarrow> str list" where
  "row_points table row p =
     (if p = ''turn.post'' \<and> mx_op (cr_match row) = None \<and> map_of table ''compaction.pre'' \<noteq> None
      then [p, ''compaction.pre''] else [p])"

definition compileRow ::
  "row_schemas \<Rightarrow> int \<Rightarrow> str list \<Rightarrow> ('g, 'c) handler_table \<Rightarrow> point_table \<Rightarrow> str list
    \<Rightarrow> (policy_row \<times> nat) \<times> nat \<Rightarrow> 'x build_state \<Rightarrow> gate_error + 'x build_state" where
  "compileRow schemas generation kinds registry table names src st =
     (let source = fst (fst src); rowIndex = snd (fst src); order = snd src in
      and_then (refuseLegacyRow source (pl_generation source) rowIndex) (\<lambda>_.
      and_then (parseRow schemas source generation kinds registry) (\<lambda>row.
      case policyPoint (cr_kind row) (cr_phase row) of
        None \<Rightarrow> Inl (compose_fail UnknownPoint (Some (cr_kind row @ ''.'' @ phase_text (cr_phase row))) None None None)
      | Some p \<Rightarrow>
          if map_of table p = None
          then Inl (compose_fail UnknownPoint (Some (cr_kind row @ ''.'' @ phase_text (cr_phase row))) None None None)
          else fold_fail (\<lambda>on st'.
            and_then (projectedDoHow row) (\<lambda>(d, how).
              insertRow table names None
                \<lparr>gr_id = gateRowId (cr_name row) on order, gr_on = on, gr_when = match_conditions (cr_match row),
                 gr_do = d, gr_how = how, gr_order = int order, gr_generation = generation\<rparr>
                (Some row) st')) (row_points table row p) st)))"

text \<open>The catch clause of \<^verbatim>\<open>compileStored\<close>.\<close>

fun compose_rejected :: "int \<Rightarrow> gate_error + 'a \<Rightarrow> gate_error + 'a" where
  "compose_rejected generation (Inl (GateComposeError e)) =
     Inl (PolicyCompileError \<lparr>ce_code = ComposeRejected (xe_code e), ce_generation = generation, ce_ruleName = None,
       ce_kind = xe_point e, ce_phase = None, ce_ref = xe_ref e\<rparr>)"
| "compose_rejected generation r = r"

record policy_rows =
  ps_rows :: "policy_row list"
  ps_generation :: int
  ps_kinds :: "str list option"
  ps_mandatory :: "str list"
  ps_table :: "point_table option"

definition ordered_rows :: "(str \<Rightarrow> str \<Rightarrow> int) \<Rightarrow> policy_row list \<Rightarrow> ((policy_row \<times> nat) \<times> nat) list" where
  "ordered_rows cmp rows =
     (let ordered = sort_by (compare_rows cmp) (zip rows [0..<length rows]) in zip ordered [0..<length ordered])"

definition empty_build :: "'x build_state" where
  "empty_build = \<lparr>bs_byPoint = [], bs_rowById = [], bs_seen = []\<rparr>"

definition compileStored ::
  "(str \<Rightarrow> str \<Rightarrow> int) \<Rightarrow> row_schemas \<Rightarrow> policy_rows \<Rightarrow> ('g, 'c) handler_table \<Rightarrow> point_table \<Rightarrow> str list
    \<Rightarrow> gate_error + 'x build_state" where
  "compileStored cmp schemas src registry table names =
     (case find (\<lambda>name. \<not> list_ex (\<lambda>row. pl_name row = name) (ps_rows src)) (new_set (''compaction'' # ps_mandatory src)) of
        Some name \<Rightarrow>
          Inl (PolicyCompileError \<lparr>ce_code = MandatoryRuleMissing, ce_generation = ps_generation src, ce_ruleName = Some name,
            ce_kind = None, ce_phase = None, ce_ref = None\<rparr>)
      | None \<Rightarrow>
          compose_rejected (ps_generation src)
            (fold_fail
              (compileRow schemas (ps_generation src) (or_else (ps_kinds src) DEFAULT_COMPILE_KINDS @ [''ingress'']) registry table names)
              (ordered_rows cmp (ps_rows src)) empty_build))"

definition encoded_payload :: "plain \<Rightarrow> plain" where
  "encoded_payload v = PObj [(''encodingVersion'', PNum (NInt 1)), (''value'', v)]"

definition rowKey :: "policy_row \<Rightarrow> str" where
  "rowKey row = pl_name row @ [CHR 0x00] @ pl_kind row @ [CHR 0x00] @ phase_text (pl_phase row)"

definition contentIdentity :: "(str \<Rightarrow> str \<Rightarrow> int) \<Rightarrow> policy_row list \<Rightarrow> plain" where
  "contentIdentity cmp rows =
     PArr (map (\<lambda>row. PObj
       [(''name'', PStr (pl_name row)), (''kind'', PStr (pl_kind row)), (''phase'', PStr (phase_text (pl_phase row))),
        (''match'', encoded_payload (pl_match row)), (''verdict'', encoded_payload (pl_verdict row)),
        (''priority'', PNum (NInt (pl_priority row)))])
       (sort_by (\<lambda>a b. cmp (rowKey a) (rowKey b)) rows))"

definition snapshot_handlers :: "('g, 'c) handler_table \<Rightarrow> (str \<times> 'g gate_handler) list" where
  "snapshot_handlers t =
     map (\<lambda>(n, f). (n, Transformer n f)) (ht_transformers t) @ map (\<lambda>(n, g). (n, Guard g)) (ht_guards t)"

definition compile_policy ::
  "(str \<Rightarrow> str) \<Rightarrow> (str \<Rightarrow> str \<Rightarrow> int) \<Rightarrow> row_schemas \<Rightarrow> policy_rows \<Rightarrow> ('g, 'c) handler_table
    \<Rightarrow> gate_error + ('g, 'c, 'x) snapshot" where
  "compile_policy sha cmp schemas src handlerTable =
     and_then (createHandlerTable handlerTable) (\<lambda>registry.
     and_then (case ps_table src of Some t \<Rightarrow> Inr t | None \<Rightarrow> composePointTable KERNEL_CAPABILITY_POINTS None) (\<lambda>table.
     and_then (compileStored cmp schemas src registry table (table_names registry)) (\<lambda>st.
       Inr \<lparr>sp_generation = ps_generation src, sp_contentHash = canonicalDigest sha (contentIdentity cmp (ps_rows src)),
            sp_pointTable = table, sp_byPoint = bs_byPoint st, sp_rowById = bs_rowById st,
            sp_handlers = snapshot_handlers registry, sp_consultants = ht_consultants registry\<rparr>)))"

subsection \<open>Point rows\<close>

record 'x point_rows =
  pr_rows :: "gate_row list"
  pr_rows_generation :: int
  pr_table :: point_table
  pr_matchers :: "(str \<times> ('x option \<Rightarrow> bool)) list"

fun verdict_text :: "gate_verdict \<Rightarrow> str" where
  "verdict_text Allow = ''allow''"
| "verdict_text Deny = ''deny''"
| "verdict_text RequireApproval = ''require_approval''"

definition how_plain :: "gate_how \<Rightarrow> plain" where
  "how_plain h =
     PObj (given ''ref'' PStr (hw_ref h) @ given ''requires'' (\<lambda>rs. PArr (map PStr rs)) (hw_requires h) @
       given ''verdict'' (PStr \<circ> verdict_text) (hw_verdict h) @ given ''emit'' PStr (hw_emit h) @
       given ''intent'' id (hw_intent h) @ given ''fields'' (\<lambda>fs. PArr (map PStr fs)) (hw_fields h) @
       given ''metric'' PStr (hw_metric h) @ given ''limit'' (PNum \<circ> NInt) (hw_limit h) @ given ''params'' id (hw_params h))"

definition row_plain :: "gate_row \<Rightarrow> plain" where
  "row_plain r =
     PObj [(''id'', PStr (gr_id r)), (''on'', PStr (gr_on r)), (''when'', PObj (gr_when r)), (''do'', PStr (do_text (gr_do r))),
       (''how'', how_plain (gr_how r)), (''order'', PNum (NInt (gr_order r))), (''generation'', PNum (NInt (gr_generation r)))]"

definition compare_entries :: "(str \<Rightarrow> str \<Rightarrow> int) \<Rightarrow> 'x compiled_entry \<Rightarrow> 'x compiled_entry \<Rightarrow> int" where
  "compare_entries cmp a b =
     (let d = gr_order (ce_row a) - gr_order (ce_row b) in
      if d \<noteq> 0 then d else cmp (gr_id (ce_row a)) (gr_id (ce_row b)))"

definition compile_points ::
  "(str \<Rightarrow> str) \<Rightarrow> (str \<Rightarrow> str \<Rightarrow> int) \<Rightarrow> 'x point_rows \<Rightarrow> ('g, 'c) handler_table \<Rightarrow> gate_error + ('g, 'c, 'x) snapshot" where
  "compile_points sha cmp src handlerTable =
     and_then (createHandlerTable handlerTable) (\<lambda>registry.
     and_then (fold_fail (\<lambda>row. insertRow (pr_table src) (table_names registry) (map_of (pr_matchers src) (gr_id row)) row None)
         (pr_rows src) empty_build) (\<lambda>st.
       Inr \<lparr>sp_generation = pr_rows_generation src, sp_contentHash = canonicalDigest sha (PArr (map row_plain (pr_rows src))),
            sp_pointTable = pr_table src,
            sp_byPoint = map (\<lambda>(p, es). (p, sort_by (compare_entries cmp) es)) (bs_byPoint st),
            sp_rowById = bs_rowById st, sp_handlers = snapshot_handlers registry,
            sp_consultants = ht_consultants registry\<rparr>))"

section \<open>Seeded rows\<close>

fun assertPolicyRows :: "(policy_row \<times> nat) list \<Rightarrow> point_table \<Rightarrow> gate_error + unit" where
  "assertPolicyRows [] table = Inr ()"
| "assertPolicyRows ((row, i) # rows) table =
     and_then (refuseLegacyRow row 0 i) (\<lambda>_.
       case policyPoint (pl_kind row) (pl_phase row) of
         None \<Rightarrow> Inl (compose_fail UnknownPoint (Some (pl_kind row @ ''.'' @ phase_text (pl_phase row))) None None None)
       | Some p \<Rightarrow>
           if map_of table p = None
           then Inl (compose_fail UnknownPoint (Some (pl_kind row @ ''.'' @ phase_text (pl_phase row))) None None None)
           else assertPolicyRows rows table)"

definition seeded_cap :: "str \<times> str \<times> phase \<times> str \<times> str \<times> int \<Rightarrow> policy_row" where
  "seeded_cap c =
     (case c of (name, kind, ph, op, metric, limit) \<Rightarrow>
       \<lparr>pl_name = name, pl_kind = kind, pl_phase = ph, pl_match = PObj [(''op'', PStr op)],
        pl_verdict = PObj [(''type'', PStr ''obligation''), (''ref'', PStr ''kernel/budget-clamp''),
          (''metric'', PStr metric), (''limit'', PNum (NInt limit))],
        pl_priority = 900, pl_generation = 0\<rparr>)"

text \<open>A draft has no generation yet; the model carries 0.\<close>

definition SEEDED_POLICY_ROWS :: "policy_row list" where
  "SEEDED_POLICY_ROWS =
     \<lparr>pl_name = ''compaction'', pl_kind = ''compaction'', pl_phase = Pre, pl_match = PObj [],
      pl_verdict = PObj [(''type'', PStr ''allow'')], pl_priority = 1000, pl_generation = 0\<rparr> #
     map seeded_cap
       [(''continuation-cap'', ''turn'', Post, ''continue'', ''continuation'', 8),
        (''fanout-cap'', ''tool'', Pre, ''send_message'', ''fanout'', 8),
        (''exact-repeat-cap'', ''turn'', Post, ''exact_repeat'', ''exact_repeat'', 3),
        (''toolless-stall-cap'', ''turn'', Post, ''toolless_stall'', ''toolless_stall'', 3),
        (''blocked-recurrence-cap'', ''turn'', Post, ''blocked_recurrence'', ''blocked_recurrence'', 3),
        (''resume-budget'', ''turn'', Pre, ''resume'', ''resume'', 10)]"

definition POINT_GENERATION_ROW :: policy_row where
  "POINT_GENERATION_ROW =
     \<lparr>pl_name = ''point-registry'', pl_kind = ''turn'', pl_phase = Pre, pl_match = PObj [(''op'', PStr ''point-registry'')],
      pl_verdict = PObj [(''type'', PStr ''allow''), (''reasonCodes'', PArr [PStr ''point-registry-v1''])],
      pl_priority = 0, pl_generation = 0\<rparr>"

end
