(* ===== verification/Gate_Laws.thy ===== *)
theory Gate_Laws
  imports Gate "HOL-Library.Multiset"
begin

text \<open>
  Laws of the fold over policy rows.  Verdicts are ordered by severity and
  \<^const>\<open>foldVerdict\<close> is the maximum of that order; every row of a point can only raise
  the verdict, observe rows touch nothing a decision is made of, and the value changes
  only in the fields that rewrite rows declare.
\<close>

section \<open>Severity\<close>

fun severity :: "gate_verdict \<Rightarrow> nat" where
  "severity Allow = 0"
| "severity RequireApproval = 1"
| "severity Deny = 2"

lemma severity_inj: "severity a = severity b \<longleftrightarrow> a = b"
  by (cases a; cases b) auto

instantiation gate_verdict :: linorder
begin

definition less_eq_gate_verdict :: "gate_verdict \<Rightarrow> gate_verdict \<Rightarrow> bool" where
  "less_eq_gate_verdict a b \<longleftrightarrow> severity a \<le> severity b"

definition less_gate_verdict :: "gate_verdict \<Rightarrow> gate_verdict \<Rightarrow> bool" where
  "less_gate_verdict a b \<longleftrightarrow> severity a < severity b"

instance
  by standard (auto simp: less_eq_gate_verdict_def less_gate_verdict_def severity_inj)

end

lemma foldVerdict_max: "foldVerdict a b = max a b"
  by (cases a; cases b) (auto simp: foldVerdict_def max_def less_eq_gate_verdict_def)

lemma Allow_least [simp]: "Allow \<le> v"
  by (simp add: less_eq_gate_verdict_def)

lemma Deny_greatest [simp]: "v \<le> Deny"
  by (cases v) (simp_all add: less_eq_gate_verdict_def)

lemma Deny_le [simp]: "Deny \<le> v \<longleftrightarrow> v = Deny"
  by (cases v) (simp_all add: less_eq_gate_verdict_def)

text \<open>
  The contract of a severity fold: a commutative, associative and idempotent join with a
  neutral and an absorbing verdict.  Folding is independent of the order of the rows, and
  reaches the absorbing verdict exactly when some row contributes it.
\<close>

locale severity_fold =
  fixes join :: "'v \<Rightarrow> 'v \<Rightarrow> 'v" and neutral :: 'v and absorbing :: 'v
  assumes join_assoc: "join (join a b) c = join a (join b c)"
    and join_comm: "join a b = join b a"
    and join_idem: "join a a = a"
    and join_neutral: "join neutral a = a"
    and join_absorbing: "join absorbing a = absorbing"
    and join_splits: "join a b = absorbing \<Longrightarrow> a = absorbing \<or> b = absorbing"
begin

lemma fold_join: "fold (\<lambda>x acc. join acc x) xs s = join s (fold (\<lambda>x acc. join acc x) xs neutral)"
proof (induction xs arbitrary: s)
  case Nil
  then show ?case by (simp add: join_comm [of s] join_neutral)
next
  case (Cons x xs)
  from Cons.IH [of "join s x"] Cons.IH [of "join neutral x"] show ?case
    by (simp add: join_neutral join_assoc)
qed

lemma fold_order: "mset xs = mset ys \<Longrightarrow> fold (\<lambda>x acc. join acc x) xs s = fold (\<lambda>x acc. join acc x) ys s"
proof (rule fun_cong [OF fold_multiset_equiv])
  show "(\<lambda>acc. join acc x) \<circ> (\<lambda>acc. join acc y) = (\<lambda>acc. join acc y) \<circ> (\<lambda>acc. join acc x)" for x y
    by (rule ext) (metis comp_apply join_assoc join_comm)
qed

lemma fold_absorbing: "fold (\<lambda>x acc. join acc x) xs s = absorbing \<longleftrightarrow> s = absorbing \<or> absorbing \<in> set xs"
proof (induction xs arbitrary: s)
  case (Cons x xs)
  have j: "join s x = absorbing \<longleftrightarrow> s = absorbing \<or> x = absorbing"
  proof
    assume "s = absorbing \<or> x = absorbing"
    then show "join s x = absorbing"
    proof
      assume "x = absorbing"
      then show ?thesis by (simp only: join_comm [of s absorbing] join_absorbing)
    qed (simp add: join_absorbing)
  qed (rule join_splits)
  show ?case unfolding fold_Cons comp_apply Cons.IH j by (simp add: disj_ac eq_commute)
qed simp

end

interpretation verdicts: severity_fold foldVerdict Allow Deny
  by unfold_locales
    (simp_all add: foldVerdict_max max.assoc max.commute max.absorb1 max.absorb2, auto simp: max_def split: if_splits)

section \<open>What a row does to the state\<close>

lemmas fold_state_defs = push_fact_def fold_in_def record_observation_def push_obligation_def

lemma push_fact_sel [simp]:
  "fs_verdict (push_fact a b c s) = fs_verdict s" "fs_value (push_fact a b c s) = fs_value s"
  "fs_rowIds (push_fact a b c s) = fs_rowIds s" "fs_emissions (push_fact a b c s) = fs_emissions s"
  "fs_obligations (push_fact a b c s) = fs_obligations s" "fs_consulted (push_fact a b c s) = fs_consulted s"
  by (simp_all add: push_fact_def)

lemma fold_in_sel [simp]:
  "fs_verdict (fold_in v s) = max (fs_verdict s) v" "fs_value (fold_in v s) = fs_value s"
  "fs_rowIds (fold_in v s) = fs_rowIds s" "fs_emissions (fold_in v s) = fs_emissions s"
  "fs_obligations (fold_in v s) = fs_obligations s" "fs_consulted (fold_in v s) = fs_consulted s"
  by (simp_all add: fold_in_def foldVerdict_max)

lemma record_observation_sel [simp]:
  "fs_verdict (record_observation a b c s) = fs_verdict s" "fs_value (record_observation a b c s) = fs_value s"
  "fs_rowIds (record_observation a b c s) = fs_rowIds s" "fs_emissions (record_observation a b c s) = fs_emissions s"
  "fs_obligations (record_observation a b c s) = fs_obligations s" "fs_consulted (record_observation a b c s) = fs_consulted s"
  by (simp_all add: record_observation_def split: option.splits)

lemma push_obligation_sel [simp]:
  "fs_verdict (push_obligation h s) = fs_verdict s" "fs_value (push_obligation h s) = fs_value s"
  "fs_rowIds (push_obligation h s) = fs_rowIds s" "fs_emissions (push_obligation h s) = fs_emissions s"
  "fs_consulted (push_obligation h s) = fs_consulted s" "fs_facts (push_obligation h s) = fs_facts s"
  "fs_annotations (push_obligation h s) = fs_annotations s"
  by (simp_all add: push_obligation_def split: option.splits)

lemma observeRow_sel [simp]:
  "fs_verdict (observeRow sha call row hs ws pr s) = fs_verdict s" "fs_value (observeRow sha call row hs ws pr s) = fs_value s"
  "fs_rowIds (observeRow sha call row hs ws pr s) = fs_rowIds s" "fs_emissions (observeRow sha call row hs ws pr s) = fs_emissions s"
  "fs_obligations (observeRow sha call row hs ws pr s) = fs_obligations s"
  "fs_consulted (observeRow sha call row hs ws pr s) = fs_consulted s"
  by (simp_all add: observeRow_def split: option.splits handler_outcome.splits)

text \<open>The fields a row may write.\<close>

definition rewritten :: "gate_row \<Rightarrow> str set" where
  "rewritten row = (if gr_do row = DoRewrite then set (or_else (hw_fields (gr_how row)) []) else {})"

lemma map_of_rewrite_field:
  "map_of (rewrite_field source f out) k = (if k = f then map_of source f else map_of out k)"
  by (auto simp: rewrite_field_def split: option.splits)

lemma map_of_rewrite_fields:
  "map_of (fold (rewrite_field source) fs base) k = (if k \<in> set fs then map_of source k else map_of base k)"
  by (induction fs arbitrary: base) (auto simp: map_of_rewrite_field)

lemma plain_get_applyRewrite:
  "k \<notin> set fs \<Longrightarrow> plain_get (applyRewrite prior fs out) k = plain_get prior k"
  by (cases prior) (auto simp: applyRewrite_def plain_get_def map_of_rewrite_fields)

text \<open>
  \<open>evolves row s s'\<close>: the verdict does not fall, the row id is recorded, and the value
  is kept outside the fields the row may write.
\<close>

definition evolves :: "gate_row \<Rightarrow> fold_state \<Rightarrow> fold_state \<Rightarrow> bool" where
  "evolves row s s' \<longleftrightarrow> fs_verdict s \<le> fs_verdict s' \<and> fs_rowIds s' = fs_rowIds s @ [gr_id row] \<and>
     (gr_do row \<noteq> DoRewrite \<longrightarrow> fs_value s' = fs_value s) \<and>
     (\<forall>k. k \<notin> rewritten row \<longrightarrow> plain_get (fs_value s') k = plain_get (fs_value s) k)"

lemma consultAnswer_sel [simp]:
  "fs_rowIds (consultAnswer sha row ref c r s) = fs_rowIds s"
  "fs_verdict s \<le> fs_verdict (consultAnswer sha row ref c r s)"
  "gr_do row \<noteq> DoRewrite \<Longrightarrow> fs_value (consultAnswer sha row ref c r s) = fs_value s"
  "k \<notin> rewritten row \<Longrightarrow> plain_get (fs_value (consultAnswer sha row ref c r s)) k = plain_get (fs_value s) k"
  by (auto simp: consultAnswer_def Let_def rewritten_def plain_get_applyRewrite split: option.splits)

lemma consultAnswer_verdict:
  "fs_verdict u = fs_verdict s \<Longrightarrow> fs_verdict s \<le> fs_verdict (consultAnswer sha row ref c r u)"
  using consultAnswer_sel(2) [of u] by simp

lemma applyRow_evolves:
  assumes "applyRow sha call row emit h hs ws pr s = Inr s'"
  shows "evolves row s s'"
proof (cases "gr_do row = DoObserve")
  case True
  with assms show ?thesis by (auto simp: applyRow_def Let_def evolves_def)
next
  case False
  with assms show ?thesis
    by (auto simp: applyRow_def Let_def evolves_def consultRow_def
        split: option.splits handler_outcome.splits sum.splits intro: consultAnswer_verdict)
qed

lemma applyRow_constant:
  assumes "applyRow sha call row None h hs ws pr s = Inr s'" "gr_do row \<noteq> DoObserve" "hw_verdict (gr_how row) = Some v"
  shows "fs_verdict s' = max (fs_verdict s) v"
  using assms by (auto simp: applyRow_def Let_def)

section \<open>The loop over a point's rows\<close>

lemma foldEntries_fold:
  assumes "eo_pendingAsync opts = None"
  shows "foldEntries sha call i h hs opts es s =
    and_then (fold_fail (\<lambda>e. applyRow sha call (ce_row e) (ce_emit e) h hs (pi_when i) (eo_prepared opts))
      (filter (\<lambda>e. entry_matches sha e i) es) s) (\<lambda>s'. Inr (s', None))"
proof (induction es arbitrary: s)
  case (Cons e es)
  have "awaitedConsultRef e (eo_pendingAsync opts) (eo_prepared opts) = None" by (simp add: assms awaitedConsultRef_def)
  with Cons show ?case
    by (cases "applyRow sha call (ce_row e) (ce_emit e) h hs (pi_when i) (eo_prepared opts) s") simp_all
qed simp

lemma fold_rows_evolve:
  assumes "fold_fail (\<lambda>e. applyRow sha call (ce_row e) (ce_emit e) h hs ws pr) es s = Inr s'"
  shows "fs_verdict s \<le> fs_verdict s'" "fs_rowIds s' = fs_rowIds s @ map (gr_id \<circ> ce_row) es"
    "(\<And>e. e \<in> set es \<Longrightarrow> k \<notin> rewritten (ce_row e)) \<Longrightarrow> plain_get (fs_value s') k = plain_get (fs_value s) k"
    "(\<And>e. e \<in> set es \<Longrightarrow> gr_do (ce_row e) \<noteq> DoRewrite) \<Longrightarrow> fs_value s' = fs_value s"
  using assms
proof (induction es arbitrary: s)
  case (Cons e es)
  {
    case 1
    then obtain u where "evolves (ce_row e) s u" and r: "fold_fail (\<lambda>e. applyRow sha call (ce_row e) (ce_emit e) h hs ws pr) es u = Inr s'"
      by (auto simp: and_then_eq_Inr dest: applyRow_evolves)
    with Cons.IH(1) [OF r] show ?case by (auto simp: evolves_def)
  next
    case 2
    then obtain u where "evolves (ce_row e) s u" and r: "fold_fail (\<lambda>e. applyRow sha call (ce_row e) (ce_emit e) h hs ws pr) es u = Inr s'"
      by (auto simp: and_then_eq_Inr dest: applyRow_evolves)
    with Cons.IH(2) [OF r] show ?case by (auto simp: evolves_def)
  next
    case 3
    then obtain u where "evolves (ce_row e) s u" and r: "fold_fail (\<lambda>e. applyRow sha call (ce_row e) (ce_emit e) h hs ws pr) es u = Inr s'"
      by (auto simp: and_then_eq_Inr dest: applyRow_evolves)
    with Cons.IH(3) [OF _ r] 3(1) show ?case by (auto simp: evolves_def)
  next
    case 4
    then obtain u where "evolves (ce_row e) s u" and r: "fold_fail (\<lambda>e. applyRow sha call (ce_row e) (ce_emit e) h hs ws pr) es u = Inr s'"
      by (auto simp: and_then_eq_Inr dest: applyRow_evolves)
    with Cons.IH(4) [OF _ r] 4(1) show ?case by (auto simp: evolves_def)
  }
qed simp_all

lemma fold_rows_constant:
  assumes "fold_fail (\<lambda>e. applyRow sha call (ce_row e) (ce_emit e) h hs ws pr) es s = Inr s'"
    and "e \<in> set es" "ce_emit e = None" "gr_do (ce_row e) \<noteq> DoObserve" "hw_verdict (gr_how (ce_row e)) = Some v"
  shows "v \<le> fs_verdict s'"
proof -
  from assms(2) obtain xs ys where es: "es = xs @ e # ys" by (auto simp: in_set_conv_decomp)
  with assms(1) obtain u w where "applyRow sha call (ce_row e) (ce_emit e) h hs ws pr u = Inr w"
    "fold_fail (\<lambda>e. applyRow sha call (ce_row e) (ce_emit e) h hs ws pr) ys w = Inr s'"
    by (auto simp: fold_fail_append and_then_eq_Inr)
  with applyRow_constant [of sha call "ce_row e" h hs ws pr u w v] fold_rows_evolve(1) [of sha call h hs ws pr ys w s'] assms(3-5)
  show ?thesis by (metis max.cobounded2 order_trans)
qed

text \<open>A row that consults a handler nobody provides denies.\<close>

lemma fold_rows_unavailable:
  assumes "fold_fail (\<lambda>e. applyRow sha call (ce_row e) (ce_emit e) h hs ws pr) es s = Inr s'"
    and "e \<in> set es" "ce_emit e = None" "gr_do (ce_row e) \<noteq> DoObserve" "hw_verdict (gr_how (ce_row e)) = None"
      "hw_ref (gr_how (ce_row e)) = Some ref" "hs ref = None" "map_of pr (gr_id (ce_row e)) = None"
  shows "fs_verdict s' = Deny"
proof -
  from assms(2) obtain xs ys where es: "es = xs @ e # ys" by (auto simp: in_set_conv_decomp)
  with assms(1) obtain u w where a: "applyRow sha call (ce_row e) (ce_emit e) h hs ws pr u = Inr w"
    and "fold_fail (\<lambda>e. applyRow sha call (ce_row e) (ce_emit e) h hs ws pr) ys w = Inr s'"
    by (auto simp: fold_fail_append and_then_eq_Inr)
  moreover have "fs_verdict w = Deny"
    using a assms(3-8) by (auto simp: applyRow_def Let_def consultRow_def max_def)
  ultimately show ?thesis using fold_rows_evolve(1) [of sha call h hs ws pr ys w s'] by simp
qed

subsection \<open>Observers\<close>

text \<open>The part of the state that observe rows never touch.\<close>

definition decisive :: "fold_state \<Rightarrow> gate_verdict \<times> plain \<times> (str \<times> int) list \<times> gate_consulted list \<times> gate_emission list" where
  "decisive s = (fs_verdict s, fs_value s, fs_obligations s, fs_consulted s, fs_emissions s)"

lemma consultAnswer_decisive:
  "decisive s = decisive t \<Longrightarrow> decisive (consultAnswer sha row ref c r s) = decisive (consultAnswer sha row ref c r t)"
  by (auto simp: consultAnswer_def Let_def decisive_def push_fact_def fold_in_def split: option.splits)

lemma applyRow_decisive:
  assumes "decisive s = decisive t" "gr_do row \<noteq> DoObserve"
  shows "map_sum id decisive (applyRow sha call row emit h hs ws pr s) = map_sum id decisive (applyRow sha call row emit h hs ws pr t)"
proof -
  let ?p = "\<lambda>s. push_obligation (gr_how row) (s\<lparr>fs_rowIds := fs_rowIds s @ [gr_id row]\<rparr>)"
  have d: "decisive (?p s) = decisive (?p t)"
    using assms(1) by (auto simp: decisive_def push_obligation_def split: option.splits)
  have v: "fs_value (?p s) = fs_value (?p t)" "fs_emissions (?p s) = fs_emissions (?p t)"
    using d by (simp_all add: decisive_def)
  have c: "map_sum id decisive (consultRow sha call row ref hs ws pr (?p s)) = map_sum id decisive (consultRow sha call row ref hs ws pr (?p t))" for ref
    using d consultAnswer_decisive [OF d] v(1)
    by (auto simp: consultRow_def decisive_def push_fact_def fold_in_def split: option.splits handler_outcome.splits)
  show ?thesis
    using assms(2) d c v
    by (auto simp: applyRow_def Let_def decisive_def fold_in_def split: option.splits)
qed

lemma map_sum_Inr_iff: "map_sum id f r = Inr y \<longleftrightarrow> (\<exists>x. r = Inr x \<and> f x = y)"
  by (cases r) auto

lemma fold_rows_observers:
  assumes "decisive s = decisive t"
  shows "map_sum id decisive (fold_fail (\<lambda>e. applyRow sha call (ce_row e) (ce_emit e) h hs ws pr) es s) =
    map_sum id decisive (fold_fail (\<lambda>e. applyRow sha call (ce_row e) (ce_emit e) h hs ws pr)
      (filter (\<lambda>e. gr_do (ce_row e) \<noteq> DoObserve) es) t)"
  using assms
proof (induction es arbitrary: s t)
  case (Cons e es)
  show ?case
  proof (cases "gr_do (ce_row e) = DoObserve")
    case True
    then obtain s' where s': "applyRow sha call (ce_row e) (ce_emit e) h hs ws pr s = Inr s'" "decisive s' = decisive s"
      by (auto simp: applyRow_def Let_def decisive_def)
    with True Cons.IH [of s' t] Cons.prems show ?thesis by simp
  next
    case False
    note d = applyRow_decisive [OF Cons.prems False, of sha call "ce_emit e" h hs ws pr]
    show ?thesis
    proof (cases "applyRow sha call (ce_row e) (ce_emit e) h hs ws pr s")
      case (Inl x)
      with d have "applyRow sha call (ce_row e) (ce_emit e) h hs ws pr t = Inl x"
        by (cases "applyRow sha call (ce_row e) (ce_emit e) h hs ws pr t") auto
      with Inl False show ?thesis by simp
    next
      case (Inr s')
      with d obtain t' where "applyRow sha call (ce_row e) (ce_emit e) h hs ws pr t = Inr t'" "decisive s' = decisive t'"
        by (cases "applyRow sha call (ce_row e) (ce_emit e) h hs ws pr t") auto
      with Inr False Cons.IH show ?thesis by simp
    qed
  qed
qed simp

end
