(* ===== verification/Gate_Compile_Laws.thy ===== *)
theory Gate_Compile_Laws
  imports Gate_Compile Gate_Laws
begin

text \<open>
  What compilation guarantees: every entry of a snapshot was admitted at its point,
  row ids are unique, and the rows of a point are in order of priority; and what the
  redact transformer removes.
\<close>

section \<open>Admission\<close>

definition admitted :: "gate_row \<Rightarrow> point_table \<Rightarrow> str list \<Rightarrow> emit_kind option \<Rightarrow> bool" where
  "admitted row table names emit \<longleftrightarrow>
     (\<exists>r. map_of table (gr_on row) = Some r \<and> gr_do row \<in> set (pt_allowedDo r) \<and>
       fst ` set (gr_when row) \<subseteq> set (pt_whenFields r) \<and>
       (gr_do row = DoRewrite \<longrightarrow> pt_rewriteOpen r \<or> set (or_else (hw_fields (gr_how row)) []) \<subseteq> set (pt_rewritableFields r)) \<and>
       (emit \<noteq> None \<longleftrightarrow> gr_do row = DoEmit) \<and> (emit \<noteq> None \<longrightarrow> \<not> pt_end r) \<and>
       set (how_refs (gr_how row)) \<subseteq> set names)"

lemma reject_neq [simp]: "reject c row d \<noteq> Inr x" "Inr x \<noteq> reject c row d"
  by (simp_all add: reject_def)

lemma validateAction_ok: "validateAction row r = Inr u \<longleftrightarrow> gr_do row \<in> set (pt_allowedDo r)"
  by (simp add: validateAction_def)

lemma validateFields_ok:
  "validateFields row r = Inr u \<Longrightarrow> fst ` set (gr_when row) \<subseteq> set (pt_whenFields r) \<and>
    (gr_do row = DoRewrite \<longrightarrow> pt_rewriteOpen r \<or> set (or_else (hw_fields (gr_how row)) []) \<subseteq> set (pt_rewritableFields r))"
  by (auto simp: validateFields_def Let_def find_None_iff split: option.splits if_splits)

lemma validateEmit_ok:
  "validateEmit row r = Inr e \<Longrightarrow> (e \<noteq> None \<longleftrightarrow> gr_do row = DoEmit) \<and> (e \<noteq> None \<longrightarrow> \<not> pt_end r)"
  unfolding validateEmit_def
  by (cases "case hw_emit (gr_how row) of None \<Rightarrow> None | Some e \<Rightarrow> map_of EMIT_KINDS e") (auto split: if_splits, metis)

lemma validateHow_ok: "validateHow row names = Inr u \<Longrightarrow> set (how_refs (gr_how row)) \<subseteq> set names"
  by (auto simp: validateHow_def Let_def and_then_eq_Inr find_None_iff split: option.splits if_splits)

lemma admitRow_sound: "admitRow row table names = Inr emit \<Longrightarrow> admitted row table names emit"
  unfolding admitted_def admitRow_def
  by (auto simp: and_then_eq_Inr validateAction_ok split: option.splits
      dest!: validateFields_ok validateEmit_ok validateHow_ok)

section \<open>The build\<close>

definition build_ok :: "point_table \<Rightarrow> str list \<Rightarrow> 'x build_state \<Rightarrow> bool" where
  "build_ok table names st \<longleftrightarrow>
     (\<forall>p es. map_of (bs_byPoint st) p = Some es \<longrightarrow>
        distinct (map (gr_id \<circ> ce_row) es) \<and>
        (\<forall>e\<in>set es. gr_on (ce_row e) = p \<and> admitted (ce_row e) table names (ce_emit e) \<and> gr_id (ce_row e) \<in> set (bs_seen st)))"

lemma build_ok_empty: "build_ok table names empty_build"
  by (simp add: build_ok_def empty_build_def)

lemma insertRow_ok:
  assumes "build_ok table names st" "insertRow table names mt row pol st = Inr st'"
  shows "build_ok table names st'"
proof -
  from assms(2) obtain emit where fresh: "gr_id row \<notin> set (bs_seen st)" and adm: "admitRow row table names = Inr emit"
    and st': "bs_byPoint st' = put (gr_on row) (or_else (map_of (bs_byPoint st) (gr_on row)) [] @
               [\<lparr>ce_row = row, ce_emit = emit, ce_matcher = mt, ce_policy = pol\<rparr>]) (bs_byPoint st)"
      "bs_seen st' = set_add (gr_id row) (bs_seen st)"
    by (auto simp: insertRow_def and_then_eq_Inr split: if_splits)
  have old: "distinct (map (gr_id \<circ> ce_row) es) \<and>
      (\<forall>e\<in>set es. gr_on (ce_row e) = p \<and> admitted (ce_row e) table names (ce_emit e) \<and> gr_id (ce_row e) \<in> set (bs_seen st))"
    if "map_of (bs_byPoint st) p = Some es" for p es
    using assms(1) that by (simp add: build_ok_def)
  show ?thesis
    unfolding build_ok_def
  proof (intro allI impI)
    fix p es assume es: "map_of (bs_byPoint st') p = Some es"
    show "distinct (map (gr_id \<circ> ce_row) es) \<and>
      (\<forall>e\<in>set es. gr_on (ce_row e) = p \<and> admitted (ce_row e) table names (ce_emit e) \<and> gr_id (ce_row e) \<in> set (bs_seen st'))"
    proof (cases "p = gr_on row")
      case False
      with es old [of p es] show ?thesis by (auto simp: st')
    next
      case True
      define prior where "prior = or_else (map_of (bs_byPoint st) (gr_on row)) []"
      have "distinct (map (gr_id \<circ> ce_row) prior) \<and> (\<forall>e\<in>set prior. gr_on (ce_row e) = p \<and>
          admitted (ce_row e) table names (ce_emit e) \<and> gr_id (ce_row e) \<in> set (bs_seen st))"
        using old [of p] True by (cases "map_of (bs_byPoint st) (gr_on row)") (auto simp: prior_def)
      moreover have "es = prior @ [\<lparr>ce_row = row, ce_emit = emit, ce_matcher = mt, ce_policy = pol\<rparr>]"
        using es True by (simp add: st' prior_def)
      ultimately show ?thesis using fresh admitRow_sound [OF adm] True by (auto simp: st')
    qed
  qed
qed

text \<open>A stored row inserts its projection at each of its points.\<close>

lemma compileRow_Inr:
  assumes "compileRow schemas g kinds registry table names src st = Inr st'"
  shows "\<exists>row p d how. parseRow schemas (fst (fst src)) g kinds registry = Inr row \<and>
    fold_fail (\<lambda>on. insertRow table names None
      \<lparr>gr_id = gateRowId (cr_name row) on (snd src), gr_on = on, gr_when = match_conditions (cr_match row),
       gr_do = d, gr_how = how, gr_order = int (snd src), gr_generation = g\<rparr> (Some row)) (row_points table row p) st = Inr st'"
proof -
  from assms obtain row p where row: "parseRow schemas (fst (fst src)) g kinds registry = Inr row"
    and ff: "fold_fail (\<lambda>on st'. and_then (projectedDoHow row) (\<lambda>(d, how). insertRow table names None
      \<lparr>gr_id = gateRowId (cr_name row) on (snd src), gr_on = on, gr_when = match_conditions (cr_match row),
       gr_do = d, gr_how = how, gr_order = int (snd src), gr_generation = g\<rparr> (Some row) st')) (row_points table row p) st = Inr st'"
    by (auto simp: compileRow_def Let_def and_then_eq_Inr split: option.splits if_splits)
  show ?thesis
  proof (cases "projectedDoHow row")
    case (Inl e)
    have "row_points table row p \<noteq> []" by (simp add: row_points_def)
    with ff Inl show ?thesis by (cases "row_points table row p") simp_all
  next
    case (Inr dh)
    obtain d how where "dh = (d, how)" by (cases dh)
    with ff Inr row show ?thesis by auto
  qed
qed

lemma compileRow_ok:
  assumes "build_ok table names st" "compileRow schemas g kinds registry table names src st = Inr st'"
  shows "build_ok table names st'"
proof -
  from compileRow_Inr [OF assms(2)] obtain row p d how where
    ff: "fold_fail (\<lambda>on. insertRow table names None
      \<lparr>gr_id = gateRowId (cr_name row) on (snd src), gr_on = on, gr_when = match_conditions (cr_match row),
       gr_do = d, gr_how = how, gr_order = int (snd src), gr_generation = g\<rparr> (Some row)) (row_points table row p) st = Inr st'"
    by blast
  show ?thesis by (rule fold_fail_invariant [where P = "build_ok table names", OF ff assms(1)]) (rule insertRow_ok)
qed

section \<open>Priority order\<close>

definition entry_priority :: "'x compiled_entry \<Rightarrow> int" where
  "entry_priority e = (case ce_policy e of None \<Rightarrow> 0 | Some p \<Rightarrow> cr_priority p)"

definition buckets :: "'x build_state \<Rightarrow> str \<Rightarrow> 'x compiled_entry list" where
  "buckets st p = or_else (map_of (bs_byPoint st) p) []"

definition build_sorted :: "int option \<Rightarrow> 'x build_state \<Rightarrow> bool" where
  "build_sorted floor st \<longleftrightarrow>
     (\<forall>p. sorted_wrt (\<lambda>a b. entry_priority b \<le> entry_priority a) (buckets st p) \<and>
       (\<forall>e\<in>set (buckets st p). \<forall>f. floor = Some f \<longrightarrow> f \<le> entry_priority e))"

lemma insertRow_sorted:
  assumes "build_sorted (Some (cr_priority row)) st" "insertRow table names mt gr (Some row) st = Inr st'"
  shows "build_sorted (Some (cr_priority row)) st'"
proof -
  from assms(2) obtain emit where st': "bs_byPoint st' = put (gr_on gr) (buckets st (gr_on gr) @
      [\<lparr>ce_row = gr, ce_emit = emit, ce_matcher = mt, ce_policy = Some row\<rparr>]) (bs_byPoint st)"
    by (auto simp: insertRow_def buckets_def and_then_eq_Inr split: if_splits)
  have "buckets st' p = (if p = gr_on gr then buckets st p @ [\<lparr>ce_row = gr, ce_emit = emit, ce_matcher = mt, ce_policy = Some row\<rparr>]
      else buckets st p)" for p
    by (simp add: buckets_def st')
  with assms(1) show ?thesis
    by (auto simp: build_sorted_def sorted_wrt_append entry_priority_def)
qed

lemma parseRow_priority: "parseRow schemas row g kinds registry = Inr c \<Longrightarrow> cr_priority c = pl_priority row"
  by (auto simp: parseRow_def and_then_eq_Inr split: if_splits option.splits)

lemma build_sorted_mono: "build_sorted (Some f) st \<Longrightarrow> g \<le> f \<Longrightarrow> build_sorted (Some g) st"
  by (fastforce simp: build_sorted_def)

lemma compileRow_sorted:
  assumes "build_sorted (Some (pl_priority (fst (fst src)))) st"
    and "compileRow schemas g kinds registry table names src st = Inr st'"
  shows "build_sorted (Some (pl_priority (fst (fst src)))) st'"
proof -
  from compileRow_Inr [OF assms(2)] obtain row p d how where row: "parseRow schemas (fst (fst src)) g kinds registry = Inr row" and
    ff: "fold_fail (\<lambda>on. insertRow table names None
      \<lparr>gr_id = gateRowId (cr_name row) on (snd src), gr_on = on, gr_when = match_conditions (cr_match row),
       gr_do = d, gr_how = how, gr_order = int (snd src), gr_generation = g\<rparr> (Some row)) (row_points table row p) st = Inr st'"
    by blast
  have s0: "build_sorted (Some (cr_priority row)) st" using assms(1) parseRow_priority [OF row] by simp
  have "build_sorted (Some (cr_priority row)) st'"
    by (rule fold_fail_invariant [where P = "build_sorted (Some (cr_priority row))", OF ff s0]) (rule insertRow_sorted)
  then show ?thesis using parseRow_priority [OF row] by simp
qed

lemma compileRows_sorted:
  assumes "sorted_wrt (\<lambda>a b. pl_priority (fst (fst b)) \<le> pl_priority (fst (fst a))) srcs"
    and "fold_fail (compileRow schemas g kinds registry table names) srcs st = Inr st'"
    and "\<And>s. s \<in> set srcs \<Longrightarrow> build_sorted (Some (pl_priority (fst (fst s)))) st" "build_sorted None st"
  shows "build_sorted None st'"
  using assms
proof (induction srcs arbitrary: st)
  case (Cons s srcs)
  from Cons.prems(2) obtain u where u: "compileRow schemas g kinds registry table names s st = Inr u"
    and r: "fold_fail (compileRow schemas g kinds registry table names) srcs u = Inr st'"
    by (auto simp: and_then_eq_Inr)
  have su: "build_sorted (Some (pl_priority (fst (fst s)))) u" by (rule compileRow_sorted [OF Cons.prems(3) u]) simp
  show ?case
  proof (rule Cons.IH [OF _ r])
    show "build_sorted None u" using su by (simp add: build_sorted_def)
    show "build_sorted (Some (pl_priority (fst (fst s')))) u" if "s' \<in> set srcs" for s'
      using build_sorted_mono [OF su] Cons.prems(1) that by auto
  qed (use Cons.prems(1) in simp)
qed simp

lemma ordered_rows_sorted:
  "sorted_wrt (\<lambda>a b. pl_priority (fst (fst b)) \<le> pl_priority (fst (fst a))) (ordered_rows cmp rows)"
proof -
  let ?o = "sort_by (compare_rows cmp) (zip rows [0..<length rows])"
  have s: "sorted_wrt (\<lambda>a b. pl_priority (fst b) \<le> pl_priority (fst a)) ?o"
    by (rule sorted_sort_by_rel) (auto simp: compare_rows_def split: if_splits)
  then show ?thesis
    by (auto simp: ordered_rows_def Let_def sorted_wrt_iff_nth_less)
qed

lemma compose_rejected_Inr [simp]: "compose_rejected g r = Inr x \<longleftrightarrow> r = Inr x"
  by (cases "(g, r)" rule: compose_rejected.cases) auto

lemma compileStored_ok:
  assumes "compileStored cmp schemas src registry table names = Inr st"
  shows "build_ok table names st" "build_sorted None st"
proof -
  from assms have ff: "fold_fail (compileRow schemas (ps_generation src) (or_else (ps_kinds src) DEFAULT_COMPILE_KINDS @ [''ingress'']) registry table names)
      (ordered_rows cmp (ps_rows src)) empty_build = Inr st"
    by (auto simp: compileStored_def split: option.splits)
  show "build_ok table names st"
    by (rule fold_fail_invariant [where P = "build_ok table names", OF ff build_ok_empty]) (rule compileRow_ok)
  have e: "build_sorted f empty_build" for f by (simp add: build_sorted_def buckets_def empty_build_def)
  show "build_sorted None st" by (rule compileRows_sorted [OF ordered_rows_sorted ff]) (rule e)+
qed

section \<open>Redaction\<close>

fun get_path :: "str list \<Rightarrow> plain \<Rightarrow> plain option" where
  "get_path [] v = Some v"
| "get_path (f # fs) v = (case plain_get v f of None \<Rightarrow> None | Some c \<Rightarrow> get_path fs c)"

lemma plain_get_object: "plain_get v k = (case object_value v of None \<Rightarrow> None | Some ps \<Rightarrow> map_of ps k)"
  by (cases v) (simp_all add: plain_get_def)

lemma redact_at_removes: "get_path (fs @ [leaf]) (redact_at fs leaf None v) = None"
proof (induction fs leaf "None :: plain option" v rule: redact_at.induct)
  case (1 leaf v)
  then show ?case by (cases v) (auto simp: plain_get_def)
next
  case (2 f fs leaf v)
  then show ?case by (cases v) (auto simp: plain_get_def split: option.splits)
qed

lemma redact_at_keeps_absent: "get_path q v = None \<Longrightarrow> get_path q (redact_at fs leaf None v) = None"
proof (induction fs leaf "None :: plain option" v arbitrary: q rule: redact_at.induct)
  case (1 leaf v)
  then show ?case by (cases q; cases v) (auto simp: plain_get_def)
next
  case (2 f fs leaf v)
  show ?case
  proof (cases v)
    case (PObj ps)
    show ?thesis
    proof (cases "map_of ps f")
      case None
      with 2 PObj show ?thesis by simp
    next
      case (Some c)
      show ?thesis
      proof (cases q)
        case Nil
        with 2 show ?thesis by simp
      next
        case (Cons k ks)
        with 2 PObj Some show ?thesis by (auto simp: plain_get_def)
      qed
    qed
  qed (use 2 in auto)
qed

lemma redact_path_keeps_absent: "get_path q v = None \<Longrightarrow> get_path q (redact_path None p v) = None"
  by (simp add: redact_path_def Let_def redact_at_keeps_absent)

lemma split_dots_nonempty [simp]: "split_dots s \<noteq> []"
  by (induction s) (auto split: list.splits)

lemma redact_path_removes:
  "last (split_dots p) \<noteq> [] \<Longrightarrow> get_path (split_dots p) (redact_path None p v) = None"
  using redact_at_removes [of "butlast (split_dots p)" "last (split_dots p)" v] by (simp add: redact_path_def Let_def)

lemma fold_redact_keeps_absent: "get_path q v = None \<Longrightarrow> get_path q (fold (redact_path None) ps v) = None"
  by (induction ps arbitrary: v) (simp_all add: redact_path_keeps_absent)

lemma fold_redact_removes:
  "p \<in> set ps \<Longrightarrow> last (split_dots p) \<noteq> [] \<Longrightarrow> get_path (split_dots p) (fold (redact_path None) ps v) = None"
proof (induction ps arbitrary: v)
  case (Cons q ps)
  then show ?case
    by (cases "p = q") (auto intro: fold_redact_keeps_absent redact_path_removes)
qed simp

lemma redact_at_other: "k \<noteq> hd (fs @ [leaf]) \<Longrightarrow> plain_get (redact_at fs leaf r v) k = plain_get v k"
  by (cases fs; cases v) (auto simp: plain_get_def split: option.splits)

lemma redact_path_other: "k \<noteq> hd (split_dots p) \<Longrightarrow> plain_get (redact_path r p v) k = plain_get v k"
  using redact_at_other [of k "butlast (split_dots p)" "last (split_dots p)" r v] by (simp add: redact_path_def Let_def)

lemma fold_redact_other:
  "(\<And>p. p \<in> set ps \<Longrightarrow> k \<noteq> hd (split_dots p)) \<Longrightarrow> plain_get (fold (redact_path r) ps v) k = plain_get v k"
  by (induction ps arbitrary: v) (simp_all add: redact_path_other)

end
