(* ===== verification/Gate_Properties.thy ===== *)
theory Gate_Properties
  imports Gate_Compile_Laws
begin

text \<open>
  The guarantees of the policy gate, stated over \<^const>\<open>decide\<close>, \<^const>\<open>evaluate\<close> and the
  compilation of policy rows.
\<close>

section \<open>Decisions\<close>

definition point_entries :: "('g, 'c, 'x) snapshot \<Rightarrow> str \<Rightarrow> 'x compiled_entry list" where
  "point_entries sp p = or_else (map_of (sp_byPoint sp) p) []"

definition applicable :: "(str \<Rightarrow> str) \<Rightarrow> ('g, 'c, 'x) snapshot \<Rightarrow> 'x point_input \<Rightarrow> 'x compiled_entry list" where
  "applicable sha sp i = filter (\<lambda>e. entry_matches sha e i) (point_entries sp (pi_point i))"

definition rows_run ::
  "(str \<Rightarrow> str) \<Rightarrow> 'g caller \<Rightarrow> ('g, 'c, 'x) snapshot \<Rightarrow> 'x point_input \<Rightarrow> 'g evaluation_options \<Rightarrow> 'x compiled_entry list
    \<Rightarrow> unit + fold_state" where
  "rows_run sha call sp i opts es =
     fold_fail (\<lambda>e. applyRow sha call (ce_row e) (ce_emit e)
         (or_else (eo_inputHash opts) (canonicalDigest sha (point_identity (pi_point i) (pi_when i) (pi_value i))))
         (or_else (eo_handlers opts) (map_of (sp_handlers sp))) (pi_when i) (eo_prepared opts))
       es (initialFoldState (pi_value i))"

lemma decide_fresh:
  assumes "eo_recorded opts = None" "eo_pendingAsync opts = None"
  shows "decide sha call sp i opts =
    and_then (rows_run sha call sp i opts (applicable sha sp i)) (\<lambda>s.
      Inr \<lparr>go_decision = decisionOf (pi_point i)
             (or_else (eo_inputHash opts) (canonicalDigest sha (point_identity (pi_point i) (pi_when i) (pi_value i))))
             (sp_generation sp) s,
           go_value = fs_value s, go_emissions = fs_emissions s, go_replayed = False, go_pending = None\<rparr>)"
proof -
  have *: "and_then (and_then x (\<lambda>s. Inr (s, None))) f = and_then x (\<lambda>s. f (s, None))" for x :: "unit + fold_state" and f
    by (cases x) auto
  show ?thesis
    by (simp add: decide_def assms foldEntries_fold [OF assms(2)] rows_run_def applicable_def point_entries_def Let_def *)
qed

lemma decide_fresh_Inr:
  assumes "decide sha call sp i opts = Inr out" "eo_recorded opts = None" "eo_pendingAsync opts = None"
  obtains s where "rows_run sha call sp i opts (applicable sha sp i) = Inr s"
    "go_decision out = decisionOf (pi_point i)
       (or_else (eo_inputHash opts) (canonicalDigest sha (point_identity (pi_point i) (pi_when i) (pi_value i)))) (sp_generation sp) s"
    "go_value out = fs_value s"
proof (cases "rows_run sha call sp i opts (applicable sha sp i)")
  case (Inl e)
  with assms(1) show ?thesis by (simp add: decide_fresh [OF assms(2,3)])
next
  case (Inr s)
  with assms(1) show ?thesis by (intro that [of s]) (auto simp: decide_fresh [OF assms(2,3)])
qed

text \<open>
  C17. A denial at a point cannot be outvoted: the verdict of a decision is at least as severe
  as that of every matching constant row, whatever the handlers answer and in whatever
  order the rows stand; and a matching row whose handler is not provided denies.
\<close>

theorem gate_fails_closed:
  assumes "decide sha call sp i opts = Inr out" "eo_recorded opts = None" "eo_pendingAsync opts = None"
    and e: "e \<in> set (point_entries sp (pi_point i))" "entry_matches sha e i" "ce_emit e = None" "gr_do (ce_row e) \<noteq> DoObserve"
  shows "(\<forall>v. hw_verdict (gr_how (ce_row e)) = Some v \<longrightarrow> v \<le> gd_verdict (go_decision out)) \<and>
    (\<forall>ref. hw_verdict (gr_how (ce_row e)) = None \<longrightarrow> hw_ref (gr_how (ce_row e)) = Some ref \<longrightarrow>
      or_else (eo_handlers opts) (map_of (sp_handlers sp)) ref = None \<longrightarrow> map_of (eo_prepared opts) (gr_id (ce_row e)) = None \<longrightarrow>
      gd_verdict (go_decision out) = Deny)"
proof -
  obtain s where s: "rows_run sha call sp i opts (applicable sha sp i) = Inr s"
    and out: "gd_verdict (go_decision out) = fs_verdict s"
    by (rule decide_fresh_Inr [OF assms(1-3)]) (simp add: decisionOf_def)
  have app: "e \<in> set (applicable sha sp i)" using e by (simp add: applicable_def)
  show ?thesis unfolding out
    using fold_rows_constant [OF s [unfolded rows_run_def] app e(3,4)]
      fold_rows_unavailable [OF s [unfolded rows_run_def] app e(3,4)] by simp
qed

definition demo_point_row :: "str \<Rightarrow> point_do \<Rightarrow> gate_how \<Rightarrow> gate_row" where
  "demo_point_row i d h = \<lparr>gr_id = i, gr_on = ''tool.pre'', gr_when = [], gr_do = d, gr_how = h, gr_order = 0, gr_generation = 1\<rparr>"

definition demo_entry :: "gate_row \<Rightarrow> unit compiled_entry" where
  "demo_entry r = \<lparr>ce_row = r, ce_emit = None, ce_matcher = None, ce_policy = None\<rparr>"

definition demo_entries :: "unit compiled_entry list" where
  "demo_entries = map demo_entry
     [demo_point_row ''a/tool.pre#0'' DoGate (no_how\<lparr>hw_verdict := Some Deny\<rparr>),
      demo_point_row ''b/tool.pre#1'' DoGate (no_how\<lparr>hw_verdict := Some Allow\<rparr>),
      demo_point_row ''c/tool.pre#2'' DoObserve (no_how\<lparr>hw_ref := Some ''x/y''\<rparr>)]"

definition demo_gate :: "(unit, unit, unit) snapshot" where
  "demo_gate = \<lparr>sp_generation = 1, sp_contentHash = ''h'', sp_pointTable = [], sp_byPoint = [(''tool.pre'', demo_entries)],
     sp_rowById = [], sp_handlers = [], sp_consultants = []\<rparr>"

definition demo_call :: "unit caller" where
  "demo_call g v p w s = HandlerThrew"

definition demo_point :: "unit point_input" where
  "demo_point = \<lparr>pi_point = ''tool.pre'', pi_when = [], pi_value = PObj [(''a'', PNull)], pi_context = None, pi_message = None\<rparr>"

lemmas demo_gate_defs = demo_gate_def demo_entries_def demo_entry_def demo_point_row_def demo_point_def no_how_def no_options_def
  point_entries_def entry_matches_def decide_def initialFoldState_def applyRow_def awaitedConsultRef_def push_obligation_def
  fold_in_def observeRow_def push_fact_def decisionOf_def

theorem gate_fails_closed_witness:
  "\<exists>out. decide (\<lambda>_. ''d'') demo_call demo_gate demo_point no_options = Inr out \<and> gd_verdict (go_decision out) = Deny"
proof -
  have "is_ok (decide (\<lambda>_. ''d'') demo_call demo_gate demo_point no_options)"
    by (simp add: demo_gate_defs Let_def)
  then obtain out where out: "decide (\<lambda>_. ''d'') demo_call demo_gate demo_point no_options = Inr out" by (auto simp: is_ok_iff)
  have "Deny \<le> gd_verdict (go_decision out)"
    using gate_fails_closed [OF out, of "hd demo_entries"] by (simp add: demo_gate_defs)
  with out show ?thesis by auto
qed

text \<open>
  C18. Observers only watch: removing every observe row from a point changes neither whether
  the decision succeeds nor its verdict, value, obligations, consulted responses or
  emissions.
\<close>

definition without_observers :: "('g, 'c, 'x) snapshot \<Rightarrow> str \<Rightarrow> ('g, 'c, 'x) snapshot" where
  "without_observers sp p =
     sp\<lparr>sp_byPoint := put p (filter (\<lambda>e. gr_do (ce_row e) \<noteq> DoObserve) (point_entries sp p)) (sp_byPoint sp)\<rparr>"

definition decision_core :: "gate_outcome \<Rightarrow> gate_verdict \<times> plain \<times> (str \<times> int) list \<times> gate_consulted list \<times> gate_emission list" where
  "decision_core out = (gd_verdict (go_decision out), go_value out, gd_obligations (go_decision out),
     gd_consulted (go_decision out), go_emissions out)"

theorem observers_do_not_decide:
  assumes "eo_recorded opts = None" "eo_pendingAsync opts = None"
  shows "map_sum id decision_core (decide sha call sp i opts) =
    map_sum id decision_core (decide sha call (without_observers sp (pi_point i)) i opts)"
proof -
  have app: "applicable sha (without_observers sp (pi_point i)) i =
      filter (\<lambda>e. gr_do (ce_row e) \<noteq> DoObserve) (applicable sha sp i)"
    by (simp add: applicable_def point_entries_def without_observers_def conj_commute)
  have same: "rows_run sha call (without_observers sp p) i opts es = rows_run sha call sp i opts es" for p es
    by (simp add: rows_run_def without_observers_def)
  have gen: "sp_generation (without_observers sp p) = sp_generation sp" for p by (simp add: without_observers_def)
  have obs: "map_sum id decisive (rows_run sha call sp i opts es) =
      map_sum id decisive (rows_run sha call sp i opts (filter (\<lambda>e. gr_do (ce_row e) \<noteq> DoObserve) es))" for es
    unfolding rows_run_def by (rule fold_rows_observers) simp
  have core: "map_sum id decision_core (and_then r (\<lambda>s. Inr \<lparr>go_decision = decisionOf p h g s, go_value = fs_value s,
      go_emissions = fs_emissions s, go_replayed = False, go_pending = None\<rparr>)) =
      map_sum id decisive r" for r :: "unit + fold_state" and p h g
    by (cases r) (auto simp: decision_core_def decisive_def decisionOf_def)
  show ?thesis
    unfolding decide_fresh [OF assms] same gen app core by (rule obs)
qed

theorem observers_do_not_decide_witness:
  "map_sum id decision_core (decide (\<lambda>_. ''d'') demo_call demo_gate demo_point no_options) =
    map_sum id decision_core (decide (\<lambda>_. ''d'') demo_call (without_observers demo_gate ''tool.pre'') demo_point no_options)"
  using observers_do_not_decide [of no_options "\<lambda>_. ''d''" demo_call demo_gate demo_point]
  by (simp add: no_options_def demo_point_def)

text \<open>
  C19. Replay: a decision recorded for a point with unique row ids is returned verbatim for
  the same input, with its value, no emissions and no handler called.
\<close>

theorem recorded_decision_replays:
  assumes fresh: "decide sha call sp i opts = Inr out" "eo_recorded opts = None" "eo_pendingAsync opts = None"
    and ids: "distinct (map (gr_id \<circ> ce_row) (point_entries sp (pi_point i)))"
  shows "decide sha call' sp i (opts\<lparr>eo_recorded := Some (go_decision out)\<rparr>) =
    Inr \<lparr>go_decision = go_decision out, go_value = go_value out, go_emissions = [], go_replayed = True, go_pending = None\<rparr>"
proof -
  let ?h = "or_else (eo_inputHash opts) (canonicalDigest sha (point_identity (pi_point i) (pi_when i) (pi_value i)))"
  obtain s where s: "rows_run sha call sp i opts (applicable sha sp i) = Inr s"
    and out: "go_decision out = decisionOf (pi_point i) ?h (sp_generation sp) s" "go_value out = fs_value s"
    by (rule decide_fresh_Inr [OF fresh])
  have rows: "fs_rowIds s = map (gr_id \<circ> ce_row) (applicable sha sp i)"
    using fold_rows_evolve(2) [OF s [unfolded rows_run_def]] by (simp add: initialFoldState_def)
  have "entry_matches sha e i = (gr_id (ce_row e) \<in> set (fs_rowIds s))" if e: "e \<in> set (point_entries sp (pi_point i))" for e
  proof
    assume "entry_matches sha e i"
    with e show "gr_id (ce_row e) \<in> set (fs_rowIds s)" by (auto simp: rows applicable_def)
  next
    assume "gr_id (ce_row e) \<in> set (fs_rowIds s)"
    then obtain e' where e': "e' \<in> set (point_entries sp (pi_point i))" "entry_matches sha e' i" "gr_id (ce_row e') = gr_id (ce_row e)"
      by (auto simp: rows applicable_def)
    with ids e have "e' = e" by (auto simp: distinct_map inj_on_def)
    with e' show "entry_matches sha e i" by simp
  qed
  then have "replays sha (sp_generation sp) i (point_entries sp (pi_point i)) ?h (go_decision out)"
    by (auto simp: replays_def out decisionOf_def list_all_iff)
  then show ?thesis
    by (simp add: decide_def Let_def point_entries_def out decisionOf_def)
qed

theorem recorded_decision_replays_witness:
  "\<exists>out. decide (\<lambda>_. ''d'') demo_call demo_gate demo_point no_options = Inr out \<and>
    decide (\<lambda>_. ''d'') (\<lambda>g v p w s. Escaped ''z'') demo_gate demo_point (no_options\<lparr>eo_recorded := Some (go_decision out)\<rparr>) =
      Inr \<lparr>go_decision = go_decision out, go_value = go_value out, go_emissions = [], go_replayed = True, go_pending = None\<rparr>"
proof -
  have "is_ok (decide (\<lambda>_. ''d'') demo_call demo_gate demo_point no_options)"
    by (simp add: demo_gate_defs Let_def)
  then obtain out where out: "decide (\<lambda>_. ''d'') demo_call demo_gate demo_point no_options = Inr out" by (auto simp: is_ok_iff)
  from recorded_decision_replays [OF out, of "\<lambda>g v p w s. Escaped ''z''"] out show ?thesis
    by (auto simp: demo_gate_def demo_entries_def demo_entry_def demo_point_row_def demo_point_def no_options_def point_entries_def)
qed

section \<open>Compiled snapshots\<close>

lemma compiled_build:
  assumes "compile_policy sha cmp schemas src handlers = Inr sp"
  shows "\<exists>st. build_ok (sp_pointTable sp) (table_names handlers) st \<and> build_sorted None st \<and> point_entries sp = buckets st"
proof -
  from assms obtain st where st: "compileStored cmp schemas src handlers (sp_pointTable sp) (table_names handlers) = Inr st"
    and sp: "sp_byPoint sp = bs_byPoint st"
    by (auto simp: compile_policy_def createHandlerTable_def and_then_eq_Inr)
  have "point_entries sp = buckets st" by (simp add: fun_eq_iff point_entries_def sp buckets_def)
  with compileStored_ok [OF st] show ?thesis by blast
qed

lemma build_ok_bucket:
  assumes "build_ok table names st"
  shows "distinct (map (gr_id \<circ> ce_row) (buckets st p))"
    "e \<in> set (buckets st p) \<Longrightarrow> gr_on (ce_row e) = p \<and> admitted (ce_row e) table names (ce_emit e)"
  using assms by (cases "map_of (bs_byPoint st) p"; simp add: build_ok_def buckets_def)+

text \<open>
  C20. A compiled snapshot holds only admitted rows: at every point the row ids are unique,
  each row stands at a composed point that allows its action, conditions on that point's
  fields, rewrites only its rewritable fields (unless the point is open), emits nothing at
  turn end, names only registered handlers, and the rows are in order of falling priority.
\<close>

theorem compiled_rows_are_admitted:
  assumes "compile_policy sha cmp schemas src handlers = Inr sp"
  shows "distinct (map (gr_id \<circ> ce_row) (point_entries sp p)) \<and>
    sorted_wrt (\<lambda>a b. entry_priority b \<le> entry_priority a) (point_entries sp p) \<and>
    (\<forall>e\<in>set (point_entries sp p). gr_on (ce_row e) = p \<and>
      admitted (ce_row e) (sp_pointTable sp) (table_names handlers) (ce_emit e))"
proof -
  from compiled_build [OF assms] obtain st where st: "build_ok (sp_pointTable sp) (table_names handlers) st"
    "build_sorted None st" "point_entries sp = buckets st" by blast
  then show ?thesis using build_ok_bucket [OF st(1)] by (simp add: build_sorted_def)
qed

definition demo_schemas :: row_schemas where
  "demo_schemas = \<lparr>match_of = (\<lambda>_. Some \<lparr>mx_op = None, mx_operation = None, mx_role = None, mx_sessionId = None, mx_message = None\<rparr>),
     verdict_of = (\<lambda>v. if plain_get v ''type'' = Some (PStr ''allow'') then Some (VAllow None None None)
        else Some (VObligation ''kernel/budget-clamp'' ''fanout'' 8))\<rparr>"

definition demo_policy :: policy_rows where
  "demo_policy = \<lparr>ps_rows = map (pl_generation_update (\<lambda>_. 1)) SEEDED_POLICY_ROWS, ps_generation = 1, ps_kinds = None,
     ps_mandatory = [], ps_table = None\<rparr>"

definition demo_cmp :: "str \<Rightarrow> str \<Rightarrow> int" where
  "demo_cmp a b = (if a < b then -1 else if a = b then 0 else 1)"

definition demo_compiled :: "gate_error + (unit, unit, unit) snapshot" where
  "demo_compiled = compile_policy (\<lambda>_. ''d'') demo_cmp demo_schemas demo_policy KERNEL_POLICY_REGISTRY"

definition demo_turn :: "unit point_input" where
  "demo_turn = \<lparr>pi_point = ''turn.pre'', pi_when = [], pi_value = PObj [(''x'', PBool True)], pi_context = None, pi_message = None\<rparr>"

lemma demo_compiles:
  "case demo_compiled of Inl _ \<Rightarrow> False | Inr sp \<Rightarrow> is_ok (decide (\<lambda>_. ''d'') demo_call sp demo_turn no_options) \<and>
     (case map_of (sp_pointTable sp) ''turn.pre'' of None \<Rightarrow> False
      | Some r \<Rightarrow> \<not> pt_rewriteOpen r \<and> ''x'' \<notin> set (pt_rewritableFields r))"
  by code_simp

theorem compiled_rows_are_admitted_witness:
  "\<exists>sp. demo_compiled = Inr sp \<and> distinct (map (gr_id \<circ> ce_row) (point_entries sp ''turn.post''))"
proof -
  from demo_compiles obtain sp where "demo_compiled = Inr sp" by (auto split: sum.splits)
  with compiled_rows_are_admitted [of "\<lambda>_. ''d''" demo_cmp demo_schemas demo_policy KERNEL_POLICY_REGISTRY sp] show ?thesis
    by (auto simp: demo_compiled_def)
qed



text \<open>
  Unknown ground is denied: an evaluation whose kind and phase name no composed point, or
  a send without its message context, is refused with verdict deny and the value as given,
  and no handler is consulted.
\<close>

lemma unknown_point_is_denied:
  assumes "policyPoint (in_kind i) (in_phase i) = None \<or>
      (\<exists>p. policyPoint (in_kind i) (in_phase i) = Some p \<and> map_of (sp_pointTable sp) p = None) \<or>
      in_kind i = ''message'' \<and> in_op i = Some ''send_message'' \<and> in_message i = None"
  shows "\<exists>ev. evaluate sha call sp i opts = Inr ev \<and> ev_verdict ev = EDeny \<and> ev_value ev = in_value i \<and>
    ev_gate ev = None \<and> ev_transforms ev = [] \<and> ev_effects ev = [] \<and>
    ev_reason ev \<in> {Some ''unknown_point'', Some ''message_context_missing''}"
  using assms by (cases "policyPoint (in_kind i) (in_phase i)") (auto simp: evaluate_def refused_evaluation_def Let_def)

section \<open>Composition and redaction\<close>

definition table_ok :: "point_table \<Rightarrow> bool" where
  "table_ok table \<longleftrightarrow> distinct (map fst table) \<and> (\<forall>p r. map_of table p = Some r \<longrightarrow> pt_id r = p)"

lemma registerCore_ok:
  "registerCore rs table = Inr table' \<Longrightarrow> table_ok table \<Longrightarrow>
    table_ok table' \<and> (\<forall>r\<in>set rs. map_of table' (pt_id r) = Some r) \<and> (\<forall>p. map_of table p \<noteq> None \<longrightarrow> map_of table' p = map_of table p)"
proof (induction rs arbitrary: table)
  case (Cons r rs)
  then have fresh: "map_of table (pt_id r) = None" and rec: "registerCore rs (put (pt_id r) r table) = Inr table'"
    by (auto split: if_splits)
  have "table_ok (put (pt_id r) r table)" using Cons.prems(2) by (auto simp: table_ok_def)
  with Cons.IH [OF rec] fresh show ?case by auto
qed simp

lemma registerPoints_ok:
  "registerPoints bundle ps table = Inr table' \<Longrightarrow> table_ok table \<Longrightarrow>
    table_ok table' \<and> (\<forall>p. map_of table p \<noteq> None \<longrightarrow> map_of table' p = map_of table p)"
proof (induction ps arbitrary: table)
  case (Cons p ps)
  then obtain r where r: "find (\<lambda>r. pt_id r = p) CAPABILITY_POINT_RECORDS = Some r" "map_of table p = None"
    and rec: "registerPoints bundle ps (put p r table) = Inr table'"
    by (auto split: option.splits if_splits)
  from r(1) have "pt_id r = p" by (auto simp: find_Some_iff)
  then have "table_ok (put p r table)" using Cons.prems(2) by (auto simp: table_ok_def)
  with Cons.IH [OF rec] r(2) show ?case by auto
qed simp

text \<open>
  C22. A composed point table is keyed by the id of each record, holds every sealed core point,
  and a core point is never replaced by a capability.
\<close>

theorem composed_table_keeps_core:
  assumes "composePointTable caps core = Inr table"
  shows "table_ok table \<and> (\<forall>r\<in>set CORE_POINT_RECORDS. map_of table (pt_id r) \<noteq> None) \<and>
    (\<forall>r\<in>set (or_else core CORE_POINT_RECORDS). map_of table (pt_id r) = Some r)"
proof -
  from assms have sealed: "\<forall>s\<in>set CORE_POINT_RECORDS. \<exists>r\<in>set (or_else core CORE_POINT_RECORDS). pt_id r = pt_id s"
    by (auto simp: composePointTable_def Let_def find_None_iff list_ex_iff split: option.splits)
  from assms obtain t0 where t0: "registerCore (or_else core CORE_POINT_RECORDS) [] = Inr t0"
    and ff: "fold_fail (\<lambda>c. registerPoints (cp_bundle c) (cp_points c)) caps t0 = Inr table"
    by (auto simp: composePointTable_def Let_def and_then_eq_Inr split: option.splits)
  have t0_ok: "table_ok t0 \<and> (\<forall>r\<in>set (or_else core CORE_POINT_RECORDS). map_of t0 (pt_id r) = Some r)"
    using registerCore_ok [OF t0] by (simp add: table_ok_def)
  have ok: "table_ok table \<and> (\<forall>p. map_of t0 p \<noteq> None \<longrightarrow> map_of table p = map_of t0 p)"
    by (rule fold_fail_invariant [where P = "\<lambda>t. table_ok t \<and> (\<forall>p. map_of t0 p \<noteq> None \<longrightarrow> map_of t p = map_of t0 p)", OF ff])
      (use t0_ok registerPoints_ok in \<open>fastforce+\<close>)
  then have kept: "\<forall>r\<in>set (or_else core CORE_POINT_RECORDS). map_of table (pt_id r) = Some r"
    using t0_ok by (metis option.distinct(1))
  then show ?thesis using ok sealed by (metis option.distinct(1))
qed

theorem composed_table_keeps_core_witness:
  "\<exists>table. composePointTable KERNEL_CAPABILITY_POINTS None = Inr table \<and> table_ok table"
proof -
  have "is_ok (composePointTable KERNEL_CAPABILITY_POINTS None)" by code_simp
  then obtain table where "composePointTable KERNEL_CAPABILITY_POINTS None = Inr table" by (auto simp: is_ok_iff)
  with composed_table_keeps_core [OF this] show ?thesis by blast
qed



end
