(* ===== verification/Cron.thy ===== *)
theory Cron
  imports Prelude
begin

text \<open>
  The five-field cron grid of \<^verbatim>\<open>packages/protocol/src/cron.ts\<close>.  A throw of
  \<^verbatim>\<open>CronParseError\<close> is the value \<open>Inl\<close>.  The runtime's zone formatter is the parameter
  \<open>format\<close>: the typed parts \<^verbatim>\<open>formatToParts\<close> returns for an instant.  The search loop
  may run forever over an arbitrary formatter, so its outcome is an option whose
  \<open>None\<close> is not returning.
\<close>

section \<open>Constants and errors\<close>

definition MINUTE_MS :: int where "MINUTE_MS = 60000"

definition SEARCH_BOUND_MS :: int where "SEARCH_BOUND_MS = 366 * 24 * 60 * MINUTE_MS"

definition DAY_JUMP_SAFETY_MINUTES :: int where "DAY_JUMP_SAFETY_MINUTES = 120"

definition MONTH_NAMES :: "str list" where
  "MONTH_NAMES = [''jan'', ''feb'', ''mar'', ''apr'', ''may'', ''jun'', ''jul'', ''aug'', ''sep'', ''oct'', ''nov'', ''dec'']"

definition DAY_NAMES :: "str list" where
  "DAY_NAMES = [''sun'', ''mon'', ''tue'', ''wed'', ''thu'', ''fri'', ''sat'']"

definition MONTH_FIELD :: int where "MONTH_FIELD = 3"

definition DOW_FIELD :: int where "DOW_FIELD = 4"

datatype cron_code = BadFields | BadValue | BadRange | BadStep | BadZone | Unreachable

datatype cron_error = CronParseError cron_code int str

type_synonym 'a cron_result = "cron_error + 'a"

section \<open>Text\<close>

text \<open>\<^verbatim>\<open>s.split(c)\<close> for a single character: always at least one piece.\<close>

fun split_on :: "char \<Rightarrow> str \<Rightarrow> str list" where
  "split_on c [] = [[]]"
| "split_on c (x # xs) =
     (if x = c then [] # split_on c xs
      else case split_on c xs of [] \<Rightarrow> [[x]] | p # ps \<Rightarrow> (x # p) # ps)"

text \<open>\<^verbatim>\<open>s.split(/\s+/)\<close>.\<close>

function split_spaces :: "str \<Rightarrow> str list" where
  "split_spaces s =
     (let w = takeWhile (\<lambda>c. \<not> is_space c) s;
          rest = dropWhile (\<lambda>c. \<not> is_space c) s
      in if rest = [] then [w] else w # split_spaces (dropWhile is_space rest))"
  by pat_completeness auto
termination
proof (relation "measure length")
  fix s w rest
  assume rest: "rest = dropWhile (\<lambda>c. \<not> is_space c) s" and ne: "rest \<noteq> []"
  then have "is_space (hd rest)" by (metis hd_dropWhile)
  then have "length (dropWhile is_space rest) < length rest"
    using ne by (cases rest) (auto simp: less_Suc_eq_le length_dropWhile_le)
  moreover have "length rest \<le> length s" by (simp add: rest length_dropWhile_le)
  ultimately show "(dropWhile is_space rest, s) \<in> measure length" by simp
qed simp

declare split_spaces.simps [simp del]

text \<open>\<^verbatim>\<open>s.toLowerCase()\<close> below code unit 256.\<close>

definition lower_char :: "char \<Rightarrow> char" where
  "lower_char c =
     (let n = (of_char c :: nat) in
      if (65 \<le> n \<and> n \<le> 90) \<or> (192 \<le> n \<and> n \<le> 222 \<and> n \<noteq> 215) then char_of (n + 32) else c)"

definition toLowerCase :: "str \<Rightarrow> str" where
  "toLowerCase s = map lower_char s"

text \<open>\<^verbatim>\<open>names.indexOf(x)\<close>, with \<open>None\<close> for \<open>-1\<close>.\<close>

fun index_of :: "'a \<Rightarrow> 'a list \<Rightarrow> int option" where
  "index_of x [] = None"
| "index_of x (y # ys) = (if x = y then Some 0 else map_option (\<lambda>i. i + 1) (index_of x ys))"

text \<open>The patterns \<^verbatim>\<open>/^\d+$/\<close> and \<^verbatim>\<open>/^[1-9]\d*$/\<close>.\<close>

definition digits :: "str \<Rightarrow> bool" where
  "digits s \<longleftrightarrow> s \<noteq> [] \<and> list_all is_digit s"

definition positive_digits :: "str \<Rightarrow> bool" where
  "positive_digits s \<longleftrightarrow> digits s \<and> hd s \<noteq> CHR ''0''"

text \<open>
  \<^verbatim>\<open>Number\<close> on the decimal texts the file applies it to: the empty text is 0, any
  other text is not a number.
\<close>

definition number :: "str \<Rightarrow> int option" where
  "number s = (if s = [] then Some 0 else if digits s then Some (int (text_nat s)) else None)"

section \<open>Parsing\<close>

record field_spec =
  fd_set :: "int list"
  fd_restricted :: bool

record spec =
  sc_minute :: field_spec
  sc_hour :: field_spec
  sc_dom :: field_spec
  sc_month :: field_spec
  sc_dow :: field_spec

definition parseValue :: "str \<Rightarrow> int \<Rightarrow> str \<Rightarrow> int cron_result" where
  "parseValue token index input =
     (let named =
        (if index = MONTH_FIELD \<or> index = DOW_FIELD
         then index_of (toLowerCase token) (if index = MONTH_FIELD then MONTH_NAMES else DAY_NAMES)
         else None)
      in case named of
           Some n \<Rightarrow> ok (if index = MONTH_FIELD then n + 1 else n)
         | None \<Rightarrow>
             if \<not> digits token then fail (CronParseError BadValue index input)
             else ok (int (text_nat token)))"

text \<open>
  The loop that adds the values of a range.  A step is positive by its pattern; the
  second conjunct only makes the recursion total.
\<close>

function add_range :: "int \<Rightarrow> int \<Rightarrow> int \<Rightarrow> int \<Rightarrow> int list \<Rightarrow> int list" where
  "add_range index step v hi out =
     (if v \<le> hi \<and> 0 < step
      then add_range index step (v + step) hi (set_add (if index = DOW_FIELD \<and> v = 7 then 0 else v) out)
      else out)"
  by pat_completeness auto
termination by (relation "measure (\<lambda>(i, st, v, hi, out). nat (hi + 1 - v))") auto

declare add_range.simps [simp del]

text \<open>The bounds of an item's base: \<^verbatim>\<open>*\<close>, a value, or a range.\<close>

definition item_bounds :: "str \<Rightarrow> bool \<Rightarrow> int \<Rightarrow> int \<Rightarrow> int \<Rightarrow> str \<Rightarrow> (int \<times> int) cron_result" where
  "item_bounds base stepped index lo hi input =
     (if base = ''*'' then ok (lo, hi)
      else case split_on CHR ''-'' base of
        [] \<Rightarrow> ok (lo, hi)
      | rangeFrom # pieces \<Rightarrow>
          if 2 \<le> length pieces then fail (CronParseError BadRange index input)
          else and_then (parseValue rangeFrom index input) (\<lambda>from.
               case pieces of
                 [] \<Rightarrow> ok (from, if stepped then hi else from)
               | rangeTo # _ \<Rightarrow> and_then (parseValue rangeTo index input) (\<lambda>to. ok (from, to))))"

definition parseItem :: "int \<Rightarrow> int \<Rightarrow> int \<Rightarrow> str \<Rightarrow> str \<Rightarrow> int list \<Rightarrow> int list cron_result" where
  "parseItem index lo hi input item out =
     (case split_on CHR ''/'' item of
        [] \<Rightarrow> ok out
      | base # pieces \<Rightarrow>
          if 2 \<le> length pieces \<or> (pieces \<noteq> [] \<and> \<not> positive_digits (hd pieces))
          then fail (CronParseError BadStep index input)
          else
            let step = (if pieces = [] then 1 else int (text_nat (hd pieces))) in
            and_then (item_bounds base (pieces \<noteq> []) index lo hi input) (\<lambda>(from, to).
              if from < lo \<or> hi < to \<or> to < from
              then fail (CronParseError BadRange index input)
              else ok (add_range index step from to out)))"

definition parseField :: "str \<Rightarrow> int \<Rightarrow> int \<Rightarrow> int \<Rightarrow> str \<Rightarrow> field_spec cron_result" where
  "parseField raw index lo hi input =
     and_then (fold_fail (parseItem index lo hi input) (split_on CHR '','' raw) [])
       (\<lambda>s. ok \<lparr>fd_set = s, fd_restricted = raw \<noteq> ''*''\<rparr>)"

definition parse :: "str \<Rightarrow> spec cron_result" where
  "parse expr =
     (case split_spaces (trim expr) of
        [minuteText, hourText, domText, monthText, dowText] \<Rightarrow>
          and_then (parseField minuteText 0 0 59 expr) (\<lambda>mi.
          and_then (parseField hourText 1 0 23 expr) (\<lambda>h.
          and_then (parseField domText 2 1 31 expr) (\<lambda>d.
          and_then (parseField monthText MONTH_FIELD 1 12 expr) (\<lambda>mo.
          and_then (parseField dowText DOW_FIELD 0 7 expr) (\<lambda>w.
            ok \<lparr>sc_minute = mi, sc_hour = h, sc_dom = d, sc_month = mo, sc_dow = w\<rparr>)))))
      | fs \<Rightarrow> fail (CronParseError BadFields (int (length fs)) expr))"

section \<open>The wall clock\<close>

type_synonym formatter = "int \<Rightarrow> (str \<times> str) list"

text \<open>\<^verbatim>\<open>new Intl.DateTimeFormat\<close>: the runtime's zones, \<open>None\<close> where it throws.\<close>

definition zoneFormatter :: "(str \<Rightarrow> formatter option) \<Rightarrow> str \<Rightarrow> formatter cron_result" where
  "zoneFormatter zones tz =
     (case zones tz of None \<Rightarrow> fail (CronParseError BadZone (- 1) tz) | Some f \<Rightarrow> ok f)"

record wall =
  wl_minute :: "int option"
  wl_hour :: "int option"
  wl_dom :: "int option"
  wl_month :: "int option"
  wl_dow :: "int option"
  wl_key :: str

definition wallAt :: "formatter \<Rightarrow> int \<Rightarrow> wall" where
  "wallAt format ms =
     (let parts = fold (\<lambda>(k, v). put k v) (format ms) [];
          read = (\<lambda>k. or_else (map_of parts k) [])
      in \<lparr>wl_minute = number (read ''minute''),
          wl_hour = number (read ''hour''),
          wl_dom = number (read ''day''),
          wl_month = number (read ''month''),
          wl_dow = index_of (toLowerCase (read ''weekday'')) DAY_NAMES,
          wl_key = read ''year'' @ ''-'' @ read ''month'' @ ''-'' @ read ''day'' @ ''T'' @ read ''hour'' @ '':'' @ read ''minute''\<rparr>)"

text \<open>\<^verbatim>\<open>set.has(n)\<close>, false for a value that is not a number.\<close>

definition has :: "field_spec \<Rightarrow> int option \<Rightarrow> bool" where
  "has f v = (case v of None \<Rightarrow> False | Some n \<Rightarrow> n \<in> set (fd_set f))"

definition dayMatches :: "spec \<Rightarrow> wall \<Rightarrow> bool" where
  "dayMatches sc w =
     (let domHit = has (sc_dom sc) (wl_dom w); dowHit = has (sc_dow sc) (wl_dow w) in
      if fd_restricted (sc_dom sc) \<and> fd_restricted (sc_dow sc) then domHit \<or> dowHit
      else (\<not> fd_restricted (sc_dom sc) \<or> domHit) \<and> (\<not> fd_restricted (sc_dow sc) \<or> dowHit))"

definition isRepeatedWallMinute :: "formatter \<Rightarrow> int \<Rightarrow> str \<Rightarrow> bool" where
  "isRepeatedWallMinute format ms key \<longleftrightarrow>
     wl_key (wallAt format (ms - 60 * MINUTE_MS)) = key \<or> wl_key (wallAt format (ms - 30 * MINUTE_MS)) = key"

section \<open>Searching the grid\<close>

text \<open>
  How far the loop moves from one instant: \<open>Some None\<close> stays because the instant is on
  the grid, \<open>Some (Some k)\<close> jumps \<open>k\<close> minutes, and \<open>None\<close> is a jump that is not a number.
\<close>

definition cron_jump :: "spec \<Rightarrow> formatter \<Rightarrow> int \<Rightarrow> int option option" where
  "cron_jump sc format cursor =
     (let w = wallAt format cursor; hourJump = map_option (\<lambda>m. 60 - m) (wl_minute w) in
      if \<not> (has (sc_month sc) (wl_month w) \<and> dayMatches sc w)
      then (case (hourJump, wl_hour w) of
              (Some j, Some h) \<Rightarrow> Some (Some (max j ((23 - h) * 60 + j - DAY_JUMP_SAFETY_MINUTES)))
            | _ \<Rightarrow> None)
      else if \<not> has (sc_hour sc) (wl_hour w) then map_option Some hourJump
      else if \<not> has (sc_minute sc) (wl_minute w) \<or> isRepeatedWallMinute format cursor (wl_key w)
      then Some (Some 1)
      else Some None)"

partial_function (option) search_grid :: "spec \<Rightarrow> formatter \<Rightarrow> str \<Rightarrow> int \<Rightarrow> int \<Rightarrow> int cron_result option" where
  "search_grid sc format expr bound cursor =
     (if \<not> cursor \<le> bound then Some (fail (CronParseError Unreachable (- 1) expr))
      else case cron_jump sc format cursor of
        None \<Rightarrow> Some (fail (CronParseError Unreachable (- 1) expr))
      | Some None \<Rightarrow> Some (ok cursor)
      | Some (Some k) \<Rightarrow> search_grid sc format expr bound (cursor + k * MINUTE_MS))"

declare search_grid.simps [code]

definition nextAfterMinute :: "spec \<Rightarrow> formatter \<Rightarrow> int \<Rightarrow> str \<Rightarrow> int cron_result option" where
  "nextAfterMinute sc format floorMs expr =
     search_grid sc format expr (floorMs + SEARCH_BOUND_MS) (floorMs + MINUTE_MS)"

text \<open>The minute an instant lies in.\<close>

definition floor_minute :: "int \<Rightarrow> int" where
  "floor_minute ms = ms div MINUTE_MS * MINUTE_MS"

text \<open>Sequencing of outcomes that may throw or not return.\<close>

definition bind_run :: "'a cron_result option \<Rightarrow> ('a \<Rightarrow> 'b cron_result option) \<Rightarrow> 'b cron_result option" where
  "bind_run r f = (case r of None \<Rightarrow> None | Some (Inl e) \<Rightarrow> Some (Inl e) | Some (Inr x) \<Rightarrow> f x)"

definition cron_next :: "(str \<Rightarrow> formatter option) \<Rightarrow> str \<Rightarrow> int \<Rightarrow> str \<Rightarrow> int cron_result option" where
  "cron_next zones expr fromMs tz =
     bind_run (Some (parse expr)) (\<lambda>sc.
     bind_run (Some (zoneFormatter zones tz)) (\<lambda>format.
       nextAfterMinute sc format (floor_minute fromMs) expr))"

text \<open>The loop of \<^verbatim>\<open>occurrences\<close>: \<open>n\<close> more hits may be added.\<close>

fun collect :: "spec \<Rightarrow> formatter \<Rightarrow> str \<Rightarrow> int \<Rightarrow> nat \<Rightarrow> int \<Rightarrow> int list \<Rightarrow> int list cron_result option" where
  "collect sc format expr untilMs 0 cursor hits = Some (ok hits)"
| "collect sc format expr untilMs (Suc n) cursor hits =
     bind_run (nextAfterMinute sc format cursor expr) (\<lambda>hit.
       if untilMs < hit then Some (ok hits)
       else collect sc format expr untilMs n hit (hits @ [hit]))"

definition occurrences ::
  "(str \<Rightarrow> formatter option) \<Rightarrow> str \<Rightarrow> int \<Rightarrow> int \<Rightarrow> str \<Rightarrow> nat \<Rightarrow> int list cron_result option" where
  "occurrences zones expr afterMs untilMs tz limit =
     bind_run (Some (parse expr)) (\<lambda>sc.
     bind_run (Some (zoneFormatter zones tz)) (\<lambda>format.
       collect sc format expr untilMs limit (floor_minute afterMs) []))"

text \<open>The loop of \<^verbatim>\<open>missed\<close>: \<open>n\<close> is what is left of the limit at the next hit.\<close>

fun count_missed :: "spec \<Rightarrow> formatter \<Rightarrow> str \<Rightarrow> int \<Rightarrow> nat \<Rightarrow> int \<Rightarrow> nat \<Rightarrow> (nat \<times> bool) cron_result option" where
  "count_missed sc format expr untilMs 0 hit count =
     Some (ok (count, hit \<le> untilMs))"
| "count_missed sc format expr untilMs (Suc n) hit count =
     (if \<not> hit \<le> untilMs then Some (ok (count, False))
      else bind_run (nextAfterMinute sc format hit expr) (\<lambda>hit'.
             count_missed sc format expr untilMs n hit' (count + 1)))"

definition missed ::
  "(str \<Rightarrow> formatter option) \<Rightarrow> str \<Rightarrow> int \<Rightarrow> int \<Rightarrow> str \<Rightarrow> nat \<Rightarrow> (nat \<times> bool) cron_result option" where
  "missed zones expr afterMs untilMs tz limit =
     bind_run (Some (parse expr)) (\<lambda>sc.
     bind_run (Some (zoneFormatter zones tz)) (\<lambda>format.
     bind_run (nextAfterMinute sc format (floor_minute afterMs) expr) (\<lambda>hit.
       count_missed sc format expr untilMs limit hit 0)))"

end
