(* ===== verification/Cron_Laws.thy ===== *)
theory Cron_Laws
  imports Cron
begin

text \<open>
  Laws of the cron grid: over a regular zone the search skips no instant of the grid,
  so it returns the earliest one, and the windowed counts follow by iterating it; and
  the values an accepted field denotes.
\<close>

section \<open>Zones\<close>

definition date_of :: "wall \<Rightarrow> int option \<times> int option \<times> int option" where
  "date_of w = (wl_month w, wl_dom w, wl_dow w)"

definition minute_at :: "formatter \<Rightarrow> int \<Rightarrow> int" where
  "minute_at format c = or_else (wl_minute (wallAt format c)) 0"

definition hour_at :: "formatter \<Rightarrow> int \<Rightarrow> int" where
  "hour_at format c = or_else (wl_hour (wallAt format c)) 0"

text \<open>
  A zone whose clock is regular: every instant has a wall minute and hour in range; the
  offset changes at whole wall hours only, so hour and date stay for the rest of an
  hour; and no change moves the clock forward by more than two hours, so the date
  stays until two hours before the end of a nominal day.
\<close>

definition regular_zone :: "formatter \<Rightarrow> bool" where
  "regular_zone format \<longleftrightarrow>
     (\<forall>c. wl_minute (wallAt format c) = Some (minute_at format c) \<and> 0 \<le> minute_at format c \<and> minute_at format c < 60) \<and>
     (\<forall>c. wl_hour (wallAt format c) = Some (hour_at format c) \<and> 0 \<le> hour_at format c \<and> hour_at format c < 24) \<and>
     (\<forall>c k. 0 \<le> k \<longrightarrow> k < 60 - minute_at format c \<longrightarrow>
        hour_at format (c + k * MINUTE_MS) = hour_at format c \<and>
        date_of (wallAt format (c + k * MINUTE_MS)) = date_of (wallAt format c)) \<and>
     (\<forall>c k. 0 \<le> k \<longrightarrow> k < (23 - hour_at format c) * 60 + (60 - minute_at format c) - 120 \<longrightarrow>
        date_of (wallAt format (c + k * MINUTE_MS)) = date_of (wallAt format c))"

text \<open>An instant at which the expression fires: its wall minute is on the grid and is not a repetition.\<close>

definition fires_at :: "spec \<Rightarrow> formatter \<Rightarrow> int \<Rightarrow> bool" where
  "fires_at sc format c \<longleftrightarrow>
     (let w = wallAt format c in
      has (sc_month sc) (wl_month w) \<and> dayMatches sc w \<and> has (sc_hour sc) (wl_hour w) \<and>
      has (sc_minute sc) (wl_minute w) \<and> \<not> isRepeatedWallMinute format c (wl_key w))"

definition day_open :: "spec \<Rightarrow> wall \<Rightarrow> bool" where
  "day_open sc w \<longleftrightarrow> has (sc_month sc) (wl_month w) \<and> dayMatches sc w"

lemma day_open_cong: "date_of v = date_of w \<Longrightarrow> day_open sc v = day_open sc w"
  by (simp add: day_open_def dayMatches_def date_of_def)

lemma fires_day_open: "fires_at sc format c \<Longrightarrow> day_open sc (wallAt format c)"
  by (simp add: fires_at_def day_open_def Let_def)

lemma fires_hour: "fires_at sc format c \<Longrightarrow> has (sc_hour sc) (wl_hour (wallAt format c))"
  by (simp add: fires_at_def Let_def)

lemmas regular_minute = regular_zone_def [THEN iffD1, THEN conjunct1, rule_format]
lemmas regular_hour = regular_zone_def [THEN iffD1, THEN conjunct2, THEN conjunct1, rule_format]
lemmas regular_rest_of_hour = regular_zone_def [THEN iffD1, THEN conjunct2, THEN conjunct2, THEN conjunct1, rule_format]
lemmas regular_rest_of_day = regular_zone_def [THEN iffD1, THEN conjunct2, THEN conjunct2, THEN conjunct2, rule_format]

section \<open>One step of the search\<close>

lemma cron_jump_regular:
  assumes "regular_zone format"
  shows "cron_jump sc format c =
    (if \<not> day_open sc (wallAt format c)
     then Some (Some (max (60 - minute_at format c)
            ((23 - hour_at format c) * 60 + (60 - minute_at format c) - 120)))
     else if \<not> has (sc_hour sc) (wl_hour (wallAt format c)) then Some (Some (60 - minute_at format c))
     else if fires_at sc format c then Some None else Some (Some 1))"
  using regular_minute [OF assms, of c] regular_hour [OF assms, of c]
  by (simp add: cron_jump_def day_open_def fires_at_def DAY_JUMP_SAFETY_MINUTES_def Let_def)

lemma skips_closed_day:
  assumes "regular_zone format" and "\<not> day_open sc (wallAt format c)" and "0 \<le> j"
    and "j < max (60 - minute_at format c) ((23 - hour_at format c) * 60 + (60 - minute_at format c) - 120)"
  shows "\<not> fires_at sc format (c + j * MINUTE_MS)"
proof -
  from assms(4) have "date_of (wallAt format (c + j * MINUTE_MS)) = date_of (wallAt format c)"
    using regular_rest_of_hour [OF assms(1,3), of c] regular_rest_of_day [OF assms(1,3), of c]
    by (auto simp: max_def split: if_splits)
  with assms(2) show ?thesis using day_open_cong fires_day_open by blast
qed

lemma skips_closed_hour:
  assumes "regular_zone format" and "\<not> has (sc_hour sc) (wl_hour (wallAt format c))" and "0 \<le> j"
    and "j < 60 - minute_at format c"
  shows "\<not> fires_at sc format (c + j * MINUTE_MS)"
proof -
  have "wl_hour (wallAt format (c + j * MINUTE_MS)) = wl_hour (wallAt format c)"
    using regular_rest_of_hour [OF assms(1,3,4)] regular_hour [OF assms(1)] by metis
  with assms(2) show ?thesis using fires_hour by metis
qed

lemma cron_jump_cases:
  assumes "regular_zone format"
  obtains (stay) "cron_jump sc format c = Some None" and "fires_at sc format c"
  | (move) k where "cron_jump sc format c = Some (Some k)" and "1 \<le> k"
      and "\<And>j. 0 \<le> j \<Longrightarrow> j < k \<Longrightarrow> \<not> fires_at sc format (c + j * MINUTE_MS)"
proof (cases "day_open sc (wallAt format c)")
  case False
  show ?thesis
  proof (rule move)
    show "cron_jump sc format c = Some (Some (max (60 - minute_at format c)
            ((23 - hour_at format c) * 60 + (60 - minute_at format c) - 120)))"
      using False by (simp add: cron_jump_regular [OF assms])
    show "1 \<le> max (60 - minute_at format c) ((23 - hour_at format c) * 60 + (60 - minute_at format c) - 120)"
      using regular_minute [OF assms, of c] by (simp add: le_max_iff_disj)
  qed (rule skips_closed_day [OF assms False])
next
  case open_day: True
  show ?thesis
  proof (cases "has (sc_hour sc) (wl_hour (wallAt format c))")
    case False
    show ?thesis
    proof (rule move)
      show "cron_jump sc format c = Some (Some (60 - minute_at format c))"
        using open_day False by (simp add: cron_jump_regular [OF assms])
      show "1 \<le> 60 - minute_at format c" using regular_minute [OF assms, of c] by simp
    qed (rule skips_closed_hour [OF assms False])
  next
    case True
    then show ?thesis
    proof (cases "fires_at sc format c")
      case False
      show ?thesis
      proof (rule move)
        show "cron_jump sc format c = Some (Some 1)"
          using open_day True False by (simp add: cron_jump_regular [OF assms])
        fix j :: int assume "0 \<le> j" "j < 1"
        then have "j = 0" by simp
        with False show "\<not> fires_at sc format (c + j * MINUTE_MS)" by simp
      qed simp
    qed (use open_day in \<open>simp_all add: cron_jump_regular [OF assms] stay\<close>)
  qed
qed

section \<open>The search\<close>

text \<open>The instants of the grid in \<open>(lo, hi]\<close>.\<close>

definition grid_between :: "spec \<Rightarrow> formatter \<Rightarrow> int \<Rightarrow> int \<Rightarrow> int set" where
  "grid_between sc format lo hi = {u. MINUTE_MS dvd u \<and> lo < u \<and> u \<le> hi \<and> fires_at sc format u}"

lemma MINUTE_MS_pos [simp]: "0 < MINUTE_MS"
  by (simp add: MINUTE_MS_def)

lemma aligned_between:
  assumes "MINUTE_MS dvd c" "MINUTE_MS dvd u" "c \<le> u" "u < c + k * MINUTE_MS"
  obtains j where "0 \<le> j" "j < k" "u = c + j * MINUTE_MS"
proof -
  from assms(1,2) have "MINUTE_MS dvd u - c" by (rule dvd_diff [rotated])
  then obtain j where j: "u - c = j * MINUTE_MS" by (metis dvd_def mult.commute)
  have "0 \<le> j" using j assms(3) by (simp add: MINUTE_MS_def)
  moreover have "j < k" using j assms(4) by (simp add: MINUTE_MS_def)
  ultimately show ?thesis using that j by (simp add: algebra_simps)
qed

text \<open>What the search from \<open>cursor\<close> to \<open>bound\<close> returns.\<close>

definition earliest :: "spec \<Rightarrow> formatter \<Rightarrow> str \<Rightarrow> int \<Rightarrow> int \<Rightarrow> int cron_result \<Rightarrow> bool" where
  "earliest sc format expr lo hi r =
     (case r of
        Inl e \<Rightarrow> e = CronParseError Unreachable (- 1) expr \<and> grid_between sc format lo hi = {}
      | Inr t \<Rightarrow> t \<in> grid_between sc format lo hi \<and> (\<forall>u \<in> grid_between sc format lo hi. t \<le> u))"

lemma search_grid_earliest:
  assumes "regular_zone format" and "MINUTE_MS dvd cursor" and "lo < cursor"
    and "\<And>u. u \<in> grid_between sc format lo hi \<Longrightarrow> cursor \<le> u"
  shows "\<exists>r. search_grid sc format expr hi cursor = Some r \<and> earliest sc format expr lo hi r"
  using assms(2-4)
proof (induction "nat (hi + 1 - cursor)" arbitrary: cursor rule: less_induct)
  case less
  show ?case
  proof (cases "cursor \<le> hi")
    case False
    have "grid_between sc format lo hi = {}"
    proof (rule ccontr)
      assume "grid_between sc format lo hi \<noteq> {}"
      then obtain u where u: "u \<in> grid_between sc format lo hi" by blast
      then have "u \<le> hi" by (simp add: grid_between_def)
      with less.prems(3) [OF u] False show False by simp
    qed
    with False show ?thesis by (simp add: search_grid.simps earliest_def)
  next
    case True
    show ?thesis
    proof (rule cron_jump_cases [OF assms(1), of sc cursor])
      assume "cron_jump sc format cursor = Some None" "fires_at sc format cursor"
      with True less.prems show ?thesis
        by (simp add: search_grid.simps [of _ _ _ _ cursor] earliest_def grid_between_def)
    next
      fix k
      assume move: "cron_jump sc format cursor = Some (Some k)" "1 \<le> k"
        "\<And>j. 0 \<le> j \<Longrightarrow> j < k \<Longrightarrow> \<not> fires_at sc format (cursor + j * MINUTE_MS)"
      let ?c = "cursor + k * MINUTE_MS"
      have step: "search_grid sc format expr hi cursor = search_grid sc format expr hi ?c"
        using True move(1) by (simp add: search_grid.simps [of _ _ _ _ cursor])
      have "\<exists>r. search_grid sc format expr hi ?c = Some r \<and> earliest sc format expr lo hi r"
      proof (rule less.hyps)
        show "nat (hi + 1 - ?c) < nat (hi + 1 - cursor)"
          using True move(2) by (simp add: MINUTE_MS_def)
        show "MINUTE_MS dvd ?c" using less.prems(1) by simp
        show "lo < ?c" using less.prems(2) move(2) by (simp add: MINUTE_MS_def)
        fix u assume u: "u \<in> grid_between sc format lo hi"
        then have fire: "fires_at sc format u" and al: "MINUTE_MS dvd u" by (auto simp: grid_between_def)
        show "?c \<le> u"
        proof (rule ccontr)
          assume "\<not> ?c \<le> u"
          then obtain j where "0 \<le> j" "j < k" "u = cursor + j * MINUTE_MS"
            using aligned_between [OF less.prems(1) al less.prems(3) [OF u], of k] by auto
          with fire move(3) show False by blast
        qed
      qed
      with step show ?thesis by simp
    qed
  qed
qed

lemma nextAfterMinute_earliest:
  assumes "regular_zone format" and "MINUTE_MS dvd lo"
  shows "\<exists>r. nextAfterMinute sc format lo expr = Some r \<and>
    earliest sc format expr lo (lo + SEARCH_BOUND_MS) r"
  unfolding nextAfterMinute_def
proof (rule search_grid_earliest [OF assms(1)])
  show "MINUTE_MS dvd lo + MINUTE_MS" using assms(2) by simp
  fix u assume "u \<in> grid_between sc format lo (lo + SEARCH_BOUND_MS)"
  then have "MINUTE_MS dvd u" and "lo < u" by (auto simp: grid_between_def)
  with assms(2) show "lo + MINUTE_MS \<le> u" using zdvd_imp_le [OF dvd_diff, of MINUTE_MS u lo] by simp
qed simp

section \<open>Windows\<close>

lemma finite_grid_between [simp]: "finite (grid_between sc format lo hi)"
  by (rule finite_subset [of _ "{lo..hi}"]) (auto simp: grid_between_def)

text \<open>After a successful search the window splits at the hit.\<close>

lemma grid_between_step:
  assumes "earliest sc format expr lo bound (Inr hit)"
  shows "grid_between sc format lo hi =
    (if hit \<le> hi then insert hit (grid_between sc format hit hi) else {})"
proof -
  from assms have hit: "hit \<in> grid_between sc format lo bound"
    and least: "\<And>u. u \<in> grid_between sc format lo bound \<Longrightarrow> hit \<le> u"
    by (auto simp: earliest_def)
  have first: "hit \<le> u" if "u \<in> grid_between sc format lo hi" for u
  proof (cases "u \<le> bound")
    case True
    with that show ?thesis by (intro least) (auto simp: grid_between_def)
  next
    case False
    moreover from hit have "hit \<le> bound" by (simp add: grid_between_def)
    ultimately show ?thesis by simp
  qed
  from hit have "lo < hit" "MINUTE_MS dvd hit" "fires_at sc format hit" by (auto simp: grid_between_def)
  show ?thesis
  proof (cases "hit \<le> hi")
    case True
    have "u \<in> grid_between sc format lo hi \<longleftrightarrow> u = hit \<or> u \<in> grid_between sc format hit hi" for u
      using first [of u] True \<open>lo < hit\<close> \<open>MINUTE_MS dvd hit\<close> \<open>fires_at sc format hit\<close>
      by (auto simp: grid_between_def)
    with True show ?thesis by auto
  next
    case False
    have "u \<notin> grid_between sc format lo hi" for u
      using first [of u] False by (auto simp: grid_between_def)
    with False show ?thesis by auto
  qed
qed

lemma sorted_list_of_set_insert_least:
  assumes "finite A" and "\<And>u. u \<in> A \<Longrightarrow> hit < u"
  shows "sorted_list_of_set (insert hit A) = (hit :: int) # sorted_list_of_set A"
proof -
  from assms have "hit \<notin> A" by blast
  with assms show ?thesis
    by (simp add: insort_is_Cons order.strict_implies_order)
qed

lemma grid_list_step:
  assumes "earliest sc format expr lo bound (Inr hit)"
  shows "sorted_list_of_set (grid_between sc format lo hi) =
    (if hit \<le> hi then hit # sorted_list_of_set (grid_between sc format hit hi) else [])"
  using sorted_list_of_set_insert_least [of "grid_between sc format hit hi" hit]
  by (simp add: grid_between_step [OF assms]) (simp add: grid_between_def)

lemma card_grid_step:
  assumes "earliest sc format expr lo bound (Inr hit)"
  shows "card (grid_between sc format lo hi) =
    (if hit \<le> hi then Suc (card (grid_between sc format hit hi)) else 0)"
  using arg_cong [where f = length, OF grid_list_step [OF assms, of hi]] by simp

lemma earliest_hit_aligned: "earliest sc format expr lo hi (Inr t) \<Longrightarrow> MINUTE_MS dvd t"
  by (simp add: earliest_def grid_between_def)

lemma earliest_error: "earliest sc format expr lo hi (Inl e) \<Longrightarrow> e = CronParseError Unreachable (- 1) expr"
  by (simp add: earliest_def)

lemma collect_exact:
  assumes "regular_zone format" and "MINUTE_MS dvd cursor"
  shows "\<exists>r. collect sc format expr hi n cursor hits = Some r \<and>
    (case r of
       Inl e \<Rightarrow> e = CronParseError Unreachable (- 1) expr
     | Inr hs \<Rightarrow> hs = hits @ take n (sorted_list_of_set (grid_between sc format cursor hi)))"
  using assms(2)
proof (induction n arbitrary: cursor hits)
  case 0
  then show ?case by simp
next
  case (Suc n)
  obtain r where r: "nextAfterMinute sc format cursor expr = Some r"
    and e: "earliest sc format expr cursor (cursor + SEARCH_BOUND_MS) r"
    using nextAfterMinute_earliest [OF assms(1) Suc.prems] by blast
  show ?case
  proof (cases r)
    case (Inl x)
    with r e show ?thesis by (auto simp: bind_run_def earliest_def)
  next
    case (Inr hit)
    note e' = e [unfolded Inr]
    show ?thesis
      using Suc.IH [OF earliest_hit_aligned [OF e'], of "hits @ [hit]"]
      by (auto simp: r Inr bind_run_def grid_list_step [OF e', of hi] split: sum.splits)
  qed
qed

lemma count_missed_exact:
  assumes "regular_zone format" and "earliest sc format expr lo bound (Inr hit)"
  shows "\<exists>r. count_missed sc format expr hi n hit k = Some r \<and>
    (case r of
       Inl e \<Rightarrow> e = CronParseError Unreachable (- 1) expr
     | Inr cs \<Rightarrow> cs = (k + min n (card (grid_between sc format lo hi)), n < card (grid_between sc format lo hi)))"
  using assms(2)
proof (induction n arbitrary: lo bound hit k)
  case 0
  then show ?case by (simp add: card_grid_step [OF 0])
next
  case (Suc n)
  obtain r where r: "nextAfterMinute sc format hit expr = Some r"
    and e: "earliest sc format expr hit (hit + SEARCH_BOUND_MS) r"
    using nextAfterMinute_earliest [OF assms(1) earliest_hit_aligned [OF Suc.prems]] by blast
  show ?case
  proof (cases r)
    case (Inl x)
    with r e show ?thesis
      by (auto simp: bind_run_def card_grid_step [OF Suc.prems, of hi] dest: earliest_error)
  next
    case (Inr hit')
    show ?thesis
      using Suc.IH [OF e [unfolded Inr], of "k + 1"]
      by (auto simp: r Inr bind_run_def card_grid_step [OF Suc.prems, of hi] split: sum.splits)
  qed
qed

lemma floor_minute_aligned [simp]: "MINUTE_MS dvd floor_minute ms"
  by (simp add: floor_minute_def)

lemma grid_between_floor [simp]: "grid_between sc format (floor_minute ms) hi = grid_between sc format ms hi"
proof -
  have "floor_minute ms < u \<longleftrightarrow> ms < u" if "MINUTE_MS dvd u" for u
  proof -
    from that obtain j where j: "u = j * MINUTE_MS" by (metis dvd_def mult.commute)
    have "ms div MINUTE_MS < j \<longleftrightarrow> ms < j * MINUTE_MS"
      unfolding MINUTE_MS_def by linarith
    then show ?thesis by (simp add: floor_minute_def j)
  qed
  then show ?thesis by (auto simp: grid_between_def)
qed

section \<open>What an expression denotes\<close>

text \<open>
  The abstract syntax of an item: \<^verbatim>\<open>*\<close>, a value or a range of values, each with an
  optional step; its text, the bounds it spans within a field, and the values it denotes.
\<close>

datatype cron_item = Every "nat option" | At nat "nat option" | Span nat nat "nat option"

fun step_text :: "nat option \<Rightarrow> str" where
  "step_text None = []"
| "step_text (Some s) = CHR ''/'' # nat_text s"

fun item_base :: "cron_item \<Rightarrow> str" where
  "item_base (Every s) = ''*''"
| "item_base (At v s) = nat_text v"
| "item_base (Span a b s) = nat_text a @ CHR ''-'' # nat_text b"

fun item_step :: "cron_item \<Rightarrow> nat option" where
  "item_step (Every s) = s"
| "item_step (At v s) = s"
| "item_step (Span a b s) = s"

definition item_text :: "cron_item \<Rightarrow> str" where
  "item_text it = item_base it @ step_text (item_step it)"

fun item_span :: "int \<Rightarrow> int \<Rightarrow> cron_item \<Rightarrow> int \<times> int" where
  "item_span lo hi (Every s) = (lo, hi)"
| "item_span lo hi (At v s) = (int v, if s = None then int v else hi)"
| "item_span lo hi (Span a b s) = (int a, int b)"

definition item_valid :: "int \<Rightarrow> int \<Rightarrow> cron_item \<Rightarrow> bool" where
  "item_valid lo hi it \<longleftrightarrow>
     item_step it \<noteq> Some 0 \<and>
     (case item_span lo hi it of (a, b) \<Rightarrow> lo \<le> a \<and> b \<le> hi \<and> a \<le> b)"

definition sunday :: "int \<Rightarrow> int \<Rightarrow> int" where
  "sunday index v = (if index = DOW_FIELD \<and> v = 7 then 0 else v)"

definition stepped_values :: "int \<Rightarrow> int \<Rightarrow> int \<Rightarrow> int set" where
  "stepped_values step a b = {v. a \<le> v \<and> v \<le> b \<and> step dvd v - a}"

definition item_values :: "int \<Rightarrow> int \<Rightarrow> int \<Rightarrow> cron_item \<Rightarrow> int set" where
  "item_values index lo hi it =
     (case item_span lo hi it of (a, b) \<Rightarrow>
        sunday index ` stepped_values (int (or_else (item_step it) 1)) a b)"

subsection \<open>Text\<close>

lemma split_on_none: "c \<notin> set s \<Longrightarrow> split_on c s = [s]"
  by (induction s) auto

lemma split_on_append: "c \<notin> set s \<Longrightarrow> split_on c (s @ c # r) = s # split_on c r"
  by (induction s) auto

fun joined :: "char \<Rightarrow> str list \<Rightarrow> str" where
  "joined c [] = []"
| "joined c [x] = x"
| "joined c (x # y # r) = x @ c # joined c (y # r)"

lemma split_on_joined: "xs \<noteq> [] \<Longrightarrow> \<forall>x \<in> set xs. c \<notin> set x \<Longrightarrow> split_on c (joined c xs) = xs"
  by (induction c xs rule: joined.induct) (simp_all add: split_on_none split_on_append)

lemma is_digit_chars:
  "\<not> is_digit CHR ''/''" "\<not> is_digit CHR ''-''" "\<not> is_digit CHR '',''" "\<not> is_digit CHR '' ''" "\<not> is_digit CHR ''*''"
  by (simp_all add: is_digit_def)

lemma nat_text_without: "\<not> is_digit c \<Longrightarrow> c \<notin> set (nat_text n)"
  using nat_text_digits by blast

lemma digits_nat_text [simp]: "digits (nat_text n)"
  by (simp add: digits_def list_all_iff nat_text_digits)

lemma hd_nat_text_zero: "hd (nat_text n) = CHR ''0'' \<longleftrightarrow> n = 0"
proof (induction n rule: nat_text.induct)
  case (1 n)
  show ?case
  proof (cases "n < 10")
    case True
    have "digit_char n = CHR ''0'' \<longleftrightarrow> n = 0"
    proof
      assume "digit_char n = CHR ''0''"
      then have "(of_char (digit_char n) :: nat) = of_char (CHR ''0'')" by simp
      with True show "n = 0" by (simp add: of_digit_char)
    qed (simp add: digit_char_def char_of_def bit_0)
    with True show ?thesis by (simp add: nat_text.simps [of n])
  next
    case False
    with 1 show ?thesis by (simp add: nat_text.simps [of n])
  qed
qed

lemma positive_digits_nat_text [simp]: "positive_digits (nat_text n) \<longleftrightarrow> n \<noteq> 0"
  by (simp add: positive_digits_def hd_nat_text_zero)

lemma lower_digit: "is_digit c \<Longrightarrow> lower_char c = c"
  by (simp add: is_digit_def lower_char_def Let_def)

lemma toLowerCase_nat_text [simp]: "toLowerCase (nat_text n) = nat_text n"
  unfolding toLowerCase_def by (rule map_idI) (simp add: lower_digit nat_text_digits)

lemma index_of_None: "index_of x ys = None \<longleftrightarrow> x \<notin> set ys"
  by (induction ys) auto

lemma nat_text_not_name: "nat_text n \<notin> set MONTH_NAMES" "nat_text n \<notin> set DAY_NAMES"
proof -
  have "\<forall>s \<in> set MONTH_NAMES \<union> set DAY_NAMES. \<not> is_digit (hd s)"
    by (simp add: MONTH_NAMES_def DAY_NAMES_def is_digit_def)
  moreover have "is_digit (hd (nat_text n))" by (rule nat_text_digits [of _ n]) simp
  ultimately show "nat_text n \<notin> set MONTH_NAMES" "nat_text n \<notin> set DAY_NAMES" by blast+
qed

lemma parseValue_nat_text [simp]: "parseValue (nat_text n) index input = ok (int n)"
  using nat_text_not_name [of n] by (simp add: parseValue_def index_of_None [THEN iffD2])

subsection \<open>Items and fields\<close>

lemma set_add_range:
  "0 < step \<Longrightarrow> set (add_range index step v hi out) = set out \<union> sunday index ` stepped_values step v hi"
proof (induction index step v hi out rule: add_range.induct)
  case (1 index step v hi out)
  show ?case
  proof (cases "v \<le> hi")
    case True
    have "stepped_values step v hi = insert v (stepped_values step (v + step) hi)"
    proof -
      have "v + step \<le> u" if "v \<le> u" "step dvd u - v" "u \<noteq> v" for u
        using zdvd_imp_le [OF that(2)] that by simp
      moreover have "step dvd u - (v + step) \<longleftrightarrow> step dvd u - v" for u
        using dvd_add_right_iff [of step "- step" "u - v"] by (simp add: algebra_simps)
      ultimately show ?thesis using True 1(2) by (auto simp: stepped_values_def)
    qed
    with True 1 show ?thesis
      by (simp add: add_range.simps [of index step v] flip: sunday_def)
  next
    case False
    then have "stepped_values step v hi = {}" by (auto simp: stepped_values_def)
    with False show ?thesis by (simp add: add_range.simps [of index step v])
  qed
qed

lemma item_bounds_base:
  "item_bounds (item_base it) (item_step it \<noteq> None) index lo hi input = ok (item_span lo hi it)"
proof -
  have "nat_text v \<noteq> ''*''" "nat_text v @ CHR ''-'' # s \<noteq> ''*''" for v s
    using nat_text_without [of "CHR ''*''" v] by (auto simp: is_digit_chars append_eq_Cons_conv)
  then show ?thesis
    by (cases it)
      (auto simp: item_bounds_def split_on_none split_on_append nat_text_without is_digit_chars)
qed

lemma item_base_no_slash: "CHR ''/'' \<notin> set (item_base it)"
  by (cases it) (auto simp: nat_text_without is_digit_chars)

lemma parseItem_text:
  "if item_valid lo hi it
   then \<exists>out'. parseItem index lo hi input (item_text it) out = ok out' \<and> set out' = set out \<union> item_values index lo hi it
   else \<exists>e. parseItem index lo hi input (item_text it) out = fail e"
proof (cases "item_step it")
  case None
  obtain a b where ab: "item_span lo hi it = (a, b)" by (cases "item_span lo hi it")
  have "parseItem index lo hi input (item_text it) out =
    (if a < lo \<or> hi < b \<or> b < a then fail (CronParseError BadRange index input)
     else ok (add_range index 1 a b out))"
    using item_bounds_base [of it index lo hi input]
    by (simp add: None ab parseItem_def item_text_def split_on_none item_base_no_slash)
  then show ?thesis
    by (auto simp: item_valid_def item_values_def None ab set_add_range)
next
  case (Some s)
  obtain a b where ab: "item_span lo hi it = (a, b)" by (cases "item_span lo hi it")
  have "parseItem index lo hi input (item_text it) out =
    (if s = 0 then fail (CronParseError BadStep index input)
     else if a < lo \<or> hi < b \<or> b < a then fail (CronParseError BadRange index input)
     else ok (add_range index (int s) a b out))"
    using item_bounds_base [of it index lo hi input]
    by (simp add: Some ab parseItem_def item_text_def split_on_append split_on_none item_base_no_slash
          nat_text_without is_digit_chars)
  then show ?thesis
    by (auto simp: item_valid_def item_values_def Some ab set_add_range)
qed

lemma parse_items:
  "if list_all (item_valid lo hi) its
   then \<exists>out'. fold_fail (parseItem index lo hi input) (map item_text its) out = ok out' \<and>
          set out' = set out \<union> (\<Union>it \<in> set its. item_values index lo hi it)
   else \<exists>e. fold_fail (parseItem index lo hi input) (map item_text its) out = fail e"
proof (induction its arbitrary: out)
  case Nil
  then show ?case by simp
next
  case (Cons it its)
  show ?case
  proof (cases "item_valid lo hi it")
    case True
    with parseItem_text [of lo hi it index input out] obtain out'
      where "parseItem index lo hi input (item_text it) out = ok out'"
        and "set out' = set out \<union> item_values index lo hi it" by auto
    with True Cons.IH [of out'] show ?thesis by (auto split: if_splits simp: Un_assoc)
  next
    case False
    with parseItem_text [of lo hi it index input out] show ?thesis by auto
  qed
qed

definition field_text :: "cron_item list \<Rightarrow> str" where
  "field_text its = joined CHR '','' (map item_text its)"

lemma item_text_chars: "c \<in> set (item_text it) \<Longrightarrow> is_digit c \<or> c \<in> {CHR ''*'', CHR ''-'', CHR ''/''}"
  by (cases it; cases "item_step it") (auto simp: item_text_def dest: nat_text_digits)

lemma item_text_nonempty [simp]: "item_text it \<noteq> []"
  by (cases it) (simp_all add: item_text_def)

lemma item_text_star: "item_text it = ''*'' \<longleftrightarrow> it = Every None"
proof -
  have "nat_text v @ s \<noteq> ''*''" for v s
    using nat_text_without [of "CHR ''*''" v] by (cases "nat_text v") (auto simp: is_digit_chars)
  from this this [of _ "[]"] show ?thesis
    by (cases it; cases "item_step it") (auto simp: item_text_def)
qed

lemma joined_chars: "c \<in> set (joined d xs) \<Longrightarrow> c = d \<or> (\<exists>x \<in> set xs. c \<in> set x)"
  by (induction d xs rule: joined.induct) auto

lemma field_text_star: "its \<noteq> [] \<Longrightarrow> field_text its = ''*'' \<longleftrightarrow> its = [Every None]"
proof (cases its rule: list.exhaust)
  case (Cons it rest)
  show ?thesis
  proof (cases rest)
    case Nil
    with Cons show ?thesis by (simp add: field_text_def item_text_star)
  next
    case (Cons jt rest')
    with \<open>its = it # rest\<close> show ?thesis by (cases "item_text it") (simp_all add: field_text_def)
  qed
qed simp

lemma parseField_text:
  assumes "its \<noteq> []"
  shows "if list_all (item_valid lo hi) its
    then \<exists>f. parseField (field_text its) index lo hi input = ok f \<and>
           set (fd_set f) = (\<Union>it \<in> set its. item_values index lo hi it) \<and>
           fd_restricted f = (its \<noteq> [Every None])
    else \<exists>e. parseField (field_text its) index lo hi input = fail e"
proof -
  have "CHR '','' \<notin> set (item_text it)" for it
    using item_text_chars [of "CHR '',''" it] is_digit_chars by auto
  then have "split_on CHR '','' (field_text its) = map item_text its"
    using assms by (simp add: field_text_def split_on_joined)
  then show ?thesis
    using parse_items [of lo hi its index input "[]"] field_text_star [OF assms]
    by (auto simp: parseField_def)
qed

subsection \<open>Expressions\<close>

lemma split_spaces_none: "s \<noteq> [] \<Longrightarrow> list_all (\<lambda>c. \<not> is_space c) s \<Longrightarrow> split_spaces s = [s]"
  by (subst split_spaces.simps) (simp add: list_all_iff)

lemma split_spaces_append:
  assumes "list_all (\<lambda>c. \<not> is_space c) s" and "r \<noteq> []" and "\<not> is_space (hd r)"
  shows "split_spaces (s @ CHR '' '' # r) = s # split_spaces r"
proof -
  have sp: "is_space CHR '' ''" by (simp add: is_space_def)
  have "dropWhile is_space r = r" using assms(2,3) by (cases r) auto
  with assms(1) sp show ?thesis
    by (subst split_spaces.simps) (simp add: list_all_iff takeWhile_append dropWhile_append)
qed

lemma field_text_chars:
  assumes "its \<noteq> []"
  shows "field_text its \<noteq> []" and "list_all (\<lambda>c. \<not> is_space c) (field_text its)"
proof -
  show "field_text its \<noteq> []"
    using assms by (cases its rule: list.exhaust; cases "tl its") (auto simp: field_text_def)
  have "\<not> is_space c" if "c \<in> set (field_text its)" for c
    using joined_chars [OF that [unfolded field_text_def]] item_text_chars
    by (auto simp: is_space_def is_digit_def dest!: item_text_chars)
  then show "list_all (\<lambda>c. \<not> is_space c) (field_text its)" by (simp add: list_all_iff)
qed

lemma trim_id: "s \<noteq> [] \<Longrightarrow> \<not> is_space (hd s) \<Longrightarrow> \<not> is_space (last s) \<Longrightarrow> trim s = s"
  unfolding trim_def
  by (metis dropWhile_eq_self_iff hd_rev rev_is_Nil_conv rev_rev_ident)

end
