(* ===== verification/Cron_Properties.thy ===== *)
theory Cron_Properties
  imports Cron_Laws
begin

text \<open>
  The guarantees of the cron grid over its public functions, with the UTC calendar as
  the concrete zone of the instances.
\<close>

section \<open>UTC as a formatter\<close>

text \<open>The proleptic Gregorian date of a day number, counted from 1970-01-01.\<close>

definition civil :: "int \<Rightarrow> int \<times> int \<times> int" where
  "civil day =
     (let z = day + 719468; era = z div 146097; doe = z mod 146097;
          yoe = (doe - doe div 1460 + doe div 36524 - doe div 146096) div 365;
          doy = doe - (365 * yoe + yoe div 4 - yoe div 100);
          mp = (5 * doy + 2) div 153;
          month = (if mp < 10 then mp + 3 else mp - 9)
      in (yoe + era * 400 + (if month \<le> 2 then 1 else 0), month, doy - (153 * mp + 2) div 5 + 1))"

definition two_digits :: "int \<Rightarrow> str" where
  "two_digits n = [digit_char (nat (n div 10 mod 10)), digit_char (nat (n mod 10))]"

definition utc_format :: formatter where
  "utc_format ms =
     (let q = ms div 60000; (year, month, day) = civil (q div 1440) in
      [(''weekday'', [''Thu'', ''Fri'', ''Sat'', ''Sun'', ''Mon'', ''Tue'', ''Wed''] ! nat (q div 1440 mod 7)),
       (''literal'', '', ''), (''month'', two_digits month), (''literal'', ''/''), (''day'', two_digits day),
       (''literal'', ''/''), (''year'', two_digits (year div 100) @ two_digits year), (''literal'', '', ''), (''hour'', two_digits (q div 60 mod 24)),
       (''literal'', '':''), (''minute'', two_digits (q mod 60))])"

definition utc_zones :: "str \<Rightarrow> formatter option" where
  "utc_zones tz = (if tz = ''UTC'' then Some utc_format else None)"

lemma number_two_digits: "0 \<le> n \<Longrightarrow> n < 100 \<Longrightarrow> number (two_digits n) = Some n"
  by (simp add: number_def two_digits_def digits_def digit_char_is_digit of_digit_char nat_less_iff) auto

definition utc_weekday :: "int \<Rightarrow> str" where
  "utc_weekday day = [''Thu'', ''Fri'', ''Sat'', ''Sun'', ''Mon'', ''Tue'', ''Wed''] ! nat (day mod 7)"

lemma wallAt_utc_parts:
  assumes "civil (ms div 60000 div 1440) = (y, mo, d)"
  shows "wallAt utc_format ms =
    \<lparr>wl_minute = number (two_digits (ms div 60000 mod 60)),
     wl_hour = number (two_digits (ms div 60000 div 60 mod 24)),
     wl_dom = number (two_digits d), wl_month = number (two_digits mo),
     wl_dow = index_of (toLowerCase (utc_weekday (ms div 60000 div 1440))) DAY_NAMES,
     wl_key = (two_digits (y div 100) @ two_digits y) @ ''-'' @ two_digits mo @ ''-'' @ two_digits d @ ''T'' @
       two_digits (ms div 60000 div 60 mod 24) @ '':'' @ two_digits (ms div 60000 mod 60)\<rparr>"
  unfolding wallAt_def utc_format_def Let_def assms prod.case utc_weekday_def [symmetric]
  by simp

lemma wallAt_utc:
  "wl_minute (wallAt utc_format ms) = Some (ms div 60000 mod 60)"
  "wl_hour (wallAt utc_format ms) = Some (ms div 60000 div 60 mod 24)"
  by (cases "civil (ms div 60000 div 1440)"; simp add: wallAt_utc_parts number_two_digits)+

lemma date_utc:
  assumes "ms div 60000 div 1440 = r div 60000 div 1440"
  shows "date_of (wallAt utc_format ms) = date_of (wallAt utc_format r)"
proof -
  obtain y mo d where "civil (r div 60000 div 1440) = (y, mo, d)" by (cases "civil (r div 60000 div 1440)")
  with assms show ?thesis
    by (simp add: wallAt_utc_parts [of ms y mo d] wallAt_utc_parts [of r y mo d] date_of_def)
qed

lemma utc_at: "minute_at utc_format ms = ms div 60000 mod 60" "hour_at utc_format ms = ms div 60000 div 60 mod 24"
  by (simp_all add: minute_at_def hour_at_def wallAt_utc)

lemma clock_arithmetic:
  fixes q k :: int
  assumes "0 \<le> k"
  shows "k < 60 - q mod 60 \<Longrightarrow> (q + k) div 60 = q div 60"
    and "k < 60 - q mod 60 \<Longrightarrow> (q + k) div 1440 = q div 1440"
    and "k < (23 - q div 60 mod 24) * 60 + (60 - q mod 60) - 120 \<Longrightarrow> (q + k) div 1440 = q div 1440"
proof -
  have sixty: "q = 60 * (q div 60) + q mod 60" by simp
  have hours: "q div 60 = 24 * (q div 60 div 24) + q div 60 mod 24" by simp
  have day: "q div 1440 = q div 60 div 24" using zdiv_zmult2_eq [of 24 q 60] by simp
  have total: "q = 1440 * (q div 1440) + (60 * (q div 60 mod 24) + q mod 60)"
    using sixty hours day by linarith
  have range: "0 \<le> q mod 60" "0 \<le> q div 60 mod 24" "q div 60 mod 24 < 24" by simp_all
  show "k < 60 - q mod 60 \<Longrightarrow> (q + k) div 60 = q div 60"
    using sixty range assms by (intro int_div_pos_eq [where r = "q mod 60 + k"]) simp_all
  have within: "(q + k) div 1440 = q div 1440" if "60 * (q div 60 mod 24) + q mod 60 + k < 1440"
    using total range assms that
    by (intro int_div_pos_eq [where r = "60 * (q div 60 mod 24) + q mod 60 + k"]) simp_all
  show "k < 60 - q mod 60 \<Longrightarrow> (q + k) div 1440 = q div 1440"
    using range by (intro within) simp
  show "k < (23 - q div 60 mod 24) * 60 + (60 - q mod 60) - 120 \<Longrightarrow> (q + k) div 1440 = q div 1440"
    by (intro within) simp
qed

lemma regular_utc: "regular_zone utc_format"
proof -
  have shift: "(c + k * 60000) div 60000 = c div 60000 + k" for c k :: int by simp
  show ?thesis
    unfolding regular_zone_def MINUTE_MS_def
  proof (intro conjI allI impI)
    fix c k :: int
    assume k: "0 \<le> k" "k < 60 - minute_at utc_format c"
    show "hour_at utc_format (c + k * 60000) = hour_at utc_format c"
      using k clock_arithmetic(1) [of k "c div 60000"] by (simp add: utc_at shift del: div_mult_self1 div_mult_self3)
    show "date_of (wallAt utc_format (c + k * 60000)) = date_of (wallAt utc_format c)"
      using k clock_arithmetic(2) [of k "c div 60000"] by (intro date_utc) (simp only: utc_at shift)
  next
    fix c k :: int
    assume "0 \<le> k" "k < (23 - hour_at utc_format c) * 60 + (60 - minute_at utc_format c) - 120"
    then show "date_of (wallAt utc_format (c + k * 60000)) = date_of (wallAt utc_format c)"
      using clock_arithmetic(3) [of k "c div 60000"] by (intro date_utc) (simp only: utc_at shift)
  qed (simp_all add: utc_at wallAt_utc)
qed

section \<open>Expressions\<close>

definition cron_text :: "cron_item list list \<Rightarrow> str" where
  "cron_text fs = joined CHR '' '' (map field_text fs)"

lemma split_spaces_joined:
  assumes "fs \<noteq> []" and "[] \<notin> set fs"
  shows "split_spaces (cron_text fs) = map field_text fs" and "cron_text fs \<noteq> []"
    and "\<not> is_space (hd (cron_text fs))" and "\<not> is_space (last (cron_text fs))"
proof -
  have "split_spaces (cron_text fs) = map field_text fs \<and> cron_text fs \<noteq> [] \<and>
    \<not> is_space (hd (cron_text fs)) \<and> \<not> is_space (last (cron_text fs))"
    using assms
  proof (induction fs rule: induct_list012)
    case 1
    then show ?case by simp
  next
    case (2 f)
    then show ?case
      using field_text_chars [of f]
      by (simp add: cron_text_def split_spaces_none) (auto simp: list_all_iff)
  next
    case (3 f g fs)
    have joined: "cron_text (f # g # fs) = field_text f @ CHR '' '' # cron_text (g # fs)"
      by (simp add: cron_text_def)
    from 3 have ih: "split_spaces (cron_text (g # fs)) = map field_text (g # fs)" "cron_text (g # fs) \<noteq> []"
      "\<not> is_space (hd (cron_text (g # fs)))" "\<not> is_space (last (cron_text (g # fs)))"
      by auto
    from 3 field_text_chars [of f] have f: "field_text f \<noteq> []" "list_all (\<lambda>c. \<not> is_space c) (field_text f)"
      by auto
    with ih show ?case
      by (simp add: joined split_spaces_append) (auto simp: list_all_iff)
  qed
  then show "split_spaces (cron_text fs) = map field_text fs" "cron_text fs \<noteq> []"
    "\<not> is_space (hd (cron_text fs))" "\<not> is_space (last (cron_text fs))" by blast+
qed

text \<open>A field of a parsed expression holds what its items denote.\<close>

definition field_denotes :: "int \<Rightarrow> int \<Rightarrow> int \<Rightarrow> cron_item list \<Rightarrow> field_spec \<Rightarrow> bool" where
  "field_denotes index lo hi its f \<longleftrightarrow>
     set (fd_set f) = (\<Union>it \<in> set its. item_values index lo hi it) \<and> fd_restricted f = (its \<noteq> [Every None])"

lemma parse_cron_text:
  assumes "[] \<notin> {mi, h, d, mo, w}"
  shows "parse (cron_text [mi, h, d, mo, w]) =
    (let expr = cron_text [mi, h, d, mo, w] in
     and_then (parseField (field_text mi) 0 0 59 expr) (\<lambda>mi.
     and_then (parseField (field_text h) 1 0 23 expr) (\<lambda>h.
     and_then (parseField (field_text d) 2 1 31 expr) (\<lambda>d.
     and_then (parseField (field_text mo) MONTH_FIELD 1 12 expr) (\<lambda>mo.
     and_then (parseField (field_text w) DOW_FIELD 0 7 expr) (\<lambda>w.
       ok \<lparr>sc_minute = mi, sc_hour = h, sc_dom = d, sc_month = mo, sc_dow = w\<rparr>))))))"
  using split_spaces_joined [of "[mi, h, d, mo, w]"] assms
  by (simp add: parse_def trim_id Let_def)

lemma parseField_cases:
  assumes "its \<noteq> []"
  obtains (accepted) f where "list_all (item_valid lo hi) its"
      and "parseField (field_text its) index lo hi input = ok f" and "field_denotes index lo hi its f"
  | (refused) e where "\<not> list_all (item_valid lo hi) its" and "parseField (field_text its) index lo hi input = fail e"
  using parseField_text [OF assms, of lo hi index input] by (auto simp: field_denotes_def split: if_splits)

text \<open>
  C25. An expression written from items of the five fields is accepted exactly when every
  item has a positive step and a range inside its field's bounds, and then each field
  of the parsed grid holds exactly the values its items denote (with day 7 read as
  Sunday), and is unrestricted exactly when it is the single \<^verbatim>\<open>*\<close>.
\<close>

theorem cron_expression_denotes:
  assumes "[] \<notin> {mi, h, d, mo, w}"
  shows "is_ok (parse (cron_text [mi, h, d, mo, w])) =
      (list_all (item_valid 0 59) mi \<and> list_all (item_valid 0 23) h \<and> list_all (item_valid 1 31) d \<and>
       list_all (item_valid 1 12) mo \<and> list_all (item_valid 0 7) w) \<and>
    (\<forall>sc. parse (cron_text [mi, h, d, mo, w]) = ok sc \<longrightarrow>
       field_denotes 0 0 59 mi (sc_minute sc) \<and> field_denotes 1 0 23 h (sc_hour sc) \<and>
       field_denotes 2 1 31 d (sc_dom sc) \<and> field_denotes MONTH_FIELD 1 12 mo (sc_month sc) \<and>
       field_denotes DOW_FIELD 0 7 w (sc_dow sc))"
proof -
  from assms have ne: "mi \<noteq> []" "h \<noteq> []" "d \<noteq> []" "mo \<noteq> []" "w \<noteq> []" by auto
  show ?thesis
    unfolding parse_cron_text [OF assms] Let_def
    by (rule parseField_cases [OF ne(1), of 0 59 0 "cron_text [mi, h, d, mo, w]"];
        rule parseField_cases [OF ne(2), of 0 23 1 "cron_text [mi, h, d, mo, w]"];
        rule parseField_cases [OF ne(3), of 1 31 2 "cron_text [mi, h, d, mo, w]"];
        rule parseField_cases [OF ne(4), of 1 12 MONTH_FIELD "cron_text [mi, h, d, mo, w]"];
        rule parseField_cases [OF ne(5), of 0 7 DOW_FIELD "cron_text [mi, h, d, mo, w]"]; simp)
qed

text \<open>A concrete expression: every quarter hour of office hours, on weekdays.\<close>

definition office_hours :: "cron_item list list" where
  "office_hours = [[Every (Some 15)], [Span 9 17 None], [Every None], [Every None], [Span 1 5 None, At 7 None]]"

lemma cron_expression_denotes_witness:
  "cron_text office_hours = ''*/15 9-17 * * 1-5,7'' \<and> (\<exists>sc. parse (cron_text office_hours) = ok sc \<and> set (fd_set (sc_dow sc)) = {0 .. 5})"
proof -
  have "cron_text office_hours = ''*/15 9-17 * * 1-5,7''" by code_simp
  moreover have "item_values DOW_FIELD 0 7 (Span 1 5 None) = {1 .. 5}" "item_values DOW_FIELD 0 7 (At 7 None) = {0}"
    by (auto simp: item_values_def stepped_values_def sunday_def)
  ultimately show ?thesis
    using cron_expression_denotes
      [of "[Every (Some 15)]" "[Span 9 17 None]" "[Every None]" "[Every None]" "[Span 1 5 None, At 7 None]"]
    by (auto simp: office_hours_def item_valid_def field_denotes_def is_ok_iff)
qed

text \<open>A second expression, three minutes of every morning, and its search from 9:14:30 of a Monday.\<close>

definition morning :: str where
  "morning = cron_text [[Span 15 17 None], [At 9 None], [Every None], [Every None], [Every None]]"

definition morning_spec :: spec where
  "morning_spec =
     \<lparr>sc_minute = \<lparr>fd_set = [15, 16, 17], fd_restricted = True\<rparr>, sc_hour = \<lparr>fd_set = [9], fd_restricted = True\<rparr>,
      sc_dom = \<lparr>fd_set = [1 .. 31], fd_restricted = False\<rparr>, sc_month = \<lparr>fd_set = [1 .. 12], fd_restricted = False\<rparr>,
      sc_dow = \<lparr>fd_set = [0 .. 6], fd_restricted = False\<rparr>\<rparr>"

lemma morning_parses: "parse morning = ok morning_spec"
  by code_simp

lemma demo_day:
  "civil 20717 = (2026, 9, 21)" "index_of (toLowerCase (utc_weekday 20717)) DAY_NAMES = Some 1"
  by code_simp+

lemma two_digits_eq: "two_digits a = two_digits b \<longleftrightarrow> a div 10 mod 10 = b div 10 mod 10 \<and> a mod 10 = b mod 10"
proof -
  have "digit_char (nat x) = digit_char (nat y) \<longleftrightarrow> x = y" if "0 \<le> x" "x < 10" "0 \<le> y" "y < 10" for x y :: int
    using of_digit_char [of "nat x"] of_digit_char [of "nat y"] that by (metis add_left_cancel eq_nat_nat_iff nat_less_iff of_nat_numeral)
  then show ?thesis by (simp add: two_digits_def)
qed

lemma morning_jump:
  assumes "c \<in> {1789982100000, 1789982160000, 1789982220000}"
  shows "cron_jump morning_spec utc_format c = Some None"
proof -
  have "length (two_digits n) = 2" for n by (simp add: two_digits_def)
  with assms show ?thesis
    by (auto simp: cron_jump_def wallAt_utc_parts [of _ 2026 9 21] demo_day number_two_digits has_def dayMatches_def
        isRepeatedWallMinute_def MINUTE_MS_def morning_spec_def two_digits_eq)
qed

lemma morning_search:
  assumes "lo \<in> {1789982040000, 1789982100000, 1789982160000}"
  shows "nextAfterMinute morning_spec utc_format lo morning = Some (ok (lo + 60000))"
  using assms morning_jump [of "lo + 60000"]
  by (auto simp: nextAfterMinute_def search_grid.simps MINUTE_MS_def SEARCH_BOUND_MS_def)

section \<open>The next instant\<close>

lemma cron_next_run:
  assumes "parse expr = ok sc" and "zones tz = Some format" and "regular_zone format"
  obtains r where "cron_next zones expr fromMs tz = Some r"
    and "earliest sc format expr (floor_minute fromMs) (floor_minute fromMs + SEARCH_BOUND_MS) r"
  using nextAfterMinute_earliest [OF assms(3) floor_minute_aligned, of sc fromMs expr] assms(1,2)
  by (auto simp: cron_next_def bind_run_def zoneFormatter_def)

text \<open>
  C24. Over a regular zone the search for the next instant always returns.  It returns the
  earliest whole minute strictly after the given instant whose wall time is on the grid
  and is not the repetition of a wall minute, or reports the grid unreachable exactly
  when no such minute lies within 366 days of the given minute.
\<close>

theorem cron_next_is_earliest:
  assumes "parse expr = ok sc" and "zones tz = Some format" and "regular_zone format"
  shows "\<exists>r. cron_next zones expr fromMs tz = Some r \<and>
    (case r of
       Inr t \<Rightarrow> MINUTE_MS dvd t \<and> fromMs < t \<and> t \<le> floor_minute fromMs + SEARCH_BOUND_MS \<and> fires_at sc format t \<and>
         (\<forall>u. MINUTE_MS dvd u \<longrightarrow> fromMs < u \<longrightarrow> u < t \<longrightarrow> \<not> fires_at sc format u)
     | Inl e \<Rightarrow> e = CronParseError Unreachable (- 1) expr \<and>
         (\<forall>u. MINUTE_MS dvd u \<longrightarrow> fromMs < u \<longrightarrow> u \<le> floor_minute fromMs + SEARCH_BOUND_MS \<longrightarrow> \<not> fires_at sc format u))"
proof -
  obtain r where r: "cron_next zones expr fromMs tz = Some r"
    and e: "earliest sc format expr (floor_minute fromMs) (floor_minute fromMs + SEARCH_BOUND_MS) r"
    using cron_next_run [where zones = zones and tz = tz, OF assms] by blast
  show ?thesis
  proof (cases r)
    case (Inl x)
    with e have "grid_between sc format fromMs (floor_minute fromMs + SEARCH_BOUND_MS) = {}"
      and "x = CronParseError Unreachable (- 1) expr" by (simp_all add: earliest_def)
    with r Inl show ?thesis by (auto simp: grid_between_def)
  next
    case (Inr t)
    with e have hit: "t \<in> grid_between sc format fromMs (floor_minute fromMs + SEARCH_BOUND_MS)"
      and least: "\<forall>u \<in> grid_between sc format fromMs (floor_minute fromMs + SEARCH_BOUND_MS). t \<le> u"
      by (simp_all add: earliest_def)
    from hit least have "\<not> fires_at sc format u" if "MINUTE_MS dvd u" "fromMs < u" "u < t" for u
      using that by (force simp: grid_between_def)
    with r Inr hit show ?thesis by (auto simp: grid_between_def)
  qed
qed

lemma cron_next_is_earliest_witness:
  "cron_next utc_zones morning 1789982070000 ''UTC'' = Some (ok 1789982100000) \<and>
   grid_between morning_spec utc_format 1789982070000 1789982099999 = {}"
proof -
  have "cron_next utc_zones morning 1789982070000 ''UTC'' = Some (ok 1789982100000)"
    by (simp add: cron_next_def bind_run_def zoneFormatter_def utc_zones_def morning_parses morning_search
          floor_minute_def MINUTE_MS_def)
  with cron_next_is_earliest [OF morning_parses, of utc_zones "''UTC''" utc_format 1789982070000] show ?thesis
    by (force simp: regular_utc utc_zones_def grid_between_def)
qed

section \<open>Windows\<close>



end
