(* ===== verification/Transcript.thy ===== *)
theory Transcript
  imports Json
begin

text \<open>
  The transcript fold: the message vocabulary of \<^verbatim>\<open>packages/protocol/src/message/index.ts\<close>
  and \<^verbatim>\<open>tool/index.ts\<close>, the facts of \<^verbatim>\<open>transcript/schema.ts\<close> and the fold of
  \<^verbatim>\<open>transcript/fold.ts\<close>, one definition per function.  A rejection is the value
  \<open>Inl\<close>; an optional property is an option.
\<close>

section \<open>Messages\<close>

record token_lanes =
  tk_input :: nat
  tk_output :: nat
  tk_reasoning :: nat
  tk_cacheRead :: nat
  tk_cacheWrite :: nat

datatype tool_state =
    ToolPending "(str \<times> plain) list"
  | ToolRunning "(str \<times> plain) list" epoch_ms
  | ToolCompleted "(str \<times> plain) list" str str "(str \<times> plain) list" epoch_ms epoch_ms
  | ToolError "(str \<times> plain) list" str epoch_ms epoch_ms

record part_base =
  pb_id :: str
  pb_sessionID :: str
  pb_messageID :: str

record text_part = part_base +
  tp_text :: str
  tp_time :: "(epoch_ms \<times> epoch_ms option) option"
  tp_metadata :: "(str \<times> jsval) list option"

record reasoning_part = part_base +
  rp_text :: str
  rp_signature :: "str option"
  rp_time :: "epoch_ms \<times> epoch_ms option"
  rp_metadata :: "(str \<times> jsval) list option"

record step_finish_part = part_base +
  sf_reason :: str
  sf_tokens :: token_lanes

record tool_part = part_base +
  tl_callID :: str
  tl_tool :: str
  tl_state :: tool_state

datatype part =
    TextPart text_part
  | ReasoningPart reasoning_part
  | StepStartPart part_base
  | StepFinishPart step_finish_part
  | ToolPart tool_part

fun part_id :: "part \<Rightarrow> str" where
  "part_id (TextPart p) = pb_id p"
| "part_id (ReasoningPart p) = pb_id p"
| "part_id (StepStartPart p) = pb_id p"
| "part_id (StepFinishPart p) = pb_id p"
| "part_id (ToolPart p) = pb_id p"

fun part_sessionID :: "part \<Rightarrow> str" where
  "part_sessionID (TextPart p) = pb_sessionID p"
| "part_sessionID (ReasoningPart p) = pb_sessionID p"
| "part_sessionID (StepStartPart p) = pb_sessionID p"
| "part_sessionID (StepFinishPart p) = pb_sessionID p"
| "part_sessionID (ToolPart p) = pb_sessionID p"

fun part_messageID :: "part \<Rightarrow> str" where
  "part_messageID (TextPart p) = pb_messageID p"
| "part_messageID (ReasoningPart p) = pb_messageID p"
| "part_messageID (StepStartPart p) = pb_messageID p"
| "part_messageID (StepFinishPart p) = pb_messageID p"
| "part_messageID (ToolPart p) = pb_messageID p"

record user_message =
  um_id :: str
  um_sessionID :: str
  um_created :: epoch_ms
  um_agent :: str
  um_providerID :: str
  um_modelID :: str
  um_system :: "str option"
  um_tools :: "(str \<times> bool) list option"
  um_variant :: "str option"

record assistant_message =
  am_id :: str
  am_sessionID :: str
  am_created :: epoch_ms
  am_completed :: "epoch_ms option"
  am_parentID :: str
  am_modelID :: str
  am_providerID :: str
  am_agent :: str
  am_path :: "(str \<times> str) option"
  am_tokens :: token_lanes
  am_finish :: "str option"

datatype info = UserMessage user_message | AssistantMessage assistant_message

fun info_id :: "info \<Rightarrow> str" where
  "info_id (UserMessage m) = um_id m"
| "info_id (AssistantMessage m) = am_id m"

fun info_sessionID :: "info \<Rightarrow> str" where
  "info_sessionID (UserMessage m) = um_sessionID m"
| "info_sessionID (AssistantMessage m) = am_sessionID m"

record with_parts =
  wp_info :: info
  wp_parts :: "part list"

section \<open>Facts\<close>

datatype part_transition =
    TransitionRunning epoch_ms
  | TransitionCompleted epoch_ms str "str option" "str option"
  | TransitionError epoch_ms str
  | TransitionInterrupted epoch_ms "str option"

datatype finish_reason = FinishStop | FinishLength | FinishError | FinishAborted

fun finish_text :: "finish_reason \<Rightarrow> str" where
  "finish_text FinishStop = ''stop''"
| "finish_text FinishLength = ''length''"
| "finish_text FinishError = ''error''"
| "finish_text FinishAborted = ''aborted''"

text \<open>Every fact carries the id of the attempt that recorded it first.\<close>

datatype fact =
    MessageCreated str info
  | PartAppended str str part
  | PartAdvanced str str str part_transition
  | MessageFinished str str epoch_ms finish_reason token_lanes

section \<open>The fold\<close>

datatype reject_reason = UnknownMessage | UnknownPart | InvalidTransition | AlreadyFinished

type_synonym fold_outcome = "reject_reason + with_parts"

fun isFinished :: "info \<Rightarrow> bool" where
  "isFinished (UserMessage m) = False"
| "isFinished (AssistantMessage m) = (am_finish m \<noteq> None)"

fun isAppendableInitialState :: "part \<Rightarrow> bool" where
  "isAppendableInitialState (ToolPart p) = (case tl_state p of ToolPending i \<Rightarrow> True | _ \<Rightarrow> False)"
| "isAppendableInitialState (TextPart p) = (case tp_time p of None \<Rightarrow> True | Some (s, e) \<Rightarrow> e = None)"
| "isAppendableInitialState (ReasoningPart p) = (snd (rp_time p) = None)"
| "isAppendableInitialState (StepStartPart p) = True"
| "isAppendableInitialState (StepFinishPart p) = True"

text \<open>A running tool closes no earlier than it started.\<close>

definition close_tool ::
  "tool_part \<Rightarrow> epoch_ms \<Rightarrow> ((str \<times> plain) list \<Rightarrow> epoch_ms \<Rightarrow> tool_state) \<Rightarrow> tool_part option" where
  "close_tool p at st =
     (case tl_state p of
        ToolRunning input start \<Rightarrow> if at < start then None else Some (p\<lparr>tl_state := st input start\<rparr>)
      | _ \<Rightarrow> None)"

fun advanceToolPart :: "tool_part \<Rightarrow> part_transition \<Rightarrow> tool_part option" where
  "advanceToolPart p (TransitionRunning at) =
     (case tl_state p of
        ToolPending input \<Rightarrow> Some (p\<lparr>tl_state := ToolRunning input at\<rparr>)
      | _ \<Rightarrow> None)"
| "advanceToolPart p (TransitionCompleted at output title sig) =
     close_tool p at (\<lambda>input start. ToolCompleted input output (or_else title (tl_tool p)) [] start at)"
| "advanceToolPart p (TransitionError at err) =
     close_tool p at (\<lambda>input start. ToolError input err start at)"
| "advanceToolPart p (TransitionInterrupted at partial) =
     close_tool p at (\<lambda>input start. ToolError input ''interrupted'' start at)"

definition advanceTextPart :: "text_part \<Rightarrow> part_transition \<Rightarrow> text_part option" where
  "advanceTextPart p t =
     (case t of
        TransitionCompleted at output title sig \<Rightarrow>
          (case tp_time p of
             Some (s, Some e) \<Rightarrow> None
           | _ \<Rightarrow>
               (let start = (case tp_time p of None \<Rightarrow> at | Some (s, e) \<Rightarrow> s) in
                if at < start then None
                else Some (p\<lparr>tp_text := output, tp_time := Some (start, Some at)\<rparr>)))
      | _ \<Rightarrow> None)"

definition advanceReasoningPart :: "reasoning_part \<Rightarrow> part_transition \<Rightarrow> reasoning_part option" where
  "advanceReasoningPart p t =
     (case t of
        TransitionCompleted at output title sig \<Rightarrow>
          (if snd (rp_time p) \<noteq> None \<or> at < fst (rp_time p) then None
           else Some (p\<lparr>rp_text := output,
                        rp_signature := (case sig of None \<Rightarrow> rp_signature p | Some s \<Rightarrow> Some s),
                        rp_time := (fst (rp_time p), Some at)\<rparr>))
      | _ \<Rightarrow> None)"

fun advancePart :: "part \<Rightarrow> part_transition \<Rightarrow> part option" where
  "advancePart (ToolPart p) t = map_option ToolPart (advanceToolPart p t)"
| "advancePart (TextPart p) t = map_option TextPart (advanceTextPart p t)"
| "advancePart (ReasoningPart p) t = map_option ReasoningPart (advanceReasoningPart p t)"
| "advancePart (StepStartPart p) t = None"
| "advancePart (StepFinishPart p) t = None"

text \<open>\<^verbatim>\<open>findIndex\<close> and the replacement of the part found.\<close>

fun advance_in :: "str \<Rightarrow> part_transition \<Rightarrow> part list \<Rightarrow> reject_reason + part list" where
  "advance_in pid t [] = fail UnknownPart"
| "advance_in pid t (p # ps) =
     (if part_id p = pid
      then (case advancePart p t of None \<Rightarrow> fail InvalidTransition | Some q \<Rightarrow> ok (q # ps))
      else and_then (advance_in pid t ps) (\<lambda>qs. ok (p # qs)))"

fun fact_messageId :: "fact \<Rightarrow> str" where
  "fact_messageId (MessageCreated a i) = info_id i"
| "fact_messageId (PartAppended a m p) = m"
| "fact_messageId (PartAdvanced a m pid t) = m"
| "fact_messageId (MessageFinished a m at f u) = m"

definition appendPart :: "with_parts \<Rightarrow> str \<Rightarrow> part \<Rightarrow> fold_outcome" where
  "appendPart st mid p =
     (if part_messageID p \<noteq> mid \<or> part_sessionID p \<noteq> info_sessionID (wp_info st) then fail InvalidTransition
      else if list_ex (\<lambda>q. part_id q = part_id p) (wp_parts st) then fail InvalidTransition
      else if \<not> isAppendableInitialState p then fail InvalidTransition
      else ok (st\<lparr>wp_parts := wp_parts st @ [p]\<rparr>))"

definition finishMessage :: "with_parts \<Rightarrow> epoch_ms \<Rightarrow> finish_reason \<Rightarrow> token_lanes \<Rightarrow> fold_outcome" where
  "finishMessage st at f u =
     (case wp_info st of
        UserMessage m \<Rightarrow> fail InvalidTransition
      | AssistantMessage m \<Rightarrow>
          ok (st\<lparr>wp_info := AssistantMessage (m\<lparr>am_completed := Some at, am_finish := Some (finish_text f), am_tokens := u\<rparr>)\<rparr>))"

definition fold_fact :: "with_parts option \<Rightarrow> fact \<Rightarrow> fold_outcome" where
  "fold_fact state f =
     (case f of
        MessageCreated a i \<Rightarrow>
          if state \<noteq> None \<or> isFinished i then fail InvalidTransition
          else ok \<lparr>wp_info = i, wp_parts = []\<rparr>
      | _ \<Rightarrow>
          (case state of
             None \<Rightarrow> fail UnknownMessage
           | Some st \<Rightarrow>
               if info_id (wp_info st) \<noteq> fact_messageId f then fail UnknownMessage
               else if isFinished (wp_info st) then fail AlreadyFinished
               else (case f of
                       PartAppended a m p \<Rightarrow> appendPart st m p
                     | PartAdvanced a m pid t \<Rightarrow>
                         and_then (advance_in pid t (wp_parts st)) (\<lambda>ps. ok (st\<lparr>wp_parts := ps\<rparr>))
                     | MessageFinished a m at fr u \<Rightarrow> finishMessage st at fr u
                     | MessageCreated a i \<Rightarrow> fail InvalidTransition)))"

text \<open>A whole stream of facts: the projector stops at the first rejection.\<close>

definition project :: "fact list \<Rightarrow> with_parts option \<Rightarrow> reject_reason + with_parts option" where
  "project fs st = fold_fail (\<lambda>f s. and_then (fold_fact s f) (\<lambda>s'. ok (Some s'))) fs st"

end
