(* ===== verification/Transcript_Properties.thy ===== *)
theory Transcript_Properties
  imports Transcript
begin

text \<open>
  What the transcript fold guarantees of every message it projects: its shape, and that
  a message's history only moves forward.
\<close>

section \<open>Lifecycles\<close>

text \<open>How far a part is: born, running, or closed.  Punctual parts are closed at birth.\<close>

fun stage :: "part \<Rightarrow> nat" where
  "stage (ToolPart p) =
     (case tl_state p of ToolPending i \<Rightarrow> 0 | ToolRunning i s \<Rightarrow> 1 | ToolCompleted i out ti me s e \<Rightarrow> 2 | ToolError i err s e \<Rightarrow> 2)"
| "stage (TextPart p) = (case tp_time p of Some (s, Some e) \<Rightarrow> 2 | _ \<Rightarrow> 0)"
| "stage (ReasoningPart p) = (if snd (rp_time p) = None then 0 else 2)"
| "stage (StepStartPart p) = 2"
| "stage (StepFinishPart p) = 2"

text \<open>A closed part ends no earlier than it starts.\<close>

fun timed :: "part \<Rightarrow> bool" where
  "timed (ToolPart p) =
     (case tl_state p of ToolCompleted i out ti me s e \<Rightarrow> s \<le> e | ToolError i err s e \<Rightarrow> s \<le> e | _ \<Rightarrow> True)"
| "timed (TextPart p) = (case tp_time p of Some (s, Some e) \<Rightarrow> s \<le> e | _ \<Rightarrow> True)"
| "timed (ReasoningPart p) = (case rp_time p of (s, Some e) \<Rightarrow> s \<le> e | _ \<Rightarrow> True)"
| "timed (StepStartPart p) = True"
| "timed (StepFinishPart p) = True"

fun same_part :: "part \<Rightarrow> part \<Rightarrow> bool" where
  "same_part (ToolPart p) (ToolPart q) =
     (part_base.truncate p = part_base.truncate q \<and> tl_callID p = tl_callID q \<and> tl_tool p = tl_tool q)"
| "same_part (TextPart p) (TextPart q) = (part_base.truncate p = part_base.truncate q)"
| "same_part (ReasoningPart p) (ReasoningPart q) = (part_base.truncate p = part_base.truncate q)"
| "same_part (StepStartPart p) (StepStartPart q) = (p = q)"
| "same_part (StepFinishPart p) (StepFinishPart q) = (p = q)"
| "same_part p q = False"

lemma same_part_refl [simp]: "same_part p p"
  by (cases p) simp_all

lemma same_part_ids:
  "same_part p q \<Longrightarrow> part_id p = part_id q \<and> part_messageID p = part_messageID q \<and> part_sessionID p = part_sessionID q"
  by (induction p q rule: same_part.induct) (auto simp: part_base.defs)

lemma same_part_trans: "same_part p q \<Longrightarrow> same_part q r \<Longrightarrow> same_part p r"
  by (cases p; cases q; cases r) auto

lemma close_tool_Some:
  "close_tool p at st = Some q \<longleftrightarrow> (\<exists>input start. tl_state p = ToolRunning input start \<and> start \<le> at \<and> q = p\<lparr>tl_state := st input start\<rparr>)"
  by (auto simp: close_tool_def split: tool_state.splits)

text \<open>An advance keeps the part, moves it forward and closes it in order.\<close>

lemma advancePart_forward:
  assumes "advancePart p t = Some q"
  shows "same_part p q" and "stage p < stage q" and "stage p < 2" and "timed q"
proof -
  have "same_part p q \<and> stage p < stage q \<and> stage p < 2 \<and> timed q"
  proof (cases p)
    case (ToolPart x)
    with assms show ?thesis
      by (cases t) (auto simp: close_tool_Some part_base.defs split: tool_state.splits)
  next
    case (TextPart x)
    with assms show ?thesis
      by (cases t)
        (auto simp: advanceTextPart_def part_base.defs Let_def split: option.splits prod.splits if_splits)
  next
    case (ReasoningPart x)
    with assms show ?thesis
      by (cases t) (auto simp: advanceReasoningPart_def part_base.defs split: if_splits)
  qed (use assms in auto)
  then show "same_part p q" "stage p < stage q" "stage p < 2" "timed q" by auto
qed

text \<open>The order of parts along a history: the same part, unchanged once closed.\<close>

definition evolves :: "part \<Rightarrow> part \<Rightarrow> bool" where
  "evolves p q \<longleftrightarrow> same_part p q \<and> stage p \<le> stage q \<and> (stage p = stage q \<longrightarrow> p = q)"

lemma evolves_refl [simp]: "evolves p p"
  by (simp add: evolves_def)

lemma evolves_trans: "evolves p q \<Longrightarrow> evolves q r \<Longrightarrow> evolves p r"
  unfolding evolves_def using same_part_trans by (metis le_antisym le_trans)

lemma evolves_advance: "advancePart p t = Some q \<Longrightarrow> evolves p q"
  using advancePart_forward [of p t q] by (auto simp: evolves_def)

lemma advance_in_evolves: "advance_in pid t ps = ok qs \<Longrightarrow> list_all2 evolves ps qs"
  by (induction ps arbitrary: qs)
    (auto simp: and_then_eq_Inr list_all2_same evolves_advance split: if_splits option.splits)

lemma advance_in_timed: "advance_in pid t ps = ok qs \<Longrightarrow> list_all timed ps \<Longrightarrow> list_all timed qs"
  by (induction ps arbitrary: qs)
    (auto simp: and_then_eq_Inr advancePart_forward split: if_splits option.splits)

lemma evolves_stamped:
  assumes "list_all2 evolves ps qs" and "list_all (\<lambda>p. part_messageID p = m \<and> part_sessionID p = s) ps"
  shows "list_all (\<lambda>p. part_messageID p = m \<and> part_sessionID p = s) qs"
  using assms by (induction rule: list_all2_induct) (auto simp: evolves_def dest: same_part_ids)

lemma evolves_map_ids: "list_all2 evolves ps qs \<Longrightarrow> map part_id qs = map part_id ps"
  by (induction rule: list_all2_induct) (auto simp: evolves_def dest: same_part_ids)

section \<open>The invariant\<close>

definition transcript_wf :: "with_parts \<Rightarrow> bool" where
  "transcript_wf st \<longleftrightarrow>
     distinct (map part_id (wp_parts st)) \<and>
     list_all (\<lambda>p. part_messageID p = info_id (wp_info st) \<and> part_sessionID p = info_sessionID (wp_info st)) (wp_parts st) \<and>
     list_all timed (wp_parts st)"

text \<open>What a history step may do to the message itself: only finish it.\<close>

fun info_evolves :: "info \<Rightarrow> info \<Rightarrow> bool" where
  "info_evolves (UserMessage m) (UserMessage n) = (m = n)"
| "info_evolves (AssistantMessage m) (AssistantMessage n) =
     (m = n \<or> (am_finish m = None \<and> (\<exists>at f u. n = m\<lparr>am_completed := Some at, am_finish := Some (finish_text f), am_tokens := u\<rparr>)))"
| "info_evolves i j = False"

lemma info_evolves_refl [simp]: "info_evolves i i"
  by (cases i) simp_all

lemma info_evolves_ids: "info_evolves i j \<Longrightarrow> info_id i = info_id j \<and> info_sessionID i = info_sessionID j"
  by (cases i; cases j) auto

lemma info_evolves_trans: "info_evolves i j \<Longrightarrow> info_evolves j k \<Longrightarrow> info_evolves i k"
  by (cases i; cases j; cases k) auto

lemma initial_timed: "isAppendableInitialState p \<Longrightarrow> timed p"
  by (cases p) (auto split: tool_state.splits option.splits prod.splits)

definition moves :: "with_parts \<Rightarrow> with_parts \<Rightarrow> bool" where
  "moves s s' \<longleftrightarrow>
     info_evolves (wp_info s) (wp_info s') \<and>
     (\<exists>qs new. wp_parts s' = qs @ new \<and> list_all2 evolves (wp_parts s) qs)"

lemma moves_grow [simp]: "moves s (s\<lparr>wp_parts := wp_parts s @ new\<rparr>)"
  unfolding moves_def
  by (rule conjI, simp, rule exI [of _ "wp_parts s"], rule exI [of _ new]) (simp add: list_all2_same)

lemma moves_info: "info_evolves (wp_info s) i \<Longrightarrow> moves s (s\<lparr>wp_info := i\<rparr>)"
  using moves_grow [of s "[]"] by (auto simp: moves_def)

lemma moves_refl [simp]: "moves s s"
  using moves_grow [of s "[]"] by simp

lemma moves_trans: "moves s s' \<Longrightarrow> moves s' s'' \<Longrightarrow> moves s s''"
proof -
  assume "moves s s'" and "moves s' s''"
  then obtain qs new rs new' where a: "wp_parts s' = qs @ new" "list_all2 evolves (wp_parts s) qs"
    and b: "wp_parts s'' = rs @ new'" "list_all2 evolves (qs @ new) rs"
    and i: "info_evolves (wp_info s) (wp_info s')" "info_evolves (wp_info s') (wp_info s'')"
    by (auto simp: moves_def)
  from b(2) obtain r1 r2 where r: "rs = r1 @ r2" "list_all2 evolves qs r1"
    by (auto simp: list_all2_append1)
  have "list_all2 evolves (wp_parts s) r1"
    by (rule list_all2_trans [OF evolves_trans a(2) r(2)])
  with b(1) r(1) i show ?thesis
    by (auto simp: moves_def intro: info_evolves_trans)
qed

lemma fold_fact_step:
  assumes "fold_fact (Some st) f = ok st'" and "transcript_wf st"
  shows "transcript_wf st'" and "moves st st'" and "\<not> isFinished (wp_info st)"
proof -
  have "transcript_wf st' \<and> moves st st' \<and> \<not> isFinished (wp_info st)"
  proof (cases f)
    case (MessageCreated a i)
    with assms show ?thesis by (simp add: fold_fact_def)
  next
    case (PartAppended a m p)
    with assms(1) have fin: "\<not> isFinished (wp_info st)" and m: "info_id (wp_info st) = m"
      and app: "appendPart st m p = ok st'"
      by (auto simp: fold_fact_def split: if_splits)
    from app have st': "st' = st\<lparr>wp_parts := wp_parts st @ [p]\<rparr>" and "isAppendableInitialState p"
      and "part_id p \<notin> set (map part_id (wp_parts st))"
      and "part_messageID p = m" "part_sessionID p = info_sessionID (wp_info st)"
      by (auto simp: appendPart_def list_ex_iff split: if_splits)
    with assms(2) m fin show ?thesis by (simp add: transcript_wf_def initial_timed)
  next
    case (PartAdvanced a m pid t)
    with assms(1) obtain qs where fin: "\<not> isFinished (wp_info st)"
      and adv: "advance_in pid t (wp_parts st) = ok qs" and st': "st' = st\<lparr>wp_parts := qs\<rparr>"
      by (auto simp: fold_fact_def and_then_eq_Inr split: if_splits)
    note ev = advance_in_evolves [OF adv]
    from assms(2) have "list_all (\<lambda>p. part_messageID p = info_id (wp_info st) \<and> part_sessionID p = info_sessionID (wp_info st)) qs"
      by (intro evolves_stamped [OF ev]) (simp add: transcript_wf_def)
    with assms(2) fin st' ev show ?thesis
      by (auto simp: transcript_wf_def moves_def evolves_map_ids intro: advance_in_timed [OF adv])
  next
    case (MessageFinished a m at fr u)
    with assms(1) obtain x where fin: "\<not> isFinished (wp_info st)" and x: "wp_info st = AssistantMessage x"
      and st': "st' = st\<lparr>wp_info := AssistantMessage (x\<lparr>am_completed := Some at, am_finish := Some (finish_text fr), am_tokens := u\<rparr>)\<rparr>"
      by (auto simp: fold_fact_def finishMessage_def split: if_splits info.splits)
    then have "info_evolves (wp_info st) (wp_info st')" by auto
    with assms(2) fin x st' moves_info [of st "wp_info st'"] show ?thesis by (simp add: transcript_wf_def)
  qed
  then show "transcript_wf st'" "moves st st'" "\<not> isFinished (wp_info st)" by auto
qed

lemma fold_fact_first: "fold_fact None f = ok st \<Longrightarrow> transcript_wf st \<and> wp_parts st = [] \<and> \<not> isFinished (wp_info st)"
  by (cases f) (auto simp: fold_fact_def transcript_wf_def split: if_splits)

lemma project_invariant:
  assumes "project fs st = ok (Some st')" and "pred_option transcript_wf st"
  shows "transcript_wf st'"
proof -
  from assms have "pred_option transcript_wf (Some st')"
    unfolding project_def
  proof (rule fold_fail_invariant)
    fix f s s' assume "pred_option transcript_wf s" and "and_then (fold_fact s f) (\<lambda>s'. ok (Some s')) = ok s'"
    then show "pred_option transcript_wf s'"
      by (cases s) (auto simp: and_then_eq_Inr fold_fact_first intro: fold_fact_step)
  qed
  then show ?thesis by simp
qed

lemma project_moves:
  assumes "project fs (Some st) = ok (Some st')" and "transcript_wf st"
  shows "moves st st' \<and> (isFinished (wp_info st) \<longrightarrow> fs = [])"
  using assms
proof (induction fs arbitrary: st)
  case Nil
  then show ?case by (simp add: project_def)
next
  case (Cons f fs)
  then obtain s where s: "fold_fact (Some st) f = ok s" and rest: "project fs (Some s) = ok (Some st')"
    by (auto simp: project_def and_then_eq_Inr)
  note step = fold_fact_step [OF s Cons.prems(2)]
  from Cons.IH [OF rest step(1)] step show ?case by (auto intro: moves_trans)
qed

text \<open>
  C27. Every message a stream of facts projects is well formed: part ids are unique, every
  part is stamped with the message's id and session, and every closed part ends no
  earlier than it started; and the message is finished only if it is an assistant's.
\<close>

theorem transcript_is_well_formed:
  assumes "project fs None = ok (Some st)"
  shows "distinct (map part_id (wp_parts st)) \<and>
    (\<forall>p \<in> set (wp_parts st). part_messageID p = info_id (wp_info st) \<and>
       part_sessionID p = info_sessionID (wp_info st) \<and> timed p) \<and>
    (isFinished (wp_info st) \<longrightarrow> (\<exists>m. wp_info st = AssistantMessage m))"
proof -
  from project_invariant [OF assms] have "transcript_wf st" by simp
  moreover have "isFinished i \<longrightarrow> (\<exists>m. i = AssistantMessage m)" for i by (cases i) auto
  ultimately show ?thesis by (auto simp: transcript_wf_def list_all_iff)
qed

text \<open>
  C28. A projected history only moves forward: when further facts are accepted, every part
  stays in its place with its identity, no part goes back in its lifecycle, a part that
  did not move is unchanged (so a closed part is final), the message changes only by
  being finished once, and nothing at all is accepted after it was finished.
\<close>

theorem transcript_moves_forward:
  assumes "project fs None = ok (Some st)" and "project gs (Some st) = ok (Some st')"
  shows "info_evolves (wp_info st) (wp_info st') \<and>
    length (wp_parts st) \<le> length (wp_parts st') \<and>
    (\<forall>i < length (wp_parts st).
       same_part (wp_parts st ! i) (wp_parts st' ! i) \<and>
       stage (wp_parts st ! i) \<le> stage (wp_parts st' ! i) \<and>
       (stage (wp_parts st ! i) = stage (wp_parts st' ! i) \<longrightarrow> wp_parts st' ! i = wp_parts st ! i)) \<and>
    (isFinished (wp_info st) \<longrightarrow> gs = [] \<and> st' = st)"
proof -
  have wf: "transcript_wf st" by (rule project_invariant [OF assms(1)]) simp
  from project_moves [OF assms(2) wf] have mv: "moves st st'" and fin: "isFinished (wp_info st) \<longrightarrow> gs = []"
    by auto
  from mv obtain qs new where qs: "wp_parts st' = qs @ new" "list_all2 evolves (wp_parts st) qs"
    and "info_evolves (wp_info st) (wp_info st')" by (auto simp: moves_def)
  moreover from fin assms(2) have "isFinished (wp_info st) \<longrightarrow> gs = [] \<and> st' = st"
    by (auto simp: project_def)
  ultimately show ?thesis
    by (auto simp: list_all2_conv_all_nth nth_append evolves_def)
qed

section \<open>A concrete stream\<close>

definition demo_base :: "str \<Rightarrow> part_base" where
  "demo_base i = \<lparr>pb_id = i, pb_sessionID = ''s'', pb_messageID = ''m''\<rparr>"

definition demo_zero :: token_lanes where
  "demo_zero = \<lparr>tk_input = 0, tk_output = 0, tk_reasoning = 0, tk_cacheRead = 0, tk_cacheWrite = 0\<rparr>"

definition demo_opening :: "fact list" where
  "demo_opening =
     [MessageCreated ''a'' (AssistantMessage \<lparr>am_id = ''m'', am_sessionID = ''s'', am_created = 1, am_completed = None,
        am_parentID = ''u'', am_modelID = ''x'', am_providerID = ''y'', am_agent = ''g'', am_path = None,
        am_tokens = demo_zero, am_finish = None\<rparr>),
      PartAppended ''a'' ''m'' (ToolPart (part_base.extend (demo_base ''t'')
        (tool_part.fields ''c'' ''ls'' (ToolPending [])))),
      PartAppended ''a'' ''m'' (TextPart (part_base.extend (demo_base ''p'')
        (text_part.fields [] None None))),
      PartAdvanced ''a'' ''m'' ''t'' (TransitionRunning 2)]"

definition demo_closing :: "fact list" where
  "demo_closing =
     [PartAdvanced ''a'' ''m'' ''t'' (TransitionCompleted 5 ''out'' None None),
      PartAdvanced ''a'' ''m'' ''p'' (TransitionCompleted 4 ''done'' None None),
      MessageFinished ''a'' ''m'' 6 FinishStop demo_zero]"

definition demo_projected :: "fact list \<Rightarrow> with_parts option \<Rightarrow> with_parts" where
  "demo_projected fs st = (case project fs st of Inr (Some s) \<Rightarrow> s)"

lemma demo_streams:
  "project demo_opening None = ok (Some (demo_projected demo_opening None))"
  "project demo_closing (Some (demo_projected demo_opening None)) =
     ok (Some (demo_projected demo_closing (Some (demo_projected demo_opening None))))"
  by code_simp+

lemma transcript_is_well_formed_witness:
  "distinct (map part_id (wp_parts (demo_projected demo_opening None))) \<and>
   map stage (wp_parts (demo_projected demo_opening None)) = [1, 0]"
proof -
  have "map stage (wp_parts (demo_projected demo_opening None)) = [1, 0]" by code_simp
  with transcript_is_well_formed [OF demo_streams(1)] show ?thesis by blast
qed

lemma transcript_moves_forward_witness:
  "same_part (wp_parts (demo_projected demo_opening None) ! 0)
     (wp_parts (demo_projected demo_closing (Some (demo_projected demo_opening None))) ! 0) \<and>
   map stage (wp_parts (demo_projected demo_closing (Some (demo_projected demo_opening None)))) = [2, 2]"
proof -
  have "0 < length (wp_parts (demo_projected demo_opening None))" by code_simp
  moreover have "map stage (wp_parts (demo_projected demo_closing (Some (demo_projected demo_opening None)))) = [2, 2]"
    by code_simp
  ultimately show ?thesis using transcript_moves_forward [OF demo_streams] by blast
qed

end
