(* ===== verification/Consult.thy ===== *)
theory Consult
  imports Gate
begin

text \<open>
  The binding of a compiled snapshot: \<^verbatim>\<open>bind\<close>, \<^verbatim>\<open>executionPoint\<close>, \<^verbatim>\<open>admit\<close> and
  \<^verbatim>\<open>filterLoadout\<close> of \<^verbatim>\<open>packages/agent/src/core/gate/bind.ts\<close>.  A consultant is foreign
  code, called through the parameter \<open>consult\<close> with the pending consultation.  The
  outcome of an effectful evaluation is an option, \<open>None\<close> where its loop does not end.
\<close>

type_synonym 'c consulting = "'c \<Rightarrow> pending_consult \<Rightarrow> handler_result"
type_synonym run = "(unit + policy_evaluation) option"

definition step_options :: "('g, 'c, 'x) snapshot \<Rightarrow> (str \<times> handler_result) list \<Rightarrow> 'g evaluation_options" where
  "step_options sp prepared =
     no_options\<lparr>eo_pendingAsync := Some (map fst (sp_consultants sp)), eo_prepared := prepared\<rparr>"

definition final_options :: "(str \<times> handler_result) list \<Rightarrow> 'g evaluation_options" where
  "final_options prepared = no_options\<lparr>eo_prepared := prepared\<rparr>"

partial_function (option) consult_step ::
  "(str \<Rightarrow> str) \<Rightarrow> 'g caller \<Rightarrow> 'c consulting \<Rightarrow> ('g, 'c, 'x) snapshot \<Rightarrow> policy_input \<Rightarrow> (str \<times> handler_result) list \<Rightarrow> run" where
  "consult_step sha call consult sp i prepared =
     (case evaluate sha call sp i (step_options sp prepared) of
        Inl e \<Rightarrow> Some (Inl e)
      | Inr ev \<Rightarrow>
          (case ev_pending ev of
             None \<Rightarrow> Some (evaluate sha call sp i (final_options prepared))
           | Some pending \<Rightarrow>
               (case map_of (sp_consultants sp) (pc_ref pending) of
                  None \<Rightarrow> Some (Inl ())
                | Some c \<Rightarrow>
                    consult_step sha call consult sp i (put (pc_rowId pending) (consult c pending) prepared))))"

declare consult_step.simps [code]

definition evaluateEffect ::
  "(str \<Rightarrow> str) \<Rightarrow> 'g caller \<Rightarrow> 'c consulting \<Rightarrow> ('g, 'c, 'x) snapshot \<Rightarrow> policy_input \<Rightarrow> run" where
  "evaluateEffect sha call consult sp i =
     (if sp_consultants sp = [] then Some (evaluate sha call sp i no_options)
      else consult_step sha call consult sp i [])"

record policy_binding =
  bd_generation :: int
  bd_contentHash :: str
  bd_pointTable :: point_table
  bd_evaluate :: "policy_input \<Rightarrow> unit + policy_evaluation"
  bd_evaluateEffect :: "(policy_input \<Rightarrow> run) option"

definition bind ::
  "(str \<Rightarrow> str) \<Rightarrow> 'g caller \<Rightarrow> 'c consulting \<Rightarrow> ('g, 'c, 'x) snapshot \<Rightarrow> policy_binding" where
  "bind sha call consult sp =
     \<lparr>bd_generation = sp_generation sp, bd_contentHash = sp_contentHash sp, bd_pointTable = sp_pointTable sp,
      bd_evaluate = (\<lambda>i. evaluate sha call sp i no_options),
      bd_evaluateEffect = Some (evaluateEffect sha call consult sp)\<rparr>"

definition executionPoint :: "str \<Rightarrow> phase \<Rightarrow> point_table \<Rightarrow> point_record option" where
  "executionPoint kind ph table = map_of table (kind @ ''.'' @ phase_text ph)"

definition admit :: "policy_binding \<Rightarrow> policy_input \<Rightarrow> run" where
  "admit policy i =
     map_option (map_sum id (\<lambda>d.
        if executionPoint (in_kind i) (in_phase i) (bd_pointTable policy) = None
        then d\<lparr>ev_verdict := EDeny, ev_reason := Some ''unknown_point''\<rparr> else d))
       (case bd_evaluateEffect policy of None \<Rightarrow> Some (bd_evaluate policy i) | Some f \<Rightarrow> f i)"

record tool_definition =
  td_name :: str
  td_model :: "role list"
  td_cell :: "role list"

definition filterLoadout :: "tool_definition list \<Rightarrow> str list \<Rightarrow> role \<Rightarrow> tool_definition list" where
  "filterLoadout defs offered r =
     filter (\<lambda>t. td_name t \<in> set offered \<and> (r \<in> set (td_model t) \<or> r \<in> set (td_cell t))) defs"

section \<open>Consulting inline\<close>

text \<open>
  The reference for the loop: one pass over the rows of a point that calls a consultant
  the moment its row is reached, on the value that row sees, and keeps the answer.
\<close>

fun inlineEntries ::
  "(str \<Rightarrow> str) \<Rightarrow> 'g caller \<Rightarrow> 'c consulting \<Rightarrow> (str \<times> 'c) list \<Rightarrow> 'x point_input \<Rightarrow> str \<Rightarrow> (str \<Rightarrow> 'g gate_handler option)
    \<Rightarrow> 'x compiled_entry list \<Rightarrow> (str \<times> handler_result) list \<Rightarrow> fold_state
    \<Rightarrow> unit + fold_state \<times> (str \<times> handler_result) list" where
  "inlineEntries sha call consult cs i inputHash handlers [] prepared s = Inr (s, prepared)"
| "inlineEntries sha call consult cs i inputHash handlers (e # es) prepared s =
     (if \<not> entry_matches sha e i then inlineEntries sha call consult cs i inputHash handlers es prepared s
      else
        let answered =
          (case awaitedConsultRef e (Some (map fst cs)) prepared of
             None \<Rightarrow> prepared
           | Some ref \<Rightarrow>
               (case map_of cs ref of
                  None \<Rightarrow> prepared
                | Some c \<Rightarrow>
                    put (gr_id (ce_row e))
                      (consult c \<lparr>pc_point = pi_point i, pc_rowId = gr_id (ce_row e), pc_ref = ref,
                         pc_params = or_else (hw_params (gr_how (ce_row e))) PNull, pc_value = fs_value s\<rparr>) prepared))
        in and_then (applyRow sha call (ce_row e) (ce_emit e) inputHash handlers (pi_when i) answered s)
             (inlineEntries sha call consult cs i inputHash handlers es answered))"

section \<open>The loop consults inline\<close>

lemma awaited_registered: "awaitedConsultRef e (Some (map fst cs)) prepared = Some ref \<Longrightarrow> \<exists>c. map_of cs ref = Some c"
  by (auto simp: awaitedConsultRef_def split: option.splits if_splits) (metis map_of_eq_None_iff not_None_eq fst_conv image_eqI)

lemma awaited_unprepared: "awaitedConsultRef e pend prepared = Some ref \<Longrightarrow> map_of prepared (gr_id (ce_row e)) = None"
  by (auto simp: awaitedConsultRef_def split: option.splits if_splits)

lemma awaited_cong:
  "map_of prepared (gr_id (ce_row e)) = map_of prepared' (gr_id (ce_row e)) \<Longrightarrow>
   awaitedConsultRef e pend prepared = awaitedConsultRef e pend prepared'"
  by (simp add: awaitedConsultRef_def split: option.split)

lemma awaited_none [simp]: "awaitedConsultRef e None prepared = None"
  by (simp add: awaitedConsultRef_def split: option.splits)

lemma applyRow_cong:
  "map_of prepared (gr_id row) = map_of prepared' (gr_id row) \<Longrightarrow>
   applyRow sha call row emit h handlers whens prepared s = applyRow sha call row emit h handlers whens prepared' s"
  by (simp add: applyRow_def observeRow_def consultRow_def Let_def split: option.splits)

definition row_ids :: "'x compiled_entry list \<Rightarrow> str list" where
  "row_ids es = map (\<lambda>e. gr_id (ce_row e)) es"

text \<open>What one pass with pending consultations tells of the inline pass.\<close>

lemma pass_complete:
  assumes "foldEntries sha call i h handlers opts es s = Inr (s', None)"
    and "eo_pendingAsync opts = Some (map fst cs)"
  shows "inlineEntries sha call consult cs i h handlers es (eo_prepared opts) s = Inr (s', eo_prepared opts)"
  using assms
  by (induction es arbitrary: s) (auto simp: and_then_eq_Inr split: if_splits option.splits)

lemma pass_throws:
  assumes "foldEntries sha call i h handlers opts es s = Inl x"
    and "eo_pendingAsync opts = Some (map fst cs)"
  shows "inlineEntries sha call consult cs i h handlers es (eo_prepared opts) s = Inl x"
  using assms
  by (induction es arbitrary: s) (auto simp: and_then_eq_Inl split: if_splits option.splits)

lemma pass_final:
  assumes "foldEntries sha call i h handlers opts es s = Inr (s', None)"
    and "eo_prepared opts' = eo_prepared opts" and "eo_pendingAsync opts' = None"
  shows "foldEntries sha call i h handlers opts' es s = Inr (s', None)"
  using assms
  by (induction es arbitrary: s) (auto simp: and_then_eq_Inr split: if_splits option.splits)

lemma pass_pending:
  assumes "foldEntries sha call i h handlers opts es s = Inr (s', Some p)"
    and "eo_pendingAsync opts = Some (map fst cs)" and "distinct (row_ids es)"
  shows "\<exists>c. map_of cs (pc_ref p) = Some c \<and> pc_rowId p \<in> set (row_ids es) \<and>
    map_of (eo_prepared opts) (pc_rowId p) = None \<and>
    inlineEntries sha call consult cs i h handlers es (put (pc_rowId p) (consult c p) (eo_prepared opts)) s =
    inlineEntries sha call consult cs i h handlers es (eo_prepared opts) s"
  using assms(1,3)
proof (induction es arbitrary: s)
  case Nil
  then show ?case by simp
next
  case (Cons e es)
  let ?id = "gr_id (ce_row e)"
  show ?case
  proof (cases "entry_matches sha e i")
    case False
    then have "foldEntries sha call i h handlers opts es s = Inr (s', Some p)" and "distinct (row_ids es)"
      using Cons.prems by (simp_all add: row_ids_def)
    from Cons.IH [OF this] False show ?thesis by (auto simp: row_ids_def)
  next
    case True
    show ?thesis
    proof (cases "awaitedConsultRef e (Some (map fst cs)) (eo_prepared opts)")
      case None
      with True Cons.prems assms(2) obtain u
        where u: "applyRow sha call (ce_row e) (ce_emit e) h handlers (pi_when i) (eo_prepared opts) s = Inr u"
          and rest: "foldEntries sha call i h handlers opts es u = Inr (s', Some p)"
        by (auto simp: and_then_eq_Inr)
      from Cons.IH [OF rest] Cons.prems(2) obtain c where c: "map_of cs (pc_ref p) = Some c" "pc_rowId p \<in> set (row_ids es)"
        "map_of (eo_prepared opts) (pc_rowId p) = None"
        "inlineEntries sha call consult cs i h handlers es (put (pc_rowId p) (consult c p) (eo_prepared opts)) u =
         inlineEntries sha call consult cs i h handlers es (eo_prepared opts) u"
        by (auto simp: row_ids_def)
      with Cons.prems(2) have other: "?id \<noteq> pc_rowId p" by (auto simp: row_ids_def)
      then have same: "map_of (put (pc_rowId p) (consult c p) (eo_prepared opts)) ?id = map_of (eo_prepared opts) ?id"
        by simp
      have "awaitedConsultRef e (Some (map fst cs)) (put (pc_rowId p) (consult c p) (eo_prepared opts)) = None"
        using awaited_cong [OF same] None by metis
      moreover have "applyRow sha call (ce_row e) (ce_emit e) h handlers (pi_when i)
          (put (pc_rowId p) (consult c p) (eo_prepared opts)) s = Inr u"
        using applyRow_cong [OF same] u by metis
      ultimately show ?thesis using True None u c by (auto simp: row_ids_def)
    next
      case (Some ref)
      with True Cons.prems(1) assms(2) have p: "p = \<lparr>pc_point = pi_point i, pc_rowId = ?id, pc_ref = ref,
          pc_params = or_else (hw_params (gr_how (ce_row e))) PNull, pc_value = fs_value s\<rparr>" by auto
      obtain c where c: "map_of cs ref = Some c" using awaited_registered [OF Some] by blast
      have "awaitedConsultRef e (Some (map fst cs)) (put ?id (consult c p) (eo_prepared opts)) = None"
        by (auto simp: awaitedConsultRef_def split: option.splits)
      with True Some c p awaited_unprepared [OF Some] show ?thesis by (auto simp: row_ids_def)
    qed
  qed
qed

section \<open>The evaluation behind the loop\<close>

definition input_hash :: "(str \<Rightarrow> str) \<Rightarrow> policy_input \<Rightarrow> str" where
  "input_hash sha i = canonicalDigest sha (policy_identity i)"

definition point_of :: "policy_input \<Rightarrow> str \<Rightarrow> 'x point_input" where
  "point_of i p = \<lparr>pi_point = p, pi_when = projectedWhenOf i, pi_value = in_value i, pi_context = None, pi_message = in_message i\<rparr>"

definition entries_at :: "('g, 'c, 'x) snapshot \<Rightarrow> str \<Rightarrow> 'x compiled_entry list" where
  "entries_at sp p = or_else (map_of (sp_byPoint sp) p) []"

text \<open>The point an evaluation folds, where it is neither refused nor replayed.\<close>

definition folded_point :: "(str \<Rightarrow> str) \<Rightarrow> ('g, 'c, 'x) snapshot \<Rightarrow> policy_input \<Rightarrow> str option" where
  "folded_point sha sp i =
     (case policyPoint (in_kind i) (in_phase i) of
        None \<Rightarrow> None
      | Some p \<Rightarrow>
          if map_of (sp_pointTable sp) p = None \<or>
             (in_kind i = ''message'' \<and> in_op i = Some ''send_message'' \<and> in_message i = None) \<or>
             (case in_recorded i of None \<Rightarrow> False
              | Some r \<Rightarrow> replays sha (sp_generation sp) (point_of i p) (entries_at sp p) (input_hash sha i) r)
          then None else Some p)"

definition settled_evaluation ::
  "(str \<Rightarrow> str) \<Rightarrow> ('g, 'c, 'x) snapshot \<Rightarrow> policy_input \<Rightarrow> str \<Rightarrow> fold_state \<Rightarrow> pending_consult option \<Rightarrow> policy_evaluation" where
  "settled_evaluation sha sp i p s pending =
     (let d = decisionOf p (input_hash sha i) (sp_generation sp) s; matched = matched_rows sp d;
          ts = row_transforms matched; os = row_obligations matched in
      \<lparr>ev_generation = sp_generation sp, ev_snapshotHash = sp_contentHash sp, ev_inputHash = input_hash sha i,
       ev_matchedRuleIds = map cr_name matched, ev_transforms = ts,
       ev_ref = (case ts of [t] \<Rightarrow> Some (snd t) | _ \<Rightarrow> None),
       ev_verdict = effective (gd_verdict d) ts os,
       ev_reason = (case projectedReason (gd_verdict d) matched of Some r \<Rightarrow> Some r | None \<Rightarrow> consultedReason d),
       ev_value = fs_value s, ev_effects = row_effects matched, ev_obligations = os,
       ev_gate = Some d, ev_replayed = Some False, ev_pending = pending\<rparr>)"

lemma foldEntries_opts:
  assumes "eo_pendingAsync opts = eo_pendingAsync opts'" and "eo_prepared opts = eo_prepared opts'"
  shows "foldEntries sha call i h handlers opts es s = foldEntries sha call i h handlers opts' es s"
proof (induction es arbitrary: s)
  case (Cons e es)
  have "foldEntries sha call i h handlers opts es = foldEntries sha call i h handlers opts' es"
    by (rule ext) (rule Cons.IH)
  with assms show ?case by (simp split: option.splits)
qed simp

lemma evaluate_folded:
  assumes "folded_point sha sp i = Some p" and "eo_handlers opts = None" and "eo_recorded opts = None"
  shows "evaluate sha call sp i opts =
    and_then (foldEntries sha call (point_of i p) (input_hash sha i) (map_of (sp_handlers sp)) opts (entries_at sp p)
        (initialFoldState (in_value i)))
      (\<lambda>(s, pending). Inr (settled_evaluation sha sp i p s pending))"
proof -
  let ?opts = "opts\<lparr>eo_recorded := in_recorded i, eo_inputHash := Some (input_hash sha i)\<rparr>"
  have fe: "foldEntries sha call (point_of i p) h hs ?opts es s = foldEntries sha call (point_of i p) h hs opts es s" for h hs es s
    by (rule foldEntries_opts) simp_all
  from assms(1) have p: "policyPoint (in_kind i) (in_phase i) = Some p" "map_of (sp_pointTable sp) p \<noteq> None"
    "\<not> (in_kind i = ''message'' \<and> in_op i = Some ''send_message'' \<and> in_message i = None)"
    and rec: "case in_recorded i of None \<Rightarrow> True
      | Some r \<Rightarrow> \<not> replays sha (sp_generation sp) (point_of i p) (entries_at sp p) (input_hash sha i) r"
    by (auto simp: folded_point_def split: option.splits if_splits)
  have "decide sha call sp (point_of i p) ?opts =
    and_then (foldEntries sha call (point_of i p) (input_hash sha i) (map_of (sp_handlers sp)) ?opts (entries_at sp p)
        (initialFoldState (in_value i)))
      (\<lambda>(s, pending). Inr \<lparr>go_decision = decisionOf p (input_hash sha i) (sp_generation sp) s, go_value = fs_value s,
         go_emissions = fs_emissions s, go_replayed = False, go_pending = pending\<rparr>)"
    using rec assms(2)
    by (cases "in_recorded i") (simp_all add: decide_def entries_at_def point_of_def Let_def)
  moreover have "(case in_recorded i of None \<Rightarrow> eo_recorded opts | Some r \<Rightarrow> Some r) = in_recorded i"
    using assms(3) by (simp split: option.splits)
  ultimately have "evaluate sha call sp i opts =
    and_then (and_then (foldEntries sha call (point_of i p) (input_hash sha i) (map_of (sp_handlers sp)) opts (entries_at sp p)
        (initialFoldState (in_value i)))
      (\<lambda>(s, pending). Inr \<lparr>go_decision = decisionOf p (input_hash sha i) (sp_generation sp) s, go_value = fs_value s,
         go_emissions = fs_emissions s, go_replayed = False, go_pending = pending\<rparr>))
      (\<lambda>outcome. let d = go_decision outcome; matched = matched_rows sp d;
                   ts = row_transforms matched; os = row_obligations matched in
               Inr \<lparr>ev_generation = sp_generation sp, ev_snapshotHash = sp_contentHash sp, ev_inputHash = input_hash sha i,
                    ev_matchedRuleIds = map cr_name matched, ev_transforms = ts,
                    ev_ref = (case ts of [t] \<Rightarrow> Some (snd t) | _ \<Rightarrow> None),
                    ev_verdict = effective (gd_verdict d) ts os,
                    ev_reason = (case projectedReason (gd_verdict d) matched of
                                   Some r \<Rightarrow> Some r | None \<Rightarrow> consultedReason d),
                    ev_value = go_value outcome, ev_effects = row_effects matched, ev_obligations = os,
                    ev_gate = Some d, ev_replayed = Some (go_replayed outcome), ev_pending = go_pending outcome\<rparr>)"
    unfolding evaluate_def Let_def p(1) option.case if_not_P [OF p(2)] if_not_P [OF p(3)]
    by (simp add: input_hash_def point_of_def fe [unfolded point_of_def input_hash_def])
  then show ?thesis
    by (cases "foldEntries sha call (point_of i p) (input_hash sha i) (map_of (sp_handlers sp)) opts (entries_at sp p)
        (initialFoldState (in_value i))")
      (auto simp: settled_evaluation_def Let_def cong: option.case_cong)
qed

lemma evaluate_unfolded:
  assumes "folded_point sha sp i = None" and "eo_handlers opts = None" and "eo_recorded opts = None"
  shows "evaluate sha call sp i opts = evaluate sha call sp i no_options"
    and "\<exists>ev. evaluate sha call sp i opts = Inr ev \<and> ev_pending ev = None"
proof -
  have both: "evaluate sha call sp i opts = evaluate sha call sp i no_options \<and>
      (\<exists>ev. evaluate sha call sp i opts = Inr ev \<and> ev_pending ev = None)"
  proof (cases "policyPoint (in_kind i) (in_phase i)")
    case None
    then show ?thesis by (simp add: evaluate_def refused_evaluation_def)
  next
    case (Some p)
    show ?thesis
    proof (cases "map_of (sp_pointTable sp) p = None \<or>
        (in_kind i = ''message'' \<and> in_op i = Some ''send_message'' \<and> in_message i = None)")
      case True
      with Some show ?thesis by (auto simp: evaluate_def refused_evaluation_def Let_def)
    next
      case False
      with assms(1) Some obtain r where "in_recorded i = Some r"
        and "replays sha (sp_generation sp) (point_of i p) (entries_at sp p) (input_hash sha i) r"
        by (auto simp: folded_point_def split: option.splits if_splits)
      with False Some show ?thesis
        by (auto simp: evaluate_def decide_def Let_def input_hash_def point_of_def entries_at_def no_options_def)
    qed
  qed
  then show "evaluate sha call sp i opts = evaluate sha call sp i no_options"
    and "\<exists>ev. evaluate sha call sp i opts = Inr ev \<and> ev_pending ev = None" by blast+
qed

section \<open>The loop ends\<close>

definition inline_at where
  "inline_at sha call consult sp i p prepared =
     inlineEntries sha call consult (sp_consultants sp) (point_of i p) (input_hash sha i) (map_of (sp_handlers sp))
       (entries_at sp p) prepared (initialFoldState (in_value i))"

definition unanswered :: "'x compiled_entry list \<Rightarrow> (str \<times> handler_result) list \<Rightarrow> nat" where
  "unanswered es prepared = card {r \<in> set (row_ids es). map_of prepared r = None}"

lemma unanswered_put:
  assumes "r \<in> set (row_ids es)" and "map_of prepared r = None"
  shows "unanswered es (put r a prepared) < unanswered es prepared"
  unfolding unanswered_def using assms by (intro psubset_card_mono) (auto split: if_splits)

lemma consult_step_inline:
  assumes "folded_point sha sp i = Some p" and "distinct (row_ids (entries_at sp p))"
  shows "case inline_at sha call consult sp i p prepared of
      Inl x \<Rightarrow> consult_step sha call consult sp i prepared = Some (Inl x)
    | Inr (s, answers) \<Rightarrow>
        consult_step sha call consult sp i prepared = Some (Inr (settled_evaluation sha sp i p s None)) \<and>
        evaluate sha call sp i (final_options answers) = Inr (settled_evaluation sha sp i p s None)"
proof (induction "unanswered (entries_at sp p) prepared" arbitrary: prepared rule: less_induct)
  case less
  let ?fold = "\<lambda>opts. foldEntries sha call (point_of i p) (input_hash sha i) (map_of (sp_handlers sp)) opts (entries_at sp p)
        (initialFoldState (in_value i))"
  have opts: "eo_handlers (step_options sp prepared) = None" "eo_recorded (step_options sp prepared) = None"
    "eo_pendingAsync (step_options sp prepared) = Some (map fst (sp_consultants sp))"
    "eo_prepared (step_options sp prepared) = prepared"
    by (simp_all add: step_options_def no_options_def)
  have final: "eo_handlers (final_options prepared) = None" "eo_recorded (final_options prepared) = None"
    "eo_pendingAsync (final_options prepared) = None" "eo_prepared (final_options prepared) = prepared"
    by (simp_all add: final_options_def no_options_def)
  note run = consult_step.simps [of sha call consult sp i prepared]
    evaluate_folded [OF assms(1) opts(1,2)] evaluate_folded [OF assms(1) final(1,2)]
  show ?case
  proof (cases "?fold (step_options sp prepared)")
    case (Inl x)
    with pass_throws [OF Inl opts(3)] show ?thesis by (simp add: run inline_at_def opts)
  next
    case (Inr r)
    obtain s pending where r: "r = (s, pending)" by (cases r)
    show ?thesis
    proof (cases pending)
      case None
      note whole = Inr [unfolded r None]
      have "?fold (final_options prepared) = Inr (s, None)"
        by (rule pass_final [OF whole]) (simp_all add: final opts)
      with pass_complete [OF whole opts(3), of consult] whole show ?thesis
        by (simp add: run inline_at_def opts settled_evaluation_def Let_def)
    next
      case (Some q)
      note stop = Inr [unfolded r Some]
      from pass_pending [OF stop opts(3) assms(2), of consult] obtain c
        where c: "map_of (sp_consultants sp) (pc_ref q) = Some c" "pc_rowId q \<in> set (row_ids (entries_at sp p))"
          "map_of prepared (pc_rowId q) = None"
          "inline_at sha call consult sp i p (put (pc_rowId q) (consult c q) prepared) = inline_at sha call consult sp i p prepared"
        by (auto simp: inline_at_def opts)
      have step: "consult_step sha call consult sp i prepared =
          consult_step sha call consult sp i (put (pc_rowId q) (consult c q) prepared)"
        using stop c(1) by (simp add: run settled_evaluation_def Let_def)
      show ?thesis
        unfolding step using less.hyps [OF unanswered_put [OF c(2,3)], of "consult c q"] unfolding c(4) .
    qed
  qed
qed

end
