(* ===== verification/Permission.thy ===== *)
theory Permission
  imports Json
begin

text \<open>
  The permission engine: the contracts of \<^verbatim>\<open>packages/protocol/src/policy/permission.ts\<close>,
  \<^verbatim>\<open>policy/index.ts\<close>, \<^verbatim>\<open>policy/effects.ts\<close>, the evaluator in
  \<^verbatim>\<open>packages/agent/src/core/gate/bind.ts\<close> and its use by
  \<^verbatim>\<open>packages/channels/src/authn/decision.ts\<close>.  The runtime's regular expressions are the
  parameter \<open>regExp\<close>: \<open>None\<close> where the constructor throws, otherwise the test.
  The schema that reads the input of a request is the parameter \<open>policyInput\<close>.
\<close>

section \<open>Contracts\<close>

datatype permission_decision = PermitAllow | PermitDeny | PermitApproval

datatype result_action = ActionContinue | ActionAbort

record input_rule =
  ir_toolPattern :: str
  ir_field :: str
  ir_pattern :: str
  ir_action :: permission_decision
  ir_reason :: "str option"
  ir_priority :: "int option"

record permission =
  pm_action :: str
  pm_allowlist :: "str list option"
  pm_denylist :: "str list option"
  pm_requireApproval :: "str list option"
  pm_allowLabels :: "str list option"
  pm_denyLabels :: "str list option"
  pm_requireApprovalLabels :: "str list option"
  pm_inputRules :: "input_rule list option"

record evaluation_request =
  er_action :: str
  er_resource :: str
  er_resourceLabels :: "str list option"
  er_input :: "(str \<times> jsval) list option"

record evaluation_result =
  rs_action :: result_action
  rs_decision :: "permission_decision option"
  rs_reason :: str
  rs_policyId :: str
  rs_matchedPattern :: "str option"

section \<open>Safe patterns\<close>

definition MAX_REGEX_PATTERN_LENGTH :: nat where "MAX_REGEX_PATTERN_LENGTH = 200"

definition MAX_INPUT_LENGTH :: nat where "MAX_INPUT_LENGTH = 10000"

fun stripEscapes :: "bool \<Rightarrow> str \<Rightarrow> str" where
  "stripEscapes inClass [] = []"
| "stripEscapes inClass [c] =
     (if c = CHR 0x5C then ''x''
      else if c = CHR ''['' \<and> \<not> inClass then ''x''
      else if c = CHR '']'' \<and> inClass then []
      else if inClass then [] else [c])"
| "stripEscapes inClass (c # d # s) =
     (if c = CHR 0x5C then CHR ''x'' # stripEscapes inClass s
      else if c = CHR ''['' \<and> \<not> inClass then CHR ''x'' # stripEscapes True (d # s)
      else if c = CHR '']'' \<and> inClass then stripEscapes False (d # s)
      else if inClass then stripEscapes inClass (d # s)
      else c # stripEscapes inClass (d # s))"

definition stripEscapesAndCharacterClasses :: "str \<Rightarrow> str" where
  "stripEscapesAndCharacterClasses p = stripEscapes False p"

text \<open>\<^verbatim>\<open>[\w.]\<close> and the rest of the text after \<^verbatim>\<open>(?:[+*?]|\{[0-9,]+\})\<close>.\<close>

definition atom_char :: "char \<Rightarrow> bool" where
  "atom_char c \<longleftrightarrow>
     is_digit c \<or> c = CHR ''_'' \<or> c = CHR ''.'' \<or>
     (let n = (of_char c :: nat) in (65 \<le> n \<and> n \<le> 90) \<or> (97 \<le> n \<and> n \<le> 122))"

definition brace_rest :: "str \<Rightarrow> str option" where
  "brace_rest s =
     (let digit = (\<lambda>c. is_digit c \<or> c = CHR '','') in
      case dropWhile digit s of
        c # r \<Rightarrow> if c = CHR ''}'' \<and> takeWhile digit s \<noteq> [] then Some r else None
      | [] \<Rightarrow> None)"

fun quantifier_rest :: "str \<Rightarrow> str option" where
  "quantifier_rest [] = None"
| "quantifier_rest (c # s) =
     (if c \<in> {CHR ''+'', CHR ''*'', CHR ''?''} then Some s
      else if c = CHR ''{'' then brace_rest s else None)"

definition quantified_rest :: "str \<Rightarrow> str option" where
  "quantified_rest s = (case s of [] \<Rightarrow> None | c # r \<Rightarrow> if atom_char c then quantifier_rest r else None)"

text \<open>Whether a test holds at some position of a text, as an unanchored pattern is searched.\<close>

fun somewhere :: "(str \<Rightarrow> bool) \<Rightarrow> str \<Rightarrow> bool" where
  "somewhere P [] = P []"
| "somewhere P (c # s) = (P (c # s) \<or> somewhere P s)"

definition adjacentQuantifiedAtoms :: "str \<Rightarrow> bool" where
  "adjacentQuantifiedAtoms =
     somewhere (\<lambda>s. case quantified_rest s of None \<Rightarrow> False | Some r \<Rightarrow> quantified_rest r \<noteq> None)"

lemma quantified_rest_shorter: "quantified_rest s = Some r \<Longrightarrow> length r < length s"
  by (auto simp: quantified_rest_def brace_rest_def Let_def split: list.splits if_splits
      elim!: quantifier_rest.elims)
    (metis length_Cons length_dropWhile_le less_SucI less_Suc_eq_le Suc_le_lessD)

text \<open>The number of matches of a global search: each starts after the end of the one before.\<close>

function quantifiedAtomCount :: "str \<Rightarrow> nat" where
  "quantifiedAtomCount [] = 0"
| "quantifiedAtomCount (c # s) =
     (case quantified_rest (c # s) of
        None \<Rightarrow> quantifiedAtomCount s
      | Some r \<Rightarrow> 1 + quantifiedAtomCount r)"
  by pat_completeness auto
termination by (relation "measure length") (auto dest: quantified_rest_shorter)

definition quantifiedAtomInGroup :: "str \<Rightarrow> bool" where
  "quantifiedAtomInGroup =
     somewhere (\<lambda>s. case s of
         [] \<Rightarrow> False
       | c # r \<Rightarrow>
           c = CHR ''('' \<and> CHR '')'' \<in> set r \<and>
           somewhere (\<lambda>u. quantified_rest u \<noteq> None) (takeWhile (\<lambda>d. d \<noteq> CHR '')'') r))"

definition quantifiedGroup :: "str \<Rightarrow> bool" where
  "quantifiedGroup =
     somewhere (\<lambda>s. case s of [] \<Rightarrow> False | c # r \<Rightarrow> c = CHR '')'' \<and> quantifier_rest r \<noteq> None)"

definition backreference :: "str \<Rightarrow> bool" where
  "backreference =
     somewhere (\<lambda>s. case s of c # d # r \<Rightarrow> c = CHR 0x5C \<and> is_digit d \<and> d \<noteq> CHR ''0'' | _ \<Rightarrow> False)"

definition hasUnsafeQuantifier :: "str \<Rightarrow> bool" where
  "hasUnsafeQuantifier pattern =
     (let normalized = stripEscapesAndCharacterClasses pattern in
      adjacentQuantifiedAtoms normalized \<or> quantifiedAtomCount normalized > 1 \<or>
      quantifiedAtomInGroup normalized \<or> quantifiedGroup normalized \<or> backreference pattern)"

type_synonym regexps = "str \<Rightarrow> (str \<Rightarrow> bool) option"

definition isSafeInputPattern :: "regexps \<Rightarrow> str \<Rightarrow> bool" where
  "isSafeInputPattern regExp pattern \<longleftrightarrow>
     length pattern \<le> MAX_REGEX_PATTERN_LENGTH \<and> regExp pattern \<noteq> None \<and> \<not> hasUnsafeQuantifier pattern"

section \<open>Matching\<close>

definition starts_with :: "str \<Rightarrow> str \<Rightarrow> bool" where
  "starts_with s p \<longleftrightarrow> take (length p) s = p"

definition matchesPattern :: "str \<Rightarrow> str \<Rightarrow> bool" where
  "matchesPattern resource pattern =
     (if pattern = ''*'' then True
      else if 2 \<le> length pattern \<and> drop (length pattern - 2) pattern = ''.*''
      then starts_with resource (take (length pattern - 2) pattern @ ''.'')
      else resource = pattern)"

definition findMatchingLabel :: "str list option \<Rightarrow> str list option \<Rightarrow> str option" where
  "findMatchingLabel labels patterns =
     (case patterns of
        None \<Rightarrow> None
      | Some ps \<Rightarrow> find (\<lambda>pattern. list_ex (\<lambda>label. matchesPattern label pattern) (or_else labels [])) ps)"

text \<open>\<^verbatim>\<open>String(v ?? "")\<close> on a JSON value.\<close>

fun js_string :: "plain \<Rightarrow> str" where
  "js_string PNull = ''null''"
| "js_string (PBool b) = (if b then ''true'' else ''false'')"
| "js_string (PNum n) = num_text n"
| "js_string (PStr s) = s"
| "js_string (PArr vs) = commas (map (\<lambda>v. case v of PNull \<Rightarrow> [] | _ \<Rightarrow> js_string v) vs)"
| "js_string (PObj kvs) = ''[object Object]''"

definition field_text_of :: "(str \<times> plain) list option \<Rightarrow> str \<Rightarrow> str" where
  "field_text_of input field =
     (case input of
        None \<Rightarrow> []
      | Some kvs \<Rightarrow> (case map_of kvs field of None \<Rightarrow> [] | Some PNull \<Rightarrow> [] | Some v \<Rightarrow> js_string v))"

datatype input_match = MatchHit | MatchMiss | MatchUnsafe

definition matchesInputField :: "regexps \<Rightarrow> (str \<times> plain) list option \<Rightarrow> str \<Rightarrow> str \<Rightarrow> input_match" where
  "matchesInputField regExp input field pattern =
     (if \<not> isSafeInputPattern regExp pattern then MatchUnsafe
      else case regExp pattern of
        None \<Rightarrow> MatchUnsafe
      | Some test \<Rightarrow> if test (take MAX_INPUT_LENGTH (field_text_of input field)) then MatchHit else MatchMiss)"

section \<open>Evaluation\<close>

definition POLICY_ID :: str where "POLICY_ID = ''guardrail.permission''"

definition permission_verdict :: "permission_decision \<Rightarrow> str \<Rightarrow> str option \<Rightarrow> evaluation_result" where
  "permission_verdict d reason matched =
     \<lparr>rs_action = (if d = PermitAllow then ActionContinue else ActionAbort), rs_decision = Some d,
      rs_reason = reason, rs_policyId = POLICY_ID, rs_matchedPattern = matched\<rparr>"

fun decision_text :: "permission_decision \<Rightarrow> str" where
  "decision_text PermitAllow = ''allow''"
| "decision_text PermitDeny = ''deny''"
| "decision_text PermitApproval = ''require_approval''"

fun firstRule :: "regexps \<Rightarrow> str \<Rightarrow> (str \<times> plain) list option \<Rightarrow> input_rule list \<Rightarrow> evaluation_result option" where
  "firstRule regExp resource input [] = None"
| "firstRule regExp resource input (r # rs) =
     (if \<not> matchesPattern resource (ir_toolPattern r) then firstRule regExp resource input rs
      else case matchesInputField regExp input (ir_field r) (ir_pattern r) of
        MatchUnsafe \<Rightarrow> Some (permission_verdict PermitDeny ''unsafe_input_rule'' (Some (ir_toolPattern r)))
      | MatchHit \<Rightarrow>
          Some (permission_verdict (ir_action r)
            (or_else (ir_reason r) (''input_rule_'' @ decision_text (ir_action r))) (Some (ir_toolPattern r)))
      | MatchMiss \<Rightarrow> firstRule regExp resource input rs)"

definition ordered_rules :: "permission \<Rightarrow> input_rule list" where
  "ordered_rules p =
     sort_by (\<lambda>a b. or_else (ir_priority b) 0 - or_else (ir_priority a) 0) (or_else (pm_inputRules p) [])"

type_synonym input_schema = "(str \<times> jsval) list \<Rightarrow> (str \<times> plain) list option"

definition evaluateInputRules ::
  "regexps \<Rightarrow> input_schema \<Rightarrow> permission \<Rightarrow> evaluation_request \<Rightarrow> evaluation_result option" where
  "evaluateInputRules regExp policyInput p req =
     (case er_input req of
        None \<Rightarrow> firstRule regExp (er_resource req) None (ordered_rules p)
      | Some raw \<Rightarrow>
          (case policyInput raw of
             None \<Rightarrow> Some (permission_verdict PermitDeny ''unsafe_input_rule'' None)
           | Some input \<Rightarrow> firstRule regExp (er_resource req) (Some input) (ordered_rules p)))"

text \<open>A pattern found by \<^verbatim>\<open>find\<close> counts only when it is truthy: not the empty text.\<close>

definition truthy :: "str option \<Rightarrow> str option" where
  "truthy s = (case s of None \<Rightarrow> None | Some t \<Rightarrow> if t = [] then None else Some t)"

definition matched_by :: "str \<Rightarrow> str list option \<Rightarrow> str option" where
  "matched_by resource patterns = truthy (find (matchesPattern resource) (or_else patterns []))"

definition evaluateResourceRestrictions :: "permission \<Rightarrow> evaluation_request \<Rightarrow> evaluation_result option" where
  "evaluateResourceRestrictions p req =
     (case matched_by (er_resource req) (pm_denylist p) of
        Some d \<Rightarrow> Some (permission_verdict PermitDeny ''denylist'' (Some d))
      | None \<Rightarrow>
     (case truthy (findMatchingLabel (er_resourceLabels req) (pm_denyLabels p)) of
        Some d \<Rightarrow> Some (permission_verdict PermitDeny ''deny_label'' (Some d))
      | None \<Rightarrow>
     (case matched_by (er_resource req) (pm_requireApproval p) of
        Some a \<Rightarrow> Some (permission_verdict PermitApproval ''require_approval'' (Some a))
      | None \<Rightarrow>
     (case truthy (findMatchingLabel (er_resourceLabels req) (pm_requireApprovalLabels p)) of
        Some a \<Rightarrow> Some (permission_verdict PermitApproval ''require_approval_label'' (Some a))
      | None \<Rightarrow> None))))"

definition evaluateAllowConstraints :: "permission \<Rightarrow> evaluation_request \<Rightarrow> evaluation_result option" where
  "evaluateAllowConstraints p req =
     (case pm_allowlist p of
        Some allowed \<Rightarrow>
          (case matched_by (er_resource req) (Some allowed) of
             Some a \<Rightarrow> Some (permission_verdict PermitAllow ''allowlist'' (Some a))
           | None \<Rightarrow> Some (permission_verdict PermitDeny (if allowed = [] then ''allowlist_empty'' else ''allowlist_miss'') None))
      | None \<Rightarrow>
          (case pm_allowLabels p of
             Some labels \<Rightarrow>
               (case truthy (findMatchingLabel (er_resourceLabels req) (Some labels)) of
                  Some a \<Rightarrow> Some (permission_verdict PermitAllow ''allow_label'' (Some a))
                | None \<Rightarrow> Some (permission_verdict PermitDeny (if labels = [] then ''allow_labels_empty'' else ''allow_labels_miss'') None))
           | None \<Rightarrow> None))"

definition evaluatePermission ::
  "regexps \<Rightarrow> input_schema \<Rightarrow> permission option \<Rightarrow> evaluation_request \<Rightarrow> evaluation_result" where
  "evaluatePermission regExp policyInput p req =
     (case p of
        None \<Rightarrow> permission_verdict PermitDeny (''default_deny:'' @ er_action req) None
      | Some pm \<Rightarrow>
          if pm_action pm \<noteq> er_action req then permission_verdict PermitDeny ''action_mismatch'' None
          else case evaluateInputRules regExp policyInput pm req of
            Some r \<Rightarrow> r
          | None \<Rightarrow>
              (case evaluateResourceRestrictions pm req of
                 Some r \<Rightarrow> r
               | None \<Rightarrow>
                   (case evaluateAllowConstraints pm req of
                      Some r \<Rightarrow> r
                    | None \<Rightarrow> permission_verdict PermitDeny (''default_deny:'' @ er_action req) None)))"

section \<open>Decisions\<close>

datatype policy_effect =
    RequireApprovalEffect str
  | AbortEffect "str option"
  | AnnotateEffect str str
  | OtherEffect plain

datatype decision_verdict = DecidedAllow | DecidedDeny | DecidedPending

record policy_decision =
  pd_policyId :: str
  pd_verdict :: decision_verdict
  pd_effects :: "policy_effect list"
  pd_reasonCodes :: "str list"

definition decisionFromEvaluation ::
  "evaluation_result \<Rightarrow> str option \<Rightarrow> policy_effect option \<Rightarrow> policy_decision" where
  "decisionFromEvaluation r policyId denyEffect =
     (let pid = or_else policyId (rs_policyId r) in
      if rs_decision r = Some PermitApproval
      then \<lparr>pd_policyId = pid, pd_verdict = DecidedPending, pd_effects = [RequireApprovalEffect (rs_reason r)],
            pd_reasonCodes = [rs_reason r]\<rparr>
      else if rs_action r = ActionContinue
      then \<lparr>pd_policyId = pid, pd_verdict = DecidedAllow, pd_effects = [], pd_reasonCodes = [rs_reason r]\<rparr>
      else \<lparr>pd_policyId = pid, pd_verdict = DecidedDeny,
            pd_effects = [or_else denyEffect (AbortEffect (Some (rs_reason r))), AnnotateEffect (rs_reason r) ''error''],
            pd_reasonCodes = [rs_reason r]\<rparr>)"

section \<open>Channel authentication\<close>

definition evaluateChannelPermission ::
  "regexps \<Rightarrow> input_schema \<Rightarrow> str \<Rightarrow> str \<Rightarrow> str \<Rightarrow> bool \<Rightarrow> str \<Rightarrow> str \<Rightarrow> policy_decision" where
  "evaluateChannelPermission regExp policyInput action resource field allowed allowReason denyReason =
     decisionFromEvaluation
       (evaluatePermission regExp policyInput
          (Some \<lparr>pm_action = action, pm_allowlist = None, pm_denylist = None, pm_requireApproval = None,
                 pm_allowLabels = None, pm_denyLabels = None, pm_requireApprovalLabels = None,
                 pm_inputRules = Some
                   [\<lparr>ir_toolPattern = resource, ir_field = field, ir_pattern = ''^true$'', ir_action = PermitAllow,
                     ir_reason = Some allowReason, ir_priority = Some 2\<rparr>,
                    \<lparr>ir_toolPattern = resource, ir_field = field, ir_pattern = ''^false$'', ir_action = PermitDeny,
                     ir_reason = Some denyReason, ir_priority = Some 1\<rparr>]\<rparr>)
          \<lparr>er_action = action, er_resource = resource, er_resourceLabels = None,
           er_input = Some [(field, JStr (if allowed then ''true'' else ''false''))]\<rparr>)
       None (Some (AbortEffect (Some denyReason)))"

end
