(* ===== verification/Binding_Properties.thy ===== *)
theory Binding_Properties
  imports Consult Permission
begin

text \<open>
  The guarantees of a bound policy: consultation is inline and ends, admission fails
  closed, and a permission allows only what its lists and rules allow.
\<close>

section \<open>Consultation\<close>

text \<open>
  C29. Evaluating with asynchronous consultants always returns, and returns no pending
  consultation.  Where the point's rows are folded, the loop that evaluates again after
  every answer comes to what a single pass would decide that calls each consultant when
  its row is reached, on the value that row sees; the answers of that pass reproduce the
  evaluation.  Where the input is refused or replayed, no consultant is called.
\<close>

theorem consultation_is_inline:
  assumes "sp_consultants sp \<noteq> []"
    and "\<forall>p. folded_point sha sp i = Some p \<longrightarrow> distinct (row_ids (entries_at sp p))"
  shows "case folded_point sha sp i of
      None \<Rightarrow> \<exists>ev. evaluateEffect sha call consult sp i = Some (Inr ev) \<and> ev_pending ev = None \<and>
                evaluate sha call sp i no_options = Inr ev
    | Some p \<Rightarrow>
        (case inlineEntries sha call consult (sp_consultants sp) (point_of i p) (input_hash sha i) (map_of (sp_handlers sp))
                (entries_at sp p) [] (initialFoldState (in_value i)) of
           Inl x \<Rightarrow> evaluateEffect sha call consult sp i = Some (Inl x)
         | Inr (s, answers) \<Rightarrow>
             evaluateEffect sha call consult sp i = Some (evaluate sha call sp i (final_options answers)) \<and>
             evaluate sha call sp i (final_options answers) = Inr (settled_evaluation sha sp i p s None))"
proof (cases "folded_point sha sp i")
  case None
  have opts: "eo_handlers (step_options sp []) = None" "eo_recorded (step_options sp []) = None"
    and final: "final_options [] = no_options"
    by (simp_all add: step_options_def final_options_def no_options_def)
  obtain ev where ev: "evaluate sha call sp i (step_options sp []) = Inr ev" "ev_pending ev = None"
    using evaluate_unfolded(2) [OF None opts] by blast
  then have "evaluateEffect sha call consult sp i = Some (evaluate sha call sp i no_options)"
    using assms(1) by (simp add: evaluateEffect_def consult_step.simps [of _ _ _ _ _ "[]"] final)
  with ev evaluate_unfolded(1) [OF None opts, of call] None show ?thesis by simp
next
  case (Some p)
  with assms(2) have "distinct (row_ids (entries_at sp p))" by blast
  from consult_step_inline [OF Some this, of call consult "[]"] assms(1) Some show ?thesis
    by (simp add: evaluateEffect_def inline_at_def split: sum.splits prod.splits)
qed

text \<open>A snapshot with a rewriting consultant before an approving one.\<close>

definition consult_row :: "str \<Rightarrow> point_do \<Rightarrow> str list option \<Rightarrow> unit compiled_entry" where
  "consult_row r d fs =
     \<lparr>ce_row = \<lparr>gr_id = r, gr_on = ''tool.pre'', gr_when = [], gr_do = d,
        gr_how = no_how\<lparr>hw_ref := Some ''ask'', hw_fields := fs\<rparr>, gr_order = 0, gr_generation = 1\<rparr>,
      ce_emit = None, ce_matcher = None, ce_policy = None\<rparr>"

definition consult_gate :: "(unit, unit, unit) snapshot" where
  "consult_gate =
     \<lparr>sp_generation = 1, sp_contentHash = ''h'',
      sp_pointTable = [(''tool.pre'', hd (map snd (filter (\<lambda>(k, r). k = ''tool.pre'') (map (\<lambda>r. (pt_id r, r)) CORE_POINT_RECORDS))))],
      sp_byPoint = [(''tool.pre'', [consult_row ''a'' DoRewrite (Some [''x'']), consult_row ''b'' DoGate None])],
      sp_rowById = [], sp_handlers = [], sp_consultants = [(''ask'', ())]\<rparr>"

definition consult_input :: policy_input where
  "consult_input = \<lparr>in_kind = ''tool'', in_phase = Pre, in_op = None, in_role = None, in_sessionId = None,
     in_message = None, in_value = PObj [(''x'', PNull)], in_recorded = None\<rparr>"

text \<open>The consultant sets the field for the first row, and approves what it has set.\<close>

definition consult_demo :: "unit consulting" where
  "consult_demo c q =
     (if pc_rowId q = ''a'' then \<lparr>hr_verdict = None, hr_value = Some (PObj [(''x'', PBool True)]), hr_payload = Some PNull\<rparr>
      else \<lparr>hr_verdict = Some (if plain_get (pc_value q) ''x'' = Some (PBool True) then Allow else Deny),
            hr_value = None, hr_payload = Some PNull\<rparr>)"

lemma consultation_is_inline_witness:
  "\<exists>answers ev. map fst answers = [''a'', ''b''] \<and>
     evaluateEffect (\<lambda>_. ''d'') (\<lambda>g v p w s. HandlerThrew) consult_demo consult_gate consult_input =
       Some (evaluate (\<lambda>_. ''d'') (\<lambda>g v p w s. HandlerThrew) consult_gate consult_input (final_options answers)) \<and>
     evaluate (\<lambda>_. ''d'') (\<lambda>g v p w s. HandlerThrew) consult_gate consult_input (final_options answers) = Inr ev \<and>
     ev_verdict ev = EAllow"
proof -
  let ?inline = "inlineEntries (\<lambda>_. ''d'') (\<lambda>g v p w s. HandlerThrew) consult_demo (sp_consultants consult_gate)
    (point_of consult_input ''tool.pre'') (input_hash (\<lambda>_. ''d'') consult_input) (map_of (sp_handlers consult_gate))
    (entries_at consult_gate ''tool.pre'') [] (initialFoldState (in_value consult_input))"
  have p: "folded_point (\<lambda>_. ''d'') consult_gate consult_input = Some ''tool.pre''" by code_simp
  have d: "distinct (row_ids (entries_at consult_gate ''tool.pre''))" and c: "sp_consultants consult_gate \<noteq> []" by code_simp+
  have "case ?inline of Inl x \<Rightarrow> False | Inr (s, answers) \<Rightarrow>
      map fst answers = [''a'', ''b''] \<and> ev_verdict (settled_evaluation (\<lambda>_. ''d'') consult_gate consult_input ''tool.pre'' s None) = EAllow"
    by code_simp
  then obtain s answers where i: "?inline = Inr (s, answers)" and a: "map fst answers = [''a'', ''b'']"
    and v: "ev_verdict (settled_evaluation (\<lambda>_. ''d'') consult_gate consult_input ''tool.pre'' s None) = EAllow"
    by (auto split: sum.splits)
  from consultation_is_inline [of consult_gate "\<lambda>_. ''d''" consult_input "\<lambda>g v p w s. HandlerThrew" consult_demo] p d c i
  have "evaluateEffect (\<lambda>_. ''d'') (\<lambda>g v p w s. HandlerThrew) consult_demo consult_gate consult_input =
       Some (evaluate (\<lambda>_. ''d'') (\<lambda>g v p w s. HandlerThrew) consult_gate consult_input (final_options answers)) \<and>
     evaluate (\<lambda>_. ''d'') (\<lambda>g v p w s. HandlerThrew) consult_gate consult_input (final_options answers) =
       Inr (settled_evaluation (\<lambda>_. ''d'') consult_gate consult_input ''tool.pre'' s None)" by simp
  with a v show ?thesis
    by (intro exI [of _ answers] exI [of _ "settled_evaluation (\<lambda>_. ''d'') consult_gate consult_input ''tool.pre'' s None"]) simp
qed

section \<open>Admission\<close>

lemma admit_unregistered:
  assumes "executionPoint (in_kind i) (in_phase i) (bd_pointTable policy) = None" and "admit policy i = Some (Inr ev)"
  shows "ev_verdict ev = EDeny \<and> ev_reason ev = Some ''unknown_point''"
proof -
  obtain d where "map_sum id (\<lambda>d. d\<lparr>ev_verdict := EDeny, ev_reason := Some ''unknown_point''\<rparr>) d = (Inr ev :: unit + policy_evaluation)"
    using assms by (auto simp: admit_def)
  then show ?thesis by (cases d) auto
qed

section \<open>Permissions\<close>

definition applies :: "regexps \<Rightarrow> str \<Rightarrow> (str \<times> plain) list option \<Rightarrow> input_rule \<Rightarrow> bool" where
  "applies rx resource input r \<longleftrightarrow>
     matchesPattern resource (ir_toolPattern r) \<and> matchesInputField rx input (ir_field r) (ir_pattern r) \<noteq> MatchMiss"

lemma firstRule_find:
  "firstRule rx resource input rs =
     (case find (applies rx resource input) rs of
        None \<Rightarrow> None
      | Some r \<Rightarrow>
          if matchesInputField rx input (ir_field r) (ir_pattern r) = MatchUnsafe
          then Some (permission_verdict PermitDeny ''unsafe_input_rule'' (Some (ir_toolPattern r)))
          else Some (permission_verdict (ir_action r)
            (or_else (ir_reason r) (''input_rule_'' @ decision_text (ir_action r))) (Some (ir_toolPattern r))))"
  by (induction rs) (auto simp: applies_def split: input_match.splits)

lemma verdict_allow [simp]: "rs_action (permission_verdict d reason m) = ActionContinue \<longleftrightarrow> d = PermitAllow"
  "rs_decision (permission_verdict d reason m) = Some d"
  by (simp_all add: permission_verdict_def)

lemma truthy_find: "(\<And>p. P p \<Longrightarrow> p \<noteq> []) \<Longrightarrow> truthy (find P qs) = None \<longleftrightarrow> (\<forall>p \<in> set qs. \<not> P p)"
  by (induction qs) (auto simp: truthy_def)

lemma matchesPattern_nonempty: "matchesPattern s p \<Longrightarrow> s \<noteq> [] \<Longrightarrow> p \<noteq> []"
  by (auto simp: matchesPattern_def)

lemma find_matchesPattern:
  assumes "resource \<noteq> []"
  shows "matched_by resource ps = None \<longleftrightarrow> (\<forall>p \<in> set (or_else ps []). \<not> matchesPattern resource p)"
  unfolding matched_by_def by (rule truthy_find) (rule matchesPattern_nonempty [OF _ assms])

lemma find_label:
  assumes "[] \<notin> set (or_else labels [])"
  shows "truthy (findMatchingLabel labels ps) = None \<longleftrightarrow>
    (\<forall>p \<in> set (or_else ps []). \<forall>l \<in> set (or_else labels []). \<not> matchesPattern l p)"
proof (cases ps)
  case None
  then show ?thesis by (simp add: findMatchingLabel_def truthy_def)
next
  case (Some qs)
  have "truthy (find (\<lambda>pattern. list_ex (\<lambda>label. matchesPattern label pattern) (or_else labels [])) qs) = None \<longleftrightarrow>
    (\<forall>p \<in> set qs. \<not> list_ex (\<lambda>label. matchesPattern label p) (or_else labels []))"
    using assms by (intro truthy_find) (metis list_ex_iff matchesPattern_nonempty)
  with Some show ?thesis by (simp add: findMatchingLabel_def list_ex_iff)
qed

text \<open>The input rules speak first: the first, in priority order, that applies to the request.\<close>

definition rule_for :: "regexps \<Rightarrow> input_schema \<Rightarrow> permission \<Rightarrow> evaluation_request \<Rightarrow> input_rule option" where
  "rule_for rx schema pm req =
     find (applies rx (er_resource req) (case er_input req of None \<Rightarrow> None | Some raw \<Rightarrow> schema raw)) (ordered_rules pm)"

lemma evaluateInputRules_cases:
  "evaluateInputRules rx schema pm req =
     (if \<exists>raw. er_input req = Some raw \<and> schema raw = None
      then Some (permission_verdict PermitDeny ''unsafe_input_rule'' None)
      else case rule_for rx schema pm req of
        None \<Rightarrow> None
      | Some r \<Rightarrow>
          if matchesInputField rx (case er_input req of None \<Rightarrow> None | Some raw \<Rightarrow> schema raw) (ir_field r) (ir_pattern r) = MatchUnsafe
          then Some (permission_verdict PermitDeny ''unsafe_input_rule'' (Some (ir_toolPattern r)))
          else Some (permission_verdict (ir_action r)
            (or_else (ir_reason r) (''input_rule_'' @ decision_text (ir_action r))) (Some (ir_toolPattern r))))"
  by (auto simp: evaluateInputRules_def rule_for_def firstRule_find split: option.splits)

lemma rule_for_applies:
  "rule_for rx schema pm req = Some r \<Longrightarrow>
   matchesInputField rx (case er_input req of None \<Rightarrow> None | Some raw \<Rightarrow> schema raw) (ir_field r) (ir_pattern r) \<noteq> MatchMiss"
  by (auto simp: rule_for_def find_Some_iff applies_def)

lemma restrictions_never_allow:
  "evaluateResourceRestrictions pm req = Some r \<Longrightarrow> rs_action r \<noteq> ActionContinue"
  by (auto simp: evaluateResourceRestrictions_def split: option.splits)

lemma restrictions_none:
  assumes "er_resource req \<noteq> []" and "[] \<notin> set (or_else (er_resourceLabels req) [])"
  shows "evaluateResourceRestrictions pm req = None \<longleftrightarrow>
    (\<forall>q \<in> set (or_else (pm_denylist pm) []) \<union> set (or_else (pm_requireApproval pm) []). \<not> matchesPattern (er_resource req) q) \<and>
    (\<forall>q \<in> set (or_else (pm_denyLabels pm) []) \<union> set (or_else (pm_requireApprovalLabels pm) []).
       \<forall>l \<in> set (or_else (er_resourceLabels req) []). \<not> matchesPattern l q)"
proof -
  have "evaluateResourceRestrictions pm req = None \<longleftrightarrow>
    matched_by (er_resource req) (pm_denylist pm) = None \<and> truthy (findMatchingLabel (er_resourceLabels req) (pm_denyLabels pm)) = None \<and>
    matched_by (er_resource req) (pm_requireApproval pm) = None \<and>
    truthy (findMatchingLabel (er_resourceLabels req) (pm_requireApprovalLabels pm)) = None"
    by (auto simp: evaluateResourceRestrictions_def split: option.splits)
  then show ?thesis
    unfolding find_matchesPattern [OF assms(1)] find_label [OF assms(2)] by blast
qed

lemma allow_constraints:
  assumes "er_resource req \<noteq> []" and "[] \<notin> set (or_else (er_resourceLabels req) [])"
  shows "(\<exists>r. evaluateAllowConstraints pm req = Some r \<and> rs_action r = ActionContinue) \<longleftrightarrow>
    (case pm_allowlist pm of
       Some allowed \<Rightarrow> \<exists>q \<in> set allowed. matchesPattern (er_resource req) q
     | None \<Rightarrow> \<exists>q \<in> set (or_else (pm_allowLabels pm) []). \<exists>l \<in> set (or_else (er_resourceLabels req) []). matchesPattern l q)"
  using find_matchesPattern [OF assms(1), of "pm_allowlist pm"] find_label [OF assms(2), of "pm_allowLabels pm"]
  by (cases "pm_allowlist pm"; cases "pm_allowLabels pm") (auto simp: evaluateAllowConstraints_def split: option.splits)

text \<open>
  C30. A permission fails closed.  For a request on a named resource with no empty label, the
  evaluation continues exactly when the permission is for the request's action, its
  input is well formed, and either the first input rule that applies is safe and allows,
  or no input rule applies, no pattern or label denies or asks for approval, and the
  allowlist has a matching pattern or, without an allowlist, a label is allowed.
\<close>

theorem permission_fails_closed:
  assumes "er_resource req \<noteq> []" and "[] \<notin> set (or_else (er_resourceLabels req) [])"
  shows "rs_action (evaluatePermission rx schema p req) = ActionContinue \<longleftrightarrow>
    (\<exists>pm. p = Some pm \<and> pm_action pm = er_action req \<and>
       (\<forall>raw. er_input req = Some raw \<longrightarrow> schema raw \<noteq> None) \<and>
       (case rule_for rx schema pm req of
          Some r \<Rightarrow> ir_action r = PermitAllow \<and>
            matchesInputField rx (case er_input req of None \<Rightarrow> None | Some raw \<Rightarrow> schema raw) (ir_field r) (ir_pattern r) = MatchHit
        | None \<Rightarrow>
            (\<forall>q \<in> set (or_else (pm_denylist pm) []) \<union> set (or_else (pm_requireApproval pm) []).
               \<not> matchesPattern (er_resource req) q) \<and>
            (\<forall>q \<in> set (or_else (pm_denyLabels pm) []) \<union> set (or_else (pm_requireApprovalLabels pm) []).
               \<forall>l \<in> set (or_else (er_resourceLabels req) []). \<not> matchesPattern l q) \<and>
            (case pm_allowlist pm of
               Some allowed \<Rightarrow> \<exists>q \<in> set allowed. matchesPattern (er_resource req) q
             | None \<Rightarrow> \<exists>q \<in> set (or_else (pm_allowLabels pm) []).
                 \<exists>l \<in> set (or_else (er_resourceLabels req) []). matchesPattern l q)))"
proof (cases p)
  case None
  then show ?thesis by (simp add: evaluatePermission_def)
next
  case (Some pm)
  show ?thesis
  proof (cases "pm_action pm = er_action req \<and> (\<forall>raw. er_input req = Some raw \<longrightarrow> schema raw \<noteq> None)")
    case False
    with Some show ?thesis by (auto simp: evaluatePermission_def evaluateInputRules_cases)
  next
    case True
    show ?thesis
    proof (cases "rule_for rx schema pm req")
      case None
      with True Some have "rs_action (evaluatePermission rx schema p req) = ActionContinue \<longleftrightarrow>
        evaluateResourceRestrictions pm req = None \<and>
        (\<exists>r. evaluateAllowConstraints pm req = Some r \<and> rs_action r = ActionContinue)"
        by (auto simp: evaluatePermission_def evaluateInputRules_cases dest: restrictions_never_allow split: option.splits)
      with True Some None show ?thesis
        unfolding restrictions_none [OF assms] allow_constraints [OF assms] by auto
    next
      case rule: (Some r)
      from rule_for_applies [OF rule] True rule Some show ?thesis
        by (cases "matchesInputField rx (case er_input req of None \<Rightarrow> None | Some raw \<Rightarrow> schema raw) (ir_field r) (ir_pattern r)")
          (auto simp: evaluatePermission_def evaluateInputRules_cases)
    qed
  qed
qed

definition demo_permission :: permission where
  "demo_permission = \<lparr>pm_action = ''tool'', pm_allowlist = Some [''fs.*''], pm_denylist = Some [''fs.rm''], pm_requireApproval = None,
     pm_allowLabels = None, pm_denyLabels = None, pm_requireApprovalLabels = None, pm_inputRules = None\<rparr>"

definition demo_request :: "str \<Rightarrow> evaluation_request" where
  "demo_request r = \<lparr>er_action = ''tool'', er_resource = r, er_resourceLabels = None, er_input = None\<rparr>"

lemma permission_fails_closed_witness:
  "rs_action (evaluatePermission (\<lambda>_. None) (\<lambda>_. None) (Some demo_permission) (demo_request ''fs.read'')) = ActionContinue \<and>
   rs_action (evaluatePermission (\<lambda>_. None) (\<lambda>_. None) (Some demo_permission) (demo_request ''fs.rm'')) \<noteq> ActionContinue"
  using permission_fails_closed [of "demo_request ''fs.read''" "\<lambda>_. None" "\<lambda>_. None" "Some demo_permission"]
    permission_fails_closed [of "demo_request ''fs.rm''" "\<lambda>_. None" "\<lambda>_. None" "Some demo_permission"]
  by (simp add: demo_request_def demo_permission_def rule_for_def ordered_rules_def sort_by_def matchesPattern_def starts_with_def)

section \<open>Channel authentication\<close>

lemma matchesPattern_self: "matchesPattern resource resource"
proof -
  have "take (length resource - 2) resource @ ''.'' = take (length resource - 1) resource"
    if "2 \<le> length resource" and "drop (length resource - 2) resource = ''.*''"
  proof -
    from that(2) have "resource = take (length resource - 2) resource @ ''.*''" by (metis append_take_drop_id)
    then obtain u where u: "resource = u @ ''.*''" by blast
    then show ?thesis by simp
  qed
  then show ?thesis by (auto simp: matchesPattern_def starts_with_def)
qed

lemma channel_patterns_safe: "\<not> hasUnsafeQuantifier ''^true$''" "\<not> hasUnsafeQuantifier ''^false$''"
  by code_simp+

lemma channel_permission:
  assumes "rx ''^true$'' = Some (\<lambda>s. s = ''true'')" and "rx ''^false$'' = Some (\<lambda>s. s = ''false'')"
    and "\<And>f s. schema [(f, JStr s)] = Some [(f, PStr s)]"
  shows "pd_verdict (evaluateChannelPermission rx schema action resource field allowed why whyNot) =
    (if allowed then DecidedAllow else DecidedDeny)"
  using assms channel_patterns_safe matchesPattern_self [of resource]
  by (simp add: evaluateChannelPermission_def evaluatePermission_def evaluateInputRules_def ordered_rules_def sort_by_def
      matchesInputField_def isSafeInputPattern_def MAX_REGEX_PATTERN_LENGTH_def field_text_of_def MAX_INPUT_LENGTH_def
      decisionFromEvaluation_def permission_verdict_def)

end
