(* ===== verification/Effects.thy ===== *)
theory Effects
  imports Main
begin

text \<open>
  Effect programs as the loop and the router write them: a computation over a
  state either succeeds or halts with a cause, and a cause is the flat list of
  reasons the runtime keeps (typed failures, defects, interruptions).  The
  second half is a small Hoare logic over such programs: \<open>meets P m Q E\<close> bounds
  both the successful exits (\<open>Q\<close>) and the halting ones (\<open>E\<close>) of \<open>m\<close>, and the
  collection \<open>meets_rules\<close> has one rule for each combinator.
\<close>

named_theorems meets_rules

section \<open>Programs\<close>

datatype 'e reason = FailR 'e | DieR string string | InterruptR

type_synonym 'e cause = "'e reason list"

datatype ('e, 'a) exit = Done 'a | Halt "'e cause"

type_synonym ('s, 'e, 'a) eff = "'s \<Rightarrow> ('e, 'a) exit \<times> 's"

definition succeed :: "'a \<Rightarrow> ('s, 'e, 'a) eff" where
  "succeed a s = (Done a, s)"

definition fail_cause :: "'e cause \<Rightarrow> ('s, 'e, 'a) eff" where
  "fail_cause c s = (Halt c, s)"

definition fail_with :: "'e \<Rightarrow> ('s, 'e, 'a) eff" where
  "fail_with e = fail_cause [FailR e]"

definition interrupted :: "('s, 'e, 'a) eff" where
  "interrupted = fail_cause [InterruptR]"

text \<open>\<^verbatim>\<open>Effect.flatMap\<close>, and \<^verbatim>\<open>yield*\<close> of a generator body.\<close>

definition flat_map :: "('s, 'e, 'a) eff \<Rightarrow> ('a \<Rightarrow> ('s, 'e, 'b) eff) \<Rightarrow> ('s, 'e, 'b) eff" where
  "flat_map m f s =
     (case m s of (Done a, t) \<Rightarrow> f a t | (Halt c, t) \<Rightarrow> (Halt c, t))"

text \<open>\<^verbatim>\<open>Effect.exit\<close>.\<close>

definition exit_of :: "('s, 'e, 'a) eff \<Rightarrow> ('s, 'e, ('e, 'a) exit) eff" where
  "exit_of m s = (case m s of (r, t) \<Rightarrow> (Done r, t))"

text \<open>A total read or update of the state.\<close>

definition sync :: "('s \<Rightarrow> 'a \<times> 's) \<Rightarrow> ('s, 'e, 'a) eff" where
  "sync f s = (case f s of (a, t) \<Rightarrow> (Done a, t))"

definition update :: "('s \<Rightarrow> 's) \<Rightarrow> ('s, 'e, unit) eff" where
  "update f = sync (\<lambda>s. ((), f s))"

text \<open>\<^verbatim>\<open>Effect.ensuring\<close> with a synchronous finalizer.\<close>

definition ensuring :: "('s, 'e, 'a) eff \<Rightarrow> ('s \<Rightarrow> 's) \<Rightarrow> ('s, 'e, 'a) eff" where
  "ensuring m f s = (case m s of (r, t) \<Rightarrow> (r, f t))"

section \<open>Causes\<close>

fun fail_of :: "'e reason \<Rightarrow> 'e option" where
  "fail_of (FailR e) = Some e"
| "fail_of _ = None"

definition findErrorOption :: "'e cause \<Rightarrow> 'e option" where
  "findErrorOption c = (case List.map_filter fail_of c of [] \<Rightarrow> None | e # _ \<Rightarrow> Some e)"

definition hasInterrupts :: "'e cause \<Rightarrow> bool" where
  "hasInterrupts c \<longleftrightarrow> list_ex (\<lambda>r. case r of InterruptR \<Rightarrow> True | _ \<Rightarrow> False) c"

definition hasDies :: "'e cause \<Rightarrow> bool" where
  "hasDies c \<longleftrightarrow> list_ex (\<lambda>r. case r of DieR _ _ \<Rightarrow> True | _ \<Rightarrow> False) c"

text \<open>
  \<^verbatim>\<open>Effect.catch\<close>: the handler sees the first typed failure; a cause with none
  passes through.
\<close>

definition catch_error :: "('s, 'e, 'a) eff \<Rightarrow> ('e \<Rightarrow> ('s, 'e, 'a) eff) \<Rightarrow> ('s, 'e, 'a) eff" where
  "catch_error m h s =
     (case m s of
        (Done a, t) \<Rightarrow> (Done a, t)
      | (Halt c, t) \<Rightarrow> (case findErrorOption c of None \<Rightarrow> (Halt c, t) | Some e \<Rightarrow> h e t))"

lemmas effect_defs =
  succeed_def fail_cause_def fail_with_def interrupted_def flat_map_def exit_of_def sync_def update_def
  ensuring_def catch_error_def

lemma flat_map_succeed [simp]: "flat_map (succeed a) f = f a"
  by (rule ext) (simp add: flat_map_def succeed_def)

lemma flat_map_fail [simp]: "flat_map (fail_with e) f = fail_with e"
  by (rule ext) (simp add: flat_map_def fail_with_def fail_cause_def)

lemma flat_map_assoc: "flat_map (flat_map m f) g = flat_map m (\<lambda>a. flat_map (f a) g)"
  by (rule ext) (simp add: flat_map_def split: prod.split exit.split)

lemma flat_map_cong [fundef_cong]:
  assumes "s = s'" and "m s' = m' s'"
    and "\<And>a t. m' s' = (Done a, t) \<Longrightarrow> f a t = f' a t"
  shows "flat_map m f s = flat_map m' f' s'"
  using assms by (simp add: flat_map_def split: prod.split exit.split)

lemma flat_map_Done:
  "flat_map m f s = (Done b, u) \<longleftrightarrow> (\<exists>a t. m s = (Done a, t) \<and> f a t = (Done b, u))"
  by (auto simp: flat_map_def split: prod.splits exit.splits)

lemma flat_map_Halt:
  "flat_map m f s = (Halt c, u) \<longleftrightarrow>
     m s = (Halt c, u) \<or> (\<exists>a t. m s = (Done a, t) \<and> f a t = (Halt c, u))"
  by (auto simp: flat_map_def split: prod.splits exit.splits)

section \<open>Bounding the exits of a program\<close>

definition meets ::
  "('s \<Rightarrow> bool) \<Rightarrow> ('s, 'e, 'a) eff \<Rightarrow> ('a \<Rightarrow> 's \<Rightarrow> bool) \<Rightarrow> ('e cause \<Rightarrow> 's \<Rightarrow> bool) \<Rightarrow> bool" where
  "meets P m Q E \<longleftrightarrow>
     (\<forall>s. P s \<longrightarrow> (\<forall>a t. m s = (Done a, t) \<longrightarrow> Q a t) \<and> (\<forall>c t. m s = (Halt c, t) \<longrightarrow> E c t))"

lemma meetsI:
  assumes "\<And>s a t. P s \<Longrightarrow> m s = (Done a, t) \<Longrightarrow> Q a t"
    and "\<And>s c t. P s \<Longrightarrow> m s = (Halt c, t) \<Longrightarrow> E c t"
  shows "meets P m Q E"
  using assms by (auto simp: meets_def)

lemma meets_Done: "meets P m Q E \<Longrightarrow> P s \<Longrightarrow> m s = (Done a, t) \<Longrightarrow> Q a t"
  by (auto simp: meets_def)

lemma meets_Halt: "meets P m Q E \<Longrightarrow> P s \<Longrightarrow> m s = (Halt c, t) \<Longrightarrow> E c t"
  by (auto simp: meets_def)

lemma meets_weaken:
  assumes "meets P' m Q' E'" and "\<And>s. P s \<Longrightarrow> P' s" and "\<And>a s. Q' a s \<Longrightarrow> Q a s" and "\<And>c s. E' c s \<Longrightarrow> E c s"
  shows "meets P m Q E"
  using assms unfolding meets_def by meson

lemma meets_flat_map [meets_rules]:
  assumes "meets P m R E" and "\<And>a. meets (R a) (f a) Q E"
  shows "meets P (flat_map m f) Q E"
proof (rule meetsI)
  fix s b u assume "P s" and "flat_map m f s = (Done b, u)"
  then show "Q b u" using assms by (auto simp: flat_map_Done dest: meets_Done)
next
  fix s c u assume "P s" and "flat_map m f s = (Halt c, u)"
  then show "E c u" using assms by (auto simp: flat_map_Halt dest: meets_Done meets_Halt)
qed

lemma meets_succeed [meets_rules]: "(\<And>s. P s \<Longrightarrow> Q a s) \<Longrightarrow> meets P (succeed a) Q E"
  by (simp add: meets_def succeed_def)

lemma meets_fail_cause [meets_rules]: "(\<And>s. P s \<Longrightarrow> E c s) \<Longrightarrow> meets P (fail_cause c) Q E"
  by (simp add: meets_def fail_cause_def)

lemma meets_fail_with [meets_rules]: "(\<And>s. P s \<Longrightarrow> E [FailR e] s) \<Longrightarrow> meets P (fail_with e) Q E"
  by (simp add: fail_with_def meets_fail_cause)

lemma meets_interrupted [meets_rules]: "(\<And>s. P s \<Longrightarrow> E [InterruptR] s) \<Longrightarrow> meets P interrupted Q E"
  by (simp add: interrupted_def meets_fail_cause)

lemma meets_exit_of [meets_rules]:
  "meets P m (\<lambda>a. Q (Done a)) (\<lambda>c. Q (Halt c)) \<Longrightarrow> meets P (exit_of m) Q E"
  by (auto simp: meets_def exit_of_def split: prod.splits) (metis exit.exhaust)

lemma meets_sync [meets_rules]:
  "(\<And>s a t. P s \<Longrightarrow> f s = (a, t) \<Longrightarrow> Q a t) \<Longrightarrow> meets P (sync f) Q E"
  by (auto simp: meets_def sync_def split: prod.splits)

lemma meets_update [meets_rules]: "(\<And>s. P s \<Longrightarrow> Q () (f s)) \<Longrightarrow> meets P (update f) Q E"
  by (auto simp: update_def intro!: meets_sync)

lemma meets_ensuring [meets_rules]:
  "meets P m (\<lambda>a s. Q a (f s)) (\<lambda>c s. E c (f s)) \<Longrightarrow> meets P (ensuring m f) Q E"
  by (auto simp: meets_def ensuring_def split: prod.splits)

lemma meets_if [meets_rules]:
  "(b \<Longrightarrow> meets P m Q E) \<Longrightarrow> (\<not> b \<Longrightarrow> meets P n Q E) \<Longrightarrow> meets P (if b then m else n) Q E"
  by simp

text \<open>A guard that reads the state.\<close>

lemma meets_guard [meets_rules]:
  "meets P m Q E \<Longrightarrow> meets P n Q E \<Longrightarrow> meets P (\<lambda>s. if b s then m s else n s) Q E"
  by (auto simp: meets_def)

text \<open>A part of the precondition that does not read the state.\<close>

lemma meets_pure:
  "(\<And>s. P s \<Longrightarrow> B) \<Longrightarrow> (B \<Longrightarrow> meets P m Q E) \<Longrightarrow> meets P m Q E"
  by (auto simp: meets_def)

lemma meets_at: "(\<And>s. P s \<Longrightarrow> meets (\<lambda>t. t = s) m Q E) \<Longrightarrow> meets P m Q E"
  by (simp add: meets_def)

end
