(* ===== verification/Failures.thy ===== *)
theory Failures
  imports Effects Ledger Gate_Types
begin

text \<open>
  The failure vocabulary the turn loop and the model router share: the
  provider classification of \<^verbatim>\<open>packages/llm/src/port.ts\<close>, the typed execution
  errors of \<^verbatim>\<open>packages/agent/src/core/ports/failure.ts\<close> and the durable evidence
  \<^verbatim>\<open>core/loop/record.ts\<close> projects from them.
\<close>

section \<open>Classified failures\<close>

datatype provider_reason =
    RateLimit | Overloaded | ServerError | ValidationReason | Billing | ContentPolicy | NonRetryable

datatype attempt_reason = Timeout | TransientError | ValidationError

text \<open>
  Whole milliseconds: every header wait the classifier reports is an integer.
  The fields of \<open>Retryable\<close> are the recorded reason, the provider's reason, the
  provider's wait, whether that wait is an explicit directive, and whether the
  failure was answered by transport; those of \<open>Terminal\<close> are the two reasons,
  the status and the detail.
\<close>

datatype failure_class =
    Aborted
  | Overflow
  | Retryable attempt_reason provider_reason "int option" "bool option" bool
  | Terminal attempt_reason provider_reason "int option" "str option"

section \<open>Execution errors\<close>

datatype error_cause = CauseText str | CauseError str str

definition renderBodyCause :: "error_cause \<Rightarrow> str" where
  "renderBodyCause c =
     (case c of
        CauseText t \<Rightarrow> t
      | CauseError name message \<Rightarrow>
          if message = [] then name else if name = [] then message else name @ '': '' @ message)"

definition cause_message :: "error_cause \<Rightarrow> str" where
  "cause_message c = (case c of CauseText t \<Rightarrow> t | CauseError _ message \<Rightarrow> message)"

record usage =
  us_input :: int
  us_output :: int
  us_reasoning :: int
  us_cacheRead :: int
  us_cacheWrite :: int

datatype retry_reason = RTimeout | RToolError | RTransientError | RValidationError | RContextOverflow

datatype fact_reason = FactReason retry_reason | FactAborted

record failure_facts =
  ff_reason :: fact_reason
  ff_attempt :: int
  ff_maxAttempts :: int

datatype provenance = Reported | Estimated | Unknown

record run_failure =
  rf_message :: str
  rf_cause :: "error_cause option"
  rf_providerErrorName :: "str option"
  rf_provider :: "str option"
  rf_model :: "str option"
  rf_usageProvenance :: "provenance option"
  rf_retryAfterMs :: "int option"
  rf_usage :: usage
  rf_aborted :: bool
  rf_contextOverflow :: bool
  rf_visibleOutput :: bool
  rf_facts :: "failure_facts option"

datatype stop_metric = ExactRepeat | ToollessStall | BlockedRecurrence | Continuation

datatype stop_reason = StopBudget | StopMetric stop_metric

datatype exec_error =
    LlmRunFailure run_failure
  | AgentFailure str error_cause
  | PolicyDenied phase "str list"
  | ToolBodyFailed str error_cause
  | InvocationClosed str str
  | GenerationUnavailable int
  | InterruptedError
  | ContextAdmissionError
  | CommitFailed str str
  | OutcomeUnknown str
  | CompactionExecutionError str
  | ExecutionApprovalError str
  | AgentStopError stop_reason

fun metric_text :: "stop_metric \<Rightarrow> str" where
  "metric_text ExactRepeat = ''exact_repeat''"
| "metric_text ToollessStall = ''toolless_stall''"
| "metric_text BlockedRecurrence = ''blocked_recurrence''"
| "metric_text Continuation = ''continuation''"

fun stop_reason_text :: "stop_reason \<Rightarrow> str" where
  "stop_reason_text StopBudget = ''budget''"
| "stop_reason_text (StopMetric m) = metric_text m"

fun retry_reason_text :: "retry_reason \<Rightarrow> str" where
  "retry_reason_text RTimeout = ''timeout''"
| "retry_reason_text RToolError = ''tool_error''"
| "retry_reason_text RTransientError = ''transient_error''"
| "retry_reason_text RValidationError = ''validation_error''"
| "retry_reason_text RContextOverflow = ''context_overflow''"

fun provenance_text :: "provenance \<Rightarrow> str" where
  "provenance_text Reported = ''reported''"
| "provenance_text Estimated = ''estimated''"
| "provenance_text Unknown = ''unknown''"

section \<open>Evidence\<close>

definition int_plain :: "int \<Rightarrow> plain" where
  "int_plain i = PNum (NInt i)"

definition usage_plain :: "usage \<Rightarrow> plain" where
  "usage_plain u =
     PObj [(''inputTokens'', int_plain (us_input u)), (''outputTokens'', int_plain (us_output u)),
           (''reasoningTokens'', int_plain (us_reasoning u)), (''cacheReadTokens'', int_plain (us_cacheRead u)),
           (''cacheWriteTokens'', int_plain (us_cacheWrite u))]"

text \<open>The \<^verbatim>\<open>cause\<close> of a run failure: a provider error's own message, else the rendered cause.\<close>

definition run_failure_cause :: "run_failure \<Rightarrow> plain" where
  "run_failure_cause f =
     (case rf_cause f of
        None \<Rightarrow> PNull
      | Some (CauseText t) \<Rightarrow> PStr t
      | Some c \<Rightarrow> PStr (if rf_providerErrorName f \<noteq> None then cause_message c else renderBodyCause c))"

fun failureEvidence :: "exec_error \<Rightarrow> plain" where
  "failureEvidence (LlmRunFailure f) =
     PObj [(''tag'', PStr ''LlmRunFailure''), (''message'', PStr (rf_message f)),
           (''providerErrorName'', nullable PStr (rf_providerErrorName f)),
           (''retryAfterMs'', nullable int_plain (rf_retryAfterMs f)),
           (''usage'', usage_plain (rf_usage f)), (''aborted'', PBool (rf_aborted f)),
           (''contextOverflow'', PBool (rf_contextOverflow f)), (''visibleOutput'', PBool (rf_visibleOutput f)),
           (''cause'', run_failure_cause f)]"
| "failureEvidence (PolicyDenied ph ids) =
     PObj [(''tag'', PStr ''PolicyDenied''), (''phase'', PStr (phase_text ph)), (''ruleIds'', PArr (map PStr ids))]"
| "failureEvidence (ToolBodyFailed t c) =
     PObj [(''tag'', PStr ''ToolBodyFailed''), (''tool'', PStr t), (''cause'', PStr (renderBodyCause c))]"
| "failureEvidence (InvocationClosed t r) =
     PObj [(''tag'', PStr ''InvocationClosed''), (''tool'', PStr t), (''reason'', PStr r)]"
| "failureEvidence (GenerationUnavailable g) =
     PObj [(''tag'', PStr ''GenerationUnavailable''), (''generation'', int_plain g)]"
| "failureEvidence (AgentFailure opn c) =
     PObj [(''tag'', PStr ''AgentFailure''), (''operation'', PStr opn), (''cause'', PStr (renderBodyCause c))]"
| "failureEvidence (CompactionExecutionError r) =
     PObj [(''tag'', PStr ''CompactionExecutionError''), (''reason'', PStr r)]"
| "failureEvidence (CommitFailed t text) =
     PObj [(''tag'', PStr ''CommitFailed''), (''ledgerTag'', PStr t), (''cause'', PStr text)]"
| "failureEvidence (ExecutionApprovalError c) =
     PObj [(''tag'', PStr ''ExecutionApprovalError''), (''code'', PStr c)]"
| "failureEvidence (OutcomeUnknown r) =
     PObj [(''tag'', PStr ''OutcomeUnknown''), (''reason'', PStr r)]"
| "failureEvidence InterruptedError = PObj [(''tag'', PStr ''Interrupted'')]"
| "failureEvidence ContextAdmissionError = PObj [(''tag'', PStr ''ContextAdmissionError'')]"
| "failureEvidence (AgentStopError r) =
     PObj [(''tag'', PStr ''AgentStopError''), (''code'', PStr ''agent_stop''), (''reason'', PStr (stop_reason_text r))]"

definition die_plain :: "exec_error reason \<Rightarrow> plain option" where
  "die_plain r =
     (case r of DieR name message \<Rightarrow> Some (PObj [(''name'', PStr name), (''cause'', PStr message)]) | _ \<Rightarrow> None)"

definition causeEvidence :: "exec_error cause \<Rightarrow> plain" where
  "causeEvidence c =
     PObj [(''failures'', PArr (map failureEvidence (List.map_filter fail_of c))),
           (''defects'', PArr (List.map_filter die_plain c)),
           (''interrupted'', PBool (hasInterrupts c))]"

end
