(* ===== verification/Retry.thy ===== *)
theory Retry
  imports Failures Complex_Main
begin

text \<open>
  Retry decisions of \<^verbatim>\<open>packages/agent/src/core/loop/retry.ts\<close>: the attempt cap,
  the backoff ladder with its jitter, the instant-failure streak and the
  treatment of provider-directed waits.  The jitter draw of \<^verbatim>\<open>random\<close> is a
  rational of the unit interval.
\<close>

section \<open>Constants\<close>

definition MAX_ATTEMPTS :: int where "MAX_ATTEMPTS = 3"
definition RETRY_INITIAL_DELAY :: int where "RETRY_INITIAL_DELAY = 2000"
definition RETRY_BACKOFF_FACTOR :: int where "RETRY_BACKOFF_FACTOR = 2"
definition RETRY_MAX_DELAY_NO_HEADERS :: int where "RETRY_MAX_DELAY_NO_HEADERS = 30000"
definition RETRY_HEADER_DELAY_CAP :: int where "RETRY_HEADER_DELAY_CAP = 60000"
definition INSTANT_FAILURE_WINDOW_MS :: int where "INSTANT_FAILURE_WINDOW_MS = 2000"
definition INSTANT_FAILURE_PROBE_DELAY_MS :: int where "INSTANT_FAILURE_PROBE_DELAY_MS = 250"
definition INSTANT_FAILURE_STREAK_LIMIT :: int where "INSTANT_FAILURE_STREAK_LIMIT = 3"
definition RETRY_JITTER_RATIO :: rat where "RETRY_JITTER_RATIO = 1 / 4"

lemmas retry_constants =
  MAX_ATTEMPTS_def RETRY_INITIAL_DELAY_def RETRY_BACKOFF_FACTOR_def RETRY_MAX_DELAY_NO_HEADERS_def
  RETRY_HEADER_DELAY_CAP_def INSTANT_FAILURE_WINDOW_MS_def INSTANT_FAILURE_PROBE_DELAY_MS_def
  INSTANT_FAILURE_STREAK_LIMIT_def RETRY_JITTER_RATIO_def

section \<open>Decisions\<close>

text \<open>
  \<open>Retry reason delayMs overCap\<close>, where \<open>overCap\<close> marks an inferred reset that
  was demoted to backoff, and \<open>NoRetry reason detail\<close>.
\<close>

datatype retry_decision = Retry provider_reason int bool | NoRetry provider_reason "str option"

definition isInstantFailure :: "failure_class \<Rightarrow> int \<Rightarrow> bool" where
  "isInstantFailure failure elapsedMs \<longleftrightarrow>
     elapsedMs < INSTANT_FAILURE_WINDOW_MS \<and>
     (case failure of Retryable _ _ _ _ inst \<Rightarrow> inst | _ \<Rightarrow> False)"

fun recorded_reason :: "attempt_reason \<Rightarrow> retry_reason" where
  "recorded_reason Timeout = RTimeout"
| "recorded_reason TransientError = RTransientError"
| "recorded_reason ValidationError = RValidationError"

fun attemptReason :: "failure_class \<Rightarrow> retry_reason" where
  "attemptReason Overflow = RContextOverflow"
| "attemptReason (Retryable r _ _ _ _) = recorded_reason r"
| "attemptReason (Terminal r _ _ _) = recorded_reason r"
| "attemptReason Aborted = RTransientError"

text \<open>The em dash of the two sentences is written as a hyphen: the model's text is below code unit 256.\<close>

definition BILLING_DETAIL :: str where
  "BILLING_DETAIL = ''the account's quota or billing balance is exhausted - retrying cannot restore it; top up or raise the limit''"

definition CONTENT_POLICY_DETAIL :: str where
  "CONTENT_POLICY_DETAIL = ''the provider refused this request on content policy grounds - the same prompt will be refused again; change what is being asked''"

definition terminal :: "provider_reason \<Rightarrow> int option \<Rightarrow> str option \<Rightarrow> bool \<Rightarrow> retry_decision" where
  "terminal reason status detail fallbackAvailable =
     (if reason = Billing then NoRetry Billing (Some BILLING_DETAIL)
      else if reason = ContentPolicy then NoRetry ContentPolicy (Some CONTENT_POLICY_DETAIL)
      else if reason = NonRetryable then
        if fallbackAvailable \<and> status = Some 400 then Retry ValidationReason 0 False
        else NoRetry NonRetryable None
      else NoRetry reason detail)"

definition streakDecision :: "int \<Rightarrow> provider_reason \<Rightarrow> retry_decision option" where
  "streakDecision streak reason =
     (if INSTANT_FAILURE_STREAK_LIMIT \<le> streak then
        Some (NoRetry reason (Some (int_text streak @ '' consecutive transport failures under '' @
          int_text INSTANT_FAILURE_WINDOW_MS @ ''ms - the endpoint is refusing connections, retrying cannot help'')))
      else if 0 < streak then Some (Retry reason INSTANT_FAILURE_PROBE_DELAY_MS False)
      else None)"

text \<open>\<^verbatim>\<open>Math.round\<close>: the nearest integer, halves upwards.\<close>

definition math_round :: "rat \<Rightarrow> int" where
  "math_round x = \<lfloor>x + 1 / 2\<rfloor>"

definition backoffDelayMs :: "int \<Rightarrow> rat \<Rightarrow> int" where
  "backoffDelayMs attempt r =
     (let ladder = min (RETRY_INITIAL_DELAY * RETRY_BACKOFF_FACTOR ^ nat (attempt - 1)) RETRY_MAX_DELAY_NO_HEADERS in
      math_round (of_int ladder * (1 - r * RETRY_JITTER_RATIO)))"

definition selectDelay ::
  "int \<Rightarrow> provider_reason \<Rightarrow> int option \<Rightarrow> bool option \<Rightarrow> rat \<Rightarrow> retry_decision" where
  "selectDelay attempt reason afterMs directed r =
     (case afterMs of
        None \<Rightarrow> Retry reason (backoffDelayMs attempt r) False
      | Some ms \<Rightarrow>
          if ms \<le> RETRY_HEADER_DELAY_CAP then Retry reason (max 0 ms) False
          else if directed = Some True then
            NoRetry reason (Some (''server asked to wait '' @ int_text ms @ ''ms, above the '' @
              int_text RETRY_HEADER_DELAY_CAP @ ''ms cap''))
          else Retry reason (backoffDelayMs attempt r) True)"

definition decideRetry :: "int \<Rightarrow> failure_class \<Rightarrow> rat \<Rightarrow> int \<Rightarrow> bool \<Rightarrow> retry_decision" where
  "decideRetry attempt failure r instantFailureStreak fallbackAvailable =
     (case failure of
        Aborted \<Rightarrow> NoRetry NonRetryable None
      | Overflow \<Rightarrow> NoRetry NonRetryable None
      | Terminal _ providerReason status detail \<Rightarrow> terminal providerReason status detail fallbackAvailable
      | Retryable _ providerReason afterMs directed _ \<Rightarrow>
          or_else (streakDecision instantFailureStreak providerReason)
            (selectDelay attempt providerReason afterMs directed r))"

text \<open>Whether the decision draws from \<^verbatim>\<open>random\<close>: only the backoff ladder does.\<close>

definition draws :: "failure_class \<Rightarrow> int \<Rightarrow> bool" where
  "draws failure streak \<longleftrightarrow>
     (case failure of
        Retryable _ _ afterMs directed _ \<Rightarrow>
          streak \<le> 0 \<and>
          (case afterMs of None \<Rightarrow> True | Some ms \<Rightarrow> RETRY_HEADER_DELAY_CAP < ms \<and> directed \<noteq> Some True)
      | _ \<Rightarrow> False)"

section \<open>Stopping failures\<close>

definition failureRequiresStop :: "exec_error \<Rightarrow> bool \<Rightarrow> bool" where
  "failureRequiresStop failure aborted \<longleftrightarrow>
     (case failure of CommitFailed _ _ \<Rightarrow> True | _ \<Rightarrow> False) \<or> aborted \<or>
     (case failure of LlmRunFailure f \<Rightarrow> rf_aborted f \<or> rf_visibleOutput f | _ \<Rightarrow> False)"

text \<open>The error as it is raised, with the decided facts stamped on it.\<close>

definition terminalFailure :: "exec_error \<Rightarrow> int \<Rightarrow> failure_class option \<Rightarrow> exec_error" where
  "terminalFailure failure attempt classified =
     (case failure of
        LlmRunFailure f \<Rightarrow>
          LlmRunFailure (f\<lparr>rf_facts := Some
            \<lparr>ff_reason =
               (if rf_aborted f then FactAborted
                else case classified of
                       None \<Rightarrow> FactAborted
                     | Some Aborted \<Rightarrow> FactAborted
                     | Some c \<Rightarrow> FactReason (attemptReason c)),
             ff_attempt = attempt, ff_maxAttempts = MAX_ATTEMPTS\<rparr>\<rparr>)
      | e \<Rightarrow> e)"

definition retryableFailure :: "exec_error cause \<Rightarrow> ('s, exec_error, exec_error) eff" where
  "retryableFailure cause =
     (case findErrorOption cause of
        None \<Rightarrow> fail_cause cause
      | Some e \<Rightarrow> if hasInterrupts cause \<or> hasDies cause then fail_cause cause else succeed e)"

fun retry_delay_of :: "retry_decision \<Rightarrow> int" where
  "retry_delay_of (Retry _ ms _) = ms"
| "retry_delay_of (NoRetry _ _) = 0"

fun retries :: "retry_decision \<Rightarrow> bool" where
  "retries (Retry _ _ _) \<longleftrightarrow> True"
| "retries (NoRetry _ _) \<longleftrightarrow> False"

definition retryDelay :: "bool \<Rightarrow> retry_decision \<Rightarrow> int" where
  "retryDelay recover d = (if \<not> recover \<and> retries d then retry_delay_of d else 0)"

section \<open>The model of the next attempt\<close>

definition ADVANCING_FAILURES :: "str list" where
  "ADVANCING_FAILURES = [''timeout'', ''transient_error'', ''validation_error'']"

record 'm selected_model =
  sm_model :: 'm
  sm_index :: nat
  sm_exhausted :: bool

text \<open>\<^verbatim>\<open>selectModel\<close> of \<^verbatim>\<open>loop/model-select.ts\<close>; an empty chain is a \<^verbatim>\<open>TypeError\<close>.\<close>

definition selectModel :: "'m list \<Rightarrow> str list \<Rightarrow> str + 'm selected_model" where
  "selectModel chain failures =
     (if chain = [] then Inl ''requires a non-empty model chain''
      else
        let advances = length (filter (\<lambda>r. r \<in> set ADVANCING_FAILURES) failures);
            i = min advances (length chain - 1) in
        Inr \<lparr>sm_model = chain ! i, sm_index = i, sm_exhausted = (length chain \<le> advances)\<rparr>)"

lemma selectModel_in_chain:
  assumes "selectModel chain failures = Inr sel"
  shows "sm_index sel < length chain" and "sm_model sel = chain ! sm_index sel"
  using assms by (auto simp: selectModel_def Let_def min_less_iff_disj split: if_splits)

text \<open>A run that has failed more never goes back to an earlier model.\<close>

lemma selectModel_advances:
  assumes "selectModel chain failures = Inr a" and "selectModel chain (failures @ later) = Inr b"
  shows "sm_index a \<le> sm_index b" and "sm_exhausted a \<longrightarrow> sm_exhausted b"
  using assms by (auto simp: selectModel_def Let_def split: if_splits)

section \<open>Bounds\<close>

lemma ladder_bounds:
  assumes "1 \<le> attempt"
  shows "2000 \<le> min (RETRY_INITIAL_DELAY * RETRY_BACKOFF_FACTOR ^ nat (attempt - 1)) RETRY_MAX_DELAY_NO_HEADERS"
proof -
  have "(1::int) \<le> 2 ^ nat (attempt - 1)" by simp
  then show ?thesis by (simp add: retry_constants)
qed

lemma math_round_mono: "x \<le> y \<Longrightarrow> math_round x \<le> math_round y"
  by (simp add: math_round_def floor_mono)

lemma math_round_int [simp]: "math_round (of_int i) = i"
  by (simp add: math_round_def floor_unique)

lemma backoff_bounds:
  assumes "1 \<le> attempt" and "0 \<le> r" and "r \<le> 1"
  shows "1500 \<le> backoffDelayMs attempt r" "backoffDelayMs attempt r \<le> RETRY_MAX_DELAY_NO_HEADERS"
proof -
  define l where "l = min (RETRY_INITIAL_DELAY * RETRY_BACKOFF_FACTOR ^ nat (attempt - 1)) RETRY_MAX_DELAY_NO_HEADERS"
  have l: "2000 \<le> l" "l \<le> RETRY_MAX_DELAY_NO_HEADERS"
    using ladder_bounds [OF assms(1)] by (simp_all add: l_def)
  have d: "backoffDelayMs attempt r = math_round (of_int l * (1 - r * RETRY_JITTER_RATIO))"
    by (simp add: backoffDelayMs_def l_def Let_def)
  have f: "3 / 4 \<le> 1 - r * RETRY_JITTER_RATIO" "1 - r * RETRY_JITTER_RATIO \<le> 1"
    using assms by (simp_all add: RETRY_JITTER_RATIO_def)
  have "of_int 1500 \<le> (of_int 2000 :: rat) * (3 / 4)" by simp
  also have "\<dots> \<le> of_int l * (1 - r * RETRY_JITTER_RATIO)"
    using l f by (intro mult_mono) simp_all
  finally show "1500 \<le> backoffDelayMs attempt r"
    using math_round_mono [of "of_int 1500"] unfolding d math_round_int by blast
  have "of_int l * (1 - r * RETRY_JITTER_RATIO) \<le> of_int l"
    using l f(2) by (simp add: mult_left_le)
  then have "backoffDelayMs attempt r \<le> l"
    using math_round_mono [of _ "of_int l"] unfolding d math_round_int by blast
  then show "backoffDelayMs attempt r \<le> RETRY_MAX_DELAY_NO_HEADERS"
    using l by simp
qed

lemma decide_delay_bounds:
  assumes "decideRetry attempt failure r streak fb = Retry reason ms over" and "1 \<le> attempt" and "0 \<le> r" and "r \<le> 1"
  shows "0 \<le> ms" "ms \<le> RETRY_HEADER_DELAY_CAP"
  using assms(1) backoff_bounds [OF assms(2-4)]
  by (auto simp: decideRetry_def terminal_def streakDecision_def selectDelay_def or_else_def retry_constants
      split: failure_class.splits option.splits if_splits)

text \<open>Where nothing is drawn, the draw does not matter.\<close>

lemma decide_undrawn:
  "\<not> draws failure streak \<Longrightarrow> decideRetry attempt failure r streak fb = decideRetry attempt failure q streak fb"
  by (auto simp: decideRetry_def draws_def selectDelay_def streakDecision_def or_else_def retry_constants
      split: failure_class.splits option.splits)

end
