(* ===== verification/Attempts.thy ===== *)
theory Attempts
  imports Retry
begin

text \<open>
  The attempt runner of \<^verbatim>\<open>packages/agent/src/core/loop/attempts.ts\<close>, the journal
  rows of \<^verbatim>\<open>loop/record.ts\<close> it appends and the durable retry alarm of
  \<^verbatim>\<open>core/ports/alarm.ts\<close> it waits on.  What the runner is handed (the ledger, the
  clock, the policy decision, the approval door, the model call itself) acts on
  an arbitrary port_call world; the trace keeps, in order, the rows committed, the
  attempts run and the waits taken.
\<close>

section \<open>Ports\<close>

record attempt_request =
  aq_op :: str
  aq_intent :: plain
  aq_effect :: plain

record 'w prepared =
  pr_request :: attempt_request
  pr_fallbackAvailable :: "bool option"
  pr_admit :: "('w, exec_error, unit) eff"
  pr_body :: "('w, exec_error, plain) eff"

record retry_notice =
  rn_attempt :: int
  rn_maxAttempts :: int
  rn_delayMs :: int
  rn_decision :: retry_decision
  rn_error :: exec_error
  rn_reason :: retry_reason

record 'w llm_attempts =
  at_prepare :: "int \<Rightarrow> str list \<Rightarrow> ('w, exec_error, 'w prepared) eff"
  at_recoverOverflow :: "(exec_error \<Rightarrow> ('w, exec_error, bool) eff) option"
  at_classify :: "exec_error \<Rightarrow> 'w \<Rightarrow> failure_class \<times> 'w"
  at_evidence :: "(plain \<Rightarrow> plain) option"
  at_onRetry :: "(retry_notice \<Rightarrow> 'w \<Rightarrow> 'w) option"

record alarm_fired =
  af_occurrenceId :: str
  af_purpose :: str
  af_alarmId :: str
  af_armSeq :: int
  af_sourceKey :: str
  af_payload :: str
  af_fireAt :: epoch_ms

datatype approval = Approve | Refuse | ApprovalTimeout

type_synonym admission = "policy_evaluation \<times> receipt"

record 'w runner_ports =
  po_sha :: "str \<Rightarrow> str"
  po_sessionId :: str
  po_aborted :: "'w \<Rightarrow> bool"
  po_clock :: "'w \<Rightarrow> epoch_ms \<times> 'w"
  po_random :: "'w \<Rightarrow> rat \<times> 'w"
  po_entropy :: "'w \<Rightarrow> str \<times> 'w"
  po_commit :: "append_row \<Rightarrow> ('w, str \<times> str, receipt) eff"
  po_send :: "alarm_fired \<Rightarrow> ('w, exec_error, unit) eff"
  po_sleep :: "int \<Rightarrow> ('w, exec_error, unit) eff"
  po_admit :: "attempt_request \<Rightarrow> receipt \<Rightarrow> ('w, exec_error, admission) eff"
  po_approve :: "attempt_request \<Rightarrow> receipt \<Rightarrow> admission \<Rightarrow> ('w, exec_error, approval) eff"

text \<open>
  \<open>Recorded\<close> is a row of the execution record (committed, then published to the
  observers under its receipt), \<open>Chained\<close> a row of the alarm chain, \<open>Ran\<close> one
  provider attempt under the intent row it belongs to.
\<close>

datatype loop_event =
    Recorded append_row receipt
  | Chained append_row receipt
  | Ran str "(exec_error, plain) exit"
  | Sent alarm_fired
  | Slept int

record 'w runner_state =
  rs_world :: 'w
  rs_trace :: "loop_event list"

type_synonym ('w, 'a) runner = "('w runner_state, exec_error, 'a) eff"

definition port_call :: "('w, exec_error, 'a) eff \<Rightarrow> ('w, 'a) runner" where
  "port_call m s = (case m (rs_world s) of (r, w) \<Rightarrow> (r, s\<lparr>rs_world := w\<rparr>))"

definition ask :: "('w \<Rightarrow> 'a \<times> 'w) \<Rightarrow> ('w, 'a) runner" where
  "ask f = port_call (sync f)"

definition note_event :: "loop_event \<Rightarrow> ('w, unit) runner" where
  "note_event e = update (\<lambda>s. s\<lparr>rs_trace := rs_trace s @ [e]\<rparr>)"

section \<open>The execution record\<close>

fun ledger_reason :: "(str \<times> str) reason \<Rightarrow> exec_error reason" where
  "ledger_reason (FailR e) = FailR (CommitFailed (fst e) (snd e))"
| "ledger_reason (DieR n m) = DieR n m"
| "ledger_reason InterruptR = InterruptR"

text \<open>\<^verbatim>\<open>ledger.commit(action)\<close> with its errors mapped to \<^verbatim>\<open>CommitFailed\<close>.\<close>

definition ledger_commit :: "'w runner_ports \<Rightarrow> append_row \<Rightarrow> ('w, exec_error, receipt) eff" where
  "ledger_commit po action w =
     (case po_commit po action w of
        (Done r, w') \<Rightarrow> (Done r, w')
      | (Halt c, w') \<Rightarrow> (Halt (map ledger_reason c), w'))"

definition record_commit :: "'w runner_ports \<Rightarrow> append_row \<Rightarrow> ('w, receipt) runner" where
  "record_commit po action =
     flat_map (port_call (ledger_commit po action)) (\<lambda>r.
     flat_map (note_event (Recorded action r)) (\<lambda>_. succeed r))"

definition actionAppend ::
  "'w runner_ports \<Rightarrow> action_kind \<Rightarrow> str option \<Rightarrow> plain \<Rightarrow> plain \<Rightarrow> ('w, append_row) runner" where
  "actionAppend po kind parent intent effect =
     flat_map (ask (po_entropy po)) (\<lambda>i.
     flat_map (ask (po_clock po)) (\<lambda>ts.
     succeed \<lparr>ap_id = i, ap_parentId = parent, ap_sessionId = po_sessionId po, ap_kind = kind,
              ap_intent = intent, ap_effect = effect, ap_ts = ts, ap_revert = None\<rparr>))"

record intent_input =
  ii_kind :: action_kind
  ii_op :: str
  ii_parentId :: "str option"
  ii_value :: plain
  ii_originalArgs :: "plain option"
  ii_invocation :: "(str \<times> plain) list"

definition appendIntent :: "'w runner_ports \<Rightarrow> intent_input \<Rightarrow> ('w, receipt) runner" where
  "appendIntent po i =
     flat_map
       (actionAppend po (ii_kind i) (ii_parentId i)
         (PObj ([(''phase'', PStr ''intent''), (''op'', PStr (ii_op i)), (''value'', ii_value i)] @
                (case ii_originalArgs i of None \<Rightarrow> [] | Some v \<Rightarrow> [(''originalArgs'', v)]) @ ii_invocation i))
         (PObj [(''phase'', PStr ''pending'')]))
       (record_commit po)"

definition appendResult ::
  "'w runner_ports \<Rightarrow> action_kind \<Rightarrow> str \<Rightarrow> str \<Rightarrow> plain \<Rightarrow> plain option \<Rightarrow> ('w, unit) runner" where
  "appendResult po kind opn parent value revert =
     flat_map
       (actionAppend po kind (Some parent) (PObj [(''phase'', PStr ''result''), (''op'', PStr opn)]) value) (\<lambda>action.
     flat_map (record_commit po (action\<lparr>ap_revert := revert\<rparr>)) (\<lambda>_. succeed ()))"

section \<open>The durable retry alarm\<close>

definition retry_alarm_id :: "str \<Rightarrow> str" where
  "retry_alarm_id i = i @ '':retry''"

text \<open>\<^verbatim>\<open>commitArm\<close>: the row is parsed by its schema before it is committed; a malformed row is a defect.\<close>

definition commitArm :: "'w runner_ports \<Rightarrow> append_row \<Rightarrow> ('w, unit) runner" where
  "commitArm po action =
     (if append_valid action then
        flat_map (port_call (ledger_commit po action)) (\<lambda>r. note_event (Chained action r))
      else fail_cause [DieR ''ZodError'' ''''])"

definition retry_arm_input ::
  "'w runner_ports \<Rightarrow> str \<Rightarrow> epoch_ms option \<Rightarrow> str option \<Rightarrow> (str \<times> plain) list \<Rightarrow> int \<Rightarrow> epoch_ms \<Rightarrow> arm_input" where
  "retry_arm_input po i fire supersedes payload armSeq ts =
     \<lparr>arm_parentId = None, arm_sessionId = po_sessionId po, arm_purpose = ''retry'', arm_at = fire,
      arm_supersedes = supersedes, arm_alarmId = retry_alarm_id i, arm_sourceKey = ''retry'',
      arm_payload = payload, arm_armSeq = armSeq, arm_ts = ts\<rparr>"

definition retry_occurrence :: "'w runner_ports \<Rightarrow> str \<Rightarrow> int \<Rightarrow> str" where
  "retry_occurrence po i attempt =
     occurrenceId (po_sha po) (po_sessionId po) (retry_alarm_id i) (2 * attempt - 1) ''retry''"

definition retry_arm :: "'w runner_ports \<Rightarrow> str \<Rightarrow> int \<Rightarrow> str \<Rightarrow> epoch_ms \<Rightarrow> ('w, unit) runner" where
  "retry_arm po i attempt reason fireAt =
     (let payload = [(''attempt'', int_plain attempt), (''reason'', PStr reason)];
          supersedes = (if 1 < attempt then Some (retry_occurrence po i (attempt - 1)) else None);
          armed = armAction (po_sha po)
                    (retry_arm_input po i (Some fireAt) supersedes payload (2 * attempt - 1) fireAt);
          occ = \<lparr>af_occurrenceId = snd armed, af_purpose = ''retry'', af_alarmId = retry_alarm_id i,
                 af_armSeq = 2 * attempt - 1, af_sourceKey = ''retry'',
                 af_payload = canonicalJson (PObj payload), af_fireAt = fireAt\<rparr> in
      flat_map (commitArm po (fst armed)) (\<lambda>_.
      flat_map (port_call (po_send po occ)) (\<lambda>_. note_event (Sent occ))))"

definition retry_wait :: "'w runner_ports \<Rightarrow> epoch_ms \<Rightarrow> ('w, unit) runner" where
  "retry_wait po fireAt =
     flat_map (ask (po_clock po)) (\<lambda>t.
     flat_map (port_call (po_sleep po (max 0 (fireAt - t)))) (\<lambda>_. note_event (Slept (max 0 (fireAt - t)))))"

definition retry_settle :: "'w runner_ports \<Rightarrow> str \<Rightarrow> int \<Rightarrow> ('w, unit) runner" where
  "retry_settle po i attempt =
     flat_map (ask (po_clock po)) (\<lambda>t.
     commitArm po (fst (armAction (po_sha po)
       (retry_arm_input po i None (Some (retry_occurrence po i attempt)) [(''attempt'', int_plain attempt)]
         (2 * attempt) t))))"

section \<open>One attempt\<close>

definition as_record :: "plain option \<Rightarrow> (str \<times> plain) list" where
  "as_record v = (case v of Some (PObj ps) \<Rightarrow> ps | _ \<Rightarrow> [])"

definition attemptRouteChange :: "receipt option \<Rightarrow> plain \<Rightarrow> plain" where
  "attemptRouteChange previous nxt =
     (case previous of
        None \<Rightarrow> PNull
      | Some r \<Rightarrow>
          let from = as_record (map_of (as_record (Some (ap_intent (rc_action r)))) ''value'');
              to = as_record (Some nxt) in
          (case (map_of from ''provider'', map_of from ''model'', map_of to ''provider'', map_of to ''model'') of
             (Some (PStr fp), Some (PStr fm), Some (PStr tp), Some (PStr tm)) \<Rightarrow>
               if fp = tp \<and> fm = tm then PNull
               else PObj [(''kind'', PStr ''route.changed''),
                          (''from'', PObj [(''provider'', PStr fp), (''model'', PStr fm)]),
                          (''to'', PObj [(''provider'', PStr tp), (''model'', PStr tm)]),
                          (''fromActionId'', PStr (ap_id (rc_action r)))]
           | _ \<Rightarrow> PNull))"

definition usageProvenance :: "plain \<Rightarrow> exec_error option \<Rightarrow> provenance" where
  "usageProvenance evidence failure =
     (let recorded =
        (case map_of (as_record (Some evidence)) ''usageProvenance'' of
           Some (PStr t) \<Rightarrow> if t = ''reported'' then Reported else if t = ''estimated'' then Estimated else Unknown
         | _ \<Rightarrow> Unknown) in
      case failure of
        Some (LlmRunFailure f) \<Rightarrow> or_else (rf_usageProvenance f) Unknown
      | _ \<Rightarrow> recorded)"

definition approveAttempt ::
  "'w runner_ports \<Rightarrow> attempt_request \<Rightarrow> receipt \<Rightarrow> admission option \<Rightarrow> ('w, unit) runner" where
  "approveAttempt po request intent policy =
     (case policy of
        None \<Rightarrow> succeed ()
      | Some adm \<Rightarrow>
          if ev_verdict (fst adm) \<noteq> ERequireApproval then succeed ()
          else
            flat_map (port_call (po_approve po request intent adm)) (\<lambda>d.
            if d = Approve then succeed ()
            else
              flat_map (appendResult po KLlm (aq_op request) (ap_id (rc_action intent))
                (PObj [(''phase'', PStr ''result''), (''terminal'', PStr ''blocked_pre''),
                       (''reason'', PStr (if d = ApprovalTimeout then ''approval_timeout'' else ''approval_refused''))]) None) (\<lambda>_.
              fail_with (PolicyDenied Pre (ev_matchedRuleIds (fst adm))))))"

definition attempt_invocation ::
  "'w runner_ports \<Rightarrow> attempt_request \<Rightarrow> int \<Rightarrow> str list \<Rightarrow> receipt option \<Rightarrow> (str \<times> plain) list" where
  "attempt_invocation po request attempt failures previous =
     [(''effectHash'', PStr (canonicalDigest (po_sha po) (aq_effect request))),
      (''attempt'', int_plain attempt), (''maxAttempts'', int_plain MAX_ATTEMPTS),
      (''retryReason'', if failures = [] then PNull else PStr (last failures)),
      (''routeChange'', attemptRouteChange previous (aq_intent request))]"

definition refused_admission :: "admission option \<Rightarrow> bool" where
  "refused_admission policy \<longleftrightarrow>
     (case policy of None \<Rightarrow> False | Some adm \<Rightarrow> ev_verdict (fst adm) = EDeny \<or> ev_verdict (fst adm) = ETransform)"

definition admitAttempt ::
  "'w runner_ports \<Rightarrow> receipt \<Rightarrow> 'w llm_attempts \<Rightarrow> int \<Rightarrow> str list \<Rightarrow> receipt option \<Rightarrow>
   ('w, 'w prepared \<times> receipt) runner" where
  "admitAttempt po parent lm attempt failures previous =
     flat_map (port_call (at_prepare lm attempt failures)) (\<lambda>p.
     flat_map (if attempt = 1 then succeed None
               else flat_map (port_call (po_admit po (pr_request p) parent)) (\<lambda>adm. succeed (Some adm))) (\<lambda>policy.
     if refused_admission policy
     then fail_with (PolicyDenied Pre (case policy of None \<Rightarrow> [] | Some adm \<Rightarrow> ev_matchedRuleIds (fst adm)))
     else
       flat_map (port_call (pr_admit p)) (\<lambda>_.
       flat_map (\<lambda>s. if po_aborted po (rs_world s) then interrupted s else succeed () s) (\<lambda>_.
       flat_map (appendIntent po
         \<lparr>ii_kind = KLlm, ii_op = aq_op (pr_request p), ii_parentId = Some (ap_id (rc_action parent)),
          ii_value = aq_intent (pr_request p), ii_originalArgs = None,
          ii_invocation = attempt_invocation po (pr_request p) attempt failures previous\<rparr>) (\<lambda>intent.
       flat_map (approveAttempt po (pr_request p) intent policy) (\<lambda>_.
       succeed (p, intent)))))))"

definition attempt_evidence :: "'w llm_attempts \<Rightarrow> (exec_error, plain) exit \<Rightarrow> plain" where
  "attempt_evidence lm x =
     (case x of
        Done v \<Rightarrow> (case at_evidence lm of None \<Rightarrow> PNull | Some f \<Rightarrow> f v)
      | Halt c \<Rightarrow> causeEvidence c)"

definition attempt_failure :: "(exec_error, plain) exit \<Rightarrow> exec_error option" where
  "attempt_failure x = (case x of Done _ \<Rightarrow> None | Halt c \<Rightarrow> findErrorOption c)"

definition attempt_terminal :: "(exec_error, plain) exit \<Rightarrow> str" where
  "attempt_terminal x =
     (case x of Done _ \<Rightarrow> ''executed'' | Halt c \<Rightarrow> if hasInterrupts c then ''interrupted'' else ''executed'')"

text \<open>The body may be interrupted; recording its result may not.\<close>

definition executeAttempt ::
  "'w runner_ports \<Rightarrow> 'w prepared \<Rightarrow> 'w llm_attempts \<Rightarrow> receipt \<Rightarrow> ('w, (exec_error, plain) exit) runner" where
  "executeAttempt po p lm intent =
     flat_map (exit_of (port_call (pr_body p))) (\<lambda>x.
     flat_map (note_event (Ran (ap_id (rc_action intent)) x)) (\<lambda>_.
     flat_map (appendResult po KLlm (aq_op (pr_request p)) (ap_id (rc_action intent))
       (PObj [(''phase'', PStr ''result''), (''effect'', aq_effect (pr_request p)),
              (''terminal'', PStr (attempt_terminal x)),
              (''usageProvenance'', PStr (provenance_text (usageProvenance (attempt_evidence lm x) (attempt_failure x)))),
              (''evidence'', attempt_evidence lm x)]) None) (\<lambda>_.
     succeed x)))"

section \<open>Scheduling the next attempt\<close>

definition announce :: "'w llm_attempts \<Rightarrow> retry_notice \<Rightarrow> ('w, unit) runner" where
  "announce lm n =
     (case at_onRetry lm of None \<Rightarrow> succeed () | Some f \<Rightarrow> update (\<lambda>s. s\<lparr>rs_world := f n (rs_world s)\<rparr>))"

definition recover_overflow :: "'w llm_attempts \<Rightarrow> failure_class \<Rightarrow> exec_error \<Rightarrow> ('w, bool) runner" where
  "recover_overflow lm classified failure =
     (if classified = Overflow then
        (case at_recoverOverflow lm of None \<Rightarrow> succeed False | Some f \<Rightarrow> port_call (f failure))
      else succeed False)"

definition waitRetry ::
  "'w runner_ports \<Rightarrow> receipt \<Rightarrow> int \<Rightarrow> retry_reason \<Rightarrow> int \<Rightarrow> ('w, retry_reason) runner" where
  "waitRetry po intent attempt reason delayMs =
     flat_map (ask (po_clock po)) (\<lambda>t.
     flat_map (retry_arm po (ap_id (rc_action intent)) attempt (retry_reason_text reason) (t + delayMs)) (\<lambda>_.
     flat_map (retry_wait po (t + delayMs)) (\<lambda>_.
     flat_map (retry_settle po (ap_id (rc_action intent)) attempt) (\<lambda>_.
     succeed reason))))"

text \<open>The part of \<^verbatim>\<open>scheduleRetry\<close> after its first guard.\<close>

definition decideNext ::
  "'w runner_ports \<Rightarrow> 'w llm_attempts \<Rightarrow> exec_error \<Rightarrow> failure_class \<Rightarrow> int \<Rightarrow> int \<Rightarrow> 'w prepared \<Rightarrow> receipt \<Rightarrow>
   ('w, retry_reason) runner" where
  "decideNext po lm failure classified attempt instantFailures p intent =
     flat_map (if draws classified instantFailures then ask (po_random po) else succeed 0) (\<lambda>r.
     let d = decideRetry attempt classified r instantFailures (or_else (pr_fallbackAvailable p) False) in
     if MAX_ATTEMPTS \<le> attempt then fail_with (terminalFailure failure attempt (Some classified))
     else
       flat_map (recover_overflow lm classified failure) (\<lambda>recover.
       if \<not> recover \<and> (classified = Overflow \<or> \<not> retries d)
       then fail_with (terminalFailure failure attempt (Some classified))
       else
         let reason = (if recover then RContextOverflow else attemptReason classified) in
         flat_map (announce lm
           \<lparr>rn_attempt = attempt, rn_maxAttempts = MAX_ATTEMPTS, rn_delayMs = retryDelay recover d,
            rn_decision = d, rn_error = failure, rn_reason = reason\<rparr>) (\<lambda>_.
         waitRetry po intent attempt reason (retryDelay recover d))))"

definition scheduleRetry ::
  "'w runner_ports \<Rightarrow> 'w llm_attempts \<Rightarrow> exec_error \<Rightarrow> failure_class \<Rightarrow> int \<Rightarrow> int \<Rightarrow> 'w prepared \<Rightarrow> receipt \<Rightarrow>
   ('w, retry_reason) runner" where
  "scheduleRetry po lm failure classified attempt instantFailures p intent s =
     (if failureRequiresStop failure (po_aborted po (rs_world s)) \<or> classified = Aborted
      then fail_with (terminalFailure failure attempt (Some classified)) s
      else decideNext po lm failure classified attempt instantFailures p intent s)"

lemma scheduleRetry_capped:
  assumes "scheduleRetry po lm failure classified attempt n p intent s = (Done reason, t)"
  shows "attempt < MAX_ATTEMPTS"
  using assms
  by (auto simp: scheduleRetry_def decideNext_def fail_with_def fail_cause_def flat_map_Done Let_def split: if_splits)

section \<open>The loop\<close>

function run_loop ::
  "'w runner_ports \<Rightarrow> receipt \<Rightarrow> 'w llm_attempts \<Rightarrow> int \<Rightarrow> str list \<Rightarrow> int \<Rightarrow> receipt option \<Rightarrow> ('w, plain) runner" where
  "run_loop po parent lm attempt failures instantFailures previous s =
     (if po_aborted po (rs_world s) then interrupted s
      else
        flat_map (admitAttempt po parent lm attempt failures previous) (\<lambda>(p, intent) s1.
        flat_map (ask (po_clock po)) (\<lambda>started s2.
        flat_map (executeAttempt po p lm intent) (\<lambda>outcome s3.
          case outcome of
            Done v \<Rightarrow> succeed v s3
          | Halt c \<Rightarrow>
              flat_map (retryableFailure c) (\<lambda>failure s4.
              flat_map (ask (at_classify lm failure)) (\<lambda>classified s5.
              flat_map (ask (po_clock po)) (\<lambda>t s6.
              flat_map
                (scheduleRetry po lm failure classified attempt
                  (if isInstantFailure classified (t - started) then instantFailures + 1 else 0) p intent)
                (\<lambda>reason s7.
                  run_loop po parent lm (attempt + 1) (failures @ [retry_reason_text reason])
                    (if isInstantFailure classified (t - started) then instantFailures + 1 else 0) (Some intent) s7)
                s6) s5) s4) s3) s2) s1) s)"
  by pat_completeness auto
termination
  by (relation "measure (\<lambda>(po, parent, lm, attempt, failures, n, previous, s). nat (MAX_ATTEMPTS - attempt))")
     (auto dest: scheduleRetry_capped)

definition runAttempts :: "'w runner_ports \<Rightarrow> receipt \<Rightarrow> 'w llm_attempts \<Rightarrow> ('w, plain) runner" where
  "runAttempts po parent lm = run_loop po parent lm 1 [] 0 None"

end
