(* ===== verification/Attempts_Protocol.thy ===== *)
theory Attempts_Protocol
  imports Attempts
begin

text \<open>
  The durable protocol of an attempt run, as an automaton over the trace: an
  intent row opens an attempt, the provider runs under it, a result row closes
  it, and only a failure that may be replayed is followed by an armed, sent,
  waited and retired retry alarm before the next intent row.  The runner is
  shown to follow the automaton whatever its ports do.
\<close>

section \<open>The automaton\<close>

text \<open>
  A failure that may be followed by another attempt: a plain typed failure that
  is no failed commit, no abort, and left nothing for anyone to have seen.
\<close>

fun unseen_failure :: "exec_error \<Rightarrow> bool" where
  "unseen_failure (CommitFailed _ _) \<longleftrightarrow> False"
| "unseen_failure (LlmRunFailure f) \<longleftrightarrow> \<not> rf_aborted f \<and> \<not> rf_visibleOutput f"
| "unseen_failure _ \<longleftrightarrow> True"

definition replayable :: "exec_error cause \<Rightarrow> bool" where
  "replayable c \<longleftrightarrow>
     \<not> hasInterrupts c \<and> \<not> hasDies c \<and>
     (case findErrorOption c of None \<Rightarrow> False | Some e \<Rightarrow> unseen_failure e)"

lemma unseen_failure_iff: "unseen_failure e \<longleftrightarrow> \<not> failureRequiresStop e False"
  by (cases e) (simp_all add: failureRequiresStop_def)

definition intent_row :: "int \<Rightarrow> append_row \<Rightarrow> bool" where
  "intent_row n a \<longleftrightarrow>
     ap_kind a = KLlm \<and> plain_get (ap_intent a) ''phase'' = Some (PStr ''intent'') \<and>
     plain_get (ap_intent a) ''attempt'' = Some (int_plain n) \<and> ap_effect a = PObj [(''phase'', PStr ''pending'')]"

definition result_row :: "str \<Rightarrow> append_row \<Rightarrow> bool" where
  "result_row i a \<longleftrightarrow>
     ap_kind a = KLlm \<and> ap_parentId a = Some i \<and>
     plain_get (ap_intent a) ''phase'' = Some (PStr ''result'') \<and>
     plain_get (ap_effect a) ''phase'' = Some (PStr ''result'')"

definition alarm_row :: "str \<Rightarrow> bool \<Rightarrow> append_row \<Rightarrow> bool" where
  "alarm_row i live a \<longleftrightarrow>
     ap_kind a = KAlarm \<and> plain_get (ap_intent a) ''op'' = Some (PStr ''arm'') \<and>
     plain_get (ap_intent a) ''alarmId'' = Some (PStr (retry_alarm_id i)) \<and>
     (plain_get (ap_intent a) ''at'' \<noteq> Some PNull) = live"

text \<open>The first component counts the attempts already run.\<close>

datatype attempt_phase =
    Ready int
  | Pending int str
  | Settling int str "(exec_error, plain) exit"
  | Failed int str
  | Armed int str
  | Notified int str
  | Rested int str
  | Closed

fun protocol_step :: "attempt_phase \<Rightarrow> loop_event \<Rightarrow> attempt_phase option" where
  "protocol_step (Ready n) (Recorded a r) =
     (if intent_row (n + 1) a then Some (Pending n (ap_id (rc_action r))) else None)"
| "protocol_step (Pending n i) (Ran j x) = (if j = i then Some (Settling (n + 1) i x) else None)"
| "protocol_step (Pending n i) (Recorded a r) = (if result_row i a then Some Closed else None)"
| "protocol_step (Settling n i x) (Recorded a r) =
     (if result_row i a
      then Some (case x of Done _ \<Rightarrow> Closed | Halt c \<Rightarrow> if replayable c then Failed n i else Closed)
      else None)"
| "protocol_step (Failed n i) (Chained a r) =
     (if n < MAX_ATTEMPTS \<and> alarm_row i True a then Some (Armed n i) else None)"
| "protocol_step (Armed n i) (Sent f) = (if af_alarmId f = retry_alarm_id i then Some (Notified n i) else None)"
| "protocol_step (Notified n i) (Slept ms) = (if 0 \<le> ms then Some (Rested n i) else None)"
| "protocol_step (Rested n i) (Chained a r) = (if alarm_row i False a then Some (Ready n) else None)"
| "protocol_step _ _ = None"

fun drive :: "attempt_phase \<Rightarrow> loop_event list \<Rightarrow> attempt_phase option" where
  "drive ph [] = Some ph"
| "drive ph (e # es) = (case protocol_step ph e of None \<Rightarrow> None | Some ph' \<Rightarrow> drive ph' es)"

lemma drive_append: "drive ph (es @ fs) = (case drive ph es of None \<Rightarrow> None | Some ph' \<Rightarrow> drive ph' fs)"
  by (induction es arbitrary: ph) (auto split: option.split)

definition stands :: "attempt_phase \<Rightarrow> 'w runner_state \<Rightarrow> bool" where
  "stands ph s \<longleftrightarrow> drive (Ready 0) (rs_trace s) = Some ph"

definition lawful :: "exec_error cause \<Rightarrow> 'w runner_state \<Rightarrow> bool" where
  "lawful c s \<longleftrightarrow> drive (Ready 0) (rs_trace s) \<noteq> None"

lemma stands_lawful: "stands ph s \<Longrightarrow> lawful c s"
  by (simp add: stands_def lawful_def)

abbreviation keeps :: "attempt_phase \<Rightarrow> ('w, 'a) runner \<Rightarrow> ('a \<Rightarrow> attempt_phase) \<Rightarrow> bool" where
  "keeps ph m f \<equiv> meets (stands ph) m (\<lambda>a. stands (f a)) lawful"

section \<open>Steps\<close>

lemma keeps_port_call [meets_rules]: "keeps ph (port_call m) (\<lambda>_. ph)"
  by (rule meetsI) (auto simp: port_call_def stands_def lawful_def split: prod.splits)

lemma keeps_ask [meets_rules]: "keeps ph (ask f) (\<lambda>_. ph)"
  by (simp add: ask_def keeps_port_call)

lemma keeps_note_event:
  "protocol_step ph e = Some ph' \<Longrightarrow> keeps ph (note_event e) (\<lambda>_. ph')"
  by (rule meetsI) (auto simp: note_event_def update_def sync_def stands_def drive_append)

lemma keeps_succeed: "keeps (f a) (succeed a) f"
  by (rule meets_succeed)

lemma keeps_fail: "keeps ph (fail_with e) f" "keeps ph (fail_cause c) f" "keeps ph interrupted f"
  by (auto intro!: meets_fail_with meets_fail_cause meets_interrupted intro: stands_lawful)

lemma keeps_record_commit:
  assumes "\<And>r. protocol_step ph (Recorded a r) = Some (f r)"
  shows "keeps ph (record_commit po a) f"
  unfolding record_commit_def
proof (rule meets_flat_map [OF keeps_port_call])
  fix r
  show "keeps ph (flat_map (note_event (Recorded a r)) (\<lambda>_. succeed r)) f"
    by (rule meets_flat_map [OF keeps_note_event [OF assms]]) (rule keeps_succeed)
qed

lemma actionAppend_row:
  "meets (stands ph) (actionAppend po kind parent intent effect)
     (\<lambda>a s. (ap_kind a = kind \<and> ap_parentId a = parent \<and> ap_intent a = intent \<and> ap_effect a = effect) \<and> stands ph s)
     lawful"
  unfolding actionAppend_def
  by (rule meets_flat_map [OF keeps_ask], rule meets_flat_map [OF keeps_ask], rule meets_succeed) simp

lemma keeps_appendResult:
  assumes "\<And>a r. result_row i a \<Longrightarrow> protocol_step ph (Recorded a r) = Some ph'"
    and "plain_get value ''phase'' = Some (PStr ''result'')"
  shows "keeps ph (appendResult po KLlm opn i value revert) (\<lambda>_. ph')"
  unfolding appendResult_def
proof (rule meets_flat_map [OF actionAppend_row])
  fix a :: append_row
  let ?facts = "ap_kind a = KLlm \<and> ap_parentId a = Some i \<and>
      ap_intent a = PObj [(''phase'', PStr ''result''), (''op'', PStr opn)] \<and> ap_effect a = value"
  show "meets (\<lambda>s. ?facts \<and> stands ph s) (flat_map (record_commit po (a\<lparr>ap_revert := revert\<rparr>)) (\<lambda>_. succeed ()))
      (\<lambda>_. stands ph') lawful"
  proof (rule meets_pure [where B = ?facts])
    assume f: ?facts
    then have "result_row i (a\<lparr>ap_revert := revert\<rparr>)" using assms(2) by (simp add: result_row_def)
    then have "keeps ph (record_commit po (a\<lparr>ap_revert := revert\<rparr>)) (\<lambda>_. ph')"
      by (intro keeps_record_commit assms(1))
    then show "meets (\<lambda>s. ?facts \<and> stands ph s)
        (flat_map (record_commit po (a\<lparr>ap_revert := revert\<rparr>)) (\<lambda>_. succeed ())) (\<lambda>_. stands ph') lawful"
      using f by (auto intro!: meets_flat_map [where R = "\<lambda>_. stands ph'"] meets_succeed)
  qed simp
qed

lemma keeps_appendIntent:
  assumes "map_of (ii_invocation i) ''attempt'' = Some (int_plain (n + 1))" and "ii_kind i = KLlm" and "ii_originalArgs i = None"
  shows "keeps (Ready n) (appendIntent po i) (\<lambda>r. Pending n (ap_id (rc_action r)))"
  unfolding appendIntent_def
proof (rule meets_flat_map [OF actionAppend_row])
  fix a :: append_row
  let ?facts = "ap_kind a = ii_kind i \<and> ap_parentId a = ii_parentId i \<and>
      ap_intent a = PObj ([(''phase'', PStr ''intent''), (''op'', PStr (ii_op i)), (''value'', ii_value i)] @
        (case ii_originalArgs i of None \<Rightarrow> [] | Some v \<Rightarrow> [(''originalArgs'', v)]) @ ii_invocation i) \<and>
      ap_effect a = PObj [(''phase'', PStr ''pending'')]"
  show "meets (\<lambda>s. ?facts \<and> stands (Ready n) s) (record_commit po a)
      (\<lambda>r. stands (Pending n (ap_id (rc_action r)))) lawful"
  proof (rule meets_pure [where B = ?facts])
    assume f: ?facts
    then have "intent_row (n + 1) a" using assms by (simp add: intent_row_def)
    then have "keeps (Ready n) (record_commit po a) (\<lambda>r. Pending n (ap_id (rc_action r)))"
      by (intro keeps_record_commit) simp
    with f show "meets (\<lambda>s. ?facts \<and> stands (Ready n) s) (record_commit po a)
        (\<lambda>r. stands (Pending n (ap_id (rc_action r)))) lawful" by simp
  qed simp
qed

lemma keeps_commitArm:
  assumes "\<And>r. protocol_step ph (Chained a r) = Some ph'"
  shows "keeps ph (commitArm po a) (\<lambda>_. ph')"
  unfolding commitArm_def
  by (intro meets_if keeps_fail meets_flat_map [OF keeps_port_call] keeps_note_event assms)

section \<open>The runner follows the automaton\<close>

lemma alarm_row_arm [simp]:
  "alarm_row i True (fst (armAction sha (retry_arm_input po i (Some t) over body q ts)))"
  "alarm_row i False (fst (armAction sha (retry_arm_input po i None over body q ts)))"
  by (simp_all add: alarm_row_def armAction_def appendAlarm_def retry_arm_input_def nullable_def Let_def)

lemma keeps_waitRetry:
  assumes "n < MAX_ATTEMPTS"
  shows "keeps (Failed n (ap_id (rc_action intent))) (waitRetry po intent attempt reason ms) (\<lambda>_. Ready n)"
proof -
  let ?i = "ap_id (rc_action intent)"
  have arm: "keeps (Failed n ?i) (retry_arm po ?i attempt why fireAt) (\<lambda>_. Notified n ?i)" for why fireAt
    unfolding retry_arm_def Let_def
    using assms
    by (rule_tac meets_flat_map [OF keeps_commitArm [where ph' = "Armed n ?i"]], simp)
       (intro meets_flat_map [OF keeps_port_call] keeps_note_event, simp)
  have wait: "keeps (Notified n ?i) (retry_wait po fireAt) (\<lambda>_. Rested n ?i)" for fireAt
    unfolding retry_wait_def
    by (intro meets_flat_map [OF keeps_ask] meets_flat_map [OF keeps_port_call] keeps_note_event) simp
  have settle: "keeps (Rested n ?i) (retry_settle po ?i attempt) (\<lambda>_. Ready n)"
    unfolding retry_settle_def
    by (intro meets_flat_map [OF keeps_ask] keeps_commitArm) simp
  show ?thesis
    unfolding waitRetry_def
    by (intro meets_flat_map [OF keeps_ask] meets_flat_map [OF arm] meets_flat_map [OF wait]
        meets_flat_map [OF settle] keeps_succeed)
qed

lemma keeps_decideNext:
  "keeps (Failed attempt (ap_id (rc_action intent)))
     (decideNext po lm failure classified attempt k p intent) (\<lambda>_. Ready attempt)"
  (is "keeps ?ph ?m _")
proof -
  have ann: "keeps ?ph (announce lm n) (\<lambda>_. ?ph)" for n
    by (auto simp: announce_def stands_def split: option.split intro!: meets_succeed meets_update)
  have rec: "keeps ?ph (recover_overflow lm classified failure) (\<lambda>_. ?ph)"
    by (auto simp: recover_overflow_def split: option.split intro!: meets_if keeps_port_call meets_succeed)
  have draw: "keeps ?ph (if draws classified k then ask (po_random po) else succeed 0) (\<lambda>_. ?ph)"
    by (intro meets_if keeps_ask meets_succeed)
  have wait: "keeps ?ph (waitRetry po intent attempt reason ms) (\<lambda>_. Ready attempt)"
    if "\<not> MAX_ATTEMPTS \<le> attempt" for reason ms
    using that by (intro keeps_waitRetry) simp
  show ?thesis
    unfolding decideNext_def Let_def
    by (intro meets_flat_map [OF draw] meets_if keeps_fail meets_flat_map [OF rec] meets_flat_map [OF ann] wait)
qed

lemma keeps_scheduleRetry:
  "keeps (Failed attempt (ap_id (rc_action intent)))
     (scheduleRetry po lm failure classified attempt k p intent) (\<lambda>_. Ready attempt)"
  unfolding scheduleRetry_def [abs_def] by (intro meets_guard keeps_fail keeps_decideNext)

lemma scheduleRetry_next:
  "meets (stands (Failed attempt (ap_id (rc_action intent))))
     (scheduleRetry po lm failure classified attempt k p intent)
     (\<lambda>_ s. attempt < MAX_ATTEMPTS \<and> stands (Ready attempt) s) lawful"
  using keeps_scheduleRetry [of attempt intent po lm failure classified k p]
  by (auto simp: meets_def dest: scheduleRetry_capped)

lemma scheduleRetry_stops:
  assumes "failureRequiresStop failure False"
  shows "scheduleRetry po lm failure classified attempt k p intent =
     fail_with (terminalFailure failure attempt (Some classified))"
proof -
  have "failureRequiresStop failure b" for b
    using assms by (auto simp: failureRequiresStop_def)
  then show ?thesis by (auto simp: scheduleRetry_def)
qed

lemma keeps_approveAttempt:
  "keeps (Pending n (ap_id (rc_action intent))) (approveAttempt po request intent policy)
     (\<lambda>_. Pending n (ap_id (rc_action intent)))" (is "keeps ?ph _ _")
proof (cases policy)
  case None
  then show ?thesis by (auto simp: approveAttempt_def intro!: meets_succeed)
next
  case (Some adm)
  have "keeps ?ph (flat_map (appendResult po KLlm (aq_op request) (ap_id (rc_action intent))
      (PObj [(''phase'', PStr ''result''), (''terminal'', PStr ''blocked_pre''), (''reason'', PStr why)]) None)
      (\<lambda>_. fail_with e)) (\<lambda>_. ?ph)" for why e
    by (rule meets_flat_map [OF keeps_appendResult [where ph' = Closed]]) (auto intro: keeps_fail)
  with Some show ?thesis
    unfolding approveAttempt_def
    by (auto intro!: meets_if meets_succeed meets_flat_map [OF keeps_port_call])
qed

lemma keeps_admitAttempt:
  assumes "attempt = n + 1"
  shows "keeps (Ready n) (admitAttempt po parent lm attempt failures previous)
     (\<lambda>pi. Pending n (ap_id (rc_action (snd pi))))"
  unfolding admitAttempt_def
proof (rule meets_flat_map [OF keeps_port_call])
  fix p :: "'a prepared"
  let ?row = "\<lparr>ii_kind = KLlm, ii_op = aq_op (pr_request p), ii_parentId = Some (ap_id (rc_action parent)),
      ii_value = aq_intent (pr_request p), ii_originalArgs = None,
      ii_invocation = attempt_invocation po (pr_request p) attempt failures previous\<rparr>"
  have row: "keeps (Ready n) (appendIntent po ?row) (\<lambda>r. Pending n (ap_id (rc_action r)))"
    using assms by (intro keeps_appendIntent) (simp_all add: attempt_invocation_def)
  have check: "keeps (Ready n) (\<lambda>s. if po_aborted po (rs_world s) then interrupted s else succeed () s) (\<lambda>_. Ready n)"
    by (intro meets_guard keeps_fail meets_succeed)
  have policy: "keeps (Ready n)
      (if attempt = 1 then succeed None
       else flat_map (port_call (po_admit po (pr_request p) parent)) (\<lambda>adm. succeed (Some adm))) (\<lambda>_. Ready n)"
    by (intro meets_if meets_succeed meets_flat_map [OF keeps_port_call])
  show "keeps (Ready n) (flat_map
      (if attempt = 1 then succeed None
       else flat_map (port_call (po_admit po (pr_request p) parent)) (\<lambda>adm. succeed (Some adm))) (\<lambda>policy.
      if refused_admission policy
      then fail_with (PolicyDenied Pre (case policy of None \<Rightarrow> [] | Some adm \<Rightarrow> ev_matchedRuleIds (fst adm)))
      else flat_map (port_call (pr_admit p)) (\<lambda>_.
        flat_map (\<lambda>s. if po_aborted po (rs_world s) then interrupted s else succeed () s) (\<lambda>_.
        flat_map (appendIntent po ?row) (\<lambda>intent.
        flat_map (approveAttempt po (pr_request p) intent policy) (\<lambda>_. succeed (p, intent)))))))
      (\<lambda>pi. Pending n (ap_id (rc_action (snd pi))))"
    by (intro meets_flat_map [OF policy] meets_if keeps_fail meets_flat_map [OF keeps_port_call]
        meets_flat_map [OF check] meets_flat_map [OF row] meets_flat_map [OF keeps_approveAttempt] meets_succeed) simp
qed

definition after_attempt :: "int \<Rightarrow> str \<Rightarrow> (exec_error, plain) exit \<Rightarrow> attempt_phase" where
  "after_attempt n i x = (case x of Done _ \<Rightarrow> Closed | Halt c \<Rightarrow> if replayable c then Failed n i else Closed)"

lemma after_attempt_Done [simp]: "after_attempt n i (Done v) = Closed"
  by (simp add: after_attempt_def)

lemma keeps_executeAttempt:
  "keeps (Pending n (ap_id (rc_action intent))) (executeAttempt po p lm intent)
     (after_attempt (n + 1) (ap_id (rc_action intent)))"
  unfolding executeAttempt_def
proof (rule meets_flat_map)
  let ?i = "ap_id (rc_action intent)"
  show "meets (stands (Pending n ?i)) (exit_of (port_call (pr_body p))) (\<lambda>_. stands (Pending n ?i)) lawful"
    using keeps_port_call [of "Pending n ?i" "pr_body p"]
    by (auto simp: meets_def exit_of_def port_call_def stands_def split: prod.splits)
  fix x
  show "keeps (Pending n ?i) (flat_map (note_event (Ran ?i x)) (\<lambda>_.
      flat_map (appendResult po KLlm (aq_op (pr_request p)) ?i
       (PObj [(''phase'', PStr ''result''), (''effect'', aq_effect (pr_request p)),
              (''terminal'', PStr (attempt_terminal x)),
              (''usageProvenance'', PStr (provenance_text (usageProvenance (attempt_evidence lm x) (attempt_failure x)))),
              (''evidence'', attempt_evidence lm x)]) None) (\<lambda>_. succeed x))) (after_attempt (n + 1) ?i)"
    by (rule meets_flat_map [OF keeps_note_event [where ph' = "Settling (n + 1) ?i x"]], simp,
        rule meets_flat_map [OF keeps_appendResult [where ph' = "after_attempt (n + 1) ?i x"]])
       (auto simp: after_attempt_def intro: meets_succeed)
qed

lemma meets_case_exit [meets_rules]:
  assumes "\<And>v. x = Done v \<Longrightarrow> meets P (m v) Q E" and "\<And>c. x = Halt c \<Longrightarrow> meets P (n c) Q E"
  shows "meets P (\<lambda>s. case x of Done v \<Rightarrow> m v s | Halt c \<Rightarrow> n c s) Q E"
  using assms by (cases x) simp_all

lemma retryableFailure_keeps:
  "meets (stands (after_attempt n i (Halt c))) (retryableFailure c)
     (\<lambda>e s. stands (if failureRequiresStop e False then Closed else Failed n i) s) lawful"
  unfolding retryableFailure_def
  by (cases "findErrorOption c")
     (auto simp: after_attempt_def replayable_def unseen_failure_iff intro!: keeps_fail meets_if meets_succeed)

lemma run_loop_follows:
  "nat (MAX_ATTEMPTS - attempt) = k \<Longrightarrow>
   keeps (Ready (attempt - 1)) (run_loop po parent lm attempt failures n previous) (\<lambda>_. Closed)"
proof (induction k arbitrary: attempt failures n previous rule: less_induct)
  case (less k)
  let ?id = "\<lambda>intent. ap_id (rc_action intent)"
  have again: "meets (\<lambda>s. attempt < MAX_ATTEMPTS \<and> stands (Ready attempt) s)
      (run_loop po parent lm (attempt + 1) fs m prev) (\<lambda>_. stands Closed) lawful" for fs m prev
  proof (rule meets_pure [where B = "attempt < MAX_ATTEMPTS"])
    assume lt: "attempt < MAX_ATTEMPTS"
    then have "keeps (Ready (attempt + 1 - 1)) (run_loop po parent lm (attempt + 1) fs m prev) (\<lambda>_. Closed)"
      using less.prems by (intro less.IH [OF _ refl]) simp
    with lt show "meets (\<lambda>s. attempt < MAX_ATTEMPTS \<and> stands (Ready attempt) s)
      (run_loop po parent lm (attempt + 1) fs m prev) (\<lambda>_. stands Closed) lawful" by simp
  qed simp
  have retry: "keeps (if failureRequiresStop e False then Closed else Failed attempt (?id intent))
      (flat_map (scheduleRetry po lm e cl attempt m p intent)
        (\<lambda>reason. run_loop po parent lm (attempt + 1) (fs reason) m (Some intent))) (\<lambda>_. Closed)"
    for e cl m p intent fs
    by (cases "failureRequiresStop e False")
       (simp_all add: scheduleRetry_stops keeps_fail meets_flat_map [OF scheduleRetry_next again])
  show ?case
    unfolding ext [where f = "run_loop po parent lm attempt failures n previous", OF run_loop.simps] case_prod_unfold
    by (intro meets_guard keeps_fail meets_flat_map [OF keeps_admitAttempt] meets_flat_map [OF keeps_ask]
        meets_flat_map [OF keeps_executeAttempt] meets_case_exit)
       (auto intro!: meets_succeed meets_flat_map [OF retryableFailure_keeps] meets_flat_map [OF keeps_ask] retry)
qed

end
