(* ===== verification/Stop.thy ===== *)
theory Stop
  imports Failures
begin

text \<open>
  The stop judge of \<^verbatim>\<open>packages/agent/src/core/loop/stop.ts\<close>: counters advanced
  once per turn, limits read from the policy, the verdict and its journal row
  (\<^verbatim>\<open>turnStopAction\<close> of \<^verbatim>\<open>core/journal/turn-rows.ts\<close>), and what the turn makes of the
  verdict (\<^verbatim>\<open>stopResult\<close> of \<^verbatim>\<open>loop/turn.ts\<close>).
\<close>

section \<open>State and observation\<close>

record stop_observation =
  so_text :: str
  so_toolCalls :: int
  so_calls :: "(str \<times> plain) list option"
  so_continueRequested :: "bool option"
  so_interrupted :: bool
  so_exhausted :: bool
  so_progress :: bool
  so_blocked :: bool
  so_openIntent :: "str list"
  so_alarmIds :: "str list"

record stop_state =
  st_outputHash :: "str option"
  st_repetition :: int
  st_stall :: int
  st_blocked :: int
  st_continuation :: int

datatype stop_verdict =
    VInterrupted
  | VResult
  | VWaiting "str list"
  | VContinue
  | VError stop_reason

definition stopState :: stop_state where
  "stopState = \<lparr>st_outputHash = None, st_repetition = 0, st_stall = 0, st_blocked = 0, st_continuation = 0\<rparr>"

definition output_hash :: "(str \<Rightarrow> str) \<Rightarrow> stop_observation \<Rightarrow> str" where
  "output_hash sha ob =
     canonicalDigest sha
       (PObj [(''text'', PStr (so_text ob)),
              (''calls'', PArr (map (\<lambda>(tool, input). PObj [(''tool'', PStr tool), (''input'', input)])
                                 (or_else (so_calls ob) [])))])"

definition advanceStopState :: "(str \<Rightarrow> str) \<Rightarrow> stop_state \<Rightarrow> stop_observation \<Rightarrow> stop_state" where
  "advanceStopState sha previous ob =
     \<lparr>st_outputHash = Some (output_hash sha ob),
      st_repetition =
        (if so_progress ob then 0
         else if Some (output_hash sha ob) = st_outputHash previous then st_repetition previous + 1 else 1),
      st_stall = (if so_progress ob \<or> 0 < so_toolCalls ob then 0 else st_stall previous + 1),
      st_blocked = (if so_blocked ob \<and> \<not> so_progress ob then st_blocked previous + 1 else 0),
      st_continuation = st_continuation previous + 1\<rparr>"

definition completionEligible :: "stop_observation \<Rightarrow> bool" where
  "completionEligible ob \<longleftrightarrow>
     so_text ob \<noteq> [] \<and> so_toolCalls ob = 0 \<and> so_continueRequested ob \<noteq> Some True"

section \<open>The verdict\<close>

text \<open>A limit reached settles the verdict; otherwise the judgment goes on.\<close>

definition reaching ::
  "('s, exec_error, int) eff \<Rightarrow> int \<Rightarrow> stop_verdict \<Rightarrow> ('s, exec_error, stop_verdict) eff \<Rightarrow>
   ('s, exec_error, stop_verdict) eff" where
  "reaching limit count v rest = flat_map limit (\<lambda>l. if l \<le> count then succeed v else rest)"

definition judge_limits ::
  "stop_state \<Rightarrow> stop_observation \<Rightarrow> (stop_metric \<Rightarrow> ('s, exec_error, int) eff) \<Rightarrow>
   ('s, exec_error, stop_verdict) eff" where
  "judge_limits st ob limit =
     reaching (limit ExactRepeat) (st_repetition st) (VError (StopMetric ExactRepeat))
       (reaching (limit ToollessStall) (st_stall st) (VError (StopMetric ToollessStall))
         (reaching (limit BlockedRecurrence) (st_blocked st) (VError (StopMetric BlockedRecurrence))
           (if so_alarmIds ob \<noteq> [] then succeed (VWaiting (so_alarmIds ob))
            else reaching (limit Continuation) (st_continuation st) (VError (StopMetric Continuation))
                   (succeed VContinue))))"

definition judgeStop ::
  "(str \<Rightarrow> str) \<Rightarrow> stop_state \<Rightarrow> stop_observation \<Rightarrow> (stop_metric \<Rightarrow> ('s, exec_error, int) eff) \<Rightarrow>
   ('s, exec_error, bool) eff \<Rightarrow> ('s, exec_error, stop_state \<times> stop_verdict) eff" where
  "judgeStop sha previous ob limit completion =
     (let st = advanceStopState sha previous ob in
      flat_map
        (if so_interrupted ob then succeed VInterrupted
         else if so_exhausted ob then succeed (VError StopBudget)
         else
           flat_map (if completionEligible ob then completion else succeed False) (\<lambda>permitted.
           if permitted \<and> so_openIntent ob = [] \<and> \<not> so_blocked ob then succeed VResult
           else judge_limits st ob limit))
        (\<lambda>v. succeed (st, v)))"

section \<open>The judge over the policy\<close>

record 'w judge_ports =
  jp_sha :: "str \<Rightarrow> str"
  jp_generation :: int
  jp_sessionId :: str
  jp_parentActionId :: "str option"
  jp_decide :: "str \<Rightarrow> plain \<Rightarrow> ('w, exec_error, policy_evaluation) eff"
  jp_commit :: "append_row \<Rightarrow> ('w, exec_error, receipt) eff"
  jp_entropy :: "'w \<Rightarrow> str \<times> 'w"
  jp_clock :: "'w \<Rightarrow> epoch_ms \<times> 'w"

definition clamp_rows :: "stop_metric \<Rightarrow> policy_evaluation \<Rightarrow> int list" where
  "clamp_rows metric ev =
     map (\<lambda>(ref, m, l). l)
       (filter (\<lambda>(ref, m, l). ref = ''kernel/budget-clamp'' \<and> m = metric_text metric) (ev_obligations ev))"

definition metric_op :: "stop_metric \<Rightarrow> str" where
  "metric_op metric = (if metric = Continuation then ''continue'' else metric_text metric)"

definition policy_limit :: "'w judge_ports \<Rightarrow> stop_metric \<Rightarrow> ('w, exec_error, int) eff" where
  "policy_limit jp metric =
     flat_map (jp_decide jp (metric_op metric) (PObj [(''metric'', PStr (metric_text metric))])) (\<lambda>ev.
     if ev_verdict ev = EDeny \<or> ev_verdict ev = ERequireApproval \<or> ev_verdict ev = ETransform \<or>
        ev_generation ev \<noteq> jp_generation jp
     then fail_with (AgentFailure ''stop.policy'' (CauseText (''invalid_stop_policy:'' @ metric_text metric)))
     else
       (case clamp_rows metric ev of
          [l] \<Rightarrow>
            if l \<le> 0
            then fail_with (AgentFailure ''stop.policy'' (CauseText (''invalid_stop_policy:'' @ metric_text metric)))
            else succeed l
        | _ \<Rightarrow> fail_with (AgentFailure ''stop.policy'' (CauseText (''invalid_stop_policy:'' @ metric_text metric)))))"

definition policy_completion :: "'w judge_ports \<Rightarrow> stop_observation \<Rightarrow> ('w, exec_error, bool) eff" where
  "policy_completion jp ob =
     flat_map (jp_decide jp ''completion''
       (PObj [(''text'', PStr (so_text ob)), (''openIntent'', PArr (map PStr (so_openIntent ob)))])) (\<lambda>ev.
     succeed (ev_verdict ev = EAllow))"

fun verdict_plain :: "stop_verdict \<Rightarrow> plain" where
  "verdict_plain VInterrupted = PObj [(''kind'', PStr ''interrupted''), (''reason'', PStr ''abort'')]"
| "verdict_plain VResult = PObj [(''kind'', PStr ''result''), (''reason'', PStr ''completion'')]"
| "verdict_plain (VWaiting ids) =
     PObj [(''kind'', PStr ''waiting''), (''reason'', PStr ''live_wait''), (''alarmIds'', PArr (map PStr ids))]"
| "verdict_plain VContinue = PObj [(''kind'', PStr ''continue''), (''reason'', PStr ''continue'')]"
| "verdict_plain (VError r) = PObj [(''kind'', PStr ''error''), (''reason'', PStr (stop_reason_text r))]"

definition stop_state_plain :: "stop_state \<Rightarrow> plain" where
  "stop_state_plain st =
     PObj ((case st_outputHash st of None \<Rightarrow> [] | Some h \<Rightarrow> [(''outputHash'', PStr h)]) @
       [(''repetition'', int_plain (st_repetition st)), (''stall'', int_plain (st_stall st)),
        (''blocked'', int_plain (st_blocked st)), (''continuation'', int_plain (st_continuation st))])"

definition turnStopAction :: "str \<Rightarrow> str option \<Rightarrow> str \<Rightarrow> int \<Rightarrow> plain \<Rightarrow> plain \<Rightarrow> epoch_ms \<Rightarrow> append_row" where
  "turnStopAction i parent sid generation verdict st ts =
     \<lparr>ap_id = i, ap_parentId = parent, ap_sessionId = sid, ap_kind = KTurn,
      ap_intent = PObj [(''phase'', PStr ''stop''), (''generation'', int_plain generation)],
      ap_effect = PObj [(''phase'', PStr ''stop''), (''verdict'', verdict), (''state'', st)],
      ap_ts = ts, ap_revert = None\<rparr>"

definition createStopJudge ::
  "'w judge_ports \<Rightarrow> stop_state \<Rightarrow> stop_observation \<Rightarrow> ('w, exec_error, stop_state \<times> stop_verdict) eff" where
  "createStopJudge jp st ob =
     flat_map (judgeStop (jp_sha jp) st ob (policy_limit jp) (policy_completion jp ob)) (\<lambda>result.
     flat_map (sync (jp_entropy jp)) (\<lambda>i.
     flat_map (sync (jp_clock jp)) (\<lambda>ts.
     flat_map (jp_commit jp (turnStopAction i (jp_parentActionId jp) (jp_sessionId jp) (jp_generation jp)
       (verdict_plain (snd result)) (stop_state_plain (fst result)) ts)) (\<lambda>_.
     succeed result))))"

text \<open>What the turn does with a verdict: \<open>None\<close> advances to the next turn, \<open>Some waiting\<close> ends the run.\<close>

definition stopResult :: "stop_verdict \<Rightarrow> ('s, exec_error, str list option option) eff" where
  "stopResult v =
     (case v of
        VInterrupted \<Rightarrow> fail_with InterruptedError
      | VError r \<Rightarrow> fail_with (AgentStopError r)
      | VContinue \<Rightarrow> succeed None
      | VWaiting ids \<Rightarrow> succeed (Some (Some ids))
      | VResult \<Rightarrow> succeed (Some None))"

text \<open>
  The turns of a run: one observation per turn, judged under the state the
  previous judgment left, until a verdict other than \<^verbatim>\<open>continue\<close> ends the run.
\<close>

fun judged_turns ::
  "'w judge_ports \<Rightarrow> stop_state \<Rightarrow> stop_observation list \<Rightarrow> 'w \<Rightarrow> stop_verdict list" where
  "judged_turns jp st [] w = []"
| "judged_turns jp st (ob # obs) w =
     (case createStopJudge jp st ob w of
        (Halt _, _) \<Rightarrow> []
      | (Done (st', v), w') \<Rightarrow> (case v of VContinue \<Rightarrow> VContinue # judged_turns jp st' obs w' | _ \<Rightarrow> [v]))"

section \<open>Laws of the judge\<close>

lemma createStopJudge_Done:
  assumes "createStopJudge jp st ob w = (Done (st', v), w')"
  obtains u where "judgeStop (jp_sha jp) st ob (policy_limit jp) (policy_completion jp ob) w = (Done (st', v), u)"
  using assms by (auto simp: createStopJudge_def flat_map_Done succeed_def)

lemma judgeStop_state:
  assumes "judgeStop sha st ob limit completion w = (Done (st', v), w')"
  shows "st' = advanceStopState sha st ob"
  using assms by (auto simp: judgeStop_def flat_map_Done succeed_def Let_def)

lemma judge_limits_continue:
  assumes "judge_limits st ob limit w = (Done VContinue, w')"
  shows "\<exists>u l. limit Continuation u = (Done l, w') \<and> st_continuation st < l"
  using assms
  by (force simp: judge_limits_def reaching_def flat_map_Done succeed_def not_le split: if_splits)

lemma policy_limit_Done:
  assumes "policy_limit jp metric w = (Done l, w')"
  shows "\<exists>ev. jp_decide jp (metric_op metric) (PObj [(''metric'', PStr (metric_text metric))]) w = (Done ev, w') \<and>
      clamp_rows metric ev = [l] \<and> 0 < l \<and> ev_generation ev = jp_generation jp"
  using assms
  by (auto simp: policy_limit_def flat_map_Done succeed_def fail_with_def fail_cause_def split: if_splits list.splits)

text \<open>A turn continues only below the limit the policy names for this generation.\<close>

lemma judge_continue:
  assumes "createStopJudge jp st ob w = (Done (st', VContinue), w')"
  shows "st_continuation st' = st_continuation st + 1"
    and "\<exists>u ev u' l. jp_decide jp ''continue'' (PObj [(''metric'', PStr ''continuation'')]) u = (Done ev, u') \<and>
      clamp_rows Continuation ev = [l] \<and> st_continuation st' < l"
proof -
  from assms obtain u where j: "judgeStop (jp_sha jp) st ob (policy_limit jp) (policy_completion jp ob) w
      = (Done (st', VContinue), u)" by (rule createStopJudge_Done)
  from judgeStop_state [OF j] have st': "st' = advanceStopState (jp_sha jp) st ob" .
  then show "st_continuation st' = st_continuation st + 1" by (simp add: advanceStopState_def)
  from j obtain u1 where "judge_limits st' ob (policy_limit jp) u1 = (Done VContinue, u)"
    by (auto simp: judgeStop_def st' flat_map_Done succeed_def Let_def split: if_splits)
  from judge_limits_continue [OF this] obtain u2 l
    where "policy_limit jp Continuation u2 = (Done l, u)" and "st_continuation st' < l" by blast
  with policy_limit_Done [of jp Continuation u2 l u] show
    "\<exists>u ev u' l. jp_decide jp ''continue'' (PObj [(''metric'', PStr ''continuation'')]) u = (Done ev, u') \<and>
      clamp_rows Continuation ev = [l] \<and> st_continuation st' < l"
    by (auto simp: metric_op_def)
qed

text \<open>A result is declared only for text without tool calls, with nothing open and nothing blocked.\<close>

lemma judge_result:
  assumes "createStopJudge jp st ob w = (Done (st', VResult), w')"
  shows "completionEligible ob \<and> so_openIntent ob = [] \<and> \<not> so_blocked ob \<and> \<not> so_interrupted ob \<and> \<not> so_exhausted ob"
proof -
  from assms obtain u where "judgeStop (jp_sha jp) st ob (policy_limit jp) (policy_completion jp ob) w
      = (Done (st', VResult), u)" by (rule createStopJudge_Done)
  then show ?thesis
    by (auto simp: judgeStop_def judge_limits_def reaching_def flat_map_Done succeed_def Let_def split: if_splits)
qed

lemma judged_turns_bound:
  assumes "\<And>u ev u'. jp_decide jp ''continue'' (PObj [(''metric'', PStr ''continuation'')]) u = (Done ev, u') \<Longrightarrow>
      list_all (\<lambda>l. l \<le> L) (clamp_rows Continuation ev)"
  shows "int (length (filter ((=) VContinue) (judged_turns jp st obs w))) \<le> max 0 (L - 1 - st_continuation st)"
proof (induction obs arbitrary: st w)
  case (Cons ob obs)
  show ?case
  proof (cases "\<exists>st' w'. createStopJudge jp st ob w = (Done (st', VContinue), w')")
    case True
    then obtain st' w' where j: "createStopJudge jp st ob w = (Done (st', VContinue), w')" by blast
    have "st_continuation st' = st_continuation st + 1" by (rule judge_continue [OF j])
    moreover have "st_continuation st' < L" using judge_continue(2) [OF j] assms by fastforce
    ultimately show ?thesis using Cons.IH [of st' w'] by (simp add: j)
  next
    case False
    then show ?thesis by (auto split: prod.split exit.split stop_verdict.split)
  qed
qed simp

end
