(* ===== verification/Budget.thy ===== *)
theory Budget
  imports Failures Complex_Main
begin

text \<open>
  The run budget of \<^verbatim>\<open>packages/agent/src/core/loop/budget.ts\<close>: counters, the
  evaluation against the four limits (\<^verbatim>\<open>-1\<close> is unlimited), the telemetry the
  per-turn check publishes and the sentence that names what is left.  Ratios are
  rationals; the two-decimal text of a ratio in the telemetry stays a number.
\<close>

section \<open>Counters\<close>

record budget_state =
  bs_startTime :: epoch_ms
  bs_turns :: int
  bs_toolCalls :: int
  bs_toolRuntimeMs :: int
  bs_totalInputTokens :: int
  bs_totalOutputTokens :: int

definition createBudgetState :: "epoch_ms \<Rightarrow> budget_state" where
  "createBudgetState now =
     \<lparr>bs_startTime = now, bs_turns = 0, bs_toolCalls = 0, bs_toolRuntimeMs = 0,
      bs_totalInputTokens = 0, bs_totalOutputTokens = 0\<rparr>"

record checkpointed_budget = budget_state +
  cb_chargedAt :: epoch_ms

definition restoreBudgetState :: "checkpointed_budget \<Rightarrow> epoch_ms \<Rightarrow> budget_state" where
  "restoreBudgetState c now =
     \<lparr>bs_startTime = now - (cb_chargedAt c - bs_startTime c), bs_turns = bs_turns c,
      bs_toolCalls = bs_toolCalls c, bs_toolRuntimeMs = bs_toolRuntimeMs c,
      bs_totalInputTokens = bs_totalInputTokens c, bs_totalOutputTokens = bs_totalOutputTokens c\<rparr>"

definition recordTurn :: "budget_state \<Rightarrow> budget_state" where
  "recordTurn s = s\<lparr>bs_turns := bs_turns s + 1\<rparr>"

definition recordToolCall :: "budget_state \<Rightarrow> int \<Rightarrow> budget_state" where
  "recordToolCall s durationMs =
     s\<lparr>bs_toolCalls := bs_toolCalls s + 1, bs_toolRuntimeMs := bs_toolRuntimeMs s + durationMs\<rparr>"

definition recordTokenUsage :: "budget_state \<Rightarrow> int \<Rightarrow> int \<Rightarrow> budget_state" where
  "recordTokenUsage s i ou =
     s\<lparr>bs_totalInputTokens := bs_totalInputTokens s + i, bs_totalOutputTokens := bs_totalOutputTokens s + ou\<rparr>"

section \<open>Limits\<close>

record budget_limits =
  bl_maxTurns :: int
  bl_maxToolCalls :: int
  bl_maxWallTimeMs :: int
  bl_maxToolRuntimeMs :: int
  bl_reassuranceThreshold :: "rat option"
  bl_warningThreshold :: "rat option"

record explicit_budget =
  xb_maxTurns :: "int option"
  xb_maxToolCalls :: "int option"
  xb_maxWallTimeMs :: "int option"
  xb_maxToolRuntimeMs :: "int option"
  xb_reassuranceThreshold :: "rat option"
  xb_warningThreshold :: "rat option"

definition DEFAULT_REASSURANCE_THRESHOLD :: rat where "DEFAULT_REASSURANCE_THRESHOLD = 6 / 10"
definition DEFAULT_WARNING_THRESHOLD :: rat where "DEFAULT_WARNING_THRESHOLD = 8 / 10"

text \<open>The pair (reassurance, warning).\<close>

definition effectiveBudgetThresholds :: "budget_limits \<Rightarrow> rat \<times> rat" where
  "effectiveBudgetThresholds b =
     (or_else (bl_reassuranceThreshold b) DEFAULT_REASSURANCE_THRESHOLD,
      or_else (bl_warningThreshold b) DEFAULT_WARNING_THRESHOLD)"

text \<open>The thresholds come from the explicit budget alone: \<^verbatim>\<open>...explicit\<close>.\<close>

definition resolveAgentBudget :: "budget_limits \<Rightarrow> explicit_budget option \<Rightarrow> budget_limits" where
  "resolveAgentBudget defaults explicit =
     (let x = (\<lambda>f. case explicit of None \<Rightarrow> None | Some e \<Rightarrow> f e) in
      \<lparr>bl_maxTurns = or_else (x xb_maxTurns) (bl_maxTurns defaults),
       bl_maxToolCalls = or_else (x xb_maxToolCalls) (bl_maxToolCalls defaults),
       bl_maxWallTimeMs = or_else (x xb_maxWallTimeMs) (bl_maxWallTimeMs defaults),
       bl_maxToolRuntimeMs = or_else (x xb_maxToolRuntimeMs) (bl_maxToolRuntimeMs defaults),
       bl_reassuranceThreshold = (case explicit of None \<Rightarrow> None | Some e \<Rightarrow> xb_reassuranceThreshold e),
       bl_warningThreshold = (case explicit of None \<Rightarrow> None | Some e \<Rightarrow> xb_warningThreshold e)\<rparr>)"

section \<open>Evaluation\<close>

datatype budget_status = BudgetOk | Reassurance | Warning | Exceeded

datatype exceeded_limit = WallTime | Turns | ToolCalls | ToolWallTime

text \<open>\<open>be_maxRatio = None\<close> is negative infinity: a negative elapsed time against a zero limit.\<close>

record budget_evaluation =
  be_status :: budget_status
  be_elapsedMs :: int
  be_maxRatio :: "rat option"
  be_exceededLimit :: "exceeded_limit option"

definition limit_ratio :: "int \<Rightarrow> int \<Rightarrow> rat option" where
  "limit_ratio consumed maximum = (if maximum = 0 then None else Some (of_int consumed / of_int maximum))"

definition ratio_max :: "rat option \<Rightarrow> rat option \<Rightarrow> rat option" where
  "ratio_max a b = (case (a, b) of (None, y) \<Rightarrow> y | (x, None) \<Rightarrow> x | (Some x, Some y) \<Rightarrow> Some (max x y))"

definition ratio_reaches :: "rat option \<Rightarrow> rat \<Rightarrow> bool" where
  "ratio_reaches r threshold \<longleftrightarrow> (case r of None \<Rightarrow> False | Some x \<Rightarrow> threshold \<le> x)"

definition limit_table :: "budget_state \<Rightarrow> int \<Rightarrow> budget_limits \<Rightarrow> (exceeded_limit \<times> int \<times> int) list" where
  "limit_table s elapsed b =
     [(WallTime, elapsed, bl_maxWallTimeMs b), (Turns, bs_turns s, bl_maxTurns b),
      (ToolCalls, bs_toolCalls s, bl_maxToolCalls b), (ToolWallTime, bs_toolRuntimeMs s, bl_maxToolRuntimeMs b)]"

text \<open>The loop over the table: the first limit reached, or the ratios of the limited rows.\<close>

fun scan_limits :: "(exceeded_limit \<times> int \<times> int) list \<Rightarrow> rat option list \<Rightarrow> exceeded_limit + rat option list" where
  "scan_limits [] ratios = Inr ratios"
| "scan_limits ((name, consumed, maximum) # rest) ratios =
     (if maximum = - 1 then scan_limits rest ratios
      else if maximum \<le> consumed then Inl name
      else scan_limits rest (ratios @ [limit_ratio consumed maximum]))"

definition evaluateBudget :: "budget_state \<Rightarrow> epoch_ms \<Rightarrow> budget_limits \<Rightarrow> budget_evaluation" where
  "evaluateBudget s now b =
     (let elapsed = now - bs_startTime s;
          thresholds = effectiveBudgetThresholds b;
          ev = (\<lambda>status ratio lim. \<lparr>be_status = status, be_elapsedMs = elapsed, be_maxRatio = ratio, be_exceededLimit = lim\<rparr>) in
      case scan_limits (limit_table s elapsed b) [] of
        Inl name \<Rightarrow> ev Exceeded (Some 1) (Some name)
      | Inr [] \<Rightarrow> ev BudgetOk (Some 0) None
      | Inr ratios \<Rightarrow>
          (let m = fold ratio_max ratios None in
           if ratio_reaches m (snd thresholds) then ev Warning m None
           else if ratio_reaches m (fst thresholds) then ev Reassurance m None
           else ev BudgetOk m None))"

section \<open>What is left\<close>

definition plural :: "int \<Rightarrow> str \<Rightarrow> str" where
  "plural n noun = int_text n @ '' '' @ noun @ (if n \<noteq> 1 then ''s'' else '''') @ '' remaining''"

text \<open>\<^verbatim>\<open>Math.round(ms / 1000)\<close>, halves upwards.\<close>

definition whole_seconds :: "int \<Rightarrow> int" where
  "whole_seconds ms = (ms + 500) div 1000"

fun join_comma :: "str list \<Rightarrow> str" where
  "join_comma [] = ''''"
| "join_comma [x] = x"
| "join_comma (x # xs) = x @ '', '' @ join_comma xs"

definition describeBudgetRemaining :: "budget_state \<Rightarrow> epoch_ms \<Rightarrow> budget_limits \<Rightarrow> str" where
  "describeBudgetRemaining s now b =
     join_comma
       ((if bl_maxTurns b = - 1 then [''unlimited turns remaining''] else [plural (bl_maxTurns b - bs_turns s) ''turn'']) @
        (if bl_maxToolCalls b \<noteq> - 1 then [plural (bl_maxToolCalls b - bs_toolCalls s) ''tool call''] else []) @
        (if bl_maxWallTimeMs b \<noteq> - 1
         then [int_text (whole_seconds (max 0 (bl_maxWallTimeMs b - (now - bs_startTime s)))) @ ''s wall time remaining'']
         else []) @
        (if bl_maxToolRuntimeMs b \<noteq> - 1
         then [int_text (whole_seconds (max 0 (bl_maxToolRuntimeMs b - bs_toolRuntimeMs s))) @ ''s tool wall time remaining'']
         else []))"

fun limit_text :: "exceeded_limit \<Rightarrow> str" where
  "limit_text WallTime = ''wall time''"
| "limit_text Turns = ''turns''"
| "limit_text ToolCalls = ''tool calls''"
| "limit_text ToolWallTime = ''tool wall time''"

text \<open>
  The published events: a warning that names the exceeded limit, or a threshold
  notice.  The clock is read three times, for the evaluation, for the event's
  time and for what is left.
\<close>

datatype budget_event =
    BudgetExceeded epoch_ms str int int int "int option"
  | BudgetWarning epoch_ms str "rat option"
  | BudgetReassurance epoch_ms str "rat option"

definition publishBudgetTelemetry ::
  "budget_state \<Rightarrow> epoch_ms \<Rightarrow> epoch_ms \<Rightarrow> epoch_ms \<Rightarrow> budget_limits \<Rightarrow> budget_event list \<times> budget_status" where
  "publishBudgetTelemetry s now stamp leftAt b =
     (let ev = evaluateBudget s now b; left = describeBudgetRemaining s leftAt b in
      ((case be_status ev of
          Exceeded \<Rightarrow>
            [BudgetExceeded stamp
              (''budget exceeded: '' @ (case be_exceededLimit ev of None \<Rightarrow> ''undefined'' | Some l \<Rightarrow> limit_text l))
              (bs_turns s) (bs_toolCalls s) (be_elapsedMs ev)
              (if be_exceededLimit ev = Some ToolWallTime then Some (bs_toolRuntimeMs s) else None)]
        | Warning \<Rightarrow> [BudgetWarning stamp left (be_maxRatio ev)]
        | Reassurance \<Rightarrow> [BudgetReassurance stamp left (be_maxRatio ev)]
        | BudgetOk \<Rightarrow> []),
       be_status ev))"

section \<open>Exactness\<close>

lemma scan_limits_Inl:
  "scan_limits t ratios = Inl name \<longleftrightarrow>
     (case find (\<lambda>(n, c, m). m \<noteq> - 1 \<and> m \<le> c) t of None \<Rightarrow> False | Some (n, _) \<Rightarrow> n = name)"
  by (induction t ratios rule: scan_limits.induct) auto

lemma scan_limits_Inr:
  "scan_limits t ratios = Inr rs \<Longrightarrow>
     rs = ratios @ map (\<lambda>(n, c, m). limit_ratio c m) (filter (\<lambda>(n, c, m). m \<noteq> - 1) t)"
  by (induction t ratios rule: scan_limits.induct) (auto split: if_splits)

definition reached :: "int \<Rightarrow> int \<Rightarrow> bool" where
  "reached maximum consumed \<longleftrightarrow> maximum \<noteq> - 1 \<and> maximum \<le> consumed"

lemma evaluate_exceeded_iff:
  "be_status (evaluateBudget s now b) = Exceeded \<longleftrightarrow>
     reached (bl_maxWallTimeMs b) (now - bs_startTime s) \<or> reached (bl_maxTurns b) (bs_turns s) \<or>
     reached (bl_maxToolCalls b) (bs_toolCalls s) \<or> reached (bl_maxToolRuntimeMs b) (bs_toolRuntimeMs s)"
proof -
  let ?t = "limit_table s (now - bs_startTime s) b"
  have "be_status (evaluateBudget s now b) = Exceeded \<longleftrightarrow> (\<exists>name. scan_limits ?t [] = Inl name)"
    by (auto simp: evaluateBudget_def Let_def split: sum.split list.split)
  also have "\<dots> \<longleftrightarrow> find (\<lambda>(n, c, m). m \<noteq> - 1 \<and> m \<le> c) ?t \<noteq> None"
    by (auto simp: scan_limits_Inl split: option.splits)
  also have "\<dots> \<longleftrightarrow> (\<exists>(n, c, m) \<in> set ?t. m \<noteq> - 1 \<and> m \<le> c)"
    by (auto simp: find_None_iff)
  finally show ?thesis by (auto simp: limit_table_def reached_def)
qed

text \<open>Downtime is free: a restored run has spent exactly the wall time its checkpoint was charged.\<close>

lemma restore_elapsed:
  "now - bs_startTime (restoreBudgetState c now) = cb_chargedAt c - bs_startTime c"
  by (simp add: restoreBudgetState_def)

text \<open>An exceeded turn or tool budget stays exceeded as the run goes on.\<close>

lemma exceeded_monotone:
  assumes "be_status (evaluateBudget s now b) = Exceeded" and "now \<le> later" and "0 \<le> ms"
  shows "be_status (evaluateBudget (recordToolCall (recordTurn s) ms) later b) = Exceeded"
  using assms by (auto simp: evaluate_exceeded_iff reached_def recordToolCall_def recordTurn_def)

end
