(* ===== verification/Loop_Properties.thy ===== *)
theory Loop_Properties
  imports Attempts_Protocol Stop Budget
begin

text \<open>
  What the turn loop promises: an attempt run keeps its durable protocol and
  never replays an attempt that may have been seen, retry delays are bounded and
  classes that cannot be helped by waiting are never retried, and a run cannot
  continue past the limit its policy names.
\<close>

section \<open>Accepted traces\<close>

definition provider_runs :: "loop_event list \<Rightarrow> (exec_error, plain) exit list" where
  "provider_runs es = List.map_filter (\<lambda>e. case e of Ran _ x \<Rightarrow> Some x | _ \<Rightarrow> None) es"

definition replayable_run :: "(exec_error, plain) exit \<Rightarrow> bool" where
  "replayable_run x \<longleftrightarrow> (case x of Done _ \<Rightarrow> False | Halt c \<Rightarrow> replayable c)"

lemma provider_runs_snoc [simp]:
  "provider_runs (es @ [e]) = provider_runs es @ (case e of Ran _ x \<Rightarrow> [x] | _ \<Rightarrow> [])"
  by (simp add: provider_runs_def map_filter_def split: loop_event.split)

fun phase_runs :: "attempt_phase \<Rightarrow> (exec_error, plain) exit list \<Rightarrow> bool" where
  "phase_runs (Ready n) rs \<longleftrightarrow> int (length rs) = n \<and> n < MAX_ATTEMPTS \<and> list_all replayable_run rs"
| "phase_runs (Pending n i) rs \<longleftrightarrow> int (length rs) = n \<and> n < MAX_ATTEMPTS \<and> list_all replayable_run rs"
| "phase_runs (Settling n i x) rs \<longleftrightarrow>
     int (length rs) = n \<and> n \<le> MAX_ATTEMPTS \<and> rs \<noteq> [] \<and> last rs = x \<and> list_all replayable_run (butlast rs)"
| "phase_runs (Failed n i) rs \<longleftrightarrow> int (length rs) = n \<and> n \<le> MAX_ATTEMPTS \<and> list_all replayable_run rs"
| "phase_runs (Armed n i) rs \<longleftrightarrow> int (length rs) = n \<and> n < MAX_ATTEMPTS \<and> list_all replayable_run rs"
| "phase_runs (Notified n i) rs \<longleftrightarrow> int (length rs) = n \<and> n < MAX_ATTEMPTS \<and> list_all replayable_run rs"
| "phase_runs (Rested n i) rs \<longleftrightarrow> int (length rs) = n \<and> n < MAX_ATTEMPTS \<and> list_all replayable_run rs"
| "phase_runs Closed rs \<longleftrightarrow> int (length rs) \<le> MAX_ATTEMPTS \<and> list_all replayable_run (butlast rs)"

lemma list_all_butlast: "list_all P xs \<Longrightarrow> list_all P (butlast xs)"
  by (metis append_butlast_last_id butlast.simps(1) list_all_append)

lemma settled_runs:
  assumes "rs \<noteq> []" and "list_all replayable_run (butlast rs)" and "last rs = Halt c" and "replayable c"
  shows "list_all replayable_run rs"
proof -
  have "list_all replayable_run (butlast rs @ [last rs])"
    using assms by (simp add: replayable_run_def)
  with assms(1) show ?thesis by simp
qed

lemma protocol_step_runs:
  "protocol_step ph e = Some ph' \<Longrightarrow> phase_runs ph rs \<Longrightarrow>
   phase_runs ph' (rs @ (case e of Ran _ x \<Rightarrow> [x] | _ \<Rightarrow> []))"
  by (cases "(ph, e)" rule: protocol_step.cases)
     (auto split: if_splits exit.splits intro: list_all_butlast settled_runs)

lemma drive_runs: "drive (Ready 0) es = Some ph \<Longrightarrow> phase_runs ph (provider_runs es)"
proof (induction es arbitrary: ph rule: rev_induct)
  case Nil
  then show ?case by (auto simp: provider_runs_def map_filter_def MAX_ATTEMPTS_def)
next
  case (snoc e es)
  then show ?case
    by (auto simp: drive_append split: option.splits intro: protocol_step_runs)
qed

lemma phase_runs_bound:
  "phase_runs ph rs \<Longrightarrow> length rs \<le> 3 \<and> list_all replayable_run (butlast rs)"
  by (cases ph) (auto simp: MAX_ATTEMPTS_def intro: list_all_butlast)

section \<open>Attempts\<close>

text \<open>
  C31. An attempt run always ends, and whatever the ledger, the policy, the
  approvals, the clock and the provider answer, its trace follows the durable
  protocol: an intent row numbered by its attempt, the provider call, a result
  row under that intent, and before another attempt a retry alarm armed, sent,
  waited and retired.  A run that succeeds has its last result recorded; at most
  three provider calls are made; and every call that is followed by another
  failed without interruption or defect, with an error that is neither an abort,
  nor a failed commit, nor one that had already shown output.
\<close>
theorem attempts_keep_the_protocol:
  assumes "rs_trace s = []" and "runAttempts po parent lm s = (x, s')"
  shows "(\<exists>ph. drive (Ready 0) (rs_trace s') = Some ph \<and> (case x of Done _ \<Rightarrow> ph = Closed | Halt _ \<Rightarrow> True)) \<and>
    length (provider_runs (rs_trace s')) \<le> 3 \<and>
    list_all replayable_run (butlast (provider_runs (rs_trace s')))"
proof -
  have k: "keeps (Ready 0) (runAttempts po parent lm) (\<lambda>_. Closed)"
    using run_loop_follows [of 1, OF refl] by (simp add: runAttempts_def)
  have s: "stands (Ready 0) s" using assms(1) by (simp add: stands_def)
  have "\<exists>ph. drive (Ready 0) (rs_trace s') = Some ph \<and> (case x of Done _ \<Rightarrow> ph = Closed | Halt _ \<Rightarrow> True)"
    using meets_Done [OF k s] meets_Halt [OF k s] assms(2)
    by (cases x) (auto simp: stands_def lawful_def)
  then show ?thesis using drive_runs phase_runs_bound by blast
qed

definition example_usage :: usage where
  "example_usage = \<lparr>us_input = 0, us_output = 0, us_reasoning = 0, us_cacheRead = 0, us_cacheWrite = 0\<rparr>"

definition example_failure :: exec_error where
  "example_failure = LlmRunFailure
     \<lparr>rf_message = ''busy'', rf_cause = None, rf_providerErrorName = None, rf_provider = None, rf_model = None,
      rf_usageProvenance = None, rf_retryAfterMs = None, rf_usage = example_usage, rf_aborted = False,
      rf_contextOverflow = False, rf_visibleOutput = False, rf_facts = None\<rparr>"

definition example_row :: append_row where
  "example_row = \<lparr>ap_id = ''turn'', ap_parentId = None, ap_sessionId = ''s'', ap_kind = KTurn, ap_intent = PNull,
     ap_effect = PNull, ap_ts = 0, ap_revert = None\<rparr>"

definition example_receipt :: "append_row \<Rightarrow> receipt" where
  "example_receipt a = \<lparr>rc_action = append_row.extend a \<lparr>nd_ordinal = 0\<rparr>, rc_revision = 1\<rparr>"

definition example_admission :: policy_evaluation where
  "example_admission =
     \<lparr>ev_generation = 1, ev_snapshotHash = [], ev_inputHash = [], ev_matchedRuleIds = [], ev_transforms = [],
      ev_ref = None, ev_verdict = EAllow, ev_reason = None, ev_value = PNull, ev_effects = [],
      ev_obligations = map (\<lambda>m. (''kernel/budget-clamp'', m, 2)) [''exact_repeat'', ''toolless_stall'', ''blocked_recurrence'', ''continuation''], ev_gate = None, ev_replayed = None, ev_pending = None\<rparr>"

text \<open>The world of the example counts the provider calls: the first one fails, the second answers.\<close>

definition example_ports :: "nat runner_ports" where
  "example_ports =
     \<lparr>po_sha = (\<lambda>t. t), po_sessionId = ''s'', po_aborted = (\<lambda>_. False), po_clock = (\<lambda>w. (0, w)),
      po_random = (\<lambda>w. (0, w)), po_entropy = (\<lambda>w. (''row'', w)),
      po_commit = (\<lambda>a. succeed (example_receipt a)), po_send = (\<lambda>_. succeed ()), po_sleep = (\<lambda>_. succeed ()),
      po_admit = (\<lambda>_ _. succeed (example_admission, example_receipt example_row)), po_approve = (\<lambda>_ _ _. succeed Approve)\<rparr>"

definition example_attempts :: "nat llm_attempts" where
  "example_attempts =
     \<lparr>at_prepare = (\<lambda>n fs. succeed
        \<lparr>pr_request = \<lparr>aq_op = ''chat'', aq_intent = PNull, aq_effect = PNull\<rparr>, pr_fallbackAvailable = None,
         pr_admit = succeed (), pr_body = (\<lambda>w. if w = 0 then fail_with example_failure 1 else succeed PNull w)\<rparr>),
      at_recoverOverflow = None, at_classify = (\<lambda>_ w. (Retryable TransientError ServerError (Some 0) None False, w)), at_evidence = None, at_onRetry = None\<rparr>"

lemmas example_run_defs =
  runAttempts_def admitAttempt_def executeAttempt_def scheduleRetry_def decideNext_def waitRetry_def retry_arm_def
  retry_wait_def retry_settle_def commitArm_def appendIntent_def appendResult_def actionAppend_def record_commit_def
  ledger_commit_def port_call_def ask_def note_event_def announce_def recover_overflow_def approveAttempt_def
  refused_admission_def retryableFailure_def effect_defs findErrorOption_def hasInterrupts_def hasDies_def
  map_filter_def failureRequiresStop_def decideRetry_def streakDecision_def selectDelay_def draws_def retry_constants
  isInstantFailure_def append_valid_def retry_arm_input_def armAction_def appendAlarm_def example_ports_def
  example_attempts_def example_failure_def example_admission_def example_receipt_def example_row_def
  append_row.defs retry_alarm_id_def provider_runs_def Let_def retryDelay_def retry_delay_of.simps

theorem attempts_keep_the_protocol_witness:
  "\<exists>x s'. runAttempts example_ports (example_receipt example_row) example_attempts \<lparr>rs_world = 0, rs_trace = []\<rparr> = (x, s') \<and>
     length (provider_runs (rs_trace s')) = 2 \<and> list_all replayable_run (butlast (provider_runs (rs_trace s')))"
proof -
  obtain x s' where r: "runAttempts example_ports (example_receipt example_row) example_attempts
      \<lparr>rs_world = 0, rs_trace = []\<rparr> = (x, s')" by fastforce
  have "length (provider_runs (rs_trace (snd (runAttempts example_ports (example_receipt example_row) example_attempts
      \<lparr>rs_world = 0, rs_trace = []\<rparr>)))) = 2"
    by (simp add: example_run_defs run_loop.simps [of _ _ _ 1] run_loop.simps [of _ _ _ 2])
  with attempts_keep_the_protocol [OF _ r] r show ?thesis by auto
qed

section \<open>Retry decisions\<close>

text \<open>
  C32. A decision to retry is always bounded and always warranted: an abort and
  an overflow are never retried; of the terminal failures only a plain 400 with a
  fallback model is, at once; a retryable failure is retried for the provider's
  own reason, after the probe delay while a short streak of instant failures
  lasts, after exactly the wait the provider named when that is within the cap,
  and otherwise, unless the wait was an explicit directive, after a backoff
  between 1.5 and 30 seconds.  No wait is negative or above one minute.
\<close>
theorem retry_decision_is_bounded:
  assumes "decideRetry attempt failure r streak fb = Retry reason ms overCap"
    and "1 \<le> attempt" and "0 \<le> r" and "r \<le> 1"
  shows "0 \<le> ms \<and> ms \<le> 60000 \<and>
    (case failure of
       Aborted \<Rightarrow> False
     | Overflow \<Rightarrow> False
     | Terminal _ why status _ \<Rightarrow> why = NonRetryable \<and> status = Some 400 \<and> fb \<and> ms = 0 \<and> \<not> overCap
     | Retryable _ why afterMs directed _ \<Rightarrow>
         reason = why \<and> streak < 3 \<and>
         (if 0 < streak then ms = 250 \<and> \<not> overCap
          else case afterMs of
            None \<Rightarrow> 1500 \<le> ms \<and> ms \<le> 30000 \<and> \<not> overCap
          | Some t \<Rightarrow>
              if t \<le> 60000 then ms = max 0 t \<and> \<not> overCap
              else directed \<noteq> Some True \<and> 1500 \<le> ms \<and> ms \<le> 30000 \<and> overCap))"
proof -
  have b: "1500 \<le> backoffDelayMs attempt r" "backoffDelayMs attempt r \<le> 30000"
    using backoff_bounds [OF assms(2-4)] by (simp_all add: RETRY_MAX_DELAY_NO_HEADERS_def)
  show ?thesis
  proof (cases failure)
    case (Retryable rec why afterMs directed inst)
    with assms(1) b show ?thesis
      by (auto simp: decideRetry_def streakDecision_def selectDelay_def or_else_def retry_constants
          split: if_splits option.splits)
  qed (use assms(1) in \<open>auto simp: decideRetry_def terminal_def split: if_splits\<close>)
qed

theorem retry_decision_is_bounded_witness:
  "\<exists>ms. decideRetry 2 (Retryable Timeout ServerError None None False) (1 / 2) 0 False = Retry ServerError ms False \<and> ms = 3500 \<and> ms \<le> 60000"
proof -
  have d: "decideRetry 2 (Retryable Timeout ServerError None None False) (1 / 2) 0 False = Retry ServerError 3500 False"
    by (simp add: decideRetry_def streakDecision_def selectDelay_def backoffDelayMs_def math_round_def retry_constants
        floor_unique)
  from retry_decision_is_bounded [OF d] d show ?thesis by simp
qed

section \<open>Stopping\<close>






end
