(* ===== verification/Router.thy ===== *)
theory Router
  imports Failures
begin

text \<open>
  The model router of \<^verbatim>\<open>packages/llm/src/router/\<close>: candidate chains, session pins,
  circuit breakers, credential slots, the decision over a classified failure and
  the routing call that walks them.  Circuits and credential states are compared
  by object identity in the source; here an object is an address with its value,
  the shared constants \<^verbatim>\<open>closed\<close> and \<^verbatim>\<open>ready\<close> are at address 0, and every object
  the code builds gets a fresh address.
\<close>

section \<open>Circuits\<close>

type_synonym 'a obj = "nat \<times> 'a"

record circuit =
  ci_consecutiveOpens :: int
  ci_openUntil :: epoch_ms
  ci_halfOpenLeased :: bool

definition closed :: circuit where
  "closed = \<lparr>ci_consecutiveOpens = 0, ci_openUntil = 0, ci_halfOpenLeased = False\<rparr>"

definition cooldown :: "int \<Rightarrow> int" where
  "cooldown opens = min (60000 * 2 ^ nat (min (opens - 1) 5)) 1800000"

definition circuit_open :: "circuit \<Rightarrow> epoch_ms \<Rightarrow> int option \<Rightarrow> epoch_ms option \<Rightarrow> circuit" where
  "circuit_open st now hintMs resetAt =
     \<lparr>ci_consecutiveOpens = ci_consecutiveOpens st + 1,
      ci_openUntil = or_else resetAt (now + max (cooldown (ci_consecutiveOpens st + 1)) (or_else hintMs 0)),
      ci_halfOpenLeased = False\<rparr>"

text \<open>\<open>Keep\<close> hands out the object itself, \<open>Fresh\<close> a new one.\<close>

datatype 'a leased = Refused | Keep | Fresh 'a

definition circuit_lease :: "circuit \<Rightarrow> epoch_ms \<Rightarrow> circuit leased" where
  "circuit_lease st now =
     (if ci_halfOpenLeased st \<or> now < ci_openUntil st then Refused
      else if ci_consecutiveOpens st = 0 then Keep
      else Fresh (st\<lparr>ci_halfOpenLeased := True\<rparr>))"

section \<open>Credentials\<close>

record credential =
  cr_blockedUntil :: epoch_ms
  cr_probing :: bool

definition ready :: credential where
  "ready = \<lparr>cr_blockedUntil = 0, cr_probing = False\<rparr>"

definition credential_lease :: "credential \<Rightarrow> epoch_ms \<Rightarrow> credential leased" where
  "credential_lease st now =
     (if cr_probing st \<or> now < cr_blockedUntil st then Refused
      else if cr_blockedUntil st = 0 then Keep
      else Fresh (st\<lparr>cr_probing := True\<rparr>))"

datatype block_reason = BlockAuth | BlockBilling | BlockRateLimit | BlockTransient

definition credential_block :: "block_reason \<Rightarrow> epoch_ms \<Rightarrow> int option \<Rightarrow> credential" where
  "credential_block reason now hintMs =
     \<lparr>cr_blockedUntil = now + (if reason = BlockTransient then 0 else or_else hintMs 60000), cr_probing = False\<rparr>"

section \<open>Decisions\<close>

datatype attempt_phase_kind = PreRequest | Streaming

datatype route_action = AAbort | ASurface | ASwapCredential | ASwapModel | ATry | ASelected | ASkipCircuit

datatype pin_reason = Refusal | BillingPin

record route_decision =
  rd_action :: route_action
  rd_pin :: "pin_reason option"
  rd_block :: "block_reason option"

definition surface :: route_decision where
  "surface = \<lparr>rd_action = ASurface, rd_pin = None, rd_block = None\<rparr>"

definition swap_credential :: "block_reason \<Rightarrow> route_decision" where
  "swap_credential b = \<lparr>rd_action = ASwapCredential, rd_pin = None, rd_block = Some b\<rparr>"

definition decide_route :: "failure_class \<Rightarrow> attempt_phase_kind \<Rightarrow> int option \<Rightarrow> route_decision" where
  "decide_route failure ph hintMs =
     (if failure = Aborted then \<lparr>rd_action = AAbort, rd_pin = None, rd_block = None\<rparr>
      else if ph = Streaming then surface
      else
        case failure of
          Aborted \<Rightarrow> \<lparr>rd_action = AAbort, rd_pin = None, rd_block = None\<rparr>
        | Overflow \<Rightarrow> surface
        | Terminal _ why status detail \<Rightarrow>
            if why = ContentPolicy then \<lparr>rd_action = ASurface, rd_pin = Some Refusal, rd_block = None\<rparr>
            else if why = Billing then swap_credential BlockBilling
            else if status = Some 401 \<or> status = Some 403 then swap_credential BlockAuth
            else if status = Some 404 \<or> detail = Some ''unavailable''
            then \<lparr>rd_action = ASwapModel, rd_pin = None, rd_block = None\<rparr>
            else surface
        | Retryable recorded why _ _ inst \<Rightarrow>
            if why = ContentPolicy then \<lparr>rd_action = ASurface, rd_pin = Some Refusal, rd_block = None\<rparr>
            else if why = Billing then swap_credential BlockBilling
            else if why = ValidationReason then surface
            else if why = RateLimit \<or> why = Overloaded then
              (case hintMs of
                 Some h \<Rightarrow> if h \<le> 2000 then surface else swap_credential BlockRateLimit
               | None \<Rightarrow> swap_credential BlockRateLimit)
            else if recorded = Timeout \<or> inst then swap_credential BlockTransient
            else surface)"

record routing_fact =
  fa_candidate :: str
  fa_credential :: "str option"
  fa_failure :: "failure_class option"
  fa_usage :: "usage option"
  fa_action :: route_action

section \<open>Chains and pins\<close>

record chain_row =
  cw_category :: "str option"
  cw_primary :: "str option"
  cw_selectors :: "str list"
  cw_nearestFallback :: "str option"

record chain =
  ch_category :: str
  ch_selectors :: "str list"
  ch_nearestFallback :: "str option"
  ch_configured :: bool

definition chain_row_of :: "chain_row list \<Rightarrow> str \<Rightarrow> str option \<Rightarrow> chain_row option" where
  "chain_row_of rows primary category =
     (case find (\<lambda>r. cw_category r \<noteq> None \<and> cw_category r = category) rows of
        Some r \<Rightarrow> Some r
      | None \<Rightarrow> find (\<lambda>r. cw_primary r = Some primary) rows)"

definition candidates :: "chain_row list \<Rightarrow> str \<Rightarrow> str option \<Rightarrow> chain" where
  "candidates rows primary category =
     (let row = chain_row_of rows primary category in
      \<lparr>ch_category = or_else category primary,
       ch_selectors = (case row of None \<Rightarrow> [primary] | Some r \<Rightarrow> new_set (cw_selectors r)),
       ch_nearestFallback = (case row of None \<Rightarrow> None | Some r \<Rightarrow> cw_nearestFallback r),
       ch_configured = (row \<noteq> None)\<rparr>)"

text \<open>
  The selector \<^verbatim>\<open>provider/id\<close> at its first slash.  Without one, \<^verbatim>\<open>indexOf\<close> is -1:
  the provider loses its last character and the id is the whole selector.
\<close>

definition reference :: "str \<Rightarrow> str \<times> str" where
  "reference selector =
     (if CHR ''/'' \<in> set selector
      then (takeWhile (\<lambda>c. c \<noteq> CHR ''/'') selector, tl (dropWhile (\<lambda>c. c \<noteq> CHR ''/'') selector))
      else (butlast selector, selector))"

record pin =
  pn_primary :: str
  pn_candidate :: str
  pn_credential :: "str option"
  pn_turn :: str
  pn_reason :: "pin_reason option"

definition order :: "str list \<Rightarrow> pin option \<Rightarrow> str \<Rightarrow> str \<Rightarrow> str list" where
  "order selectors p primary turn =
     (case p of
        None \<Rightarrow> selectors
      | Some q \<Rightarrow>
          if pn_primary q \<noteq> primary \<or> pn_candidate q \<notin> set selectors then selectors
          else if pn_turn q \<noteq> turn \<and> pn_reason q \<noteq> Some BillingPin then selectors
          else pn_candidate q # filter (\<lambda>x. x \<noteq> pn_candidate q) selectors)"

definition touch :: "pin option \<Rightarrow> pin \<Rightarrow> pin" where
  "touch previous selected =
     (case previous of
        None \<Rightarrow> selected
      | Some q \<Rightarrow>
          if pn_primary q = pn_primary selected \<and> pn_candidate q = pn_candidate selected \<and> pn_reason q \<noteq> None
          then selected\<lparr>pn_reason := pn_reason q\<rparr> else selected)"

section \<open>The routing call\<close>

record router_state =
  rt_circuits :: "str \<Rightarrow> circuit obj option"
  rt_credentials :: "str \<Rightarrow> credential obj option"
  rt_pins :: "str \<Rightarrow> pin option"
  rt_streaks :: "str \<Rightarrow> int option"
  rt_fresh :: nat

definition new_router :: router_state where
  "new_router = \<lparr>rt_circuits = Map.empty, rt_credentials = Map.empty, rt_pins = Map.empty, rt_streaks = Map.empty, rt_fresh = 1\<rparr>"

record provider_model =
  pm_provider :: str
  pm_id :: str
  pm_contextLimit :: "int option"

text \<open>\<open>ai_forwarded\<close>: the transport and provider options of the call are passed on.\<close>

record 'au attempt_input =
  ai_model :: provider_model
  ai_auth :: 'au
  ai_authProvider :: str
  ai_forwarded :: bool

datatype 'e run_outcome =
    RunStop "usage option"
  | RunContinue
  | RunAborted "'e option"
  | RunError 'e
  | RunFailure 'e

datatype 'm sink_event = SinkMessage 'm | SinkToolCall 'm | SinkToolResult 'm

text \<open>
  What a provider run does while it lasts, in order: sink callbacks, stream
  events (by type) and points where other calls of the router run.  A run
  without an outcome was interrupted.
\<close>

datatype 'm run_event = OnMessage 'm | OnToolCall 'm | OnToolResult 'm | StreamEvent str | Elsewhere

record ('w, 'au, 'e, 'm) router_ports =
  rp_now :: "'w \<Rightarrow> epoch_ms \<times> 'w"
  rp_aborted :: "'w \<Rightarrow> bool"
  rp_others :: "'w \<Rightarrow> (router_state \<Rightarrow> router_state) \<times> 'w"
  rp_run :: "'au attempt_input \<Rightarrow> 'w \<Rightarrow> ('m run_event list \<times> 'e run_outcome option) \<times> 'w"
  rp_plainRun :: "('w, 'e, 'e run_outcome) eff"
  rp_resolveModel :: "str \<times> str \<Rightarrow> ('w, 'e, provider_model) eff"
  rp_resolveAuth :: "str \<Rightarrow> ('w, 'e, 'au) eff"
  rp_fingerprint :: "'au \<Rightarrow> str"
  rp_classify :: "'e \<Rightarrow> usage option \<Rightarrow> epoch_ms \<Rightarrow> int option \<Rightarrow> failure_class"
  rp_usage :: "'e \<Rightarrow> usage option"
  rp_retryAfter :: "'e \<Rightarrow> int option option"
  rp_headerDelay :: "'e \<Rightarrow> 'w \<Rightarrow> int option \<times> 'w"

text \<open>The fixed part of a call.\<close>

record 'au routing_call =
  ca_sessionId :: str
  ca_model :: provider_model
  ca_primary :: str
  ca_turn :: str
  ca_previous :: "pin option"
  ca_slots :: "(str \<times> 'au) list"
  ca_category :: str

text \<open>
  What the call did, in order: attempts started, output shown, and the
  half-open circuits and probing credentials it took, by address.
\<close>

datatype call_event = CTried str str | CShown | CLeased str nat | CProbing str nat

text \<open>The mutable fields of the candidate that is being tried.\<close>

record candidate_state =
  cs_transientSwaps :: int
  cs_billingFailures :: int
  cs_resetAt :: "epoch_ms option"
  cs_hintMs :: "int option"

definition fresh_candidate :: candidate_state where
  "fresh_candidate = \<lparr>cs_transientSwaps = 0, cs_billingFailures = 0, cs_resetAt = None, cs_hintMs = None\<rparr>"

record ('w, 'm) route_state =
  ro_world :: 'w
  ro_router :: router_state
  ro_candidate :: candidate_state
  ro_facts :: "routing_fact list"
  ro_billed :: usage
  ro_billingPin :: bool
  ro_sink :: "'m sink_event list"
  ro_log :: "call_event list"

type_synonym ('w, 'm, 'e, 'a) routing = "(('w, 'm) route_state, 'e, 'a) eff"

record routing_facts =
  rf_category :: str
  rf_requested :: str
  rf_selected :: "str option"
  rf_attempts :: "routing_fact list"

record 'e routed =
  ru_outcome :: "'e run_outcome"
  ru_billed :: "usage option"
  ru_routing :: routing_facts

subsection \<open>State access\<close>

definition on_world :: "('w, 'e, 'a) eff \<Rightarrow> ('w, 'm, 'e, 'a) routing" where
  "on_world m s = (case m (ro_world s) of (r, w) \<Rightarrow> (r, s\<lparr>ro_world := w\<rparr>))"

definition now :: "('w, 'au, 'e, 'm) router_ports \<Rightarrow> ('w, 'm, 'e, epoch_ms) routing" where
  "now rp = on_world (sync (rp_now rp))"

definition router :: "(router_state \<Rightarrow> 'a) \<Rightarrow> ('w, 'm, 'e, 'a) routing" where
  "router f = sync (\<lambda>s. (f (ro_router s), s))"

definition change :: "(router_state \<Rightarrow> router_state) \<Rightarrow> ('w, 'm, 'e, unit) routing" where
  "change f = update (\<lambda>s. s\<lparr>ro_router := f (ro_router s)\<rparr>)"

definition log_call :: "call_event \<Rightarrow> ('w, 'm, 'e, unit) routing" where
  "log_call e = update (\<lambda>s. s\<lparr>ro_log := ro_log s @ [e]\<rparr>)"

definition push_routing ::
  "str \<Rightarrow> str option \<Rightarrow> failure_class option \<Rightarrow> usage option \<Rightarrow> route_action \<Rightarrow> ('w, 'm, 'e, unit) routing" where
  "push_routing candidate credential failure us action =
     update (\<lambda>s. s\<lparr>ro_facts := ro_facts s @
       [\<lparr>fa_candidate = candidate, fa_credential = credential, fa_failure = failure, fa_usage = us, fa_action = action\<rparr>]\<rparr>)"

definition to_sink :: "'m sink_event list \<Rightarrow> ('w, 'm, 'e, unit) routing" where
  "to_sink es = update (\<lambda>s. s\<lparr>ro_sink := ro_sink s @ es\<rparr>)"

definition others_run :: "('w, 'au, 'e, 'm) router_ports \<Rightarrow> ('w, 'm, 'e, unit) routing" where
  "others_run rp = flat_map (on_world (sync (rp_others rp))) change"

definition get_circuit :: "str \<Rightarrow> router_state \<Rightarrow> circuit obj" where
  "get_circuit k st = or_else (rt_circuits st k) (0, closed)"

definition get_credential :: "str \<Rightarrow> router_state \<Rightarrow> credential obj" where
  "get_credential k st = or_else (rt_credentials st k) (0, ready)"

definition put_circuit :: "str \<Rightarrow> circuit obj \<Rightarrow> router_state \<Rightarrow> router_state" where
  "put_circuit k c st = st\<lparr>rt_circuits := (rt_circuits st)(k \<mapsto> c)\<rparr>"

definition put_credential :: "str \<Rightarrow> credential obj \<Rightarrow> router_state \<Rightarrow> router_state" where
  "put_credential k c st = st\<lparr>rt_credentials := (rt_credentials st)(k \<mapsto> c)\<rparr>"

definition new_circuit :: "str \<Rightarrow> circuit \<Rightarrow> router_state \<Rightarrow> router_state" where
  "new_circuit k c st = put_circuit k (rt_fresh st, c) st\<lparr>rt_fresh := rt_fresh st + 1\<rparr>"

definition new_credential :: "str \<Rightarrow> credential \<Rightarrow> router_state \<Rightarrow> router_state" where
  "new_credential k c st = put_credential k (rt_fresh st, c) st\<lparr>rt_fresh := rt_fresh st + 1\<rparr>"

text \<open>\<^verbatim>\<open>map.get(key) === lease\<close>.\<close>

definition holds_circuit :: "str \<Rightarrow> circuit obj \<Rightarrow> router_state \<Rightarrow> bool" where
  "holds_circuit k c st \<longleftrightarrow> (case rt_circuits st k of None \<Rightarrow> False | Some d \<Rightarrow> fst d = fst c)"

definition holds_credential :: "str \<Rightarrow> credential obj \<Rightarrow> router_state \<Rightarrow> bool" where
  "holds_credential k c st \<longleftrightarrow> (case rt_credentials st k of None \<Rightarrow> False | Some d \<Rightarrow> fst d = fst c)"

end
