(* ===== verification/Router_Call.thy ===== *)
theory Router_Call
  imports Router
begin

text \<open>
  One routing call of \<^verbatim>\<open>packages/llm/src/router/candidate.ts\<close>, \<^verbatim>\<open>attempt.ts\<close> and
  \<^verbatim>\<open>stream-fn.ts\<close>: attempts behind the sink wrapper, the failure step that blocks
  credentials, opens circuits and pins sessions, the walk over a candidate's
  slots and the walk over the candidates of the chain, with the finalizers that
  give leases back.
\<close>

section \<open>One attempt\<close>

definition starts_output :: "str \<Rightarrow> bool" where
  "starts_output ty \<longleftrightarrow> drop (length ty - 6) ty = ''-delta'' \<or> ty = ''tool-call''"

fun run_events ::
  "('w, 'au, 'e, 'm) router_ports \<Rightarrow> ('w, 'm, 'e, unit) routing \<Rightarrow> 'm run_event list \<Rightarrow> attempt_phase_kind \<Rightarrow> 'm option \<Rightarrow>
   ('w, 'm, 'e, attempt_phase_kind \<times> 'm option) routing" where
  "run_events rp onDelta [] ph pending = succeed (ph, pending)"
| "run_events rp onDelta (OnMessage m # es) ph pending =
     (if ph = Streaming then flat_map (to_sink [SinkMessage m]) (\<lambda>_. run_events rp onDelta es ph pending)
      else run_events rp onDelta es ph (Some m))"
| "run_events rp onDelta (OnToolCall c # es) ph pending =
     flat_map (log_call CShown) (\<lambda>_.
     flat_map (to_sink [SinkToolCall c]) (\<lambda>_. run_events rp onDelta es Streaming pending))"
| "run_events rp onDelta (OnToolResult r # es) ph pending =
     flat_map (to_sink [SinkToolResult r]) (\<lambda>_. run_events rp onDelta es ph pending)"
| "run_events rp onDelta (StreamEvent ty # es) ph pending =
     (if ph = PreRequest \<and> starts_output ty then
        flat_map (log_call CShown) (\<lambda>_.
        flat_map onDelta (\<lambda>_.
        flat_map (to_sink (case pending of None \<Rightarrow> [] | Some m \<Rightarrow> [SinkMessage m])) (\<lambda>_.
        run_events rp onDelta es Streaming None)))
      else run_events rp onDelta es ph pending)"
| "run_events rp onDelta (Elsewhere # es) ph pending =
     flat_map (others_run rp) (\<lambda>_. run_events rp onDelta es ph pending)"

record ('e, 'm) attempt_result =
  ar_outcome :: "'e run_outcome"
  ar_phase :: attempt_phase_kind
  ar_pending :: "'m option"

definition attempt ::
  "('w, 'au, 'e, 'm) router_ports \<Rightarrow> 'au attempt_input \<Rightarrow> ('w, 'm, 'e, unit) routing \<Rightarrow>
   ('w, 'm, 'e, ('e, 'm) attempt_result) routing" where
  "attempt rp input onDelta =
     flat_map (on_world (sync (rp_run rp input))) (\<lambda>(events, outcome).
     flat_map (run_events rp onDelta events PreRequest None) (\<lambda>(ph, pending).
     case outcome of
       None \<Rightarrow> interrupted
     | Some r \<Rightarrow> succeed \<lparr>ar_outcome = r, ar_phase = ph, ar_pending = pending\<rparr>))"

definition flush :: "('e, 'm) attempt_result \<Rightarrow> ('w, 'm, 'e, unit) routing" where
  "flush r = to_sink (case ar_pending r of None \<Rightarrow> [] | Some m \<Rightarrow> [SinkMessage m])"

section \<open>Circuits and credentials of a call\<close>

type_synonym 'au slot = "'au \<times> str"

definition cand :: "(candidate_state \<Rightarrow> 'a) \<Rightarrow> ('w, 'm, 'e, 'a) routing" where
  "cand f = sync (\<lambda>s. (f (ro_candidate s), s))"

definition set_cand :: "(candidate_state \<Rightarrow> candidate_state) \<Rightarrow> ('w, 'm, 'e, unit) routing" where
  "set_cand f = update (\<lambda>s. s\<lparr>ro_candidate := f (ro_candidate s)\<rparr>)"

definition open_candidate ::
  "('w, 'au, 'e, 'm) router_ports \<Rightarrow> str \<Rightarrow> circuit obj \<Rightarrow> int option \<Rightarrow> ('w, 'm, 'e, unit) routing" where
  "open_candidate rp sel lease hintMs =
     flat_map (router (holds_circuit sel lease)) (\<lambda>held.
     if \<not> held then succeed ()
     else
       flat_map (now rp) (\<lambda>t.
       flat_map (cand (\<lambda>c. (cs_hintMs c, cs_resetAt c))) (\<lambda>(h, resetAt).
       change (new_circuit sel (circuit_open (snd lease) t (case hintMs of None \<Rightarrow> h | Some x \<Rightarrow> Some x) resetAt)))))"

definition min_known :: "int option \<Rightarrow> int \<Rightarrow> int option" where
  "min_known known x = Some (case known of None \<Rightarrow> x | Some y \<Rightarrow> min y x)"

definition block_slot ::
  "('w, 'au, 'e, 'm) router_ports \<Rightarrow> str \<Rightarrow> credential obj \<Rightarrow> block_reason \<Rightarrow> int option \<Rightarrow> ('w, 'm, 'e, unit) routing" where
  "block_slot rp key lease reason hint =
     flat_map (now rp) (\<lambda>t.
     let st = credential_block reason t hint in
     flat_map (router (holds_credential key lease)) (\<lambda>held.
     flat_map (if held then change (new_credential key st) else succeed ()) (\<lambda>_.
     set_cand (\<lambda>c.
       c\<lparr>cs_hintMs := (case hint of None \<Rightarrow> cs_hintMs c | Some h \<Rightarrow> min_known (cs_hintMs c) h),
         cs_transientSwaps := cs_transientSwaps c + (if reason = BlockTransient then 1 else 0),
         cs_billingFailures := cs_billingFailures c + (if reason = BlockBilling \<and> hint = None then 1 else 0),
         cs_resetAt := (if reason = BlockBilling \<and> hint \<noteq> None
                        then min_known (cs_resetAt c) (cr_blockedUntil st) else cs_resetAt c)\<rparr>))))"

definition healthStreak ::
  "('w, 'au, 'e, 'm) router_ports \<Rightarrow> str \<Rightarrow> circuit obj \<Rightarrow> failure_class \<Rightarrow> attempt_phase_kind \<Rightarrow> epoch_ms \<Rightarrow>
   ('w, 'm, 'e, int) routing" where
  "healthStreak rp sel lease failure ph started =
     flat_map
       (if ph = PreRequest \<and> (case failure of Retryable why pr _ _ inst \<Rightarrow> pr = ServerError \<and> \<not> inst \<and> why \<noteq> Timeout | _ \<Rightarrow> False)
        then flat_map (now rp) (\<lambda>t. succeed (t - started < 2000)) else succeed False) (\<lambda>instantServer.
     flat_map (router (\<lambda>st. if instantServer then or_else (rt_streaks st sel) 0 + 1 else 0)) (\<lambda>streak.
     flat_map (router (holds_circuit sel lease)) (\<lambda>held.
     flat_map (if held then change (\<lambda>st. st\<lparr>rt_streaks := (rt_streaks st)(sel \<mapsto> streak)\<rparr>) else succeed ()) (\<lambda>_.
     succeed streak))))"

definition failedProbe :: "circuit obj \<Rightarrow> failure_class \<Rightarrow> attempt_phase_kind \<Rightarrow> bool" where
  "failedProbe lease failure ph \<longleftrightarrow>
     ci_halfOpenLeased (snd lease) \<and> ph = PreRequest \<and>
     (case failure of
        Retryable _ pr _ _ _ \<Rightarrow> pr = ServerError
      | Terminal _ _ _ detail \<Rightarrow> detail = Some ''unavailable''
      | _ \<Rightarrow> False)"

fun any_sibling :: "('w, 'au, 'e, 'm) router_ports \<Rightarrow> 'au slot list \<Rightarrow> ('w, 'm, 'e, bool) routing" where
  "any_sibling rp [] = succeed False"
| "any_sibling rp (sl # sls) =
     flat_map (router (get_credential (snd sl))) (\<lambda>c.
     flat_map (now rp) (\<lambda>t.
     if credential_lease (snd c) t \<noteq> Refused then succeed True else any_sibling rp sls))"

section \<open>The failure step\<close>

datatype 'e route_step = NextSlot | NextModel | Settled "'e routed"

definition routing_of ::
  "'au routing_call \<Rightarrow> str option \<Rightarrow> ('w, 'm, 'e, routing_facts) routing" where
  "routing_of call selected =
     sync (\<lambda>s. (\<lparr>rf_category = ca_category call, rf_requested = ca_primary call, rf_selected = selected,
                 rf_attempts = ro_facts s\<rparr>, s))"

definition settle_route ::
  "'au routing_call \<Rightarrow> 'e run_outcome \<Rightarrow> str option \<Rightarrow> ('w, 'm, 'e, 'e route_step) routing" where
  "settle_route call outcome selected =
     flat_map (sync (\<lambda>s. (ro_billed s, s))) (\<lambda>billed.
     flat_map (routing_of call selected) (\<lambda>facts.
     succeed (Settled \<lparr>ru_outcome = outcome, ru_billed = Some billed, ru_routing = facts\<rparr>)))"

definition set_pin :: "str \<Rightarrow> pin \<Rightarrow> ('w, 'm, 'e, unit) routing" where
  "set_pin sid p = change (\<lambda>st. st\<lparr>rt_pins := (rt_pins st)(sid \<mapsto> p)\<rparr>)"

definition route_hint :: "('w, 'au, 'e, 'm) router_ports \<Rightarrow> 'e \<Rightarrow> ('w, 'm, 'e, int option) routing" where
  "route_hint rp e =
     (case rp_retryAfter rp e of Some h \<Rightarrow> succeed h | None \<Rightarrow> on_world (sync (rp_headerDelay rp e)))"

definition failureStep ::
  "('w, 'au, 'e, 'm) router_ports \<Rightarrow> 'au routing_call \<Rightarrow> str \<Rightarrow> provider_model \<Rightarrow> circuit obj \<Rightarrow> 'au slot list \<Rightarrow>
   'au slot \<Rightarrow> credential obj \<Rightarrow> epoch_ms \<Rightarrow> ('e, 'm) attempt_result \<Rightarrow> 'e \<Rightarrow> bool \<Rightarrow> ('w, 'm, 'e, 'e route_step) routing" where
  "failureStep rp call sel model lease remaining slot credentialLease started result error isFailure =
     flat_map (now rp) (\<lambda>t.
     let us = rp_usage rp error;
         failure = rp_classify rp error us t (pm_contextLimit model);
         ph = ar_phase result in
     flat_map (healthStreak rp sel lease failure ph started) (\<lambda>streak.
     flat_map (route_hint rp error) (\<lambda>hint.
     flat_map (any_sibling rp remaining) (\<lambda>sibling.
     flat_map (cand cs_transientSwaps) (\<lambda>swaps.
     let first = decide_route failure ph hint;
         d = (if rd_block first = Some BlockTransient \<and> (0 < swaps \<or> \<not> sibling) then surface else first) in
     flat_map (push_routing sel (Some (snd slot)) (Some failure) us (rd_action d)) (\<lambda>_.
     flat_map (case rd_pin d of
        None \<Rightarrow> succeed ()
      | Some r \<Rightarrow> set_pin (ca_sessionId call)
          \<lparr>pn_primary = ca_primary call, pn_candidate = sel, pn_credential = Some (snd slot), pn_turn = ca_turn call,
           pn_reason = Some r\<rparr>) (\<lambda>_.
     case (rd_action d, rd_block d) of
       (ASwapCredential, Some b) \<Rightarrow>
         flat_map (block_slot rp (snd slot) credentialLease b hint) (\<lambda>_. succeed NextSlot)
     | (ASwapModel, _) \<Rightarrow> flat_map (open_candidate rp sel lease hint) (\<lambda>_. succeed NextModel)
     | _ \<Rightarrow>
         flat_map (if 3 \<le> streak \<or> failedProbe lease failure ph then open_candidate rp sel lease hint else succeed ()) (\<lambda>_.
         flat_map (flush result) (\<lambda>_.
         if isFailure then fail_with error
         else settle_route call (RunError error) (if ph = Streaming then Some sel else None))))))))))"

section \<open>One slot\<close>

definition selectPin :: "'au routing_call \<Rightarrow> str \<Rightarrow> str \<Rightarrow> ('w, 'm, 'e, unit) routing" where
  "selectPin call sel key =
     flat_map (sync (\<lambda>s. (ro_billingPin s, s))) (\<lambda>billing.
     set_pin (ca_sessionId call) (touch (ca_previous call)
       \<lparr>pn_primary = ca_primary call, pn_candidate = sel, pn_credential = Some key, pn_turn = ca_turn call,
        pn_reason = (if billing then Some BillingPin else None)\<rparr>))"

definition outcome_usage :: "('w, 'au, 'e, 'm) router_ports \<Rightarrow> 'e run_outcome \<Rightarrow> usage option" where
  "outcome_usage rp r =
     (case r of
        RunStop u \<Rightarrow> u
      | RunContinue \<Rightarrow> None
      | RunAborted e \<Rightarrow> (case e of None \<Rightarrow> None | Some x \<Rightarrow> rp_usage rp x)
      | RunError e \<Rightarrow> rp_usage rp e
      | RunFailure e \<Rightarrow> rp_usage rp e)"

definition add_usage :: "usage \<Rightarrow> usage \<Rightarrow> usage" where
  "add_usage a b =
     \<lparr>us_input = us_input a + us_input b, us_output = us_output a + us_output b,
      us_reasoning = us_reasoning a + us_reasoning b, us_cacheRead = us_cacheRead a + us_cacheRead b,
      us_cacheWrite = us_cacheWrite a + us_cacheWrite b\<rparr>"

definition chargeAttempt :: "('w, 'au, 'e, 'm) router_ports \<Rightarrow> 'e run_outcome \<Rightarrow> ('w, 'm, 'e, unit) routing" where
  "chargeAttempt rp r =
     (case outcome_usage rp r of
        None \<Rightarrow> succeed ()
      | Some u \<Rightarrow> update (\<lambda>s. s\<lparr>ro_billed := add_usage (ro_billed s) u\<rparr>))"

text \<open>Closing the circuit and freeing the credential, each only while the lease is still the one handed out.\<close>

definition close_circuit :: "str \<Rightarrow> circuit obj \<Rightarrow> router_state \<Rightarrow> router_state" where
  "close_circuit sel lease st =
     (if holds_circuit sel lease st
      then (put_circuit sel (0, closed) st)\<lparr>rt_streaks := (rt_streaks st)(sel := None)\<rparr> else st)"

definition free_credential :: "str \<Rightarrow> credential obj \<Rightarrow> router_state \<Rightarrow> router_state" where
  "free_credential key lease st = (if holds_credential key lease st then put_credential key (0, ready) st else st)"

definition on_delta :: "'au routing_call \<Rightarrow> str \<Rightarrow> circuit obj \<Rightarrow> str \<Rightarrow> credential obj \<Rightarrow> ('w, 'm, 'e, unit) routing" where
  "on_delta call sel lease key credentialLease =
     flat_map (change (close_circuit sel lease)) (\<lambda>_.
     flat_map (change (free_credential key credentialLease)) (\<lambda>_.
     selectPin call sel key))"

text \<open>The finalizer of a slot: a probing credential nobody settled is available again.\<close>

definition release_credential :: "str \<Rightarrow> credential obj \<Rightarrow> router_state \<Rightarrow> router_state" where
  "release_credential key lease st =
     (if holds_credential key lease st \<and> cr_probing (snd lease)
      then new_credential key ((snd lease)\<lparr>cr_probing := False\<rparr>) st else st)"

definition settle_slot ::
  "('w, 'au, 'e, 'm) router_ports \<Rightarrow> 'au routing_call \<Rightarrow> str \<Rightarrow> provider_model \<Rightarrow> circuit obj \<Rightarrow> 'au slot list \<Rightarrow>
   'au slot \<Rightarrow> credential obj \<Rightarrow> epoch_ms \<Rightarrow> ('e, 'm) attempt_result \<Rightarrow> ('w, 'm, 'e, 'e route_step) routing" where
  "settle_slot rp call sel model lease remaining slot credentialLease started result =
     flat_map (chargeAttempt rp (ar_outcome result)) (\<lambda>_.
     case ar_outcome result of
       RunError e \<Rightarrow> failureStep rp call sel model lease remaining slot credentialLease started result e False
     | RunFailure e \<Rightarrow> failureStep rp call sel model lease remaining slot credentialLease started result e True
     | RunAborted e \<Rightarrow>
         flat_map (push_routing sel (Some (snd slot)) None None AAbort) (\<lambda>_.
         flat_map (flush result) (\<lambda>_. settle_route call (RunAborted e) None))
     | r \<Rightarrow>
         flat_map (change (free_credential (snd slot) credentialLease)) (\<lambda>_.
         flat_map (change (close_circuit sel lease)) (\<lambda>_.
         flat_map (selectPin call sel (snd slot)) (\<lambda>_.
         flat_map (push_routing sel (Some (snd slot)) None None ASelected) (\<lambda>_.
         flat_map (flush result) (\<lambda>_. settle_route call r (Some sel)))))))"

definition runSlot ::
  "('w, 'au, 'e, 'm) router_ports \<Rightarrow> 'au routing_call \<Rightarrow> str \<Rightarrow> provider_model \<Rightarrow> circuit obj \<Rightarrow> 'au slot list \<Rightarrow>
   'au slot \<Rightarrow> credential obj \<Rightarrow> ('w, 'm, 'e, 'e route_step) routing" where
  "runSlot rp call sel model lease remaining slot credentialLease =
     flat_map (now rp) (\<lambda>started.
     flat_map (push_routing sel (Some (snd slot)) None None ATry) (\<lambda>_.
     flat_map (log_call (CTried sel (snd slot))) (\<lambda>_.
     ensuring
       (flat_map
         (attempt rp
           \<lparr>ai_model = model, ai_auth = fst slot, ai_authProvider = pm_provider model, ai_forwarded = (sel = ca_primary call)\<rparr>
           (on_delta call sel lease (snd slot) credentialLease))
         (settle_slot rp call sel model lease remaining slot credentialLease started))
       (\<lambda>s. s\<lparr>ro_router := release_credential (snd slot) credentialLease (ro_router s)\<rparr>))))"

section \<open>One candidate\<close>

definition call_slots ::
  "('w, 'au, 'e, 'm) router_ports \<Rightarrow> 'au routing_call \<Rightarrow> str \<Rightarrow> ('w, 'm, 'e, 'au list) routing" where
  "call_slots rp call provider =
     (let configured = filter (\<lambda>(p, a). p = provider) (ca_slots call) in
      if configured \<noteq> [] then succeed (map snd configured)
      else
        flat_map (on_world (rp_resolveAuth rp provider)) (\<lambda>a.
        flat_map (others_run rp) (\<lambda>_. succeed [a])))"

definition ordered_slots ::
  "('w, 'au, 'e, 'm) router_ports \<Rightarrow> str \<Rightarrow> str option \<Rightarrow> 'au list \<Rightarrow> 'au slot list" where
  "ordered_slots rp provider preferred auths =
     (let keyed = map (\<lambda>a. (a, provider @ CHR '':'' # rp_fingerprint rp a)) auths in
      filter (\<lambda>s. Some (snd s) = preferred) keyed @ filter (\<lambda>s. Some (snd s) \<noteq> preferred) keyed)"

text \<open>Taking the credential of a slot: the object itself, or a fresh probing one.\<close>

definition take_credential :: "str \<Rightarrow> credential obj \<Rightarrow> credential leased \<Rightarrow> ('w, 'm, 'e, credential obj) routing" where
  "take_credential key current l =
     (case l of
        Fresh c \<Rightarrow>
          flat_map (router rt_fresh) (\<lambda>a.
          flat_map (change (new_credential key c)) (\<lambda>_.
          flat_map (log_call (CProbing key a)) (\<lambda>_. succeed (a, c))))
      | _ \<Rightarrow> flat_map (change (put_credential key current)) (\<lambda>_. succeed current))"

fun walk_slots ::
  "('w, 'au, 'e, 'm) router_ports \<Rightarrow> 'au routing_call \<Rightarrow> str \<Rightarrow> provider_model \<Rightarrow> circuit obj \<Rightarrow> 'au slot list \<Rightarrow>
   ('w, 'm, 'e, 'e route_step) routing" where
  "walk_slots rp call sel model lease [] = succeed NextSlot"
| "walk_slots rp call sel model lease (slot # rest) =
     flat_map (router (get_credential (snd slot))) (\<lambda>current.
     flat_map (now rp) (\<lambda>t.
     let l = credential_lease (snd current) t in
     if l = Refused then
       flat_map (now rp) (\<lambda>t2.
       flat_map (if t2 < cr_blockedUntil (snd current)
                 then set_cand (\<lambda>c. c\<lparr>cs_resetAt := min_known (cs_resetAt c) (cr_blockedUntil (snd current))\<rparr>)
                 else succeed ()) (\<lambda>_.
       walk_slots rp call sel model lease rest))
     else
       flat_map (take_credential (snd slot) current l) (\<lambda>credential.
       flat_map (runSlot rp call sel model lease rest slot credential) (\<lambda>step.
       case step of
         NextModel \<Rightarrow> succeed NextModel
       | NextSlot \<Rightarrow> walk_slots rp call sel model lease rest
       | Settled r \<Rightarrow> succeed (Settled r)))))"

definition runCandidate ::
  "('w, 'au, 'e, 'm) router_ports \<Rightarrow> 'au routing_call \<Rightarrow> str \<Rightarrow> circuit obj \<Rightarrow> ('w, 'm, 'e, 'e routed option) routing" where
  "runCandidate rp call sel lease =
     flat_map (if sel = ca_primary call then succeed (ca_model call)
               else flat_map (on_world (rp_resolveModel rp (reference sel))) (\<lambda>m.
                    flat_map (others_run rp) (\<lambda>_. succeed m))) (\<lambda>model.
     flat_map (call_slots rp call (fst (reference sel))) (\<lambda>auths.
     let preferred = (case ca_previous call of None \<Rightarrow> None | Some p \<Rightarrow> if pn_candidate p = sel then pn_credential p else None);
         ordered = ordered_slots rp (fst (reference sel)) preferred auths in
     flat_map (set_cand (\<lambda>_. fresh_candidate)) (\<lambda>_.
     flat_map (walk_slots rp call sel model lease ordered) (\<lambda>step.
     case step of
       Settled r \<Rightarrow> succeed (Some r)
     | NextModel \<Rightarrow> succeed None
     | NextSlot \<Rightarrow>
         flat_map (cand cs_billingFailures) (\<lambda>billing.
         flat_map (if sel = ca_primary call \<and> billing = int (length ordered)
                   then update (\<lambda>s. s\<lparr>ro_billingPin := True\<rparr>) else succeed ()) (\<lambda>_.
         flat_map (open_candidate rp sel lease None) (\<lambda>_.
         flat_map (push_routing sel None None None ASwapModel) (\<lambda>_. succeed None))))))))"

section \<open>The chain\<close>

text \<open>The finalizer of a candidate: a half-open circuit nobody settled may be probed again.\<close>

definition release_circuit :: "str \<Rightarrow> circuit obj \<Rightarrow> router_state \<Rightarrow> router_state" where
  "release_circuit sel lease st =
     (if holds_circuit sel lease st \<and> ci_halfOpenLeased (snd lease)
      then new_circuit sel ((snd lease)\<lparr>ci_halfOpenLeased := False\<rparr>) st else st)"

definition take_circuit :: "str \<Rightarrow> circuit obj \<Rightarrow> circuit leased \<Rightarrow> ('w, 'm, 'e, circuit obj) routing" where
  "take_circuit sel current l =
     (case l of
        Fresh c \<Rightarrow>
          flat_map (router rt_fresh) (\<lambda>a.
          flat_map (change (new_circuit sel c)) (\<lambda>_.
          flat_map (log_call (CLeased sel a)) (\<lambda>_. succeed (a, c))))
      | _ \<Rightarrow> flat_map (change (put_circuit sel current)) (\<lambda>_. succeed current))"

definition candidate_failed ::
  "('w, 'au, 'e, 'm) router_ports \<Rightarrow> str \<Rightarrow> circuit obj \<Rightarrow> 'e \<Rightarrow> ('w, 'm, 'e, 'e routed option) routing" where
  "candidate_failed rp sel lease e =
     flat_map (now rp) (\<lambda>t.
     let failure = rp_classify rp e None t None in
     flat_map (on_world (sync (rp_headerDelay rp e))) (\<lambda>hint.
     let d = decide_route failure PreRequest hint in
     if rd_action d \<noteq> ASwapModel \<and> rd_action d \<noteq> ASwapCredential then fail_with e
     else
       flat_map (push_routing sel None (Some failure) None ASwapModel) (\<lambda>_.
       flat_map (router (holds_circuit sel lease)) (\<lambda>held.
       flat_map (if held then flat_map (now rp) (\<lambda>t2. change (new_circuit sel (circuit_open (snd lease) t2 None None)))
                 else succeed ()) (\<lambda>_.
       succeed None)))))"

definition tryCandidate ::
  "('w, 'au, 'e, 'm) router_ports \<Rightarrow> 'au routing_call \<Rightarrow> str \<Rightarrow> ('w, 'm, 'e, 'e routed option) routing" where
  "tryCandidate rp call sel =
     flat_map (router (get_circuit sel)) (\<lambda>current.
     flat_map (now rp) (\<lambda>t.
     let l = circuit_lease (snd current) t in
     if l = Refused then flat_map (push_routing sel None None None ASkipCircuit) (\<lambda>_. succeed None)
     else
       flat_map (take_circuit sel current l) (\<lambda>lease.
       ensuring (catch_error (runCandidate rp call sel lease) (candidate_failed rp sel lease))
         (\<lambda>s. s\<lparr>ro_router := release_circuit sel lease (ro_router s)\<rparr>))))"

datatype 'e route_error =
    Raised 'e
  | ModelUnavailable str "str option" epoch_ms routing_facts

fun raised_reason :: "'e reason \<Rightarrow> 'e route_error reason" where
  "raised_reason (FailR e) = FailR (Raised e)"
| "raised_reason (DieR n m) = DieR n m"
| "raised_reason InterruptR = InterruptR"

definition raising :: "('s, 'e, 'a) eff \<Rightarrow> ('s, 'e route_error, 'a) eff" where
  "raising m s = (case m s of (Done a, t) \<Rightarrow> (Done a, t) | (Halt c, t) \<Rightarrow> (Halt (map raised_reason c), t))"

fun walk_candidates ::
  "('w, 'au, 'e, 'm) router_ports \<Rightarrow> 'au routing_call \<Rightarrow> str list \<Rightarrow> ('w, 'm, 'e, 'e routed option) routing" where
  "walk_candidates rp call [] = succeed None"
| "walk_candidates rp call (sel # sels) =
     flat_map (sync (\<lambda>s. (rp_aborted rp (ro_world s), s))) (\<lambda>gone.
     if gone then
       flat_map (routing_of call None) (\<lambda>facts.
       succeed (Some \<lparr>ru_outcome = RunAborted None, ru_billed = None, ru_routing = facts\<rparr>))
     else
       flat_map (tryCandidate rp call sel) (\<lambda>r.
       case r of Some x \<Rightarrow> succeed (Some x) | None \<Rightarrow> walk_candidates rp call sels))"

fun earliest_open :: "('w, 'au, 'e, 'm) router_ports \<Rightarrow> str list \<Rightarrow> epoch_ms option \<Rightarrow> ('w, 'm, 'e, epoch_ms option) routing" where
  "earliest_open rp [] acc = succeed acc"
| "earliest_open rp (sel # sels) acc =
     flat_map (router (\<lambda>st. rt_circuits st sel)) (\<lambda>c.
     flat_map (case c of None \<Rightarrow> now rp | Some x \<Rightarrow> succeed (ci_openUntil (snd x))) (\<lambda>t.
     earliest_open rp sels (min_known acc t)))"

definition route_chain ::
  "('w, 'au, 'e, 'm) router_ports \<Rightarrow> 'au routing_call \<Rightarrow> chain \<Rightarrow>
   (('w, 'm) route_state, 'e route_error, 'e routed) eff" where
  "route_chain rp call ch =
     flat_map (raising (walk_candidates rp call
       (order (ch_selectors ch) (ca_previous call) (ca_primary call) (ca_turn call)))) (\<lambda>r.
     case r of
       Some x \<Rightarrow> succeed x
     | None \<Rightarrow>
         flat_map (raising (earliest_open rp (ch_selectors ch) None)) (\<lambda>t.
         flat_map (raising (routing_of call None)) (\<lambda>facts.
         fail_with (ModelUnavailable (ch_category ch) (ch_nearestFallback ch) (or_else t 0) facts))))"

section \<open>The router\<close>

definition selector_ok :: "str \<Rightarrow> bool" where
  "selector_ok s \<longleftrightarrow>
     takeWhile (\<lambda>c. c \<noteq> CHR ''/'') s \<noteq> [] \<and>
     (case dropWhile (\<lambda>c. c \<noteq> CHR ''/'') s of
        [] \<Rightarrow> False
      | _ # rest \<Rightarrow> rest \<noteq> [] \<and> list_all (\<lambda>c. c \<noteq> CHR 0x0A \<and> c \<noteq> CHR 0x0D) rest)"

definition chain_row_ok :: "chain_row \<Rightarrow> bool" where
  "chain_row_ok r \<longleftrightarrow>
     (case cw_primary r of None \<Rightarrow> True | Some p \<Rightarrow> selector_ok p) \<and>
     cw_selectors r \<noteq> [] \<and> list_all selector_ok (cw_selectors r) \<and>
     (cw_category r \<noteq> None \<or> cw_primary r \<noteq> None)"

record route_request =
  rr_sessionId :: str
  rr_runId :: str
  rr_model :: provider_model
  rr_category :: "str option"
  rr_turn :: "str option"

definition start_usage :: usage where
  "start_usage = \<lparr>us_input = 0, us_output = 0, us_reasoning = 0, us_cacheRead = 0, us_cacheWrite = 0\<rparr>"

definition route_call_of ::
  "(str \<times> 'au) list \<Rightarrow> route_request \<Rightarrow> str \<Rightarrow> pin option \<Rightarrow> chain \<Rightarrow> 'au routing_call" where
  "route_call_of creds req primary previous ch =
     \<lparr>ca_sessionId = rr_sessionId req, ca_model = rr_model req, ca_primary = primary,
      ca_turn = or_else (rr_turn req) (rr_runId req), ca_previous = previous, ca_slots = creds,
      ca_category = ch_category ch\<rparr>"

definition primary_of :: "provider_model \<Rightarrow> str" where
  "primary_of model = pm_provider model @ CHR ''/'' # pm_id model"

definition start_call :: "'w \<Rightarrow> router_state \<Rightarrow> ('w, 'm) route_state" where
  "start_call w st =
     \<lparr>ro_world = w, ro_router = st, ro_candidate = fresh_candidate, ro_facts = [], ro_billed = start_usage,
      ro_billingPin = False, ro_sink = [], ro_log = []\<rparr>"

text \<open>
  \<^verbatim>\<open>createRouter\<close> parses its chain rows once (\<open>chain_row_ok\<close>) and keeps one router
  state for all its calls; a call without a configured chain goes straight to
  the provider.
\<close>

definition route ::
  "('w, 'au, 'e, 'm) router_ports \<Rightarrow> chain_row list \<Rightarrow> (str \<times> 'au) list \<Rightarrow> route_request \<Rightarrow> 'w \<Rightarrow> router_state \<Rightarrow>
   (('e route_error, 'e routed) exit \<times> ('w, 'm) route_state) + (('e, 'e run_outcome) exit \<times> 'w)" where
  "route rp rows creds req w st =
     (let primary = primary_of (rr_model req); ch = candidates rows primary (rr_category req) in
      if \<not> ch_configured ch then Inr (rp_plainRun rp w)
      else
        Inl (route_chain rp (route_call_of creds req primary (rt_pins st (rr_sessionId req)) ch) ch (start_call w st)))"

end
