(* ===== verification/Router_Laws.thy ===== *)
theory Router_Laws
  imports Router_Call
begin

text \<open>
  How the router's shared state evolves.  Other calls of the same router may run
  wherever a call waits; what a call relies on is that an entry they write is a
  shared constant, a fresh object or the object that was there, and that is
  also what every call guarantees.  Under that condition the leases a call has
  taken can only be found where it put them.
\<close>

named_theorems tame_rules

section \<open>Rely and guarantee\<close>

definition entries_evolve :: "nat \<Rightarrow> nat \<Rightarrow> (str \<Rightarrow> 'v obj option) \<Rightarrow> (str \<Rightarrow> 'v obj option) \<Rightarrow> bool" where
  "entries_evolve n n' m m' \<longleftrightarrow>
     (\<forall>k c. m' k = Some c \<longrightarrow> fst c = 0 \<or> n \<le> fst c \<and> fst c < n' \<or> (\<exists>d. m k = Some d \<and> fst d = fst c))"

definition router_evolves :: "router_state \<Rightarrow> router_state \<Rightarrow> bool" where
  "router_evolves st st' \<longleftrightarrow>
     rt_fresh st \<le> rt_fresh st' \<and>
     entries_evolve (rt_fresh st) (rt_fresh st') (rt_circuits st) (rt_circuits st') \<and>
     entries_evolve (rt_fresh st) (rt_fresh st') (rt_credentials st) (rt_credentials st')"

lemma entries_evolve_refl [simp]: "entries_evolve n n' m m"
  by (auto simp: entries_evolve_def)

lemma entries_evolveD:
  "entries_evolve n n' m m' \<Longrightarrow> m' k = Some c \<Longrightarrow>
     fst c = 0 \<or> n \<le> fst c \<and> fst c < n' \<or> (\<exists>d. m k = Some d \<and> fst d = fst c)"
  unfolding entries_evolve_def by blast

lemma entries_evolve_trans:
  assumes "entries_evolve n n' m m'" and "entries_evolve n' n'' m' m''" and "n \<le> n'" and "n' \<le> n''"
  shows "entries_evolve n n'' m m''"
  unfolding entries_evolve_def
proof (intro allI impI)
  fix k c assume "m'' k = Some c"
  from entries_evolveD [OF assms(2) this]
  consider "fst c = 0" | "n' \<le> fst c" "fst c < n''" | d where "m' k = Some d" "fst d = fst c" by (elim disjE conjE exE)
  then show "fst c = 0 \<or> n \<le> fst c \<and> fst c < n'' \<or> (\<exists>d. m k = Some d \<and> fst d = fst c)"
  proof cases
    case 3
    with entries_evolveD [OF assms(1) 3(1)] assms(4) show ?thesis by auto
  qed (use assms(3) in auto)
qed

lemma entries_evolve_put:
  "fst c = 0 \<or> n \<le> fst c \<and> fst c < n' \<or> (\<exists>d. m k = Some d \<and> fst d = fst c) \<Longrightarrow> entries_evolve n n' m (m(k \<mapsto> c))"
  by (auto simp: entries_evolve_def)

lemma router_evolves_refl [simp]: "router_evolves st st"
  by (simp add: router_evolves_def)

lemma router_evolves_trans:
  "router_evolves a b \<Longrightarrow> router_evolves b c \<Longrightarrow> router_evolves a c"
  unfolding router_evolves_def by (meson entries_evolve_trans le_trans)

lemma evolves_fields [simp]:
  "router_evolves st (st\<lparr>rt_streaks := h\<rparr>)" "router_evolves st (st\<lparr>rt_pins := p\<rparr>)"
  by (simp_all add: router_evolves_def)

lemma evolves_new_circuit [simp]: "router_evolves st (new_circuit k c st)"
  by (simp add: router_evolves_def new_circuit_def put_circuit_def entries_evolve_put)

lemma evolves_new_credential [simp]: "router_evolves st (new_credential k c st)"
  by (simp add: router_evolves_def new_credential_def put_credential_def entries_evolve_put)

lemma evolves_put_current [simp]:
  "router_evolves st (put_circuit k (get_circuit k st) st)"
  "router_evolves st (put_credential k (get_credential k st) st)"
  by (auto simp: router_evolves_def put_circuit_def put_credential_def get_circuit_def get_credential_def or_else_def
      intro!: entries_evolve_put split: option.split)

lemma evolves_releases [simp]:
  "router_evolves st (close_circuit k c st)" "router_evolves st (free_credential k d st)"
  "router_evolves st (release_circuit k c st)" "router_evolves st (release_credential k d st)"
  by (auto simp: close_circuit_def free_credential_def release_circuit_def release_credential_def)
     (auto simp: router_evolves_def put_circuit_def put_credential_def intro!: entries_evolve_put)

text \<open>What a call relies on of the calls that run beside it.\<close>

definition well_behaved :: "('w, 'au, 'e, 'm) router_ports \<Rightarrow> bool" where
  "well_behaved rp \<longleftrightarrow> (\<forall>w st. router_evolves st (fst (rp_others rp w) st))"

section \<open>Tame programs\<close>

text \<open>A program is tame when it keeps the guarantee and leaves the call's log alone.\<close>

definition tame :: "('w, 'm, 'e, 'a) routing \<Rightarrow> bool" where
  "tame m \<longleftrightarrow> (\<forall>s. router_evolves (ro_router s) (ro_router (snd (m s))) \<and> ro_log (snd (m s)) = ro_log s)"

lemma tame_flat_map [tame_rules]: "tame m \<Longrightarrow> (\<And>a. tame (f a)) \<Longrightarrow> tame (flat_map m f)"
proof -
  assume m: "tame m" and f: "\<And>a. tame (f a)"
  show ?thesis
    unfolding tame_def
  proof
    fix s
    obtain r t where r: "m s = (r, t)" by (cases "m s")
    from m r have t: "router_evolves (ro_router s) (ro_router t)" "ro_log t = ro_log s"
      unfolding tame_def by (metis snd_conv)+
    show "router_evolves (ro_router s) (ro_router (snd (flat_map m f s))) \<and> ro_log (snd (flat_map m f s)) = ro_log s"
    proof (cases r)
      case (Done a)
      from f [of a] have "router_evolves (ro_router t) (ro_router (snd (f a t)))" "ro_log (snd (f a t)) = ro_log t"
        by (simp_all add: tame_def)
      with t router_evolves_trans [OF t(1)] show ?thesis by (simp add: flat_map_def r Done)
    qed (simp add: flat_map_def r t)
  qed
qed

lemma tame_basic [tame_rules]:
  "tame (succeed a)" "tame (fail_with e)" "tame (fail_cause c)" "tame interrupted"
  by (simp_all add: tame_def effect_defs)

lemma tame_if [tame_rules]: "tame m \<Longrightarrow> tame n \<Longrightarrow> tame (if b then m else n)"
  by simp

lemma tame_option [tame_rules]: "tame m \<Longrightarrow> (\<And>x. tame (f x)) \<Longrightarrow> tame (case v of None \<Rightarrow> m | Some x \<Rightarrow> f x)"
  by (cases v) simp_all

lemma tame_prod [tame_rules]: "(\<And>x y. tame (f x y)) \<Longrightarrow> tame (case p of (x, y) \<Rightarrow> f x y)"
  by (cases p) simp

lemma tame_ports [tame_rules]:
  "tame (on_world f)" "tame (now rp)" "tame (router g)" "tame (cand h)" "tame (set_cand u)"
  "tame (push_routing a b c d e)" "tame (to_sink es)" "tame (routing_of call sel)"
  by (simp_all add: tame_def on_world_def now_def router_def cand_def set_cand_def push_routing_def to_sink_def
      routing_of_def effect_defs split: prod.split)

lemma tame_fields [tame_rules]:
  "tame (sync (\<lambda>s. (f s, s)))" "tame (update (\<lambda>s. s\<lparr>ro_billed := g s\<rparr>))" "tame (update (\<lambda>s. s\<lparr>ro_billingPin := b\<rparr>))"
  by (simp_all add: tame_def effect_defs)

lemma tame_change: "(\<And>st. router_evolves st (f st)) \<Longrightarrow> tame (change f)"
  by (simp add: tame_def change_def effect_defs)

lemma tame_changes [tame_rules]:
  "tame (change (new_circuit k c))" "tame (change (new_credential k d))"
  "tame (change (close_circuit k e))" "tame (change (free_credential k g))"
  "tame (change (\<lambda>st. st\<lparr>rt_streaks := h st\<rparr>))" "tame (change (\<lambda>st. st\<lparr>rt_pins := p st\<rparr>))"
  by (rule tame_change, simp)+

lemma tame_others: "well_behaved rp \<Longrightarrow> tame (others_run rp)"
  by (auto simp: tame_def others_run_def change_def on_world_def well_behaved_def effect_defs split: prod.split)
     (metis fst_conv)

lemma tame_open_candidate [tame_rules]: "tame (open_candidate rp sel lease h)"
  unfolding open_candidate_def by (intro tame_rules)

lemma tame_block_slot [tame_rules]: "tame (block_slot rp key lease reason h)"
  unfolding block_slot_def Let_def by (intro tame_rules)

lemma tame_healthStreak [tame_rules]: "tame (healthStreak rp sel lease failure ph started)"
  unfolding healthStreak_def by (intro tame_rules)

lemma tame_any_sibling [tame_rules]: "tame (any_sibling rp sls)"
  by (induction sls) (auto intro!: tame_rules)

lemma tame_small [tame_rules]:
  "tame (set_pin sid p)" "tame (selectPin call sel key)" "tame (route_hint rp e)" "tame (flush r)"
  "tame (settle_route call outcome selected)" "tame (chargeAttempt rp x)" "tame (on_delta call sel lease key cl)"
  unfolding set_pin_def selectPin_def route_hint_def flush_def settle_route_def chargeAttempt_def on_delta_def
  by (intro tame_rules)+

lemma tame_failureStep [tame_rules]: "tame (failureStep rp call sel model lease rest slot cl started result e b)"
  unfolding failureStep_def Let_def
  by (intro tame_rules, simp split: route_action.split option.split, intro conjI allI impI tame_rules)

lemma tame_settle_slot [tame_rules]: "tame (settle_slot rp call sel model lease rest slot cl started result)"
  unfolding settle_slot_def
  by (rule tame_flat_map, rule tame_rules, cases "ar_outcome result") (simp_all, (intro tame_rules)+)

end
