(* ===== verification/Router_Leases.thy ===== *)
theory Router_Leases
  imports Router_Laws
begin

text \<open>
  Two disciplines of a routing call, proved together by one walk over its code:
  once output has been shown no further attempt starts, and every half-open
  circuit and probing credential the call took is given back on every exit.
\<close>

section \<open>Leases\<close>

definition unheld ::
  "(str \<times> nat) option \<Rightarrow> nat set \<Rightarrow> nat \<Rightarrow> (str \<Rightarrow> 'v obj option) \<Rightarrow> bool" where
  "unheld x owned n m \<longleftrightarrow>
     (\<forall>k c. m k = Some c \<longrightarrow> fst c < n) \<and>
     (\<forall>a \<in> owned. 0 < a \<and> a < n \<and> (\<forall>k c. m k = Some c \<and> fst c = a \<longrightarrow> x = Some (k, a)))"

lemma unheld_bounds:
  "unheld x owned n m \<Longrightarrow> m k = Some c \<Longrightarrow> fst c < n"
  "unheld x owned n m \<Longrightarrow> a \<in> owned \<Longrightarrow> 0 < a \<and> a < n"
  "unheld x owned n m \<Longrightarrow> a \<in> owned \<Longrightarrow> m k = Some c \<Longrightarrow> fst c = a \<Longrightarrow> x = Some (k, a)"
  unfolding unheld_def by blast+

lemma unheld_evolve:
  assumes u: "unheld x owned n m" and e: "entries_evolve n n' m m'" and n: "n \<le> n'" "0 < n"
  shows "unheld x owned n' m'"
  unfolding unheld_def
proof (intro ballI conjI allI impI)
  have entry: "fst c = 0 \<or> n \<le> fst c \<and> fst c < n' \<or> (\<exists>d. m k = Some d \<and> fst d = fst c)" if "m' k = Some c" for k c
    using entries_evolveD [OF e that] .
  {
    fix k c assume "m' k = Some c"
    then show "fst c < n'" using entry n unheld_bounds(1) [OF u] by (metis less_le_trans)
  }
  fix a assume a: "a \<in> owned"
  then show "0 < a" "a < n'" using unheld_bounds(2) [OF u] n by fastforce+
  fix k c assume c: "m' k = Some c \<and> fst c = a"
  then obtain d where "m k = Some d" and "fst d = a"
    using entry [of k c] unheld_bounds(2) [OF u a] by auto
  then show "x = Some (k, a)" by (rule unheld_bounds(3) [OF u a])
qed

definition circuit_leases :: "call_event list \<Rightarrow> nat set" where
  "circuit_leases es = {a. \<exists>k. CLeased k a \<in> set es}"

definition credential_leases :: "call_event list \<Rightarrow> nat set" where
  "credential_leases es = {a. \<exists>k. CProbing k a \<in> set es}"

lemma leases_snoc [simp]:
  "circuit_leases (es @ [CProbing k a]) = circuit_leases es"
  "credential_leases (es @ [CProbing k a]) = insert a (credential_leases es)"
  "circuit_leases (es @ [CLeased k a]) = insert a (circuit_leases es)"
  "credential_leases (es @ [CLeased k a]) = credential_leases es"
  by (auto simp: circuit_leases_def credential_leases_def)

definition leases :: "router_state \<Rightarrow> (str \<times> nat) option \<Rightarrow> (str \<times> nat) option \<Rightarrow> ('w, 'm) route_state \<Rightarrow> bool" where
  "leases og x y s \<longleftrightarrow>
     0 < rt_fresh (ro_router s) \<and> router_evolves og (ro_router s) \<and>
     unheld x (circuit_leases (ro_log s)) (rt_fresh (ro_router s)) (rt_circuits (ro_router s)) \<and>
     unheld y (credential_leases (ro_log s)) (rt_fresh (ro_router s)) (rt_credentials (ro_router s))"

lemma leases_evolve:
  assumes "leases og x y s" and "router_evolves (ro_router s) (ro_router t)"
    and "circuit_leases (ro_log t) = circuit_leases (ro_log s)" and "credential_leases (ro_log t) = credential_leases (ro_log s)"
  shows "leases og x y t"
proof -
  have "router_evolves og (ro_router t)"
    using assms(1,2) router_evolves_trans by (auto simp: leases_def)
  with assms show ?thesis
    unfolding leases_def router_evolves_def [of "ro_router s"] by (auto intro: unheld_evolve)
qed

text \<open>A fresh object in place of an entry.\<close>

lemma evolves_fresh:
  "router_evolves og st \<Longrightarrow>
     router_evolves og (st\<lparr>rt_credentials := (rt_credentials st)(k \<mapsto> (rt_fresh st, c)), rt_fresh := Suc (rt_fresh st)\<rparr>)"
  "router_evolves og st \<Longrightarrow>
     router_evolves og (st\<lparr>rt_circuits := (rt_circuits st)(k \<mapsto> (rt_fresh st, d)), rt_fresh := Suc (rt_fresh st)\<rparr>)"
  using router_evolves_trans [OF _ evolves_new_credential [of st k c]] router_evolves_trans [OF _ evolves_new_circuit [of st k d]]
  by (simp_all add: new_credential_def put_credential_def new_circuit_def put_circuit_def)

section \<open>Output\<close>

fun orderly :: "call_event list \<Rightarrow> bool" where
  "orderly [] \<longleftrightarrow> True"
| "orderly (CShown # es) \<longleftrightarrow> list_all (\<lambda>e. case e of CTried _ _ \<Rightarrow> False | _ \<Rightarrow> True) es"
| "orderly (e # es) \<longleftrightarrow> orderly es"

definition quiet :: "call_event list \<Rightarrow> bool" where
  "quiet es \<longleftrightarrow> CShown \<notin> set es"

lemma list_all_orderly: "list_all (\<lambda>e. case e of CTried _ _ \<Rightarrow> False | _ \<Rightarrow> True) es \<Longrightarrow> orderly es"
  by (induction es rule: orderly.induct) auto

lemma quiet_orderly: "quiet es \<Longrightarrow> orderly es"
  by (induction es rule: orderly.induct) (auto simp: quiet_def)

lemma orderly_snoc:
  "orderly es \<Longrightarrow> (case e of CTried _ _ \<Rightarrow> False | _ \<Rightarrow> True) \<Longrightarrow> orderly (es @ [e])"
  by (induction es rule: orderly.induct) (auto split: call_event.splits)

text \<open>The two states of a call: nothing shown yet, or free to end.\<close>

definition calm :: "router_state \<Rightarrow> (str \<times> nat) option \<Rightarrow> (str \<times> nat) option \<Rightarrow> ('w, 'm) route_state \<Rightarrow> bool" where
  "calm og x y s \<longleftrightarrow> leases og x y s \<and> quiet (ro_log s)"

definition ending :: "router_state \<Rightarrow> (str \<times> nat) option \<Rightarrow> (str \<times> nat) option \<Rightarrow> ('w, 'm) route_state \<Rightarrow> bool" where
  "ending og x y s \<longleftrightarrow> leases og x y s \<and> orderly (ro_log s)"

lemma calm_ending: "calm og x y s \<Longrightarrow> ending og x y s"
  by (simp add: calm_def ending_def quiet_orderly)

lemma tame_keeps:
  assumes "tame m"
  shows "meets (calm og x y) m (\<lambda>_. calm og x y) (\<lambda>_. calm og x y)" "meets (ending og x y) m (\<lambda>_. ending og x y) (\<lambda>_. ending og x y)"
proof -
  have "calm og x y (snd (m s))" if "calm og x y s" for s
    using assms that unfolding calm_def tame_def by (metis leases_evolve)
  then show "meets (calm og x y) m (\<lambda>_. calm og x y) (\<lambda>_. calm og x y)"
    by (auto simp: meets_def) (metis snd_conv)+
  have "ending og x y (snd (m s))" if "ending og x y s" for s
    using assms that unfolding ending_def tame_def by (metis leases_evolve)
  then show "meets (ending og x y) m (\<lambda>_. ending og x y) (\<lambda>_. ending og x y)"
    by (auto simp: meets_def) (metis snd_conv)+
qed

lemma leases_other_log:
  "leases og x y s \<Longrightarrow> \<forall>k a. e \<noteq> CLeased k a \<and> e \<noteq> CProbing k a \<Longrightarrow> leases og x y (s\<lparr>ro_log := ro_log s @ [e]\<rparr>)"
  by (rule leases_evolve [of og x y s]) (auto simp: circuit_leases_def credential_leases_def)

text \<open>
  A cause with a typed failure in it can be handled and followed by another
  candidate, so it must leave the call calm.
\<close>

definition halted :: "router_state \<Rightarrow> (str \<times> nat) option \<Rightarrow> (str \<times> nat) option \<Rightarrow> 'e cause \<Rightarrow> ('w, 'm) route_state \<Rightarrow> bool" where
  "halted og x y c s \<longleftrightarrow> ending og x y s \<and> (findErrorOption c \<noteq> None \<longrightarrow> calm og x y s)"

lemma calm_halted: "calm og x y s \<Longrightarrow> halted og x y c s"
  by (simp add: halted_def calm_ending)

lemma tame_calm: "tame m \<Longrightarrow> meets (calm og x y) m (\<lambda>_. calm og x y) (halted og x y)"
  by (rule meets_weaken [OF tame_keeps(1)]) (auto intro: calm_halted)

lemma log_tried: "meets (calm og x y) (log_call (CTried a b)) (\<lambda>_. calm og x y) (halted og x y)"
  by (auto simp: meets_def log_call_def effect_defs calm_def quiet_def intro: leases_other_log)

lemma log_shown: "meets (ending og x y) (log_call CShown) (\<lambda>_. ending og x y) E"
  by (auto simp: meets_def log_call_def effect_defs ending_def intro: leases_other_log orderly_snoc)

section \<open>Programs that cannot halt\<close>

named_theorems total_rules

definition unhalting :: "('s, 'e, 'a) eff \<Rightarrow> bool" where
  "unhalting m \<longleftrightarrow> (\<forall>s. \<exists>a t. m s = (Done a, t))"

lemma total_flat_map [total_rules]: "unhalting m \<Longrightarrow> (\<And>a. unhalting (f a)) \<Longrightarrow> unhalting (flat_map m f)"
  unfolding unhalting_def by (metis flat_map_Done)

lemma total_basic [total_rules]: "unhalting (succeed a)" "unhalting (sync f)" "unhalting (update g)"
  by (simp_all add: unhalting_def effect_defs split: prod.split)

lemma total_if [total_rules]: "unhalting m \<Longrightarrow> unhalting n \<Longrightarrow> unhalting (if b then m else n)"
  by simp

lemma total_option [total_rules]: "unhalting m \<Longrightarrow> (\<And>x. unhalting (f x)) \<Longrightarrow> unhalting (case v of None \<Rightarrow> m | Some x \<Rightarrow> f x)"
  by (cases v) simp_all

lemma total_prod [total_rules]: "(\<And>x y. unhalting (f x y)) \<Longrightarrow> unhalting (case p of (x, y) \<Rightarrow> f x y)"
  by (cases p) simp

lemma total_ports [total_rules]:
  "unhalting (on_world (sync f))" "unhalting (now rp)" "unhalting (router g)" "unhalting (cand h)" "unhalting (set_cand u)"
  "unhalting (push_routing a b c d e)" "unhalting (to_sink es)" "unhalting (routing_of call sel)" "unhalting (change k)"
  by (simp_all add: unhalting_def on_world_def now_def router_def cand_def set_cand_def push_routing_def to_sink_def
      routing_of_def change_def effect_defs split: prod.split)

lemma total_any_sibling [total_rules]: "unhalting (any_sibling rp sls)"
  by (induction sls) (auto intro!: total_rules)

lemma total_small [total_rules]:
  "unhalting (set_pin sid p)" "unhalting (selectPin call sel key)" "unhalting (route_hint rp e)" "unhalting (flush r)"
  "unhalting (chargeAttempt rp x)" "unhalting (open_candidate rp sel lease h)" "unhalting (healthStreak rp sel lease failure ph started)"
  unfolding set_pin_def selectPin_def route_hint_def flush_def chargeAttempt_def open_candidate_def healthStreak_def
  by (intro total_rules)+

definition settles :: "('s, 'e, 'e route_step) eff \<Rightarrow> bool" where
  "settles m \<longleftrightarrow> (\<forall>s. \<exists>r t. m s = (Done (Settled r), t))"

lemma settles_flat_map: "unhalting m \<Longrightarrow> (\<And>a. settles (f a)) \<Longrightarrow> settles (flat_map m f)"
  unfolding unhalting_def settles_def by (metis flat_map_Done)

lemma settles_settle_route: "settles (settle_route call outcome selected)"
  unfolding settle_route_def
  by (intro settles_flat_map total_rules) (simp add: settles_def succeed_def)

lemma decide_streaming:
  "decide_route failure Streaming hint =
     (if failure = Aborted then \<lparr>rd_action = AAbort, rd_pin = None, rd_block = None\<rparr> else surface)"
  by (simp add: decide_route_def)

text \<open>After output was shown, a failed run that returned its error is the answer of the call.\<close>

lemma failureStep_settles:
  assumes "ar_phase result = Streaming"
  shows "settles (failureStep rp call sel model lease rest slot cl started result e False)"
  unfolding failureStep_def Let_def assms decide_streaming
  by (intro settles_flat_map total_rules)
     (auto simp: surface_def intro!: settles_flat_map total_rules settles_settle_route)

lemma settle_slot_settles:
  assumes "ar_phase result = Streaming" and "\<And>e. ar_outcome result \<noteq> RunFailure e"
  shows "settles (settle_slot rp call sel model lease rest slot cl started result)"
  unfolding settle_slot_def using assms
  by (cases "ar_outcome result")
     (auto intro!: settles_flat_map total_rules settles_settle_route failureStep_settles)

section \<open>Attempts\<close>

definition in_phase :: "router_state \<Rightarrow> attempt_phase_kind \<Rightarrow> (str \<times> nat) option \<Rightarrow> (str \<times> nat) option \<Rightarrow> ('w, 'm) route_state \<Rightarrow> bool" where
  "in_phase og ph x y s \<longleftrightarrow> (if ph = PreRequest then calm og x y s else ending og x y s)"

lemma in_phase_ending: "in_phase og ph x y s \<Longrightarrow> ending og x y s"
  by (auto simp: in_phase_def calm_ending split: if_splits)

lemma tame_in_phase: "tame m \<Longrightarrow> meets (in_phase og ph x y) m (\<lambda>_. in_phase og ph x y) (\<lambda>_. ending og x y)"
  unfolding in_phase_def using tame_keeps [of m og x y]
  by (cases ph) (auto elim!: meets_weaken intro: calm_ending)

lemma shows_output: "meets (in_phase og ph x y) (log_call CShown) (\<lambda>_. in_phase og Streaming x y) E"
  by (rule meets_weaken [OF log_shown]) (auto simp: in_phase_def calm_ending split: if_splits)

lemma run_events_keeps:
  assumes "well_behaved rp" and "tame onDelta"
  shows "meets (in_phase og ph x y) (run_events rp onDelta es ph pending) (\<lambda>r. in_phase og (fst r) x y) (\<lambda>_. ending og x y)"
  using assms
  by (induction rp onDelta es ph pending rule: run_events.induct)
     (auto intro!: meets_flat_map [OF tame_in_phase] meets_flat_map [OF shows_output] tame_rules meets_succeed tame_others
       split: option.split)

lemma unhalting_meets: "unhalting m \<Longrightarrow> meets P m Q E \<Longrightarrow> meets P m Q E'"
  unfolding unhalting_def meets_def by (metis exit.distinct(1) fst_conv)

lemma total_events [total_rules]:
  "unhalting (log_call e)" "unhalting (others_run rp)" "unhalting (on_delta call sel lease key cl)"
  unfolding log_call_def others_run_def on_delta_def by (intro total_rules)+

lemma total_run_events: "unhalting onDelta \<Longrightarrow> unhalting (run_events rp onDelta es ph pending)"
  by (induction rp onDelta es ph pending rule: run_events.induct) (auto intro!: total_rules)

text \<open>
  \<^verbatim>\<open>run\<close> raises only before it opened its stream: everything later is returned as
  an outcome.
\<close>

definition shows_event :: "'m run_event \<Rightarrow> bool" where
  "shows_event e \<longleftrightarrow> (case e of OnToolCall _ \<Rightarrow> True | StreamEvent ty \<Rightarrow> starts_output ty | _ \<Rightarrow> False)"

definition raises_early :: "('w, 'au, 'e, 'm) router_ports \<Rightarrow> bool" where
  "raises_early rp \<longleftrightarrow>
     (\<forall>input w events e w'. rp_run rp input w = ((events, Some (RunFailure e)), w') \<longrightarrow> \<not> list_ex shows_event events)"

lemma run_events_silent:
  "\<not> list_ex shows_event es \<Longrightarrow> run_events rp onDelta es ph pending s = (Done r, t) \<Longrightarrow> fst r = ph"
  by (induction rp onDelta es ph pending arbitrary: s rule: run_events.induct)
     (auto simp: shows_event_def flat_map_Done succeed_def split: if_splits)

lemma attempt_keeps:
  assumes "well_behaved rp" and "raises_early rp" and "tame onDelta" and "unhalting onDelta"
  shows "meets (calm og x y) (attempt rp input onDelta)
     (\<lambda>r s. in_phase og (ar_phase r) x y s \<and> (\<forall>e. ar_outcome r = RunFailure e \<longrightarrow> ar_phase r = PreRequest)) (halted og x y)"
  unfolding attempt_def
proof (rule meets_flat_map)
  let ?early = "\<lambda>p. \<forall>e. snd p = Some (RunFailure e) \<longrightarrow> \<not> list_ex shows_event (fst p)"
  show "meets (calm og x y) (on_world (sync (rp_run rp input))) (\<lambda>p s. ?early p \<and> calm og x y s) (halted og x y)"
  proof (rule meetsI)
    fix s p t assume s: "calm og x y s" and m: "on_world (sync (rp_run rp input)) s = (Done p, t)"
    have "calm og x y t" using tame_ports(1) tame_calm meets_Done s m by metis
    moreover from m have "rp_run rp input (ro_world s) = (p, ro_world t)"
      by (auto simp: on_world_def sync_def split: prod.splits)
    then have "?early p" using assms(2) unfolding raises_early_def by (metis prod.collapse)
    ultimately show "?early p \<and> calm og x y t" by blast
  qed (metis tame_ports(1) tame_calm meets_Halt)
  fix p :: "'d run_event list \<times> 'c run_outcome option"
  obtain es oc where p: "p = (es, oc)" by (cases p)
  let ?last = "\<lambda>(ph, pending). case oc of None \<Rightarrow> interrupted
      | Some r \<Rightarrow> succeed \<lparr>ar_outcome = r, ar_phase = ph, ar_pending = pending\<rparr>"
  let ?done = "\<lambda>r s. in_phase og (ar_phase r) x y s \<and> (\<forall>e. ar_outcome r = RunFailure e \<longrightarrow> ar_phase r = PreRequest)"
  let ?mid = "\<lambda>r s. (\<forall>e. oc = Some (RunFailure e) \<longrightarrow> fst r = PreRequest) \<and> in_phase og (fst r) x y s"
  have "meets (\<lambda>s. ?early p \<and> calm og x y s) (run_events rp onDelta es PreRequest None) ?mid (halted og x y)"
  proof (rule unhalting_meets [OF total_run_events [OF assms(4)], where E = "\<lambda>_. ending og x y"], rule meetsI)
    fix s r t assume s: "?early p \<and> calm og x y s" and m: "run_events rp onDelta es PreRequest None s = (Done r, t)"
    have "in_phase og (fst r) x y t"
      using meets_Done [OF run_events_keeps [OF assms(1,3)] _ m] s by (simp add: in_phase_def)
    moreover have "fst r = PreRequest" if "oc = Some (RunFailure e)" for e
      using run_events_silent [OF _ m] s that by (simp add: p)
    ultimately show "?mid r t" by blast
  next
    fix s c t assume "?early p \<and> calm og x y s" and "run_events rp onDelta es PreRequest None s = (Halt c, t)"
    then show "ending og x y t"
      using meets_Halt [OF run_events_keeps [OF assms(1,3)], of og PreRequest x y] by (auto simp: in_phase_def)
  qed
  moreover have "meets (?mid r) (?last r) ?done (halted og x y)" for r
    by (cases oc) (auto simp: meets_def effect_defs halted_def findErrorOption_def map_filter_def split: prod.splits
        intro: in_phase_ending)
  ultimately show "meets (\<lambda>s. ?early p \<and> calm og x y s)
      (case p of (es, oc) \<Rightarrow> flat_map (run_events rp onDelta es PreRequest None) (\<lambda>(ph, pending). case oc of None \<Rightarrow> interrupted
        | Some r \<Rightarrow> succeed \<lparr>ar_outcome = r, ar_phase = ph, ar_pending = pending\<rparr>)) ?done (halted og x y)"
    unfolding p prod.case by (rule meets_flat_map)
qed

definition after_step ::
  "router_state \<Rightarrow> (str \<times> nat) option \<Rightarrow> (str \<times> nat) option \<Rightarrow> 'e route_step \<Rightarrow> ('w, 'm) route_state \<Rightarrow> bool" where
  "after_step og x y step s \<longleftrightarrow> (case step of Settled _ \<Rightarrow> ending og x y s | _ \<Rightarrow> calm og x y s)"

lemma calm_after_step: "calm og x y s \<Longrightarrow> after_step og x y step s"
  by (auto simp: after_step_def calm_ending split: route_step.split)

lemma settle_slot_keeps:
  assumes "\<And>e. ar_outcome result = RunFailure e \<Longrightarrow> ar_phase result = PreRequest"
  shows "meets (in_phase og (ar_phase result) x y) (settle_slot rp call sel model lease rest slot cl started result)
     (after_step og x y) (halted og x y)"
proof (cases "ar_phase result")
  case PreRequest
  have "meets (calm og x y) (settle_slot rp call sel model lease rest slot cl started result) (\<lambda>_. calm og x y) (halted og x y)"
    by (intro tame_calm tame_rules)
  then show ?thesis by (rule meets_weaken) (auto simp: PreRequest in_phase_def calm_after_step)
next
  case Streaming
  have st: "settles (settle_slot rp call sel model lease rest slot cl started result)"
    using assms Streaming by (intro settle_slot_settles) auto
  have "meets (ending og x y) (settle_slot rp call sel model lease rest slot cl started result)
      (\<lambda>_. ending og x y) (\<lambda>_. ending og x y)" by (intro tame_keeps tame_rules)
  with st show ?thesis
    unfolding meets_def settles_def in_phase_def after_step_def Streaming
    by (metis (no_types, lifting) attempt_phase_kind.distinct(1) exit.distinct(1) exit.inject(1) fst_conv
        route_step.simps(10))
qed

section \<open>Taking and giving back\<close>

definition probe_of :: "str \<Rightarrow> credential obj \<Rightarrow> (str \<times> nat) option" where
  "probe_of key cl = (if cr_probing (snd cl) then Some (key, fst cl) else None)"

definition lease_of :: "str \<Rightarrow> circuit obj \<Rightarrow> (str \<times> nat) option" where
  "lease_of sel cl = (if ci_halfOpenLeased (snd cl) then Some (sel, fst cl) else None)"

lemma unheld_replaced:
  "unheld (Some (k, a)) owned n m \<Longrightarrow> unheld None owned (Suc n) (m(k \<mapsto> (n, c)))"
  unfolding unheld_def by (auto split: if_splits simp: less_Suc_eq) blast

lemma unheld_absent:
  "unheld (Some (k, a)) owned n m \<Longrightarrow> (\<And>d. m k = Some d \<Longrightarrow> fst d \<noteq> a) \<Longrightarrow> unheld None owned n m"
  unfolding unheld_def by (metis option.inject prod.inject)

lemma unheld_more: "unheld x owned n m \<Longrightarrow> unheld x owned (Suc n) m"
  unfolding unheld_def by (auto simp: less_Suc_eq)

lemma unheld_taken:
  assumes "unheld None owned n m" and "0 < n"
  shows "unheld (Some (k, n)) (insert n owned) (Suc n) (m(k \<mapsto> (n, c)))"
  using assms unfolding unheld_def by (auto split: if_splits simp: less_Suc_eq) blast

lemma leases_release_credential:
  assumes "leases og x (probe_of key cl) s"
  shows "leases og x None (s\<lparr>ro_router := release_credential key cl (ro_router s)\<rparr>)"
  using assms
  by (auto simp: leases_def release_credential_def probe_of_def holds_credential_def new_credential_def put_credential_def
      unheld_more unheld_replaced intro: unheld_absent evolves_fresh split: if_splits option.splits)

lemma leases_release_circuit:
  assumes "leases og (lease_of sel cl) y s"
  shows "leases og None y (s\<lparr>ro_router := release_circuit sel cl (ro_router s)\<rparr>)"
  using assms
  by (auto simp: leases_def release_circuit_def lease_of_def holds_circuit_def new_circuit_def put_circuit_def
      unheld_more unheld_replaced intro: unheld_absent evolves_fresh split: if_splits option.splits)

lemma take_credential_keeps:
  assumes "l = credential_lease (snd current) t" and "l \<noteq> Refused"
  shows "meets (\<lambda>s. current = get_credential key (ro_router s) \<and> calm og x None s) (take_credential key current l)
     (\<lambda>cl. calm og x (probe_of key cl)) (halted og x None)"
proof (cases l)
  case Keep
  then have np: "probe_of key current = None" using assms(1) by (auto simp: credential_lease_def probe_of_def split: if_splits)
  show ?thesis
    unfolding take_credential_def Keep leased.case
    using evolves_put_current(2) np
    by (auto simp: meets_def change_def effect_defs calm_def intro: leases_evolve)
next
  case (Fresh c)
  then have p: "cr_probing c" using assms(1) by (auto simp: credential_lease_def split: if_splits)
  show ?thesis
    unfolding take_credential_def Fresh leased.case
    by (auto simp: meets_def change_def router_def log_call_def effect_defs calm_def quiet_def leases_def probe_of_def p
        new_credential_def put_credential_def intro: unheld_more unheld_taken evolves_fresh)
qed (use assms in simp)

lemma take_circuit_keeps:
  assumes "l = circuit_lease (snd current) t" and "l \<noteq> Refused"
  shows "meets (\<lambda>s. current = get_circuit sel (ro_router s) \<and> calm og None y s) (take_circuit sel current l)
     (\<lambda>cl. calm og (lease_of sel cl) y) (halted og None y)"
proof (cases l)
  case Keep
  then have np: "lease_of sel current = None" using assms(1) by (auto simp: circuit_lease_def lease_of_def split: if_splits)
  show ?thesis
    unfolding take_circuit_def Keep leased.case
    using evolves_put_current(1) np
    by (auto simp: meets_def change_def effect_defs calm_def intro: leases_evolve)
next
  case (Fresh c)
  then have p: "ci_halfOpenLeased c" using assms(1) by (auto simp: circuit_lease_def split: if_splits)
  show ?thesis
    unfolding take_circuit_def Fresh leased.case
    by (auto simp: meets_def change_def router_def log_call_def effect_defs calm_def quiet_def leases_def lease_of_def p
        new_circuit_def put_circuit_def intro: unheld_more unheld_taken evolves_fresh)
qed (use assms in simp)

section \<open>The walk\<close>

lemma finish_slot:
  assumes "leases og x (probe_of key cl) s \<Longrightarrow> leases og x None t" and "ro_log t = ro_log s"
  shows "after_step og x (probe_of key cl) step s \<Longrightarrow> after_step og x None step t"
    and "halted og x (probe_of key cl) c s \<Longrightarrow> halted og x None c t"
  using assms by (auto simp: after_step_def halted_def calm_def ending_def split: route_step.splits)

lemma runSlot_keeps:
  assumes "well_behaved rp" and "raises_early rp"
  shows "meets (calm og x (probe_of (snd slot) cl)) (runSlot rp call sel model lease rest slot cl)
     (after_step og x None) (halted og x None)"
proof -
  let ?y = "probe_of (snd slot) cl"
  let ?body = "\<lambda>started. flat_map
      (attempt rp \<lparr>ai_model = model, ai_auth = fst slot, ai_authProvider = pm_provider model, ai_forwarded = (sel = ca_primary call)\<rparr>
        (on_delta call sel lease (snd slot) cl))
      (settle_slot rp call sel model lease rest slot cl started)"
  have settle: "meets (\<lambda>s. in_phase og (ar_phase r) x ?y s \<and> (\<forall>e. ar_outcome r = RunFailure e \<longrightarrow> ar_phase r = PreRequest))
      (settle_slot rp call sel model lease rest slot cl started r) (after_step og x ?y) (halted og x ?y)" for started r
  proof (rule meets_pure)
    show "in_phase og (ar_phase r) x ?y s \<and> (\<forall>e. ar_outcome r = RunFailure e \<longrightarrow> ar_phase r = PreRequest) \<Longrightarrow>
        \<forall>e. ar_outcome r = RunFailure e \<longrightarrow> ar_phase r = PreRequest" for s :: "('a, 'd) route_state" by blast
    assume "\<forall>e. ar_outcome r = RunFailure e \<longrightarrow> ar_phase r = PreRequest"
    then show ?thesis by (intro meets_weaken [OF settle_slot_keeps]) auto
  qed
  have body: "meets (calm og x ?y) (?body started) (after_step og x ?y) (halted og x ?y)" for started
    by (rule meets_flat_map [OF attempt_keeps [OF assms]])
       (rule settle | intro tame_rules | intro total_rules)+
  have fin: "meets (calm og x ?y)
      (ensuring (?body started) (\<lambda>s. s\<lparr>ro_router := release_credential (snd slot) cl (ro_router s)\<rparr>))
      (after_step og x None) (halted og x None)" for started
    by (rule meets_ensuring, rule meets_weaken [OF body])
       (auto intro: finish_slot leases_release_credential)
  have quietly: "meets (calm og x ?y) m (\<lambda>_. calm og x ?y) (halted og x None)" if "tame m" "unhalting m" for m :: "('a, 'd, 'c, 'f) routing"
    using that by (intro unhalting_meets [OF that(2) tame_calm])
  have tried: "meets (calm og x ?y) (log_call (CTried sel (snd slot))) (\<lambda>_. calm og x ?y) (halted og x None)"
    by (intro unhalting_meets [OF _ log_tried] total_rules)
  show ?thesis
    unfolding runSlot_def
    by (intro meets_flat_map [OF quietly] meets_flat_map [OF tried] fin tame_rules total_rules)
qed

lemma credential_read:
  "meets (calm og x y) (router (get_credential key)) (\<lambda>c s. c = get_credential key (ro_router s) \<and> calm og x y s) E"
  "meets (\<lambda>s. c = get_credential key (ro_router s) \<and> calm og x y s) (now rp)
     (\<lambda>_ s. c = get_credential key (ro_router s) \<and> calm og x y s) E"
  by (auto simp: meets_def router_def now_def on_world_def effect_defs calm_def leases_def split: prod.splits)

lemma circuit_read:
  "meets (calm og x y) (router (get_circuit key)) (\<lambda>c s. c = get_circuit key (ro_router s) \<and> calm og x y s) E"
  "meets (\<lambda>s. c = get_circuit key (ro_router s) \<and> calm og x y s) (now rp)
     (\<lambda>_ s. c = get_circuit key (ro_router s) \<and> calm og x y s) E"
  by (auto simp: meets_def router_def now_def on_world_def effect_defs calm_def leases_def split: prod.splits)

lemma walk_slots_keeps:
  assumes "well_behaved rp" and "raises_early rp"
  shows "meets (calm og x None) (walk_slots rp call sel model lease slots) (after_step og x None) (halted og x None)"
proof (induction slots)
  case Nil
  show ?case by (auto intro!: meets_succeed simp: after_step_def)
next
  case (Cons slot rest)
  let ?read = "\<lambda>c s. c = get_credential (snd slot) (ro_router s) \<and> calm og x None s"
  have skip: "meets (?read c)
      (flat_map (now rp) (\<lambda>t2. flat_map (if b t2 then set_cand u else succeed ()) (\<lambda>_. walk_slots rp call sel model lease rest)))
      (after_step og x None) (halted og x None)" for c b u
  proof (rule meets_weaken)
    show "meets (calm og x None)
      (flat_map (now rp) (\<lambda>t2. flat_map (if b t2 then set_cand u else succeed ()) (\<lambda>_. walk_slots rp call sel model lease rest)))
      (after_step og x None) (halted og x None)"
      by (intro meets_flat_map [OF tame_calm] Cons tame_rules)
  qed auto
  have go: "meets (?read c) (flat_map (take_credential (snd slot) c l) (\<lambda>credential.
      flat_map (runSlot rp call sel model lease rest slot credential) (\<lambda>step.
      case step of NextModel \<Rightarrow> succeed NextModel | NextSlot \<Rightarrow> walk_slots rp call sel model lease rest
        | Settled r \<Rightarrow> succeed (Settled r)))) (after_step og x None) (halted og x None)"
    if "l = credential_lease (snd c) t" "l \<noteq> Refused" for c l t
  proof (rule meets_flat_map [OF take_credential_keeps [OF that]], rule meets_flat_map [OF runSlot_keeps [OF assms]])
    fix step :: "'c route_step"
    show "meets (after_step og x None step) (case step of NextModel \<Rightarrow> succeed NextModel
        | NextSlot \<Rightarrow> walk_slots rp call sel model lease rest | Settled r \<Rightarrow> succeed (Settled r)) (after_step og x None) (halted og x None)"
      using Cons by (cases step) (auto simp: after_step_def [abs_def] intro!: meets_succeed)
  qed
  show ?case
    unfolding walk_slots.simps Let_def
    by (rule meets_flat_map [OF credential_read(1)], rule meets_flat_map [OF credential_read(2)], rule meets_if)
       (rule skip, rule go [OF refl])
qed

definition after_candidate :: "router_state \<Rightarrow> (str \<times> nat) option \<Rightarrow> 'e routed option \<Rightarrow> ('w, 'm) route_state \<Rightarrow> bool" where
  "after_candidate og x r s \<longleftrightarrow> (case r of None \<Rightarrow> calm og x None s | Some _ \<Rightarrow> ending og x None s)"

lemma tame_call_slots: "well_behaved rp \<Longrightarrow> tame (call_slots rp call provider)"
  unfolding call_slots_def Let_def by (intro tame_rules tame_others)

lemma runCandidate_keeps:
  assumes "well_behaved rp" and "raises_early rp"
  shows "meets (calm og x None) (runCandidate rp call sel lease) (after_candidate og x) (halted og x None)"
proof -
  have last: "meets (after_step og x None step) (case step of Settled r \<Rightarrow> succeed (Some r) | NextModel \<Rightarrow> succeed None
      | NextSlot \<Rightarrow> flat_map (cand cs_billingFailures) (\<lambda>billing.
         flat_map (if sel = ca_primary call \<and> billing = k then update (\<lambda>s. s\<lparr>ro_billingPin := True\<rparr>) else succeed ()) (\<lambda>_.
         flat_map (open_candidate rp sel lease None) (\<lambda>_.
         flat_map (push_routing sel None None None ASwapModel) (\<lambda>_. succeed None)))))
      (after_candidate og x) (halted og x None)" for step :: "'c route_step" and k
  proof (cases step)
    case NextSlot
    have "meets (calm og x None) (flat_map (cand cs_billingFailures) (\<lambda>billing.
         flat_map (if sel = ca_primary call \<and> billing = k then update (\<lambda>s. s\<lparr>ro_billingPin := True\<rparr>) else succeed ()) (\<lambda>_.
         flat_map (open_candidate rp sel lease None) (\<lambda>_.
         flat_map (push_routing sel None None None ASwapModel) (\<lambda>_. succeed None))))) (after_candidate og x) (halted og x None)"
      by (intro meets_flat_map [OF tame_calm] tame_rules meets_succeed) (simp add: after_candidate_def)
    then show ?thesis by (simp add: NextSlot after_step_def [abs_def])
  qed (auto simp: after_step_def after_candidate_def intro!: meets_succeed)
  show ?thesis
    unfolding runCandidate_def Let_def
    by (intro meets_flat_map [OF tame_calm] meets_flat_map [OF walk_slots_keeps [OF assms]] last tame_rules
        tame_others tame_call_slots assms)
qed

lemma meets_catch_error:
  assumes "meets P m Q E" and "\<And>e. meets (\<lambda>s. \<exists>c. findErrorOption c = Some e \<and> E c s) (h e) Q E'"
    and "\<And>c s. findErrorOption c = None \<Longrightarrow> E c s \<Longrightarrow> E' c s"
  shows "meets P (catch_error m h) Q E'"
proof (rule meetsI)
  fix s a t assume s: "P s" and d: "catch_error m h s = (Done a, t)"
  show "Q a t"
  proof (cases "m s")
    case (Pair r u)
    show ?thesis
    proof (cases r)
      case (Halt c)
      with d Pair obtain e where e: "findErrorOption c = Some e" "h e u = (Done a, t)"
        by (auto simp: catch_error_def split: option.splits)
      moreover have "E c u" using meets_Halt [OF assms(1) s] Pair Halt by simp
      ultimately show ?thesis using meets_Done [OF assms(2)] by blast
    qed (use d Pair meets_Done [OF assms(1) s] in \<open>auto simp: catch_error_def\<close>)
  qed
next
  fix s c' t assume s: "P s" and d: "catch_error m h s = (Halt c', t)"
  obtain c u where m: "m s = (Halt c, u)"
    using d by (auto simp: catch_error_def split: prod.splits exit.splits)
  have "E c u" using meets_Halt [OF assms(1) s m] .
  show "E' c' t"
  proof (cases "findErrorOption c")
    case None
    with d m have "c' = c" "t = u" by (auto simp: catch_error_def)
    with assms(3) [OF None \<open>E c u\<close>] show ?thesis by simp
  next
    case (Some e)
    with d m have "h e u = (Halt c', t)" by (simp add: catch_error_def)
    with meets_Halt [OF assms(2) [of e], of u] Some \<open>E c u\<close> show ?thesis by blast
  qed
qed

lemma tame_candidate_failed: "tame (candidate_failed rp sel lease e)"
  unfolding candidate_failed_def Let_def by (intro tame_rules)

lemma tryCandidate_keeps:
  assumes "well_behaved rp" and "raises_early rp"
  shows "meets (calm og None None) (tryCandidate rp call sel) (after_candidate og None) (halted og None None)"
proof -
  have handled: "meets (calm og (lease_of sel lease) None) (catch_error (runCandidate rp call sel lease) (candidate_failed rp sel lease))
      (after_candidate og (lease_of sel lease)) (halted og (lease_of sel lease) None)" for lease
  proof (rule meets_catch_error [OF runCandidate_keeps [OF assms]])
    fix e
    show "meets (\<lambda>s. \<exists>c. findErrorOption c = Some e \<and> halted og (lease_of sel lease) None c s) (candidate_failed rp sel lease e)
        (after_candidate og (lease_of sel lease)) (halted og (lease_of sel lease) None)"
    proof (rule meetsI)
      fix s r t assume "\<exists>c. findErrorOption c = Some e \<and> halted og (lease_of sel lease) None c s"
        and d: "candidate_failed rp sel lease e s = (Done r, t)"
      then have "calm og (lease_of sel lease) None s" by (auto simp: halted_def)
      then have "calm og (lease_of sel lease) None t"
        using meets_Done [OF tame_calm [OF tame_candidate_failed] _ d] by blast
      then show "after_candidate og (lease_of sel lease) r t"
        by (auto simp: after_candidate_def calm_ending split: option.split)
    next
      fix s c t assume "\<exists>c. findErrorOption c = Some e \<and> halted og (lease_of sel lease) None c s"
        and d: "candidate_failed rp sel lease e s = (Halt c, t)"
      then have "calm og (lease_of sel lease) None s" by (auto simp: halted_def)
      then show "halted og (lease_of sel lease) None c t"
        using meets_Halt [OF tame_calm [OF tame_candidate_failed] _ d] by blast
    qed
  qed simp
  have released: "meets (calm og (lease_of sel lease) None)
      (ensuring (catch_error (runCandidate rp call sel lease) (candidate_failed rp sel lease))
        (\<lambda>s. s\<lparr>ro_router := release_circuit sel lease (ro_router s)\<rparr>)) (after_candidate og None) (halted og None None)" for lease
    by (rule meets_ensuring, rule meets_weaken [OF handled])
       (auto simp: after_candidate_def halted_def calm_def ending_def intro: leases_release_circuit split: option.splits)
  have skip: "meets (\<lambda>s. c = get_circuit sel (ro_router s) \<and> calm og None None s)
      (flat_map (push_routing sel None None None ASkipCircuit) (\<lambda>_. succeed None)) (after_candidate og None) (halted og None None)" for c
  proof (rule meets_weaken)
    show "meets (calm og None None) (flat_map (push_routing sel None None None ASkipCircuit) (\<lambda>_. succeed None))
        (after_candidate og None) (halted og None None)"
      by (intro meets_flat_map [OF tame_calm] tame_rules meets_succeed) (simp add: after_candidate_def)
  qed auto
  show ?thesis
    unfolding tryCandidate_def Let_def
    by (rule meets_flat_map [OF circuit_read(1)], rule meets_flat_map [OF circuit_read(2)], rule meets_if)
       (rule skip, rule meets_flat_map [OF take_circuit_keeps [OF refl] released])
qed

lemma walk_candidates_keeps:
  assumes "well_behaved rp" and "raises_early rp"
  shows "meets (calm og None None) (walk_candidates rp call sels) (after_candidate og None) (halted og None None)"
proof (induction sels)
  case Nil
  show ?case by (auto intro!: meets_succeed simp: after_candidate_def)
next
  case (Cons sel sels)
  have next_one: "meets (after_candidate og None r) (case r of Some z \<Rightarrow> succeed (Some z) | None \<Rightarrow> walk_candidates rp call sels)
      (after_candidate og None) (halted og None None)" for r :: "'c routed option"
    using Cons by (cases r) (auto simp: after_candidate_def [abs_def] intro!: meets_succeed)
  show ?case
    unfolding walk_candidates.simps
    by (intro meets_flat_map [OF tame_calm] meets_if meets_flat_map [OF tryCandidate_keeps [OF assms]] next_one
        tame_rules meets_succeed)
       (auto simp: after_candidate_def calm_ending)
qed

end
