(* ===== verification/Router_Properties.thy ===== *)
theory Router_Properties
  imports Router_Leases
begin

text \<open>
  What the router promises: a call that has shown output starts no further
  attempt, gives back every lease it took whatever interrupts it, and writes the
  shared state only in the way it relies on other calls to write it; the walk
  tries each candidate of the chain once, in pinned order; and a circuit cools
  down for between one and thirty minutes.
\<close>

section \<open>The walk\<close>

lemma raising_final:
  "snd (raising m s) = snd (m s)"
  by (simp add: raising_def split: prod.split exit.split)

lemma route_chain_final:
  assumes "well_behaved rp" and "raises_early rp" and "calm og None None s"
  shows "ending og None None (snd (route_chain rp call ch s))"
proof -
  let ?sels = "order (ch_selectors ch) (ca_previous call) (ca_primary call) (ca_turn call)"
  have walk: "meets (calm og None None) (walk_candidates rp call ?sels) (after_candidate og None) (halted og None None)"
    by (rule walk_candidates_keeps [OF assms(1,2)])
  obtain r t where w: "walk_candidates rp call ?sels s = (r, t)" by (cases "walk_candidates rp call ?sels s")
  have open_tame: "tame (earliest_open rp sels acc)" for sels acc
    by (induction sels arbitrary: acc) (auto intro!: tame_rules)
  have fin: "snd (flat_map (raising (earliest_open rp (ch_selectors ch) None)) (\<lambda>u. flat_map (raising (routing_of call None)) (\<lambda>facts.
      fail_with (ModelUnavailable (ch_category ch) (ch_nearestFallback ch) (or_else u 0) facts))) t) =
      snd (flat_map (earliest_open rp (ch_selectors ch) None) (\<lambda>u. flat_map (routing_of call None) (\<lambda>facts. succeed ())) t)"
    by (simp add: flat_map_def raising_def effect_defs split: prod.split exit.split)
  show ?thesis
  proof (cases r)
    case (Halt c)
    then show ?thesis using meets_Halt [OF walk assms(3)] w
      by (simp add: route_chain_def flat_map_def raising_def halted_def)
  next
    case (Done o')
    have after: "after_candidate og None o' t" using meets_Done [OF walk assms(3)] w Done by simp
    show ?thesis
    proof (cases o')
      case (Some z)
      then show ?thesis using after w Done
        by (simp add: route_chain_def flat_map_def raising_def after_candidate_def effect_defs)
    next
      case None
      have "calm og None None t" using after by (simp add: None after_candidate_def)
      moreover have "tame (flat_map (earliest_open rp (ch_selectors ch) None) (\<lambda>u. flat_map (routing_of call None) (\<lambda>facts. succeed ())))"
        by (intro tame_rules open_tame)
      ultimately have "calm og None None (snd (flat_map (earliest_open rp (ch_selectors ch) None)
          (\<lambda>u. flat_map (routing_of call None) (\<lambda>facts. succeed ())) t))"
        using tame_keeps(1) unfolding meets_def by (metis exit.exhaust surjective_pairing)
      moreover have "snd (route_chain rp call ch s) = snd (flat_map (earliest_open rp (ch_selectors ch) None)
          (\<lambda>u. flat_map (routing_of call None) (\<lambda>facts. succeed ())) t)"
        by (simp add: route_chain_def flat_map_def [of "raising (walk_candidates rp call ?sels)"]
            raising_def [of "walk_candidates rp call ?sels"] w Done None fin)
      ultimately show ?thesis by (simp add: calm_ending)
    qed
  qed
qed

section \<open>Circuits and order\<close>

lemma cooldown_bounds: "1 \<le> opens \<Longrightarrow> 60000 \<le> cooldown opens \<and> cooldown opens \<le> 1800000"
  by (simp add: cooldown_def)

text \<open>
  An opened circuit without a named reset refuses for at least a minute and for
  the hinted wait, and its first lease after that is the only one until it is
  settled.
\<close>

lemma opened_circuit_refuses:
  assumes "0 \<le> ci_consecutiveOpens c" and "t < now' + max 60000 (or_else hint 0)"
  shows "circuit_lease (circuit_open c now' hint None) t = Refused"
  using assms cooldown_bounds [of "ci_consecutiveOpens c + 1"]
  by (auto simp: circuit_lease_def circuit_open_def)

lemma half_open_is_exclusive:
  assumes "circuit_lease c t = Fresh d"
  shows "circuit_lease d t' = Refused"
  using assms by (auto simp: circuit_lease_def split: if_splits)

lemma order_permutes:
  assumes "distinct selectors"
  shows "distinct (order selectors p primary turn)" and "set (order selectors p primary turn) = set selectors"
  using assms by (auto simp: order_def split: option.split)

section \<open>Calls\<close>

definition addresses_ok :: "router_state \<Rightarrow> bool" where
  "addresses_ok st \<longleftrightarrow>
     0 < rt_fresh st \<and> unheld None {} (rt_fresh st) (rt_circuits st) \<and> unheld None {} (rt_fresh st) (rt_credentials st)"

lemma new_router_addresses: "addresses_ok new_router"
  by (simp add: addresses_ok_def new_router_def unheld_def)

lemma start_calm: "addresses_ok st \<Longrightarrow> calm st None None (start_call w st)"
  by (simp add: addresses_ok_def calm_def leases_def start_call_def quiet_def circuit_leases_def credential_leases_def)

lemma route_ending:
  assumes "well_behaved rp" and "raises_early rp" and "addresses_ok st" and "route rp rows creds req w st = Inl (x, s)"
  shows "ending st None None s"
proof -
  from assms(4) obtain call ch where r: "route_chain rp call ch (start_call w st) = (x, s)"
    by (auto simp: route_def Let_def split: if_splits)
  from route_chain_final [OF assms(1,2) start_calm [OF assms(3)], of call ch w] show ?thesis
    by (simp add: r)
qed

definition example_model :: provider_model where
  "example_model = \<lparr>pm_provider = ''a'', pm_id = ''m'', pm_contextLimit = None\<rparr>"

text \<open>Every run shows output and stops; the world counts the clock readings.\<close>

definition example_router :: "(nat, str, str, str) router_ports" where
  "example_router =
     \<lparr>rp_now = (\<lambda>w. (int w, w + 1)), rp_aborted = (\<lambda>_. False), rp_others = (\<lambda>w. (new_circuit ''c/z'' closed, w)),
      rp_run = (\<lambda>_ w. (([OnMessage ''hi'', Elsewhere, StreamEvent ''text-delta''], Some (RunStop None)), w)),
      rp_plainRun = succeed RunContinue, rp_resolveModel = (\<lambda>_. succeed example_model),
      rp_resolveAuth = (\<lambda>_. succeed ''key''), rp_fingerprint = (\<lambda>a. a), rp_classify = (\<lambda>_ _ _ _. Overflow),
      rp_usage = (\<lambda>_. None), rp_retryAfter = (\<lambda>_. None), rp_headerDelay = (\<lambda>_ w. (None, w))\<rparr>"

definition example_chain :: chain_row where
  "example_chain = \<lparr>cw_category = None, cw_primary = Some ''a/m'', cw_selectors = [''a/m'', ''b/n''], cw_nearestFallback = None\<rparr>"

definition example_route_request :: route_request where
  "example_route_request =
     \<lparr>rr_sessionId = ''s'', rr_runId = ''r'', rr_model = example_model, rr_category = None, rr_turn = None\<rparr>"

text \<open>The primary's circuit has cooled down: the call takes its half-open lease.\<close>

definition example_shared :: router_state where
  "example_shared =
     \<lparr>rt_circuits = [''a/m'' \<mapsto> (1, \<lparr>ci_consecutiveOpens = 1, ci_openUntil = 0, ci_halfOpenLeased = False\<rparr>)],
      rt_credentials = Map.empty, rt_pins = Map.empty, rt_streaks = Map.empty, rt_fresh = 2\<rparr>"

lemma example_router_ok:
  "well_behaved example_router" "raises_early example_router" "addresses_ok example_shared"
  by (auto simp: well_behaved_def raises_early_def example_router_def addresses_ok_def example_shared_def unheld_def)

lemma example_route_configured:
  "\<exists>x s. route example_router [example_chain] [(''a'', ''k'')] example_route_request 0 example_shared = Inl (x, s)"
proof -
  have "ch_configured (candidates [example_chain] (primary_of (rr_model example_route_request)) (rr_category example_route_request))"
    by (simp add: candidates_def chain_row_of_def example_chain_def example_route_request_def example_model_def
        primary_of_def Let_def)
  then show ?thesis by (simp add: route_def Let_def)
qed

text \<open>
  C34. Whatever providers, clocks and concurrent calls do, a routing call never
  starts another attempt once one of its attempts has shown output: no candidate
  and no credential is tried after the first delta or tool call, so what the
  caller sees comes from one attempt.
\<close>
theorem no_attempt_after_output:
  assumes "well_behaved rp" and "raises_early rp" and "addresses_ok st" and "route rp rows creds req w st = Inl (x, s)"
  shows "\<not> (\<exists>before after sel key. ro_log s = before @ CShown # after \<and> CTried sel key \<in> set after)"
proof -
  have "orderly (ro_log s)" using route_ending [OF assms] by (simp add: ending_def)
  moreover have "orderly (before @ CShown # after) \<Longrightarrow> CTried sel key \<notin> set after" for before after sel key
    by (induction before rule: orderly.induct) (auto simp: list_all_iff dest!: bspec)
  ultimately show ?thesis by auto
qed

theorem no_attempt_after_output_witness:
  "\<exists>x s. route example_router [example_chain] [(''a'', ''k'')] example_route_request 0 example_shared = Inl (x, s) \<and>
     \<not> (\<exists>before after sel key. ro_log s = before @ CShown # after \<and> CTried sel key \<in> set after)"
proof -
  obtain x s where r: "route example_router [example_chain] [(''a'', ''k'')] example_route_request 0 example_shared = Inl (x, s)"
    using example_route_configured by blast
  with no_attempt_after_output [OF example_router_ok r] show ?thesis by blast
qed



end
