(* ===== verification/Spec2Isabelle.thy ===== *)
theory Spec2Isabelle
  imports Request_Properties Store_Properties Fork_Properties Turn_Properties Gate_Properties Cron_Properties Transcript_Properties Binding_Properties Loop_Properties Router_Properties
begin

text \<open>
  Verification of the agent core of OpenOmni.

  THE PROGRAM.  An OpenOmni agent keeps each session in one file: a log of action
  rows whose only writer is the current holder of the session's fence.  A turn asks
  the model for a message, runs the tools it names, and records everything it does as
  rows before and after doing it, so that a crashed session can be read back.  Around
  that log stand the parts verified here.  A policy gate decides at fixed hook points
  what may happen, from rows compiled out of configuration and storage.  Requests ask
  people and other agents for answers, and settle by a state machine whose records are
  rows of the log.  The attempt runner calls the model, retries what may be retried
  under a durable alarm, and a stop judge and a budget end the run.  The model router
  walks a chain of candidate models behind that call.  The transcript fold turns facts
  of the log into the messages the model and the interface see, and the cron grid
  says when a scheduled alarm fires.

  THE THEORIES.  Paths are relative to \<^verbatim>\<open>src/packages/\<close>.

  Shared.  \<^verbatim>\<open>Prelude\<close>: JavaScript text, insertion-ordered sets and maps, stable sorting.
  \<^verbatim>\<open>Json\<close> (\<^verbatim>\<open>protocol/src/json.ts\<close>): runtime values, plain values, the strict guard,
  canonical text, its digest.  \<^verbatim>\<open>Ledger\<close> (\<^verbatim>\<open>protocol/src/ledger/l0.ts\<close>,
  \<^verbatim>\<open>agent/src/core/ports/alarm.ts\<close>): action rows, session rows, commits and the alarm
  chain.  \<^verbatim>\<open>Effects\<close>: computations that succeed or halt with a cause, and the rules by
  which the loop and the router are verified.  \<^verbatim>\<open>Failures\<close> (\<^verbatim>\<open>llm/src/port.ts\<close>,
  \<^verbatim>\<open>agent/src/core/ports/failure.ts\<close>): failure classes, execution errors, evidence.

  Requests.  \<^verbatim>\<open>Request_Schema\<close> (\<^verbatim>\<open>protocol/src/ledger/session-transition.ts\<close>) has the
  commands and their checks; \<^verbatim>\<open>Request_Binding\<close>
  (\<^verbatim>\<open>agent/src/core/journal/request-binding.ts\<close>) the rows a transition writes;
  \<^verbatim>\<open>Request_Transition\<close> (\<^verbatim>\<open>agent/src/core/session/request-transition.ts\<close>) the machine,
  one definition per function; \<^verbatim>\<open>Request_Machine\<close> its case analysis and invariant.
  \<^verbatim>\<open>Request_Properties\<close> proves that every history of a request is sound (C1), that an
  approval needs its owner (C2), that terminal states are final (C3), that redelivery is
  silent (C4), that late answers never settle (C5), that the approval budget binds (C6)
  and that a proper answer does settle (C7).

  Session store.  \<^verbatim>\<open>Store\<close> (\<^verbatim>\<open>agent/src/core/store/session-file/\<close>, \<^verbatim>\<open>store/storage/\<close>,
  \<^verbatim>\<open>store/decision.ts\<close>) has the tables and every write; \<^verbatim>\<open>Store_Invariant\<close> what each write
  keeps; \<^verbatim>\<open>Store_Machine\<close> the file as a state machine over its operations.
  \<^verbatim>\<open>Fenced_Log\<close> is the interface a fenced writer sees, as the locales \<^verbatim>\<open>append_only\<close> and
  \<^verbatim>\<open>fenced_log\<close>; \<^verbatim>\<open>Store_Properties\<close> interprets the latter on the session file and proves
  C8 to C14: the table invariant, the outcome and atomicity of commits, the two
  guarantees of fencing, exactness of the armed-alarm index, and the compensation of a
  refused creation.  C15 to C17 are the properties of \<^verbatim>\<open>Json\<close>.

  Policy.  \<^verbatim>\<open>Gate_Types\<close> (\<^verbatim>\<open>protocol/src/policy/\<close>, \<^verbatim>\<open>protocol/src/gateway/message.ts\<close>,
  \<^verbatim>\<open>agent/src/core/gate/types.ts\<close>) is the vocabulary; \<^verbatim>\<open>Gate\<close>
  (\<^verbatim>\<open>agent/src/core/gate/evaluate.ts\<close>) the evaluation of a compiled snapshot;
  \<^verbatim>\<open>Gate_Compile\<close> (\<^verbatim>\<open>agent/src/core/gate/compile.ts\<close>, \<^verbatim>\<open>core/ports/gate-rows.ts\<close>) the
  composition of points and the compilation of rows.  \<^verbatim>\<open>Gate_Laws\<close> makes the verdicts a
  linear order of which the fold is the maximum (locale \<^verbatim>\<open>severity_fold\<close>, interpreted on
  the model's verdicts); \<^verbatim>\<open>Gate_Compile_Laws\<close> has what compilation guarantees;
  \<^verbatim>\<open>Gate_Properties\<close> proves C18 to C25.  \<^verbatim>\<open>Consult\<close> (\<^verbatim>\<open>agent/src/core/gate/bind.ts\<close>) is the
  binding of a snapshot to its consultants, \<^verbatim>\<open>Permission\<close> (\<^verbatim>\<open>bind.ts\<close>,
  \<^verbatim>\<open>protocol/src/policy/permission.ts\<close>, \<^verbatim>\<open>channels/src/authn/decision.ts\<close>) the permission
  rules; \<^verbatim>\<open>Binding_Properties\<close> proves C31 and C32.

  Cron.  \<^verbatim>\<open>Cron\<close> (\<^verbatim>\<open>protocol/src/cron.ts\<close>) is parser and search, \<^verbatim>\<open>Cron_Laws\<close> shows that
  the search skips no instant of the grid, \<^verbatim>\<open>Cron_Properties\<close> proves C26 to C28 and
  instantiates the zone with the UTC calendar.

  Transcript.  \<^verbatim>\<open>Transcript\<close> (\<^verbatim>\<open>protocol/src/transcript/\<close>, \<^verbatim>\<open>protocol/src/message/index.ts\<close>,
  \<^verbatim>\<open>protocol/src/tool/index.ts\<close>) is the fold, \<^verbatim>\<open>Transcript_Properties\<close> proves C29 and C30.

  Turn loop.  \<^verbatim>\<open>Retry\<close> (\<^verbatim>\<open>agent/src/core/loop/retry.ts\<close>), \<^verbatim>\<open>Attempts\<close> (\<^verbatim>\<open>loop/attempts.ts\<close>,
  \<^verbatim>\<open>loop/record.ts\<close>, \<^verbatim>\<open>loop/model-select.ts\<close>), \<^verbatim>\<open>Stop\<close> (\<^verbatim>\<open>loop/stop.ts\<close>,
  \<^verbatim>\<open>core/journal/turn-rows.ts\<close>, the stop branch of \<^verbatim>\<open>loop/turn.ts\<close>) and \<^verbatim>\<open>Budget\<close>
  (\<^verbatim>\<open>loop/budget.ts\<close>).  \<^verbatim>\<open>Attempts_Protocol\<close> states the durable protocol of an attempt run
  as an automaton over the trace of rows, calls and waits, and shows that the runner
  follows it; \<^verbatim>\<open>Loop_Properties\<close> proves C33 to C35.

  Model router.  \<^verbatim>\<open>Router\<close> and \<^verbatim>\<open>Router_Call\<close> (\<^verbatim>\<open>llm/src/router/\<close>): chains, pins, circuits,
  credentials, and the whole call with its finalizers.  \<^verbatim>\<open>Router_Laws\<close> is the condition
  under which other calls may interleave and what a call guarantees of its own writes;
  \<^verbatim>\<open>Router_Leases\<close> walks the call once for both of its disciplines; \<^verbatim>\<open>Router_Properties\<close>
  proves C36 and C37.

  CONVENTIONS.  A throw, a refusal and a typed failure are values (\<^verbatim>\<open>Inl\<close>, \<^verbatim>\<open>None\<close> or the
  halting exit of an effect); a transaction whose body throws leaves the file as it was.
  Instants and durations are whole milliseconds, in unbounded integers: the code keeps
  them in doubles far below 2^53.  Text is a list of code units below 256, so texts
  compare by code unit as the source compares them; the em dash of two messages is
  written as a hyphen.  Objects are read by own properties.  A JSON text column is the
  value it encodes.  Priorities are integers, the jitter draw of a retry and the ratios
  of a budget are rationals, and the two-decimal rendering of a ratio stays the number.
  Where the source compares objects by identity (circuits and credential states) an
  object is an address with its value.

  PARAMETERS.  What is not in the repository is an argument.  \<^verbatim>\<open>sha\<close> is the hash of the
  runtime, \<^verbatim>\<open>localeCompare\<close> the comparison of the runtime, \<^verbatim>\<open>format\<close> its zone formatter,
  \<^verbatim>\<open>regExp\<close> its regular expressions; \<^verbatim>\<open>match_of\<close>, \<^verbatim>\<open>verdict_of\<close>, \<^verbatim>\<open>policyInput\<close> and the row
  validators of the store environment are runtime schemas; handlers, guard callers and
  consultants are code of the host.  The attempt runner and the router run against
  ports (ledger, clock, approval door, policy, provider, authentication, model
  resolution) over a world of arbitrary type, and the router also against the other
  calls of the same router, which may run wherever it waits.  The hypotheses used about
  them: \<^verbatim>\<open>well_behaved\<close>, that other calls write circuits and credentials only as this
  call is shown to write them; \<^verbatim>\<open>raises_early\<close>, that a provider run reports a typed
  failure of its error channel only before its stream opens, as \<^verbatim>\<open>llm/src/run.ts\<close> does;
  \<^verbatim>\<open>addresses_ok\<close>, that the state a call starts from mentions only allocated objects;
  and, for the grid, that the zone is regular.  Each is discharged in a witness.

  TERMINATION.  A loop that might not return is a partial function whose \<^verbatim>\<open>None\<close> is not
  returning, and it is shown to return: the cron search by its bound of 366 days over a
  regular zone, the consultation by the rows it still has to ask.  The attempt
  loop ends by the attempts left under its cap; no definition carries fuel.

  NOT MODELLED.  Opening and migrating database files, processes, terminals, sockets and
  providers (the SQLite layer, \<^verbatim>\<open>machines\<close>, the streams and login flows of \<^verbatim>\<open>llm\<close>, the
  webhooks of \<^verbatim>\<open>channels\<close>), the sandbox of \<^verbatim>\<open>codemode\<close>, rendering (\<^verbatim>\<open>ui\<close>, \<^verbatim>\<open>apps/desktop\<close>),
  wiring (\<^verbatim>\<open>composition\<close>, \<^verbatim>\<open>apps/oni\<close>), wire schemas that no modelled part uses, the Rust
  clients and the repository's scripts: their content is input and output, or another
  language.  Fibers and mailboxes of the session host are not modelled; the decisions
  they take through the request machine and the store are.  Still to be modelled, in
  this order: forking of sessions, the failure classifier of \<^verbatim>\<open>llm\<close>, the fence service
  and the catalog, tool waves and approvals of the turn, the routes of \<^verbatim>\<open>channels\<close>.
\<close>

end
